(* ===== verification/Json.thy ===== *)
theory Json
  imports Prelude
begin

text \<open>
  JSON values as the Python objects that carry them, their equality, and the dictionary
  operations the sources use on them. An object is an association list in insertion
  order. A float is its value together with the text \<^verbatim>\<open>str\<close> gives for it, since the sources
  only print and compare floats.
\<close>

datatype json =
    JNull
  | JBool bool
  | JInt int
  | JFloat rat pystr
  | JStr pystr
  | JArr "json list"
  | JObj "(pystr \<times> json) list"

type_synonym json_object = "(pystr \<times> json) list"

text \<open>\<^verbatim>\<open>d.get(k)\<close>, \<^verbatim>\<open>d[k] = v\<close>, \<^verbatim>\<open>d.pop(k, None)\<close> and the keys in order\<close>

abbreviation dget :: "(pystr \<times> 'v) list \<Rightarrow> pystr \<Rightarrow> 'v option" where
  "dget d k \<equiv> map_of d k"

abbreviation dset :: "pystr \<Rightarrow> 'v \<Rightarrow> (pystr \<times> 'v) list \<Rightarrow> (pystr \<times> 'v) list" where
  "dset \<equiv> AList.update"

abbreviation ddel :: "pystr \<Rightarrow> (pystr \<times> 'v) list \<Rightarrow> (pystr \<times> 'v) list" where
  "ddel \<equiv> AList.delete"

abbreviation dkeys :: "(pystr \<times> 'v) list \<Rightarrow> pystr list" where
  "dkeys d \<equiv> map fst d"

section \<open>Equality of Python values\<close>

text \<open>
  Booleans, integers and floats are compared as numbers; objects are compared as
  dictionaries, whatever the order of their keys.
\<close>

fun json_num :: "json \<Rightarrow> rat option" where
  "json_num (JBool b) = Some (if b then 1 else 0)"
| "json_num (JInt i) = Some (of_int i)"
| "json_num (JFloat q t) = Some q"
| "json_num j = None"

lemma size_json_member: "(k, v) \<in> set kvs \<Longrightarrow> size v < Suc (size_list (size_prod (\<lambda>_. 0) size) kvs)"
proof -
  assume "(k, v) \<in> set kvs"
  then have "size_prod (\<lambda>_. 0) size (k, v) \<le> size_list (size_prod (\<lambda>_. 0) size) kvs"
    by (intro size_list_estimation') auto
  then show ?thesis by simp
qed

lemma size_json_elem: "v \<in> set vs \<Longrightarrow> size v < Suc (size_list size vs)"
  using size_list_estimation' [of v vs "size v" size] by simp

function json_eq :: "json \<Rightarrow> json \<Rightarrow> bool" where
  "json_eq x y =
     (case (json_num x, json_num y) of
        (Some p, Some q) \<Rightarrow> p = q
      | _ \<Rightarrow>
        (case x of
           JNull \<Rightarrow> y = JNull
         | JStr s \<Rightarrow> y = JStr s
         | JArr xs \<Rightarrow> (case y of
             JArr ys \<Rightarrow> length xs = length ys \<and> list_all (\<lambda>(a, b). json_eq a b) (zip xs ys)
           | _ \<Rightarrow> False)
         | JObj kvs \<Rightarrow> (case y of
             JObj lws \<Rightarrow> length kvs = length lws \<and>
               list_all (\<lambda>(k, a). case map_of lws k of None \<Rightarrow> False | Some b \<Rightarrow> json_eq a b) kvs
           | _ \<Rightarrow> False)
         | _ \<Rightarrow> False))"
  by pat_completeness auto
termination
  by (relation "measure (\<lambda>(x, y). size x)")
    (auto intro: size_json_elem size_json_member dest: set_zip_leftD)

declare json_eq.simps [simp del]

lemma json_eq_cases [simp]:
  "json_eq JNull y = (y = JNull)"
  "json_eq (JStr s) y = (y = JStr s)"
  "json_eq (JBool a) (JBool b) = (a = b)"
  "json_eq (JInt i) (JInt j) = (i = j)"
  "json_eq (JArr xs) (JArr ys) \<longleftrightarrow> length xs = length ys \<and> list_all (\<lambda>(a, b). json_eq a b) (zip xs ys)"
  "json_eq (JObj kvs) (JObj lws) \<longleftrightarrow> length kvs = length lws \<and>
     list_all (\<lambda>(k, a). case map_of lws k of None \<Rightarrow> False | Some b \<Rightarrow> json_eq a b) kvs"
  by (simp_all add: json_eq.simps [of "JNull"] json_eq.simps [of "JStr s"] json_eq.simps [of "JBool a"]
      json_eq.simps [of "JInt i"] json_eq.simps [of "JArr xs"] json_eq.simps [of "JObj kvs"])

text \<open>An object is well formed when no dictionary in it repeats a key.\<close>

function wf_json :: "json \<Rightarrow> bool" where
  "wf_json j =
     (case j of
        JArr vs \<Rightarrow> list_all wf_json vs
      | JObj kvs \<Rightarrow> distinct (map fst kvs) \<and> list_all (\<lambda>(k, v). wf_json v) kvs
      | _ \<Rightarrow> True)"
  by pat_completeness auto
termination
  by (relation "measure size") (auto dest!: size_json_elem size_json_member)

declare wf_json.simps [simp del]

lemma json_eq_refl: "wf_json j \<Longrightarrow> json_eq j j"
proof (induction j rule: wf_json.induct)
  case (1 j)
  show ?case
  proof (cases j)
    case (JArr vs)
    with 1 have "\<forall>v\<in>set vs. json_eq v v"
      by (auto simp: wf_json.simps [of "JArr vs"] list_all_iff)
    with JArr show ?thesis by (auto simp: list_all_iff in_set_zip)
  next
    case (JObj kvs)
    with "1.prems" have kvs: "distinct (map fst kvs)" "\<forall>(k, v)\<in>set kvs. wf_json v"
      by (auto simp: wf_json.simps [of "JObj kvs"] list_all_iff)
    have "json_eq v v" if "(k, v) \<in> set kvs" for k v
      using "1.IH"(2) [OF JObj that] kvs(2) that by auto
    with kvs JObj show ?thesis by (auto simp: list_all_iff)
  qed (simp_all add: json_eq.simps)
qed

section \<open>Accessors\<close>

fun is_obj :: "json \<Rightarrow> bool" where
  "is_obj (JObj kvs) = True"
| "is_obj _ = False"

fun obj_get :: "json \<Rightarrow> pystr \<Rightarrow> json option" where
  "obj_get (JObj kvs) k = map_of kvs k"
| "obj_get _ k = None"

definition json_is_str :: "json option \<Rightarrow> pystr \<Rightarrow> bool" where
  \<comment> \<open>\<^verbatim>\<open>d.get(k) == "text"\<close>\<close>
  "json_is_str j s = (j = Some (JStr s))"

section \<open>Python's view of a value\<close>

text \<open>\<^verbatim>\<open>bool(value)\<close>\<close>

fun json_truthy :: "json \<Rightarrow> bool" where
  "json_truthy JNull = False"
| "json_truthy (JBool b) = b"
| "json_truthy (JInt i) = (i \<noteq> 0)"
| "json_truthy (JFloat q t) = (q \<noteq> 0)"
| "json_truthy (JStr s) = (s \<noteq> [])"
| "json_truthy (JArr vs) = (vs \<noteq> [])"
| "json_truthy (JObj kvs) = (kvs \<noteq> [])"

text \<open>
  Python's \<^verbatim>\<open>str\<close> and \<^verbatim>\<open>repr\<close> of a JSON value. A byte beyond ASCII in a \<^verbatim>\<open>repr\<close> is kept, as for printable characters.
\<close>

definition repr_char :: "char \<Rightarrow> char \<Rightarrow> pystr" where
  "repr_char q c =
     (if c = q \<or> c = CHR 0x5C then [CHR 0x5C, c]
      else if c = CHR 0x0A then [CHR 0x5C, CHR ''n''] else if c = CHR 0x0D then [CHR 0x5C, CHR ''r'']
      else if c = CHR 0x09 then [CHR 0x5C, CHR ''t'']
      else if c < CHR '' '' \<or> c = CHR 0x7F
      then [CHR 0x5C, CHR ''x'', ''0123456789abcdef'' ! (of_char c div 16), ''0123456789abcdef'' ! (of_char c mod 16)]
      else [c])"

definition repr_str :: "pystr \<Rightarrow> pystr" where
  "repr_str s =
     (let q = (if CHR 0x27 \<in> set s \<and> CHR 0x22 \<notin> set s then CHR 0x22 else CHR 0x27)
      in q # concat (map (repr_char q) s) @ [q])"

function py_repr :: "json \<Rightarrow> pystr" where
  "py_repr j = (case j of
      JNull \<Rightarrow> ''None''
    | JBool b \<Rightarrow> (if b then ''True'' else ''False'')
    | JInt i \<Rightarrow> str_int i
    | JFloat q t \<Rightarrow> t
    | JStr s \<Rightarrow> repr_str s
    | JArr vs \<Rightarrow> ''['' @ join '', '' (map py_repr vs) @ '']''
    | JObj kvs \<Rightarrow> ''{'' @ join '', '' (map (\<lambda>(k, v). repr_str k @ '': '' @ py_repr v) kvs) @ ''}'')"
  by pat_completeness auto
termination
  by (relation "measure size") (auto intro: size_json_elem size_json_member)

declare py_repr.simps [simp del]

definition py_str :: "json \<Rightarrow> pystr" where
  "py_str j = (case j of JStr s \<Rightarrow> s | _ \<Rightarrow> py_repr j)"

section \<open>Compact text\<close>

text \<open>\<^verbatim>\<open>json.dumps(value, ensure_ascii=False, separators=(",", ":"))\<close>; the text of a float is the one it carries.\<close>

definition json_escape :: "char \<Rightarrow> pystr" where
  "json_escape c =
     (if c = CHR 0x22 then [CHR 0x5C, CHR 0x22] else if c = CHR 0x5C then [CHR 0x5C, CHR 0x5C]
      else if c = CHR 0x0A then [CHR 0x5C, CHR ''n''] else if c = CHR 0x0D then [CHR 0x5C, CHR ''r'']
      else if c = CHR 0x09 then [CHR 0x5C, CHR ''t''] else if c = CHR 0x08 then [CHR 0x5C, CHR ''b'']
      else if c = CHR 0x0C then [CHR 0x5C, CHR ''f'']
      else if c < CHR '' ''
      then [CHR 0x5C, CHR ''u'', CHR ''0'', CHR ''0'', ''0123456789abcdef'' ! (of_char c div 16), ''0123456789abcdef'' ! (of_char c mod 16)]
      else [c])"

definition json_string :: "pystr \<Rightarrow> pystr" where
  "json_string s = CHR 0x22 # concat (map json_escape s) @ [CHR 0x22]"

function json_dumps :: "json \<Rightarrow> pystr" where
  "json_dumps j = (case j of
      JNull \<Rightarrow> ''null''
    | JBool b \<Rightarrow> (if b then ''true'' else ''false'')
    | JInt i \<Rightarrow> str_int i
    | JFloat q t \<Rightarrow> t
    | JStr s \<Rightarrow> json_string s
    | JArr vs \<Rightarrow> ''['' @ join '','' (map json_dumps vs) @ '']''
    | JObj kvs \<Rightarrow> ''{'' @ join '','' (map (\<lambda>(k, v). json_string k @ '':'' @ json_dumps v) kvs) @ ''}'')"
  by pat_completeness auto
termination
  by (relation "measure size") (auto intro: size_json_elem size_json_member)

declare json_dumps.simps [simp del]

text \<open>Strings are written unambiguously: what follows a string does not change where it ends.\<close>

lemma hex_nibble_inj:
  assumes "''0123456789abcdef'' ! (m :: nat) = ''0123456789abcdef'' ! n" and "m < 16" and "n < 16"
  shows "m = n"
proof -
  have "distinct ''0123456789abcdef''" by simp
  with assms show ?thesis by (subst (asm) nth_eq_iff_index_eq) auto
qed

lemma control_char_small: "c < CHR '' '' \<Longrightarrow> of_char c < (32 :: nat)"
  by (simp add: less_char_def)

lemma json_escape_prefix:
  assumes "json_escape c @ x = json_escape d @ y"
  shows "c = d \<and> x = y"
proof -
  let ?h = "''0123456789abcdef''"
  let ?u = "\<lambda>c :: char. [CHR 0x5C, CHR ''u'', CHR ''0'', CHR ''0'', ?h ! (of_char c div 16), ?h ! (of_char c mod 16)]"
  define short where "short = [(CHR 0x22, CHR 0x22), (CHR 0x5C, CHR 0x5C), (CHR 0x0A, CHR ''n''), (CHR 0x0D, CHR ''r''),
     (CHR 0x09, CHR ''t''), (CHR 0x08, CHR ''b''), (CHR 0x0C, CHR ''f'')]"
  have esc: "json_escape c = (case map_of short c of Some k \<Rightarrow> [CHR 0x5C, k]
      | None \<Rightarrow> if c < CHR '' '' then ?u c else [c])" for c
    by (simp add: json_escape_def short_def)
  have k: "map_of short c = Some k \<Longrightarrow> k \<noteq> CHR ''u''" for c k
    by (auto simp: short_def split: if_splits)
  have inj: "map_of short c = Some k \<Longrightarrow> map_of short d = Some k \<Longrightarrow> c = d" for c d k
    by (auto simp: short_def split: if_splits)
  have bs: "map_of short c = None \<Longrightarrow> c \<noteq> CHR 0x5C" for c
    by (auto simp: short_def split: if_splits)
  have uni: "c = d \<and> x = y" if "?u c @ x = ?u d @ y" "c < CHR '' ''" "d < CHR '' ''"
  proof -
    have "of_char c < (32 :: nat)" "of_char d < (32 :: nat)" using that control_char_small by auto
    then have lt: "of_char c div 16 < (16 :: nat)" "of_char d div 16 < (16 :: nat)" by auto
    have "of_char c div 16 = (of_char d div 16 :: nat)"
      by (rule hex_nibble_inj [OF _ lt]) (use that in simp)
    moreover have "of_char c mod 16 = (of_char d mod 16 :: nat)"
      by (rule hex_nibble_inj) (use that in simp_all)
    ultimately have "of_char c = (of_char d :: nat)" by (metis div_mult_mod_eq)
    then show ?thesis using that by simp
  qed
  show ?thesis
  proof (cases "map_of short c"; cases "map_of short d")
    fix a b assume "map_of short c = Some a" "map_of short d = Some b"
    then show ?thesis using assms inj by (simp add: esc)
  next
    fix a assume "map_of short c = Some a" "map_of short d = None"
    then show ?thesis using assms k [of c a] bs [of d] by (simp add: esc split: if_splits)
  next
    fix b assume "map_of short c = None" "map_of short d = Some b"
    then show ?thesis using assms k [of d b] bs [of c] by (auto simp: esc split: if_splits)
  next
    assume n: "map_of short c = None" "map_of short d = None"
    then show ?thesis using assms uni bs [of c] bs [of d] by (auto simp: esc split: if_splits)
  qed
qed

lemma json_escape_head: "json_escape c \<noteq> [] \<and> hd (json_escape c) \<noteq> CHR 0x22"
  by (simp add: json_escape_def)

lemma json_escapes_prefix:
  "concat (map json_escape s) @ CHR 0x22 # x = concat (map json_escape t) @ CHR 0x22 # y \<Longrightarrow> s = t \<and> x = y"
proof (induction s arbitrary: t)
  case Nil
  show ?case
  proof (cases t)
    case (Cons d ds)
    then show ?thesis using Nil json_escape_head [of d] by (cases "json_escape d") auto
  qed (use Nil in simp)
next
  case (Cons c s)
  show ?case
  proof (cases t)
    case Nil
    then show ?thesis using Cons.prems json_escape_head [of c] by (cases "json_escape c") auto
  next
    case (Cons d ds)
    with Cons.prems json_escape_prefix [of c "concat (map json_escape s) @ CHR 0x22 # x" d "concat (map json_escape ds) @ CHR 0x22 # y"]
    show ?thesis using Cons.IH by simp
  qed
qed

lemma json_string_prefix: "json_string s @ x = json_string t @ y \<longleftrightarrow> s = t \<and> x = y"
  using json_escapes_prefix [of s x t y] by (auto simp: json_string_def)

lemma json_string_inj: "json_string s = json_string t \<longleftrightarrow> s = t"
  using json_string_prefix [of s "[]" t "[]"] by simp

end
