(* ===== verification/PathTemplate.thy ===== *)
theory PathTemplate
  imports Prelude
begin

text \<open>
  The shared parser of path templates (\<^verbatim>\<open>mcp_contracts/path_template.py\<close>), a grammar of
  templates as pieces, and what substituting a placeholder does to a template. The
  canonical model, the manifest contract and the request builder all rest on it.
\<close>

section \<open>The parser\<close>

function path_parameter_names :: "pystr \<Rightarrow> value_error + pystr list" where
  "path_parameter_names [] = Inr []"
| "path_parameter_names (c # path) =
     (if c = CHR ''}'' then Inl (ValueError ''path template contains an unmatched closing brace'')
      else if c \<noteq> CHR ''{'' then path_parameter_names path
      else
        let name = takeWhile (\<lambda>x. x \<noteq> CHR ''}'') path;
            rest = dropWhile (\<lambda>x. x \<noteq> CHR ''}'') path
        in if rest = [] then Inl (ValueError ''path template contains an unmatched opening brace'')
           else if name = [] \<or> CHR ''{'' \<in> set name \<or> CHR ''/'' \<in> set name
           then Inl (ValueError ''path template contains an invalid parameter expression'')
           else rbind (path_parameter_names (tl rest)) (\<lambda>names. Inr (name # names)))"
  by pat_completeness auto
termination
proof (relation "measure length", goal_cases)
  case (3 c path name rest)
  have "length rest \<le> length path" using 3 by (simp add: length_dropWhile_le)
  then show ?case by simp
qed auto

section \<open>Templates as pieces\<close>

datatype piece = Ch char | Param pystr

fun render :: "piece list \<Rightarrow> pystr" where
  "render [] = []"
| "render (Ch c # ps) = c # render ps"
| "render (Param n # ps) = CHR ''{'' # n @ CHR ''}'' # render ps"

fun params :: "piece list \<Rightarrow> pystr list" where
  "params [] = []"
| "params (Ch c # ps) = params ps"
| "params (Param n # ps) = n # params ps"

definition wf_name :: "pystr \<Rightarrow> bool" where
  "wf_name n \<longleftrightarrow> n \<noteq> [] \<and> CHR ''{'' \<notin> set n \<and> CHR ''}'' \<notin> set n \<and> CHR ''/'' \<notin> set n"

fun wf_piece :: "piece \<Rightarrow> bool" where
  "wf_piece (Ch c) = (c \<noteq> CHR ''{'' \<and> c \<noteq> CHR ''}'')"
| "wf_piece (Param n) = wf_name n"

abbreviation wf_template :: "piece list \<Rightarrow> bool" where
  "wf_template ps \<equiv> \<forall>p\<in>set ps. wf_piece p"

definition placeholder :: "pystr \<Rightarrow> pystr" where
  "placeholder n = CHR ''{'' # n @ ''}''"

section \<open>Parsing inverts rendering\<close>

lemma takeWhile_brace: "CHR ''}'' \<notin> set n \<Longrightarrow> takeWhile (\<lambda>x. x \<noteq> CHR ''}'') (n @ CHR ''}'' # s) = n"
  by (induction n) auto

lemma dropWhile_brace: "CHR ''}'' \<notin> set n \<Longrightarrow> dropWhile (\<lambda>x. x \<noteq> CHR ''}'') (n @ CHR ''}'' # s) = CHR ''}'' # s"
  by (induction n) auto

lemma parse_render: "wf_template ps \<Longrightarrow> path_parameter_names (render ps) = Inr (params ps)"
  by (induction ps rule: render.induct)
    (auto simp: wf_name_def takeWhile_brace dropWhile_brace)

lemma parse_complete:
  "path_parameter_names s = Inr ns \<Longrightarrow> \<exists>ps. wf_template ps \<and> render ps = s \<and> params ps = ns"
proof (induction s arbitrary: ns rule: path_parameter_names.induct)
  case 1
  then show ?case by (auto intro: exI [of _ "[]"])
next
  case (2 c path)
  let ?name = "takeWhile (\<lambda>x. x \<noteq> CHR ''}'') path"
  let ?rest = "dropWhile (\<lambda>x. x \<noteq> CHR ''}'') path"
  from "2.prems" have c: "c \<noteq> CHR ''}''" by (auto split: if_splits)
  show ?case
  proof (cases "c = CHR ''{''")
    case False
    with c "2.prems" have "path_parameter_names path = Inr ns" by simp
    from "2.IH"(1) [OF c False this]
    obtain ps where "wf_template ps" "render ps = path" "params ps = ns" by blast
    with c False have "wf_template (Ch c # ps) \<and> render (Ch c # ps) = c # path \<and> params (Ch c # ps) = ns"
      by simp
    then show ?thesis by blast
  next
    case True
    with c "2.prems" obtain ms where
      rest: "?rest \<noteq> []" and name: "?name \<noteq> []" "CHR ''{'' \<notin> set ?name" "CHR ''/'' \<notin> set ?name"
      and ms: "path_parameter_names (tl ?rest) = Inr ms" and ns: "ns = ?name # ms"
      by (auto simp: Let_def result_simps split: if_splits)
    have "\<not> c \<noteq> CHR ''{''" and "\<not> (?name = [] \<or> CHR ''{'' \<in> set ?name \<or> CHR ''/'' \<in> set ?name)"
      using True name by simp_all
    from "2.IH"(2) [OF c this(1) refl refl rest this(2) ms]
    obtain ps where ps: "wf_template ps" "render ps = tl ?rest" "params ps = ms" by blast
    have hd: "hd ?rest = CHR ''}''" using hd_dropWhile [OF rest] by (simp only: not_not)
    have path: "?name @ CHR ''}'' # tl ?rest = path"
      using list.collapse [OF rest] takeWhile_dropWhile_id [of "\<lambda>x. x \<noteq> CHR ''}''" path]
      by (simp only: hd)
    have "CHR ''}'' \<notin> set ?name" by (auto dest: set_takeWhileD)
    with name have "wf_name ?name" by (simp add: wf_name_def)
    with ps(1) have "wf_template (Param ?name # ps)" by simp
    moreover have "render (Param ?name # ps) = c # path" using ps(2) path True by (simp only: render.simps)
    moreover have "params (Param ?name # ps) = ns" using ps(3) ns by (simp only: params.simps)
    ultimately show ?thesis by blast
  qed
qed

lemma names_wf: "path_parameter_names s = Inr ns \<Longrightarrow> n \<in> set ns \<Longrightarrow> wf_name n"
proof -
  have "wf_template ps \<Longrightarrow> n \<in> set (params ps) \<Longrightarrow> wf_name n" for ps
    by (induction ps rule: params.induct) auto
  then show "path_parameter_names s = Inr ns \<Longrightarrow> n \<in> set ns \<Longrightarrow> wf_name n"
    using parse_complete by blast
qed

section \<open>Substituting a placeholder\<close>

text \<open>What \<^verbatim>\<open>path.replace("{n}", v)\<close> does, on pieces.\<close>

fun subst_piece :: "pystr \<Rightarrow> pystr \<Rightarrow> piece \<Rightarrow> piece list" where
  "subst_piece n v (Ch c) = [Ch c]"
| "subst_piece n v (Param m) = (if m = n then map Ch v else [Param m])"

definition subst_template :: "pystr \<Rightarrow> pystr \<Rightarrow> piece list \<Rightarrow> piece list" where
  "subst_template n v ps = concat (map (subst_piece n v) ps)"

lemma render_append [simp]: "render (ps @ qs) = render ps @ render qs"
  by (induction ps rule: render.induct) auto

lemma render_map_Ch [simp]: "render (map Ch v) = v"
  by (induction v) auto

lemma params_append [simp]: "params (ps @ qs) = params ps @ params qs"
  by (induction ps rule: params.induct) auto

lemma params_map_Ch [simp]: "params (map Ch v) = []"
  by (induction v) auto

lemma placeholder_prefix:
  assumes "wf_name n" and "wf_name m"
  shows "startswith (placeholder m @ s) (placeholder n) \<longleftrightarrow> m = n"
proof
  assume "startswith (placeholder m @ s) (placeholder n)"
  then obtain t where "m @ CHR ''}'' # s = n @ CHR ''}'' # t"
    by (auto simp: startswith_iff placeholder_def)
  then have "takeWhile (\<lambda>x. x \<noteq> CHR ''}'') (m @ CHR ''}'' # s)
      = takeWhile (\<lambda>x. x \<noteq> CHR ''}'') (n @ CHR ''}'' # t)" by simp
  with assms show "m = n" by (simp add: takeWhile_brace wf_name_def)
qed auto

lemma replace_skip:
  assumes "\<And>a b. u = a @ b \<Longrightarrow> b \<noteq> [] \<Longrightarrow> \<not> startswith (b @ s) old"
  shows "replace old new (u @ s) = u @ replace old new s"
  using assms
proof (induction u)
  case (Cons c u)
  have "\<not> startswith (c # u @ s) old" using Cons.prems [of "[]" "c # u"] by simp
  moreover have "replace old new (u @ s) = u @ replace old new s"
    by (rule Cons.IH) (metis Cons.prems append_Cons)
  ultimately show ?case by simp
qed simp

lemma replace_at_head:
  assumes "old \<noteq> []"
  shows "replace old new (old @ s) = new @ replace old new s"
proof (cases old)
  case (Cons c u)
  then have "startswith (c # u @ s) (c # u)" by (metis append_Cons startswith_append)
  with Cons show ?thesis by simp
qed (use assms in simp)

lemma replace_no_brace:
  "CHR ''{'' \<notin> set u \<Longrightarrow> replace (placeholder n) v (u @ s) = u @ replace (placeholder n) v s"
proof (rule replace_skip)
  fix a b
  assume "CHR ''{'' \<notin> set u" and "u = a @ b" and "b \<noteq> []"
  then show "\<not> startswith (b @ s) (placeholder n)"
    by (cases b) (auto simp: placeholder_def)
qed

lemma replace_placeholder:
  assumes "wf_template ps" and n: "wf_name n"
  shows "replace (placeholder n) v (render ps) = render (subst_template n v ps)"
  using assms(1)
proof (induction ps rule: render.induct)
  case 1
  then show ?case by (simp add: subst_template_def)
next
  case (2 c ps)
  then have "replace (placeholder n) v ([c] @ render ps) = [c] @ replace (placeholder n) v (render ps)"
    by (intro replace_no_brace) auto
  with 2 show ?case by (simp add: subst_template_def)
next
  case (3 m ps)
  then have m: "wf_name m" by simp
  have eq: "render (Param m # ps) = placeholder m @ render ps" by (simp add: placeholder_def)
  show ?case
  proof (cases "m = n")
    case True
    then have "replace (placeholder n) v (render (Param m # ps)) = v @ replace (placeholder n) v (render ps)"
      unfolding eq using replace_at_head [of "placeholder n"] by (simp only: placeholder_def list.simps not_False_eq_True)
    also have "\<dots> = render (subst_template n v (Param m # ps))"
      using 3 True by (simp add: subst_template_def)
    finally show ?thesis .
  next
    case False
    have "\<not> startswith (placeholder m @ render ps) (placeholder n)"
      using placeholder_prefix [OF n m] False by simp
    then have "replace (placeholder n) v (placeholder m @ render ps)
        = CHR ''{'' # replace (placeholder n) v ((m @ ''}'') @ render ps)"
      by (simp add: placeholder_def)
    also have "\<dots> = placeholder m @ replace (placeholder n) v (render ps)"
      using m by (subst replace_no_brace) (auto simp: wf_name_def placeholder_def)
    finally show ?thesis using 3 False by (simp add: eq subst_template_def placeholder_def)
  qed
qed

lemma params_subst: "params (subst_template n v ps) = filter (\<lambda>m. m \<noteq> n) (params ps)"
  by (induction ps rule: params.induct) (auto simp: subst_template_def)

lemma wf_subst:
  "wf_template ps \<Longrightarrow> CHR ''{'' \<notin> set v \<Longrightarrow> CHR ''}'' \<notin> set v \<Longrightarrow> wf_template (subst_template n v ps)"
proof -
  assume ps: "wf_template ps" and v: "CHR ''{'' \<notin> set v" "CHR ''}'' \<notin> set v"
  have "wf_piece q" if "q \<in> set (subst_piece n v p)" "p \<in> set ps" for p q
    using that ps v by (cases p) (auto split: if_splits)
  then show ?thesis by (auto simp: subst_template_def)
qed

lemma render_no_params: "wf_template ps \<Longrightarrow> params ps = [] \<Longrightarrow> set (render ps) \<inter> set ''{}'' = {}"
  by (induction ps rule: render.induct) auto

lemma placeholder_in_render:
  "wf_template ps \<Longrightarrow> wf_name n \<Longrightarrow> n \<in> set (params ps) \<Longrightarrow> contains (render ps) (placeholder n)"
proof (induction ps rule: render.induct)
  case (3 m ps)
  show ?case
  proof (cases "m = n")
    case True
    then show ?thesis
      by (simp add: contains_iff placeholder_def) (metis append_Cons append_Nil)
  next
    case False
    with 3 have "contains (render ps) (placeholder n)" by simp
    then obtain a b where "render ps = a @ placeholder n @ b" by (auto simp: contains_iff)
    then have "render (Param m # ps) = (placeholder m @ a) @ placeholder n @ b"
      by (simp add: placeholder_def)
    then show ?thesis unfolding contains_iff by blast
  qed
qed auto

end
