(* ===== verification/Manifest.thy ===== *)
theory Manifest
  imports Json PathTemplate
begin

text \<open>
  The manifest contract shared by the compiler and the runtime
  (\<^verbatim>\<open>packages/contracts/src/mcp_contracts/manifest.py\<close>): its models as records, and the
  validators Pydantic runs when one is built, each returning the validated record or the
  \<^verbatim>\<open>ValueError\<close> it raises. A URL is its text, \<^verbatim>\<open>str(url)\<close>.
\<close>

section \<open>Data\<close>

datatype http_method = GET | POST | PUT | PATCH | DELETE | HEAD | OPTIONS | TRACE

fun method_value :: "http_method \<Rightarrow> pystr" where
  "method_value GET = ''GET''"
| "method_value POST = ''POST''"
| "method_value PUT = ''PUT''"
| "method_value PATCH = ''PATCH''"
| "method_value DELETE = ''DELETE''"
| "method_value HEAD = ''HEAD''"
| "method_value OPTIONS = ''OPTIONS''"
| "method_value TRACE = ''TRACE''"

datatype parameter_target = PathTarget | QueryTarget | HeaderTarget

record server_definition =
  sd_id :: pystr
  sd_url :: pystr
  sd_description :: "pystr option"

datatype auth_type = NoAuth | Bearer | ApiKey | Basic | OAuth2ClientCredentials | StaticHeader

datatype token_auth_method = ClientSecretBasic | ClientSecretPost

datatype key_location = InHeader | InQuery

record auth_profile =
  ap_id :: pystr
  ap_type :: auth_type
  credential_ref :: "pystr option"
  token_url :: "pystr option"
  ap_scopes :: "pystr list"
  token_method :: token_auth_method
  key_loc :: "key_location option"
  ap_name :: "pystr option"
  ap_prefix :: "pystr option"

record parameter_mapping =
  tool_field :: pystr
  source_name :: pystr
  target :: parameter_target
  pm_required :: bool
  style :: "pystr option"
  explode :: "bool option"
  allow_reserved :: bool

record multipart_file_mapping =
  part_name :: pystr
  content_field :: pystr
  filename_field :: "pystr option"
  content_type_field :: "pystr option"
  default_filename :: pystr
  default_content_type :: pystr
  mf_required :: bool

datatype body_media = ApplicationJson | FormUrlencoded | MultipartFormData

record request_body_mapping =
  body_field :: pystr
  body_media_type :: body_media
  body_required :: bool
  multipart_files :: "multipart_file_mapping list"

record request_mapping =
  server_ref :: pystr
  rm_method :: http_method
  rm_path :: pystr
  parameters :: "parameter_mapping list"
  body :: "request_body_mapping option"

record response_definition =
  status_code :: pystr
  media_type :: "pystr option"
  rd_schema :: "json_object option"
  rd_description :: "pystr option"

record mcp_tool =
  tool_name :: pystr
  tool_title :: pystr
  tool_description :: pystr
  input_schema :: json_object
  output_schema :: "json_object option"
  responses :: "response_definition list"
  operation_key :: pystr
  request_mapping :: request_mapping
  security_profile_ref :: "pystr option"
  timeout_ms :: int
  max_response_bytes :: int
  enabled :: bool
  max_request_bytes :: int
  tool_provenance :: json_object

record mcp_resource =
  res_uri :: pystr
  res_name :: pystr
  res_description :: "pystr option"
  mime_type :: pystr
  res_content :: pystr
  res_provenance :: json_object

record runtime_security =
  allowed_upstream_hosts :: "pystr list"
  allow_insecure_none_only_in_development :: bool
  default_timeout_ms :: int
  default_max_response_bytes :: int

record manifest_project =
  mp_id :: pystr
  mp_name :: pystr
  mp_slug :: pystr

record build_metadata =
  bm_build_id :: pystr
  bm_source_version_ids :: "pystr list"
  bm_source_digest :: pystr
  bm_canonical_sha256 :: pystr
  bm_created_at :: pystr
  bm_compiler_version :: pystr
  bm_prompt_bundle_version :: "pystr option"
  bm_analysis_model :: "pystr option"
  bm_validation_model :: "pystr option"
  bm_embedding_model :: "pystr option"

record mcp_manifest =
  manifest_id :: pystr
  project :: manifest_project
  runtime_compatibility :: pystr
  servers :: "server_definition list"
  auth_profiles :: "auth_profile list"
  tools :: "mcp_tool list"
  resources :: "mcp_resource list"
  security :: runtime_security
  build :: build_metadata

section \<open>Validators\<close>

definition header_name_chars :: pystr where
  "header_name_chars = ''!#$%&'' @ [CHR 0x27] @ ''*+.^_'' @ [CHR 0x60] @ ''|~0123456789ABCDEFGHIJKLMNOPQRSTUVWXYZabcdefghijklmnopqrstuvwxyz-''"

definition header_name_ok :: "pystr \<Rightarrow> bool" where
  "header_name_ok s \<longleftrightarrow> s \<noteq> [] \<and> list_all (\<lambda>c. c \<in> set header_name_chars) s"

definition forbidden_auth_headers :: "pystr list" where
  "forbidden_auth_headers = [''connection'', ''content-length'', ''content-type'', ''cookie'', ''host'',
     ''keep-alive'', ''proxy-authenticate'', ''proxy-authorization'', ''set-cookie'', ''te'', ''trailer'',
     ''transfer-encoding'', ''upgrade'']"

definition forbidden_caller_headers :: "pystr list" where
  "forbidden_caller_headers = ''authorization'' # forbidden_auth_headers"

definition missing_auth_fields :: "auth_profile \<Rightarrow> bool" where
  "missing_auth_fields p \<longleftrightarrow>
     (ap_type p = ApiKey \<and> (key_loc p = None \<or> ap_name p = None))
     \<or> (ap_type p = OAuth2ClientCredentials \<and> token_url p = None)
     \<or> (ap_type p = StaticHeader \<and> ap_name p = None)
     \<or> (ap_type p \<noteq> NoAuth \<and> \<not> truthy (credential_ref p))"

definition validate_auth_fields :: "auth_profile \<Rightarrow> value_error + auth_profile" where
  "validate_auth_fields p =
     (if missing_auth_fields p then Inl (ValueError ''auth profile is missing fields'')
      else if ap_type p = NoAuth \<and> credential_ref p \<noteq> None
      then Inl (ValueError ''none auth profile cannot reference credentials'')
      else if ap_type p \<noteq> OAuth2ClientCredentials \<and> (token_url p \<noteq> None \<or> ap_scopes p \<noteq> [])
      then Inl (ValueError ''auth profile cannot contain OAuth configuration'')
      else if ap_type p \<noteq> ApiKey \<and> (key_loc p \<noteq> None \<or> ap_prefix p \<noteq> None)
      then Inl (ValueError ''auth profile cannot contain API-key configuration'')
      else if ap_type p \<notin> {ApiKey, StaticHeader} \<and> ap_name p \<noteq> None
      then Inl (ValueError ''auth profile cannot contain a header/query name'')
      else if (case credential_ref p of None \<Rightarrow> False | Some r \<Rightarrow> length r > 200 \<or> has_any ctl_chars r)
      then Inl (ValueError ''auth profile credential reference is invalid'')
      else if (case ap_name p of None \<Rightarrow> False | Some n \<Rightarrow> n = [] \<or> has_any ctl_chars n)
      then Inl (ValueError ''auth profile name is invalid'')
      else if (case ap_name p of None \<Rightarrow> False | Some n \<Rightarrow>
          (key_loc p = Some InHeader \<or> ap_type p = StaticHeader)
          \<and> (\<not> header_name_ok n \<or> py_lower n \<in> set forbidden_auth_headers))
      then Inl (ValueError ''auth profile contains a forbidden header name'')
      else if (case ap_prefix p of None \<Rightarrow> False | Some x \<Rightarrow> has_any ctl_chars x)
      then Inl (ValueError ''API-key prefix contains forbidden characters'')
      else Inr p)"

definition status_code_ok :: "pystr \<Rightarrow> bool" where
  \<comment> \<open>\<^verbatim>\<open>[1-5](?:[0-9]{2}|XX)\<close>\<close>
  "status_code_ok s = (case s of
      [a, b, c] \<Rightarrow> a \<in> set ''12345'' \<and> (is_digit_char b \<and> is_digit_char c \<or> b = CHR ''X'' \<and> c = CHR ''X'')
    | _ \<Rightarrow> False)"

definition normalize_status_code :: "pystr \<Rightarrow> value_error + pystr" where
  "normalize_status_code value =
     (let normalized = strip value in
      if py_lower normalized = ''default'' then Inr ''default''
      else if \<not> status_code_ok (py_upper normalized)
      then Inl (ValueError ''response status must be an HTTP code, class wildcard, or default'')
      else Inr (py_upper normalized))"

definition normalize_media_text :: "pystr \<Rightarrow> pystr" where
  \<comment> \<open>\<^verbatim>\<open>value.split(";", 1)[0].strip().casefold()\<close>\<close>
  "normalize_media_text value = py_lower (strip (before (CHR '';'') value))"

definition normalize_media_type :: "pystr option \<Rightarrow> value_error + pystr option" where
  "normalize_media_type value =
     (case value of None \<Rightarrow> Inr None
      | Some v \<Rightarrow>
        let normalized = normalize_media_text v in
        if normalized = [] \<or> CHR ''/'' \<notin> set normalized \<or> has_any ctl_chars normalized
        then Inl (ValueError ''response media type is invalid'') else Inr (Some normalized))"

definition make_response_definition :: "response_definition \<Rightarrow> value_error + response_definition" where
  "make_response_definition d =
     rbind (normalize_status_code (status_code d)) (\<lambda>s.
     rbind (normalize_media_type (media_type d)) (\<lambda>m. Inr (d\<lparr>status_code := s, media_type := m\<rparr>)))"

definition tool_name_ok :: "pystr \<Rightarrow> bool" where
  \<comment> \<open>\<^verbatim>\<open>^[a-z_][a-z0-9_]{0,127}$\<close>\<close>
  "tool_name_ok s = (case s of [] \<Rightarrow> False
     | c # t \<Rightarrow> c \<in> set ''abcdefghijklmnopqrstuvwxyz_''
         \<and> list_all (\<lambda>d. d \<in> set ''abcdefghijklmnopqrstuvwxyz0123456789_'') t \<and> length t \<le> 127)"

definition make_tool :: "mcp_tool \<Rightarrow> value_error + mcp_tool" where
  "make_tool t =
     (if \<not> tool_name_ok (tool_name t) then Inl (ValueError ''tool name'')
      else if \<not> startswith (rm_path (request_mapping t)) ''/'' then Inl (ValueError ''request path'')
      else if \<not> (100 \<le> timeout_ms t \<and> timeout_ms t \<le> 300000) then Inl (ValueError ''timeout_ms'')
      else if \<not> (1024 \<le> max_response_bytes t \<and> max_response_bytes t \<le> 50000000) then Inl (ValueError ''max_response_bytes'')
      else if \<not> (1024 \<le> max_request_bytes t \<and> max_request_bytes t \<le> 100000000) then Inl (ValueError ''max_request_bytes'')
      else Inr t)"

definition validate_references :: "mcp_manifest \<Rightarrow> value_error + mcp_manifest" where
  "validate_references m =
     (let server_ids = map sd_id (servers m); auth_ids = map ap_id (auth_profiles m);
          tool_names = map tool_name (tools m)
      in if \<not> distinct server_ids then Inl (ValueError ''manifest server IDs must be unique'')
         else if \<not> distinct auth_ids then Inl (ValueError ''manifest auth profile IDs must be unique'')
         else if \<not> distinct tool_names then Inl (ValueError ''manifest tool names must be unique'')
         else rbind (riter (\<lambda>t.
           if server_ref (request_mapping t) \<notin> set server_ids then Inl (ValueError ''tool references unknown server'')
           else if truthy (security_profile_ref t) \<and> the (security_profile_ref t) \<notin> set auth_ids
           then Inl (ValueError ''tool references unknown auth profile'')
           else Inr ()) (tools m)) (\<lambda>_. Inr m))"

definition enabled_tools :: "mcp_manifest \<Rightarrow> mcp_tool list" where
  "enabled_tools m = filter enabled (tools m)"

section \<open>What the validators guarantee\<close>

lemma validate_auth_fields_Inr:
  assumes "validate_auth_fields p = Inr q"
  shows "q = p" and "ap_type p \<noteq> NoAuth \<Longrightarrow> truthy (credential_ref p)"
    and "ap_type p = NoAuth \<Longrightarrow> credential_ref p = None"
    and "ap_type p = StaticHeader \<or> key_loc p = Some InHeader \<Longrightarrow>
      \<exists>n. ap_name p = Some n \<and> header_name_ok n \<and> py_lower n \<notin> set forbidden_auth_headers"
  using assms
  by (auto simp: validate_auth_fields_def missing_auth_fields_def split: if_splits option.splits)

lemma status_code_ok_cases: "status_code_ok s \<Longrightarrow> length s = 3"
  by (auto simp: status_code_ok_def split: list.splits)

lemma strip_idem: "strip (strip s) = strip s"
proof -
  have hd: "dropWhile is_space (rev (dropWhile is_space (rev t))) = rev (dropWhile is_space (rev t))"
    if t: "t = dropWhile is_space s" for t
  proof (cases "rev (dropWhile is_space (rev t))")
    case (Cons c u)
    have "rev (dropWhile is_space (rev t)) @ rev (takeWhile is_space (rev t)) = t"
      by (metis rev_append rev_rev_ident takeWhile_dropWhile_id)
    then obtain w where "t = c # u @ w" using Cons by (metis append_Cons)
    then have "\<not> is_space c" using t hd_dropWhile [of is_space s] by auto
    then show ?thesis using Cons by simp
  next
    case Nil
    show ?thesis by (simp only: Nil dropWhile.simps)
  qed
  show ?thesis unfolding strip_def by (simp only: hd [OF refl] rev_rev_ident dropWhile_idem)
qed

end
