(* ===== verification/Percent.thy ===== *)
theory Percent
  imports Prelude
begin

text \<open>
  Percent-encoding as \<^verbatim>\<open>urllib.parse.quote\<close>, \<^verbatim>\<open>quote_plus\<close> and \<^verbatim>\<open>unquote\<close> do it on the UTF-8
  bytes of a string (a malformed byte sequence that \<^verbatim>\<open>unquote\<close> would show as U+FFFD stays
  as it is), and the round trip between them.
\<close>

definition unreserved :: pystr where
  "unreserved = ''ABCDEFGHIJKLMNOPQRSTUVWXYZabcdefghijklmnopqrstuvwxyz0123456789_.-~''"

definition hex_digit :: "nat \<Rightarrow> char" where
  "hex_digit n = ''0123456789ABCDEF'' ! n"

fun index_of :: "char \<Rightarrow> pystr \<Rightarrow> nat option" where
  "index_of c [] = None"
| "index_of c (d # ds) = (if c = d then Some 0 else map_option Suc (index_of c ds))"

definition hex_val :: "char \<Rightarrow> nat option" where
  "hex_val c = (case index_of c ''0123456789ABCDEF'' of
      Some n \<Rightarrow> Some n
    | None \<Rightarrow> map_option (\<lambda>n. n + 10) (index_of c ''abcdef''))"

definition quote_char :: "pystr \<Rightarrow> char \<Rightarrow> pystr" where
  "quote_char safe c =
     (if c \<in> set unreserved \<or> c \<in> set safe then [c]
      else [CHR ''%'', hex_digit (of_char c div 16), hex_digit (of_char c mod 16)])"

definition quote :: "pystr \<Rightarrow> pystr \<Rightarrow> pystr" where
  "quote safe s = concat (map (quote_char safe) s)"

definition quote_plus :: "pystr \<Rightarrow> pystr" where
  "quote_plus s = concat (map (\<lambda>c. if c = CHR '' '' then ''+'' else quote_char [] c) s)"

fun unquote :: "pystr \<Rightarrow> pystr" where
  "unquote (c # h # l # s) =
     (if c = CHR ''%'' then
        (case (hex_val h, hex_val l) of
           (Some a, Some b) \<Rightarrow> char_of (16 * a + b) # unquote s
         | _ \<Rightarrow> c # unquote (h # l # s))
      else c # unquote (h # l # s))"
| "unquote s = s"

section \<open>Round trip and range of the encoding\<close>

lemma hex_val_digit: "n < 16 \<Longrightarrow> hex_val (hex_digit n) = Some n"
proof -
  have "\<forall>n\<in>set [0..<16]. hex_val (hex_digit n) = Some n"
    by (simp add: upt_rec hex_val_def hex_digit_def)
  then show "n < 16 \<Longrightarrow> hex_val (hex_digit n) = Some n" by simp
qed

lemma hex_digit_range: "n < 16 \<Longrightarrow> hex_digit n \<in> set ''0123456789ABCDEF''"
proof -
  have "\<forall>n\<in>set [0..<16]. hex_digit n \<in> set ''0123456789ABCDEF''"
    by (simp add: upt_rec hex_digit_def)
  then show "n < 16 \<Longrightarrow> hex_digit n \<in> set ''0123456789ABCDEF''" by simp
qed

lemma of_char_lt: "of_char (c :: char) < (256 :: nat)"
  using of_char_mod_256 [of c, where 'a = nat] by (metis mod_less_divisor zero_less_numeral)

lemma nibble_lt: "of_char (c :: char) div 16 < (16 :: nat)"
  using of_char_lt [of c] by (intro less_mult_imp_div_less) simp

lemma quote_char_range:
  "set (quote_char safe c) \<subseteq> set unreserved \<union> set safe \<union> {CHR ''%''}"
proof -
  have sub: "set ''0123456789ABCDEF'' \<subseteq> set unreserved" by (simp add: unreserved_def)
  have "hex_digit (of_char c div 16) \<in> set unreserved"
    by (rule subsetD [OF sub hex_digit_range]) (rule nibble_lt)
  moreover have "hex_digit (of_char c mod 16) \<in> set unreserved"
    by (rule subsetD [OF sub hex_digit_range]) simp
  ultimately show ?thesis by (simp add: quote_char_def)
qed

lemma quote_range: "set (quote safe s) \<subseteq> set unreserved \<union> set safe \<union> {CHR ''%''}"
  using quote_char_range by (auto simp: quote_def)

lemma quote_free:
  assumes "c \<notin> set unreserved" and "c \<noteq> CHR ''%''"
  shows "c \<notin> set (quote [] s)"
  using quote_range [of "[]" s] assms by auto

lemma unquote_plain: "c \<noteq> CHR ''%'' \<Longrightarrow> unquote (c # s) = c # unquote s"
  by (cases s rule: unquote.cases) auto

lemma percent_not_unreserved: "CHR ''%'' \<notin> set unreserved"
  by (simp add: unreserved_def)

lemma unquote_quote_char:
  assumes "CHR ''%'' \<notin> set safe"
  shows "unquote (quote_char safe c @ s) = c # unquote s"
proof (cases "c \<in> set unreserved \<or> c \<in> set safe")
  case True
  with assms have "c \<noteq> CHR ''%''" using percent_not_unreserved by auto
  with True show ?thesis by (simp add: quote_char_def unquote_plain)
next
  case False
  have "of_char c div 16 < (16 :: nat)" by (rule nibble_lt)
  then have "unquote (quote_char safe c @ s) = char_of (16 * (of_char c div 16) + of_char c mod 16 :: nat) # unquote s"
    using False by (simp add: quote_char_def hex_val_digit)
  then show ?thesis by simp
qed

lemma unquote_quote: "CHR ''%'' \<notin> set safe \<Longrightarrow> unquote (quote safe s) = s"
proof (induction s)
  case (Cons c s)
  then show ?case by (simp add: quote_def unquote_quote_char)
qed (simp add: quote_def)

lemma quote_Nil_iff: "quote safe s = [] \<longleftrightarrow> s = []"
  by (cases s) (auto simp: quote_def quote_char_def)

end
