(* ===== verification/Url.thy ===== *)
theory Url
  imports Percent
begin

text \<open>
  What the sources use of \<^verbatim>\<open>urllib.parse\<close>: splitting a URL, the parts of its authority, and
  putting a URL together. The host name encoder \<^verbatim>\<open>encode("idna")\<close> and the check of a
  bracketed host are parameters of what uses them; \<open>idna_ascii\<close> is the encoder on ASCII
  names.
\<close>

record split_result =
  scheme :: pystr
  netloc :: pystr
  url_path :: pystr
  query :: pystr
  fragment :: pystr

definition is_alpha_char :: "char \<Rightarrow> bool" where
  "is_alpha_char c = (CHR ''A'' \<le> c \<and> c \<le> CHR ''Z'' \<or> CHR ''a'' \<le> c \<and> c \<le> CHR ''z'')"

definition scheme_chars :: pystr where
  "scheme_chars = ''abcdefghijklmnopqrstuvwxyzABCDEFGHIJKLMNOPQRSTUVWXYZ0123456789+-.''"

definition is_url_ws :: "char \<Rightarrow> bool" where
  "is_url_ws c = (c = CHR 0x09 \<or> c = CHR 0x0A \<or> c = CHR 0x0D)"

definition strip_url :: "pystr \<Rightarrow> pystr" where
  \<comment> \<open>leading C0 controls and blanks, then every tab, line feed and carriage return\<close>
  "strip_url s = filter (\<lambda>c. \<not> is_url_ws c) (dropWhile (\<lambda>c. c \<le> CHR '' '') s)"

definition split_scheme :: "pystr \<Rightarrow> pystr \<times> pystr" where
  "split_scheme s =
     (let h = takeWhile (\<lambda>c. c \<noteq> CHR '':'') s; t = dropWhile (\<lambda>c. c \<noteq> CHR '':'') s
      in if t \<noteq> [] \<and> h \<noteq> [] \<and> is_alpha_char (hd h) \<and> list_all (\<lambda>c. c \<in> set scheme_chars) h
         then (py_lower h, tl t) else ([], s))"

definition split_netloc :: "pystr \<Rightarrow> pystr \<times> pystr" where
  "split_netloc s =
     (if startswith s ''//'' then
        (takeWhile (\<lambda>c. c \<notin> set ''/?#'') (drop 2 s), dropWhile (\<lambda>c. c \<notin> set ''/?#'') (drop 2 s))
      else ([], s))"

definition urlsplit :: "(pystr \<Rightarrow> bool) \<Rightarrow> pystr \<Rightarrow> value_error + split_result" where
  "urlsplit bracketed_ok url =
     (let (sch, r1) = split_scheme (strip_url url);
          (loc, r2) = split_netloc r1;
          (r3, frag) = partition_on (CHR ''#'') r2;
          (path, qry) = partition_on (CHR ''?'') r3
      in if (CHR ''['' \<in> set loc) \<noteq> (CHR '']'' \<in> set loc) then Inl (ValueError ''Invalid IPv6 URL'')
         else if CHR ''['' \<in> set loc \<and> \<not> bracketed_ok (before (CHR '']'') (snd (partition_on (CHR ''['') loc)))
         then Inl (ValueError ''bracketed host is invalid'')
         else Inr \<lparr>scheme = sch, netloc = loc, url_path = path, query = qry, fragment = frag\<rparr>)"

text \<open>\<^verbatim>\<open>netloc.rpartition('@')\<close>\<close>

definition rpart_at :: "pystr \<Rightarrow> pystr option \<times> pystr" where
  "rpart_at s =
     (if CHR ''@'' \<in> set s
      then (Some (rev (drop 1 (dropWhile (\<lambda>c. c \<noteq> CHR ''@'') (rev s)))),
            rev (takeWhile (\<lambda>c. c \<noteq> CHR ''@'') (rev s)))
      else (None, s))"

definition url_username :: "split_result \<Rightarrow> pystr option" where
  "url_username u = map_option (before (CHR '':'')) (fst (rpart_at (netloc u)))"

definition url_password :: "split_result \<Rightarrow> pystr option" where
  "url_password u = (case fst (rpart_at (netloc u)) of None \<Rightarrow> None
     | Some i \<Rightarrow> (if CHR '':'' \<in> set i then Some (snd (partition_on (CHR '':'') i)) else None))"

definition hostinfo :: "pystr \<Rightarrow> pystr \<times> pystr" where
  "hostinfo loc =
     (let info = snd (rpart_at loc) in
      if CHR ''['' \<in> set info then
        (let (h, p) = partition_on (CHR '']'') (snd (partition_on (CHR ''['') info))
         in (h, snd (partition_on (CHR '':'') p)))
      else partition_on (CHR '':'') info)"

definition url_hostname :: "split_result \<Rightarrow> pystr option" where
  "url_hostname u =
     (let h = fst (hostinfo (netloc u))
      in if h = [] then None
         else Some (py_lower (takeWhile (\<lambda>c. c \<noteq> CHR ''%'') h) @ dropWhile (\<lambda>c. c \<noteq> CHR ''%'') h))"

definition digit_value :: "char \<Rightarrow> nat" where
  "digit_value c = of_char c - 48"

definition parse_digits :: "pystr \<Rightarrow> nat" where
  "parse_digits s = foldl (\<lambda>n c. 10 * n + digit_value c) 0 s"

definition url_port :: "split_result \<Rightarrow> value_error + nat option" where
  "url_port u =
     (let p = snd (hostinfo (netloc u))
      in if p = [] then Inr None
         else if \<not> list_all is_digit_char p then Inl (ValueError ''Port could not be cast to integer value'')
         else if parse_digits p > 65535 then Inl (ValueError ''Port out of range 0-65535'')
         else Inr (Some (parse_digits p)))"

text \<open>\<^verbatim>\<open>urlunsplit((scheme, authority, path, "", ""))\<close> for a non-empty scheme and authority\<close>

definition urlunsplit :: "pystr \<Rightarrow> pystr \<Rightarrow> pystr \<Rightarrow> pystr" where
  "urlunsplit sch auth path =
     sch @ ''://'' @ auth @ (if path \<noteq> [] \<and> hd path \<noteq> CHR ''/'' then ''/'' else []) @ path"

definition idna_ascii :: "pystr \<Rightarrow> value_error + pystr" where
  "idna_ascii s =
     (let labels = split_on (CHR ''.'') s
      in if list_all (\<lambda>l. l \<noteq> [] \<and> length l < 64) (butlast labels) \<and> length (last labels) < 64
         then Inr s else Inl (ValueError ''label empty or too long''))"

section \<open>Splitting a URL that was put together\<close>

lemma takeWhile_stop: "\<forall>x\<in>set a. P x \<Longrightarrow> \<not> P b \<Longrightarrow> takeWhile P (a @ b # c) = a"
  by (induction a) auto

lemma dropWhile_stop: "\<forall>x\<in>set a. P x \<Longrightarrow> \<not> P b \<Longrightarrow> dropWhile P (a @ b # c) = b # c"
  by (induction a) auto

lemma partition_on_absent: "c \<notin> set s \<Longrightarrow> partition_on c s = (s, [])"
proof -
  assume "c \<notin> set s"
  then have "\<forall>x\<in>set s. x \<noteq> c" by auto
  then show ?thesis by (simp add: partition_on_def takeWhile_eq_all_conv [THEN iffD2] dropWhile_eq_Nil_conv [THEN iffD2])
qed

lemma partition_on_here: "c \<notin> set a \<Longrightarrow> partition_on c (a @ c # b) = (a, b)"
proof -
  assume "c \<notin> set a"
  then have "\<forall>x\<in>set a. x \<noteq> c" by auto
  then show ?thesis by (simp add: partition_on_def takeWhile_stop dropWhile_stop)
qed

text \<open>The characters an authority made by the URL policy consists of.\<close>

definition plain_netloc :: "pystr \<Rightarrow> bool" where
  "plain_netloc a \<longleftrightarrow> (\<forall>c\<in>set a. \<not> is_url_ws c \<and> c \<notin> set ''/?#[]@'')"

definition plain_path :: "pystr \<Rightarrow> bool" where
  "plain_path p \<longleftrightarrow> startswith p ''/'' \<and> (\<forall>c\<in>set p. c \<notin> set ''?#'' \<and> \<not> is_url_ws c)"

lemma strip_url_id:
  "s \<noteq> [] \<Longrightarrow> hd s > CHR '' '' \<Longrightarrow> \<forall>c\<in>set s. \<not> is_url_ws c \<Longrightarrow> strip_url s = s"
  by (cases s) (auto simp: strip_url_def filter_id_conv)

lemma urlsplit_urlunsplit:
  assumes sch: "sch = ''http'' \<or> sch = ''https''"
    and auth: "plain_netloc auth" and path: "plain_path path"
  shows "urlsplit ok (urlunsplit sch auth path)
    = Inr \<lparr>scheme = sch, netloc = auth, url_path = path, query = [], fragment = []\<rparr>"
proof -
  let ?s = "sch @ CHR '':'' # ''//'' @ auth @ path"
  from path obtain p where p: "path = CHR ''/'' # p" by (cases path) (auto simp: plain_path_def)
  have s: "urlunsplit sch auth path = ?s" using p by (simp add: urlunsplit_def)
  have "\<forall>c\<in>set sch. \<not> is_url_ws c" using sch by (auto simp: is_url_ws_def)
  moreover have "\<forall>c\<in>set auth. \<not> is_url_ws c" using auth by (simp add: plain_netloc_def)
  moreover have "\<forall>c\<in>set path. \<not> is_url_ws c" using path by (simp add: plain_path_def)
  moreover have "\<not> is_url_ws (CHR '':'')" "\<not> is_url_ws (CHR ''/'')" by (simp_all add: is_url_ws_def)
  ultimately have ctl: "\<forall>c\<in>set ?s. \<not> is_url_ws c" by (simp add: ball_Un)
  have "strip_url ?s = ?s"
    by (rule strip_url_id) (use sch ctl in \<open>auto simp: less_char_def\<close>)
  moreover have "split_scheme ?s = (sch, ''//'' @ auth @ path)"
    using sch by (auto simp: split_scheme_def is_alpha_char_def scheme_chars_def py_lower_def lower_char_def less_eq_char_def)
  moreover have "split_netloc (''//'' @ auth @ path) = (auth, path)"
    using auth p by (auto simp: split_netloc_def plain_netloc_def takeWhile_stop dropWhile_stop)
  moreover have "partition_on (CHR ''#'') path = (path, [])" "partition_on (CHR ''?'') path = (path, [])"
    using path by (auto simp: plain_path_def intro!: partition_on_absent)
  moreover have "CHR ''['' \<notin> set auth" "CHR '']'' \<notin> set auth" using auth by (auto simp: plain_netloc_def)
  ultimately show ?thesis by (simp add: urlsplit_def s)
qed

end
