(* ===== verification/IpAddress.thy ===== *)
theory IpAddress
  imports Prelude "HOL-Library.Word"
begin

text \<open>
  The classification of IP addresses that \<^verbatim>\<open>ipaddress\<close> of Python 3.13 gives, over its tables
  of special networks; an IPv4-mapped IPv6 address is classified as the IPv4 address. The
  network policies of the runtime and of the backend both decide on these predicates.
\<close>

datatype ip = V4 "32 word" | V6 "128 word"

definition ipv4 :: "nat \<Rightarrow> nat \<Rightarrow> nat \<Rightarrow> nat \<Rightarrow> 32 word" where
  "ipv4 a b c d = of_nat (((a * 256 + b) * 256 + c) * 256 + d)"

definition ipv6 :: "nat list \<Rightarrow> 128 word" where
  \<comment> \<open>the leading groups of 16 bits; the missing ones are zero\<close>
  "ipv6 gs = of_nat (foldl (\<lambda>n g. n * 65536 + g) 0 gs * 65536 ^ (8 - length gs))"

type_synonym net4 = "32 word \<times> nat"
type_synonym net6 = "128 word \<times> nat"

definition in_net4 :: "32 word \<Rightarrow> net4 \<Rightarrow> bool" where
  "in_net4 a n = (drop_bit (32 - snd n) a = drop_bit (32 - snd n) (fst n))"

definition in_net6 :: "128 word \<Rightarrow> net6 \<Rightarrow> bool" where
  "in_net6 a n = (drop_bit (128 - snd n) a = drop_bit (128 - snd n) (fst n))"

section \<open>IPv4\<close>

definition private4 :: "net4 list" where
  "private4 = [(ipv4 0 0 0 0, 8), (ipv4 10 0 0 0, 8), (ipv4 127 0 0 0, 8), (ipv4 169 254 0 0, 16),
     (ipv4 172 16 0 0, 12), (ipv4 192 0 0 0, 24), (ipv4 192 0 0 170, 31), (ipv4 192 0 2 0, 24),
     (ipv4 192 168 0 0, 16), (ipv4 198 18 0 0, 15), (ipv4 198 51 100 0, 24), (ipv4 203 0 113 0, 24),
     (ipv4 240 0 0 0, 4), (ipv4 255 255 255 255, 32)]"

definition private4_exceptions :: "net4 list" where
  "private4_exceptions = [(ipv4 192 0 0 9, 32), (ipv4 192 0 0 10, 32)]"

definition is_private4 :: "32 word \<Rightarrow> bool" where
  "is_private4 a = (list_ex (in_net4 a) private4 \<and> list_all (\<lambda>n. \<not> in_net4 a n) private4_exceptions)"

definition is_global4 :: "32 word \<Rightarrow> bool" where
  "is_global4 a = (\<not> in_net4 a (ipv4 100 64 0 0, 10) \<and> \<not> is_private4 a)"

definition is_loopback4 :: "32 word \<Rightarrow> bool" where
  "is_loopback4 a = in_net4 a (ipv4 127 0 0 0, 8)"

definition is_link_local4 :: "32 word \<Rightarrow> bool" where
  "is_link_local4 a = in_net4 a (ipv4 169 254 0 0, 16)"

definition is_multicast4 :: "32 word \<Rightarrow> bool" where
  "is_multicast4 a = in_net4 a (ipv4 224 0 0 0, 4)"

definition is_reserved4 :: "32 word \<Rightarrow> bool" where
  "is_reserved4 a = in_net4 a (ipv4 240 0 0 0, 4)"

definition is_unspecified4 :: "32 word \<Rightarrow> bool" where
  "is_unspecified4 a = (a = ipv4 0 0 0 0)"

section \<open>IPv6\<close>

definition ipv4_mapped :: "128 word \<Rightarrow> 32 word option" where
  "ipv4_mapped a = (if drop_bit 32 a = 65535 then Some (ucast a) else None)"

definition private6 :: "net6 list" where
  "private6 = [(ipv6 [0, 0, 0, 0, 0, 0, 0, 1], 128), (ipv6 [], 128), (ipv6 [0, 0, 0, 0, 0, 65535], 96),
     (ipv6 [100, 65435, 1], 48), (ipv6 [256], 64), (ipv6 [8193], 23), (ipv6 [8193, 3512], 32),
     (ipv6 [8194], 16), (ipv6 [16383], 20), (ipv6 [64512], 7), (ipv6 [65152], 10)]"

definition private6_exceptions :: "net6 list" where
  "private6_exceptions = [(ipv6 [8193, 1, 0, 0, 0, 0, 0, 1], 128), (ipv6 [8193, 1, 0, 0, 0, 0, 0, 2], 128),
     (ipv6 [8193, 3], 32), (ipv6 [8193, 4, 274], 48), (ipv6 [8193, 32], 28), (ipv6 [8193, 48], 28)]"

definition reserved6 :: "net6 list" where
  "reserved6 = [(ipv6 [0], 8), (ipv6 [256], 8), (ipv6 [512], 7), (ipv6 [1024], 6), (ipv6 [2048], 5),
     (ipv6 [4096], 4), (ipv6 [16384], 3), (ipv6 [24576], 3), (ipv6 [32768], 3), (ipv6 [40960], 3),
     (ipv6 [49152], 3), (ipv6 [57344], 4), (ipv6 [61440], 5), (ipv6 [63488], 6), (ipv6 [65024], 9)]"

definition via_mapped :: "(32 word \<Rightarrow> bool) \<Rightarrow> (128 word \<Rightarrow> bool) \<Rightarrow> 128 word \<Rightarrow> bool" where
  "via_mapped p4 p6 a = (case ipv4_mapped a of Some b \<Rightarrow> p4 b | None \<Rightarrow> p6 a)"

definition native_private6 :: "128 word \<Rightarrow> bool" where
  "native_private6 a = (list_ex (in_net6 a) private6 \<and> list_all (\<lambda>n. \<not> in_net6 a n) private6_exceptions)"

fun is_private :: "ip \<Rightarrow> bool" where
  "is_private (V4 a) = is_private4 a"
| "is_private (V6 a) = via_mapped is_private4 native_private6 a"

fun is_global :: "ip \<Rightarrow> bool" where
  "is_global (V4 a) = is_global4 a"
| "is_global (V6 a) = via_mapped is_global4 (\<lambda>a. \<not> native_private6 a) a"

fun is_loopback :: "ip \<Rightarrow> bool" where
  "is_loopback (V4 a) = is_loopback4 a"
| "is_loopback (V6 a) = via_mapped is_loopback4 (\<lambda>a. a = 1) a"

fun is_link_local :: "ip \<Rightarrow> bool" where
  "is_link_local (V4 a) = is_link_local4 a"
| "is_link_local (V6 a) = via_mapped is_link_local4 (\<lambda>a. in_net6 a (ipv6 [65152], 10)) a"

fun is_multicast :: "ip \<Rightarrow> bool" where
  "is_multicast (V4 a) = is_multicast4 a"
| "is_multicast (V6 a) = via_mapped is_multicast4 (\<lambda>a. in_net6 a (ipv6 [65280], 8)) a"

fun is_reserved :: "ip \<Rightarrow> bool" where
  "is_reserved (V4 a) = is_reserved4 a"
| "is_reserved (V6 a) = via_mapped is_reserved4 (\<lambda>a. list_ex (in_net6 a) reserved6) a"

fun is_unspecified :: "ip \<Rightarrow> bool" where
  "is_unspecified (V4 a) = is_unspecified4 a"
| "is_unspecified (V6 a) = via_mapped is_unspecified4 (\<lambda>a. a = 0) a"

fun ip_key :: "ip \<Rightarrow> nat \<times> nat" where
  "ip_key (V4 a) = (4, unat a)"
| "ip_key (V6 a) = (6, unat a)"

section \<open>Special addresses are not global\<close>

lemma in_net4_disjoint:
  assumes "in_net4 a (m, k)" and "k \<le> j" and "j \<le> 32" and "\<not> in_net4 m (n, k)"
  shows "\<not> in_net4 a (n, j)"
proof
  assume "in_net4 a (n, j)"
  then have "drop_bit (j - k) (drop_bit (32 - j) a) = drop_bit (j - k) (drop_bit (32 - j) n)"
    by (simp add: in_net4_def)
  with assms(2,3) have "in_net4 a (n, k)" by (simp add: in_net4_def add.commute)
  with assms(1,4) show False by (simp add: in_net4_def)
qed

lemma in_net6_disjoint:
  assumes "in_net6 a (m, k)" and "k \<le> j" and "j \<le> 128" and "\<not> in_net6 m (n, k)"
  shows "\<not> in_net6 a (n, j)"
proof
  assume "in_net6 a (n, j)"
  then have "drop_bit (j - k) (drop_bit (128 - j) a) = drop_bit (j - k) (drop_bit (128 - j) n)"
    by (simp add: in_net6_def)
  with assms(2,3) have "in_net6 a (n, k)" by (simp add: in_net6_def add.commute)
  with assms(1,4) show False by (simp add: in_net6_def)
qed

lemma private4_member:
  assumes "in_net4 a (m, k)" and "(m, k) \<in> set private4" and "k \<le> 32"
    and "\<not> in_net4 m (ipv4 192 0 0 9, k)" and "\<not> in_net4 m (ipv4 192 0 0 10, k)"
  shows "is_private4 a"
  using assms in_net4_disjoint [OF assms(1), of 32]
  by (auto simp: is_private4_def list_ex_iff private4_exceptions_def)

lemma loopback4_private: "is_loopback4 a \<Longrightarrow> is_private4 a"
  unfolding is_loopback4_def
  by (erule private4_member) (simp_all add: private4_def in_net4_def ipv4_def)

lemma link_local4_private: "is_link_local4 a \<Longrightarrow> is_private4 a"
  unfolding is_link_local4_def
  by (erule private4_member) (simp_all add: private4_def in_net4_def ipv4_def)

lemma reserved4_private: "is_reserved4 a \<Longrightarrow> is_private4 a"
  unfolding is_reserved4_def
  by (erule private4_member) (simp_all add: private4_def in_net4_def ipv4_def)

lemma unspecified4_private: "is_unspecified4 a \<Longrightarrow> is_private4 a"
  by (rule private4_member [of a "ipv4 0 0 0 0" 8])
    (simp_all add: is_unspecified4_def private4_def in_net4_def ipv4_def)

lemma private6_member:
  assumes "in_net6 a (m, k)" and "(m, k) \<in> set private6"
    and "list_all (\<lambda>(n, j). k \<le> j \<and> j \<le> 128 \<and> \<not> in_net6 m (n, k)) private6_exceptions"
  shows "native_private6 a"
  using assms in_net6_disjoint [OF assms(1)]
  by (force simp: native_private6_def list_ex_iff list_all_iff)

lemma link_local6_private: "in_net6 a (ipv6 [65152], 10) \<Longrightarrow> native_private6 a"
  by (erule private6_member) (simp_all add: private6_def private6_exceptions_def in_net6_def ipv6_def)

lemma loopback6_private: "native_private6 1"
  by (simp add: native_private6_def private6_def private6_exceptions_def in_net6_def ipv6_def)

lemma unspecified6_private: "native_private6 0"
  by (simp add: native_private6_def private6_def private6_exceptions_def in_net6_def ipv6_def)

lemma special_not_global:
  "is_loopback a \<or> is_link_local a \<or> is_unspecified a \<Longrightarrow> is_private a \<and> \<not> is_global a"
  by (cases a)
    (auto simp: is_global4_def via_mapped_def loopback4_private link_local4_private
      unspecified4_private link_local6_private loopback6_private unspecified6_private split: option.splits)

end
