(* ===== verification/RuntimeErrors.thy ===== *)
theory RuntimeErrors
  imports Prelude
begin

text \<open>
  The exceptions of the MCP runtime (\<^verbatim>\<open>mcp_runtime/app/executor/errors.py\<close>). The last
  constructor stands for a plain \<^verbatim>\<open>ValueError\<close> that leaves a runtime component uncaught.
\<close>

datatype runtime_error =
    ArgumentValidationError pystr
  | DestinationPolicyError pystr
  | UpstreamTimeoutError
  | UpstreamConnectionError
  | UpstreamResponseTooLargeError
  | UpstreamRequestTooLargeError
  | UpstreamContentTypeError
  | UpstreamResponseContractError
  | UpstreamAuthenticationError
  | RuntimeConfigurationError pystr
  | EscapedValueError pystr

fun error_code :: "runtime_error \<Rightarrow> pystr option" where
  "error_code (ArgumentValidationError m) = Some ''invalid_arguments''"
| "error_code (DestinationPolicyError m) = Some ''destination_blocked''"
| "error_code UpstreamTimeoutError = Some ''upstream_timeout''"
| "error_code UpstreamConnectionError = Some ''upstream_unavailable''"
| "error_code UpstreamResponseTooLargeError = Some ''response_too_large''"
| "error_code UpstreamRequestTooLargeError = Some ''request_too_large''"
| "error_code UpstreamContentTypeError = Some ''unsupported_content_type''"
| "error_code UpstreamResponseContractError = Some ''upstream_response_contract_mismatch''"
| "error_code UpstreamAuthenticationError = Some ''upstream_authentication_failed''"
| "error_code (RuntimeConfigurationError m) = Some ''runtime_configuration_error''"
| "error_code (EscapedValueError m) = None"

fun safe_message :: "runtime_error \<Rightarrow> pystr" where
  "safe_message (ArgumentValidationError m) = m"
| "safe_message (DestinationPolicyError m) = m"
| "safe_message UpstreamTimeoutError = ''The upstream API timed out''"
| "safe_message UpstreamConnectionError = ''The upstream API is unavailable''"
| "safe_message UpstreamResponseTooLargeError = ''The upstream response exceeded its configured limit''"
| "safe_message UpstreamRequestTooLargeError = ''The upstream request exceeded its configured limit''"
| "safe_message UpstreamContentTypeError = ''The upstream response content type is unsupported''"
| "safe_message UpstreamResponseContractError = ''The upstream API response did not match its compiled contract''"
| "safe_message UpstreamAuthenticationError = ''Upstream authentication failed''"
| "safe_message (RuntimeConfigurationError m) = m"
| "safe_message (EscapedValueError m) = m"

definition DestinationBlocked :: runtime_error where
  "DestinationBlocked = DestinationPolicyError ''Upstream destination is blocked by runtime policy''"

definition RuntimeNotConfigured :: runtime_error where
  "RuntimeNotConfigured = RuntimeConfigurationError ''Runtime authentication is not configured correctly''"

end
