(* ===== verification/UrlPolicy.thy ===== *)
theory UrlPolicy
  imports Url IpAddress RuntimeErrors
begin

text \<open>
  The destination policy of the runtime (\<^verbatim>\<open>mcp_runtime/app/security/url_policy.py\<close>): the
  origins the manifest allows, how an operation path is resolved against one of them, and
  which resolved addresses a socket may use.

  The record \<open>netenv\<close> holds what the policy takes from outside: the IDNA encoder, the parser
  of address literals, the check of bracketed hosts and the DNS resolver.
\<close>

datatype resolver_result = Resolved "pystr list" | ResolverPolicyError pystr | ResolverOSError

record netenv =
  idna :: "pystr \<Rightarrow> value_error + pystr"
  bracketed_ok :: "pystr \<Rightarrow> bool"
  parse_ip :: "pystr \<Rightarrow> ip option"
  resolver :: "pystr \<Rightarrow> int \<Rightarrow> resolver_result"

definition max_resolved_addresses :: nat where
  "max_resolved_addresses = 32"

definition normalized_host :: "netenv \<Rightarrow> pystr \<Rightarrow> value_error + pystr" where
  "normalized_host env hostname = rbind (idna env (rstrip_char (CHR ''.'') hostname)) (\<lambda>h. Inr (py_lower h))"

definition effective_port :: "pystr \<Rightarrow> nat option \<Rightarrow> nat" where
  "effective_port sch port = (case port of Some p \<Rightarrow> p | None \<Rightarrow> if sch = ''https'' then 443 else 80)"

record allowed_origin =
  o_scheme :: pystr
  o_hostname :: pystr
  o_port :: nat
  base_path :: pystr

definition dot_segments :: "pystr \<Rightarrow> bool" where
  \<comment> \<open>\<^verbatim>\<open>any(segment in {".", ".."} for segment in path.split("/"))\<close>\<close>
  "dot_segments p = list_ex (\<lambda>w. w = ''.'' \<or> w = ''..'') (split_on (CHR ''/'') p)"

definition from_url :: "netenv \<Rightarrow> pystr \<Rightarrow> value_error + allowed_origin" where
  "from_url env value =
     rbind (urlsplit (bracketed_ok env) value) (\<lambda>parsed.
     case url_hostname parsed of
       None \<Rightarrow> Inl (ValueError ''upstream URL must be absolute HTTP(S)'')
     | Some host \<Rightarrow>
       if scheme parsed \<notin> {''http'', ''https''} then Inl (ValueError ''upstream URL must be absolute HTTP(S)'')
       else if truthy (url_username parsed) \<or> truthy (url_password parsed) \<or> query parsed \<noteq> [] \<or> fragment parsed \<noteq> []
       then Inl (ValueError ''upstream URL contains forbidden components'')
       else case url_port parsed of
         Inl _ \<Rightarrow> Inl (ValueError ''upstream URL has an invalid port'')
       | Inr p \<Rightarrow>
         let port = effective_port (scheme parsed) p;
             base = rstrip_char (CHR ''/'') (url_path parsed);
             decoded = unquote base
         in if CHR 0x5C \<in> set decoded \<or> dot_segments decoded
               \<or> contains (py_lower base) ''%2f'' \<or> contains (py_lower base) ''%5c''
            then Inl (ValueError ''upstream base URL contains unsafe path segments'')
            else rbind (normalized_host env host) (\<lambda>h.
              Inr \<lparr>o_scheme = scheme parsed, o_hostname = h, o_port = port, base_path = base\<rparr>))"

definition authority :: "allowed_origin \<Rightarrow> pystr" where
  "authority o1 =
     (if o_scheme o1 = ''https'' \<and> o_port o1 = 443 \<or> o_scheme o1 = ''http'' \<and> o_port o1 = 80
      then o_hostname o1 else o_hostname o1 @ '':'' @ digits_nat (o_port o1))"

definition unsafe_operation_path :: "pystr \<Rightarrow> bool" where
  "unsafe_operation_path p \<longleftrightarrow>
     \<not> startswith p ''/'' \<or> startswith p ''//'' \<or> CHR 0x5C \<in> set p \<or> CHR ''?'' \<in> set p
     \<or> CHR ''#'' \<in> set p \<or> has_any ctl_chars p \<or> dot_segments p"

definition resolve_origin :: "allowed_origin \<Rightarrow> pystr \<Rightarrow> runtime_error + pystr" where
  "resolve_origin o1 operation_path =
     (if unsafe_operation_path operation_path
      then Inl (DestinationPolicyError ''Resolved upstream path is unsafe'')
      else Inr (urlunsplit (o_scheme o1) (authority o1)
        (base_path o1 @ ''/'' @ lstrip_char (CHR ''/'') operation_path)))"

record url_policy =
  origins :: "(pystr \<times> allowed_origin) list"
  allowed_private_hosts :: "pystr list"
  allowed_development_hosts :: "pystr list"
  development_mode :: bool

definition url_policy_init ::
  "netenv \<Rightarrow> (pystr \<times> pystr) list \<Rightarrow> pystr list \<Rightarrow> pystr list \<Rightarrow> bool \<Rightarrow> value_error + url_policy" where
  "url_policy_init env servers private development mode =
     rbind (rfold (\<lambda>d (i, u). rbind (from_url env u) (\<lambda>o1. Inr (AList.update i o1 d))) [] servers) (\<lambda>os.
     if length os \<noteq> length servers then Inl (ValueError ''server identifiers must be unique'')
     else rbind (rmap (normalized_host env) private) (\<lambda>ps.
          rbind (rmap (normalized_host env) development) (\<lambda>ds.
          Inr \<lparr>origins = os, allowed_private_hosts = ps, allowed_development_hosts = ds, development_mode = mode\<rparr>)))"

definition policy_resolve :: "url_policy \<Rightarrow> pystr \<Rightarrow> pystr \<Rightarrow> runtime_error + pystr" where
  "policy_resolve p server_ref operation_path =
     (case map_of (origins p) server_ref of
        None \<Rightarrow> Inl (DestinationPolicyError ''Manifest references an unknown upstream server'')
      | Some o1 \<Rightarrow> resolve_origin o1 operation_path)"

text \<open>The part \<^verbatim>\<open>assert_url_is_allowlisted\<close> and \<^verbatim>\<open>validate_configured_destination\<close> share:
  the origin of a URL with an empty base path. A \<^verbatim>\<open>ValueError\<close> of \<^verbatim>\<open>urlsplit\<close> is not caught.\<close>

definition request_origin :: "netenv \<Rightarrow> bool \<Rightarrow> pystr \<Rightarrow> runtime_error + allowed_origin" where
  "request_origin env need_https url =
     (case urlsplit (bracketed_ok env) url of
        Inl (ValueError m) \<Rightarrow> Inl (EscapedValueError m)
      | Inr parsed \<Rightarrow>
        (case url_hostname parsed of
           None \<Rightarrow> Inl DestinationBlocked
         | Some host \<Rightarrow>
           if scheme parsed \<notin> {''http'', ''https''} then Inl DestinationBlocked
           else if truthy (url_username parsed) \<or> truthy (url_password parsed) \<or> fragment parsed \<noteq> []
           then Inl DestinationBlocked
           else if need_https \<and> scheme parsed \<noteq> ''https''
           then Inl (DestinationPolicyError ''Configured authentication endpoints must use HTTPS'')
           else (case (normalized_host env host, url_port parsed) of
             (Inr h, Inr p) \<Rightarrow> Inr \<lparr>o_scheme = scheme parsed, o_hostname = h,
                 o_port = effective_port (scheme parsed) p, base_path = []\<rparr>
           | _ \<Rightarrow> Inl DestinationBlocked)))"

definition same_origin :: "allowed_origin \<Rightarrow> allowed_origin \<Rightarrow> bool" where
  "same_origin a b \<longleftrightarrow> o_scheme a = o_scheme b \<and> o_hostname a = o_hostname b \<and> o_port a = o_port b"

definition assert_url_is_allowlisted :: "netenv \<Rightarrow> url_policy \<Rightarrow> pystr \<Rightarrow> runtime_error + allowed_origin" where
  "assert_url_is_allowlisted env p url =
     rbind (request_origin env False url) (\<lambda>o1.
     if list_ex (\<lambda>(_, a). same_origin o1 a) (origins p) then Inr o1 else Inl DestinationBlocked)"

definition address_is_allowed :: "url_policy \<Rightarrow> pystr \<Rightarrow> ip \<Rightarrow> bool" where
  "address_is_allowed p hostname a =
     (let development_allowed = development_mode p \<and> hostname \<in> set (allowed_development_hosts p)
            \<and> \<not> is_multicast a \<and> \<not> is_unspecified a
      in if is_global a then True
         else if is_private a \<and> \<not> (is_loopback a \<or> is_link_local a \<or> is_multicast a \<or> is_reserved a \<or> is_unspecified a)
         then hostname \<in> set (allowed_private_hosts p) \<or> development_allowed
         else development_allowed)"

definition policy_lookup :: "netenv \<Rightarrow> pystr \<Rightarrow> int \<Rightarrow> runtime_error + ip list" where
  "policy_lookup env hostname port =
     (case parse_ip env hostname of
        Some literal \<Rightarrow> Inr [literal]
      | None \<Rightarrow>
        (case resolver env hostname port of
           ResolverPolicyError m \<Rightarrow> Inl (DestinationPolicyError m)
         | ResolverOSError \<Rightarrow> Inl (DestinationPolicyError ''Upstream hostname resolution failed'')
         | Resolved raw \<Rightarrow>
             rbind (rmap (\<lambda>r. case parse_ip env (before (CHR ''%'') r) of
                 None \<Rightarrow> Inl (DestinationPolicyError ''Upstream DNS returned an invalid address'')
               | Some a \<Rightarrow> Inr a) raw)
             (\<lambda>as. Inr (sort_key ip_key (remdups as)))))"

definition resolve_for_connection :: "netenv \<Rightarrow> url_policy \<Rightarrow> pystr \<Rightarrow> int \<Rightarrow> runtime_error + ip list" where
  "resolve_for_connection env p hostname port =
     (case normalized_host env hostname of
        Inl _ \<Rightarrow> Inl (DestinationPolicyError ''Upstream hostname is invalid'')
      | Inr host \<Rightarrow>
        if \<not> (1 \<le> port \<and> port \<le> 65535) then Inl (DestinationPolicyError ''Upstream port is invalid'')
        else rbind (policy_lookup env host port) (\<lambda>as.
          if as = [] then Inl (DestinationPolicyError ''Upstream hostname did not resolve'')
          else if length as > max_resolved_addresses
          then Inl (DestinationPolicyError ''Upstream hostname resolved to too many addresses'')
          else rbind (riter (\<lambda>a. rguard (address_is_allowed p host a) DestinationBlocked) as) (\<lambda>_. Inr as)))"

definition validate_before_connect :: "netenv \<Rightarrow> url_policy \<Rightarrow> pystr \<Rightarrow> runtime_error + unit" where
  "validate_before_connect env p url =
     rbind (assert_url_is_allowlisted env p url) (\<lambda>o1.
     rbind (resolve_for_connection env p (o_hostname o1) (int (o_port o1))) (\<lambda>_. Inr ()))"

definition validate_configured_destination :: "netenv \<Rightarrow> url_policy \<Rightarrow> pystr \<Rightarrow> runtime_error + unit" where
  "validate_configured_destination env p url =
     rbind (request_origin env (\<not> development_mode p) url) (\<lambda>o1.
     rbind (resolve_for_connection env p (o_hostname o1) (int (o_port o1))) (\<lambda>_. Inr ()))"

definition encode_path_value :: "pystr \<Rightarrow> runtime_error + pystr" where
  "encode_path_value text =
     (if text = ''.'' \<or> text = ''..'' \<or> has_any ctl_chars text
      then Inl (DestinationPolicyError ''Path parameter contains an unsafe value'')
      else Inr (quote [] text))"

section \<open>Which addresses a socket may use\<close>

lemma resolve_for_connectionD:
  assumes "resolve_for_connection env p hostname port = Inr as"
  obtains host where "normalized_host env hostname = Inr host" and "1 \<le> port" and "port \<le> 65535"
    and "as \<noteq> []" and "length as \<le> max_resolved_addresses" and "\<forall>a\<in>set as. address_is_allowed p host a"
  using assms
  by (auto simp: resolve_for_connection_def result_simps split: sum.splits if_splits)

lemma address_allowed_production:
  assumes "address_is_allowed p host a" and "\<not> development_mode p"
  shows "is_global a \<or> (is_private a \<and> host \<in> set (allowed_private_hosts p)
    \<and> \<not> is_loopback a \<and> \<not> is_link_local a \<and> \<not> is_multicast a \<and> \<not> is_reserved a \<and> \<not> is_unspecified a)"
  using assms by (auto simp: address_is_allowed_def Let_def split: if_splits)

lemma production_never_special:
  assumes "address_is_allowed p host a" and "\<not> development_mode p"
  shows "\<not> is_loopback a \<and> \<not> is_link_local a \<and> \<not> is_unspecified a"
  using address_allowed_production [OF assms] special_not_global [of a] by blast

section \<open>Resolved URLs stay on the origin\<close>

lemma parse_digits_snoc: "parse_digits (s @ [c]) = 10 * parse_digits s + digit_value c"
  by (simp add: parse_digits_def)

lemma digit_char_facts: "n < 10 \<Longrightarrow> digit_value (''0123456789'' ! n) = n \<and> is_digit_char (''0123456789'' ! n)"
proof -
  have "\<forall>n\<in>set [0..<10]. digit_value (''0123456789'' ! n) = n \<and> is_digit_char (''0123456789'' ! n)"
    by (simp add: upt_rec digit_value_def is_digit_char_def)
  then show "n < 10 \<Longrightarrow> digit_value (''0123456789'' ! n) = n \<and> is_digit_char (''0123456789'' ! n)" by simp
qed

lemma digits_nat_facts: "digits_nat n \<noteq> [] \<and> parse_digits (digits_nat n) = n \<and> list_all is_digit_char (digits_nat n)"
proof (induction n rule: digits_nat.induct)
  case (1 n)
  show ?case
  proof (cases "n < 10")
    case True
    then show ?thesis using digit_char_facts [of n] by (simp add: digits_nat.simps [of n] parse_digits_def)
  next
    case False
    then show ?thesis using 1 digit_char_facts [of "n mod 10"]
      by (simp add: digits_nat.simps [of n] parse_digits_snoc)
  qed
qed

text \<open>An origin as \<open>from_url\<close> makes it for a host that is not a bracketed literal.\<close>

definition wf_origin :: "netenv \<Rightarrow> allowed_origin \<Rightarrow> bool" where
  "wf_origin env o1 \<longleftrightarrow>
     o_scheme o1 \<in> {''http'', ''https''} \<and> o_port o1 \<le> 65535 \<and> o_hostname o1 \<noteq> []
     \<and> plain_netloc (o_hostname o1) \<and> CHR '':'' \<notin> set (o_hostname o1)
     \<and> (\<forall>c\<in>set (o_hostname o1). lower_char c = c)
     \<and> normalized_host env (o_hostname o1) = Inr (o_hostname o1)
     \<and> (base_path o1 = [] \<or> plain_path (base_path o1))"

lemma plain_digits: "plain_netloc (digits_nat n)"
proof -
  have "c \<in> set (digits_nat n) \<Longrightarrow> is_digit_char c" for c
    using digits_nat_facts [of n] by (auto simp: list_all_iff)
  then show ?thesis by (auto simp: plain_netloc_def is_digit_char_def is_url_ws_def)
qed

lemma lower_id: "\<forall>c\<in>set s. lower_char c = c \<Longrightarrow> py_lower s = s"
  by (simp add: py_lower_def map_idI)

lemma authority_split:
  assumes "wf_origin env o1"
  shows "plain_netloc (authority o1)"
    and "hostinfo (authority o1) = (o_hostname o1,
      if o_scheme o1 = ''https'' \<and> o_port o1 = 443 \<or> o_scheme o1 = ''http'' \<and> o_port o1 = 80 then []
      else digits_nat (o_port o1))"
    and "fst (rpart_at (authority o1)) = None"
proof -
  have d: "plain_netloc (digits_nat (o_port o1))" by (rule plain_digits)
  have h: "plain_netloc (o_hostname o1)" "CHR '':'' \<notin> set (o_hostname o1)"
    using assms by (auto simp: wf_origin_def)
  show p: "plain_netloc (authority o1)"
    using d h by (auto simp: authority_def plain_netloc_def is_url_ws_def)
  then have at: "CHR ''@'' \<notin> set (authority o1)" "CHR ''['' \<notin> set (authority o1)"
    by (auto simp: plain_netloc_def)
  then show "fst (rpart_at (authority o1)) = None" by (simp add: rpart_at_def)
  from at have "hostinfo (authority o1) = partition_on (CHR '':'') (authority o1)"
    by (simp add: hostinfo_def rpart_at_def)
  also have "\<dots> = (o_hostname o1,
      if o_scheme o1 = ''https'' \<and> o_port o1 = 443 \<or> o_scheme o1 = ''http'' \<and> o_port o1 = 80 then []
      else digits_nat (o_port o1))"
    using h(2) partition_on_absent [OF h(2)]
    by (auto simp: authority_def partition_on_def takeWhile_stop dropWhile_stop)
  finally show "hostinfo (authority o1) = (o_hostname o1,
      if o_scheme o1 = ''https'' \<and> o_port o1 = 443 \<or> o_scheme o1 = ''http'' \<and> o_port o1 = 80 then []
      else digits_nat (o_port o1))" .
qed

lemma resolved_path_plain:
  assumes "wf_origin env o1" and "\<not> unsafe_operation_path q" and "\<forall>c\<in>set q. \<not> is_url_ws c"
  shows "plain_path (base_path o1 @ ''/'' @ lstrip_char (CHR ''/'') q)"
proof -
  have q: "\<forall>c\<in>set (lstrip_char (CHR ''/'') q). c \<in> set q"
    by (auto simp: lstrip_char_def dest: set_dropWhileD)
  have "CHR ''?'' \<notin> set q" "CHR ''#'' \<notin> set q" using assms(2) by (simp_all add: unsafe_operation_path_def)
  then have "\<forall>c\<in>set q. c \<notin> set ''?#''" by auto
  then have q': "\<forall>c\<in>set (lstrip_char (CHR ''/'') q). c \<notin> set ''?#'' \<and> \<not> is_url_ws c"
    using q assms(3) by blast
  have b: "\<forall>c\<in>set (base_path o1). c \<notin> set ''?#'' \<and> \<not> is_url_ws c"
    using assms(1) unfolding wf_origin_def plain_path_def by auto
  have "\<forall>c\<in>set (base_path o1 @ ''/'' @ lstrip_char (CHR ''/'') q). c \<notin> set ''?#'' \<and> \<not> is_url_ws c"
    using q' b by (simp add: ball_Un is_url_ws_def)
  moreover have "startswith (base_path o1 @ ''/'' @ lstrip_char (CHR ''/'') q) ''/''"
    using assms(1) by (cases "base_path o1") (auto simp: wf_origin_def plain_path_def)
  ultimately show ?thesis by (simp add: plain_path_def)
qed

lemma resolve_origin_parses:
  assumes wf: "wf_origin env o1" and res: "resolve_origin o1 q = Inr u" and ws: "\<forall>c\<in>set q. \<not> is_url_ws c"
  shows "request_origin env False u = Inr (o1\<lparr>base_path := []\<rparr>)"
proof -
  let ?path = "base_path o1 @ ''/'' @ lstrip_char (CHR ''/'') q"
  define r where "r = \<lparr>scheme = o_scheme o1, netloc = authority o1, url_path = ?path, query = [], fragment = []\<rparr>"
  from res have safe: "\<not> unsafe_operation_path q" and u: "u = urlunsplit (o_scheme o1) (authority o1) ?path"
    by (auto simp: resolve_origin_def split: if_splits)
  have sch: "o_scheme o1 = ''http'' \<or> o_scheme o1 = ''https''" using wf by (simp add: wf_origin_def)
  have split: "urlsplit (bracketed_ok env) u = Inr r"
    unfolding u r_def by (rule urlsplit_urlunsplit [OF sch authority_split(1) [OF wf] resolved_path_plain [OF wf safe ws]])
  have pct: "takeWhile (\<lambda>c. c \<noteq> CHR ''%'') h @ dropWhile (\<lambda>c. c \<noteq> CHR ''%'') h = h" for h by simp
  have low: "py_lower (takeWhile (\<lambda>c. c \<noteq> CHR ''%'') (o_hostname o1)) = takeWhile (\<lambda>c. c \<noteq> CHR ''%'') (o_hostname o1)"
    using wf by (intro lower_id) (auto simp: wf_origin_def dest: set_takeWhileD)
  have host: "url_hostname r = Some (o_hostname o1)"
    using wf authority_split(2) [OF wf] low by (simp add: url_hostname_def wf_origin_def r_def)
  have user: "url_username r = None" "url_password r = None"
    using authority_split(3) [OF wf] by (simp_all add: url_username_def url_password_def r_def)
  have port: "\<exists>p. url_port r = Inr p \<and> effective_port (o_scheme o1) p = o_port o1"
    using wf authority_split(2) [OF wf] digits_nat_facts [of "o_port o1"]
    by (auto simp: url_port_def effective_port_def wf_origin_def r_def)
  have norm: "normalized_host env (o_hostname o1) = Inr (o_hostname o1)" using wf by (simp add: wf_origin_def)
  have fields: "scheme r = o_scheme o1" "fragment r = []" by (simp_all add: r_def)
  from port obtain p where "url_port r = Inr p" "effective_port (o_scheme o1) p = o_port o1" by blast
  moreover have "scheme r \<in> {''http'', ''https''}" using sch fields by auto
  ultimately show ?thesis
    by (simp add: request_origin_def split host user norm truthy_def fields del: insert_iff)
qed

section \<open>Origins made from server URLs\<close>

lemma urlsplit_path:
  assumes "urlsplit ok u = Inr r" and "netloc r \<noteq> []"
  shows "url_path r = [] \<or> plain_path (url_path r)"
proof -
  define r1 where "r1 = snd (split_scheme (strip_url u))"
  define r2 where "r2 = snd (split_netloc r1)"
  define path where "path = fst (partition_on (CHR ''?'') (fst (partition_on (CHR ''#'') r2)))"
  have r: "url_path r = path" "netloc r = fst (split_netloc r1)"
    using assms(1) by (auto simp: urlsplit_def Let_def path_def r2_def r1_def split: prod.splits if_splits)
  have tl: "set (tl (dropWhile P s)) \<subseteq> set s" for P and s :: pystr
    by (metis list.sel(2) list.set_sel(2) set_dropWhileD subsetI)
  have "set (snd (split_scheme s)) \<subseteq> set s" for s
    using tl by (simp add: split_scheme_def Let_def)
  then have ws: "\<forall>c\<in>set r1. \<not> is_url_ws c"
    unfolding r1_def strip_url_def by fastforce
  have r2': "r2 = dropWhile (\<lambda>c. c \<notin> set ''/?#'') (drop 2 r1)"
    using assms(2) r(2) by (auto simp: r2_def split_netloc_def simp del: set_simps split: if_splits)
  then have r2: "r2 = [] \<or> hd r2 \<in> set ''/?#''"
    using hd_dropWhile [of "\<lambda>c. c \<notin> set ''/?#''" "drop 2 r1"] by (metis (no_types, lifting))
  have sub: "set r2 \<subseteq> set r1" unfolding r2' by (meson in_set_dropD set_dropWhileD subsetI)
  have "\<forall>c\<in>set path. c \<in> set r2 \<and> c \<noteq> CHR ''?'' \<and> c \<noteq> CHR ''#''"
    by (auto simp: path_def partition_on_def dest!: set_takeWhileD)
  moreover have "path = [] \<or> (\<exists>t. path = CHR ''/'' # t)"
    using r2 by (cases r2) (auto simp: path_def partition_on_def)
  ultimately show ?thesis using ws sub by (auto simp: r(1) plain_path_def startswith_iff)
qed

lemma rstrip_prefix: "\<exists>t. s = rstrip_char c s @ t"
  unfolding rstrip_char_def
  by (metis rev_append rev_rev_ident takeWhile_dropWhile_id)

lemma plain_path_rstrip:
  assumes "p = [] \<or> plain_path p"
  shows "rstrip_char (CHR ''/'') p = [] \<or> plain_path (rstrip_char (CHR ''/'') p)"
proof (cases "rstrip_char (CHR ''/'') p")
  case (Cons c w)
  obtain t where t: "p = rstrip_char (CHR ''/'') p @ t" using rstrip_prefix by blast
  then have p: "p = c # w @ t" using Cons by simp
  with assms have "plain_path (c # w @ t)" by simp
  then have "plain_path (c # w)" unfolding plain_path_def startswith_iff by auto
  then show ?thesis using Cons by simp
qed simp

text \<open>A host name the encoder accepts as it is, and that fits into an authority without brackets.\<close>

definition plain_host :: "netenv \<Rightarrow> pystr \<Rightarrow> bool" where
  "plain_host env h \<longleftrightarrow> h \<noteq> [] \<and> plain_netloc h \<and> CHR '':'' \<notin> set h \<and> normalized_host env h = Inr h"

lemma lower_char_idem: "lower_char (lower_char c) = lower_char c"
  by (auto simp: lower_char_def less_eq_char_def)

lemma from_url_wf:
  assumes "from_url env u = Inr o1" and "plain_host env (o_hostname o1)"
  shows "wf_origin env o1"
proof -
  from assms(1) obtain r p host where r: "urlsplit (bracketed_ok env) u = Inr r" and h: "url_hostname r = Some host"
    and p: "url_port r = Inr p" and n: "normalized_host env host = Inr (o_hostname o1)"
    and o1: "o1 = \<lparr>o_scheme = scheme r, o_hostname = o_hostname o1, o_port = effective_port (scheme r) p,
      base_path = rstrip_char (CHR ''/'') (url_path r)\<rparr>" and sch: "scheme r \<in> {''http'', ''https''}"
  proof -
    from assms(1) obtain r where r: "urlsplit (bracketed_ok env) u = Inr r" by (auto simp: from_url_def result_simps)
    with assms(1) obtain host where h: "url_hostname r = Some host" and s: "scheme r \<in> {''http'', ''https''}"
      by (auto simp: from_url_def split: option.splits if_splits)
    from assms(1) r h s obtain p where p: "url_port r = Inr p"
      by (auto simp: from_url_def split: if_splits sum.splits)
    show ?thesis
      by (rule that [OF r h p _ _ s]) (use assms(1) r h s p in \<open>auto simp: from_url_def Let_def result_simps split: if_splits\<close>)
  qed
  have "netloc r \<noteq> []" using h by (auto simp: url_hostname_def hostinfo_def rpart_at_def partition_on_def)
  then have path: "base_path o1 = [] \<or> plain_path (base_path o1)"
    using plain_path_rstrip [OF urlsplit_path [OF r]] by (subst (1 2) o1) simp
  have port: "o_port o1 \<le> 65535"
    using p by (subst o1) (auto simp: effective_port_def url_port_def Let_def split: option.splits if_splits)
  have "\<forall>c\<in>set (o_hostname o1). lower_char c = c"
    using n by (auto simp: normalized_host_def result_simps py_lower_def lower_char_idem dest!: sym [of _ "o_hostname o1"])
  then show ?thesis
    using path port sch assms(2) arg_cong [OF o1, of o_scheme] by (simp add: wf_origin_def plain_host_def)
qed

lemma policy_origins:
  assumes "url_policy_init env srv private dev mode = Inr p"
  shows "\<forall>(i, o1)\<in>set (origins p). \<exists>u. (i, u) \<in> set srv \<and> from_url env u = Inr o1" and "distinct (map fst srv)"
proof -
  let ?f = "\<lambda>d (i, u). rbind (from_url env u) (\<lambda>o1. Inr (AList.update i o1 d))"
  have gen: "rfold ?f d xs = Inr os \<Longrightarrow> distinct (map fst d) \<Longrightarrow>
      distinct (map fst os) \<and> set (map fst os) = set (map fst d) \<union> set (map fst xs) \<and>
      (\<forall>(i, o1)\<in>set os. (i, o1) \<in> set d \<or> (\<exists>u. (i, u) \<in> set xs \<and> from_url env u = Inr o1))" for d xs os
  proof (induction xs arbitrary: d)
    case (Cons x xs)
    obtain i u where x: "x = (i, u)" by fastforce
    with Cons.prems obtain o1 where o1: "from_url env u = Inr o1" and r: "rfold ?f (AList.update i o1 d) xs = Inr os"
      by (auto simp: result_simps)
    have d': "distinct (map fst (AList.update i o1 d))" using Cons.prems by (simp add: distinct_update)
    have "(j, o2) \<in> set (AList.update i o1 d) \<Longrightarrow> (j, o2) \<in> set d \<or> (j = i \<and> o2 = o1)" for j o2
      by (induction d) (auto split: if_splits)
    with Cons.IH [OF r d'] x o1 show ?case by (auto simp: dom_update) blast+
  qed auto
  from assms obtain os where os: "rfold ?f [] srv = Inr os" "length os = length srv" "origins p = os"
    by (auto simp: url_policy_init_def result_simps split: if_splits)
  from gen [OF os(1)] os(3) show "\<forall>(i, o1)\<in>set (origins p). \<exists>u. (i, u) \<in> set srv \<and> from_url env u = Inr o1" by auto
  have "card (set (map fst srv)) = length (map fst srv)"
    using gen [OF os(1)] os(2) distinct_card [of "map fst os"] by simp
  then show "distinct (map fst srv)" by (rule card_distinct)
qed

section \<open>An example\<close>

definition sample_env :: netenv where
  "sample_env = \<lparr>idna = idna_ascii, bracketed_ok = (\<lambda>_. False),
     parse_ip = (\<lambda>s. if s = ''8.8.8.8'' then Some (V4 0x08080808) else if s = ''127.0.0.1'' then Some (V4 0x7F000001) else None),
     resolver = (\<lambda>_ _. Resolved [''8.8.8.8''])\<rparr>"

definition sample_policy :: url_policy where
  "sample_policy = \<lparr>origins = [(''s1'', \<lparr>o_scheme = ''https'', o_hostname = ''api.io'', o_port = 443, base_path = ''/v1''\<rparr>)],
     allowed_private_hosts = [], allowed_development_hosts = [], development_mode = False\<rparr>"

lemma sample_policy_init: "url_policy_init sample_env [(''s1'', ''https://api.io/v1'')] [] [] False = Inr sample_policy"
  by code_simp

lemma sample_plain_host: "plain_host sample_env ''api.io''"
  by code_simp

end
