(* ===== verification/RuntimeSecrets.thy ===== *)
theory RuntimeSecrets
  imports Manifest UrlPolicy
begin

text \<open>
  The secret bundle mounted into a runtime
  (\<^verbatim>\<open>packages/contracts/src/mcp_contracts/runtime_secrets.py\<close>): credentials, the verifier
  material of inbound authentication and the network allowlists, with their validators. A
  time is an integer; None for a missing time zone is the flag \<open>has_timezone\<close>.
\<close>

section \<open>Upstream credentials\<close>

record upstream_credential =
  uc_type :: auth_type
  uc_token :: "pystr option"
  uc_api_key :: "pystr option"
  uc_username :: "pystr option"
  uc_password :: "pystr option"
  uc_client_id :: "pystr option"
  uc_client_secret :: "pystr option"
  uc_headers :: "(pystr \<times> pystr) list option"

datatype secret_field = FToken | FApiKey | FUsername | FPassword | FClientId | FClientSecret | FHeaders

definition present_fields :: "upstream_credential \<Rightarrow> secret_field set" where
  "present_fields c = set
     ((if uc_token c \<noteq> None then [FToken] else []) @ (if uc_api_key c \<noteq> None then [FApiKey] else [])
      @ (if uc_username c \<noteq> None then [FUsername] else []) @ (if uc_password c \<noteq> None then [FPassword] else [])
      @ (if uc_client_id c \<noteq> None then [FClientId] else []) @ (if uc_client_secret c \<noteq> None then [FClientSecret] else [])
      @ (if uc_headers c \<noteq> None then [FHeaders] else []))"

fun required_fields :: "auth_type \<Rightarrow> secret_field set" where
  "required_fields Bearer = {FToken}"
| "required_fields ApiKey = {FApiKey}"
| "required_fields Basic = {FUsername, FPassword}"
| "required_fields OAuth2ClientCredentials = {FClientId, FClientSecret}"
| "required_fields StaticHeader = {FHeaders}"
| "required_fields NoAuth = {}"

definition empty_secret :: "upstream_credential \<Rightarrow> bool" where
  "empty_secret c = list_ex (\<lambda>f. f c = Some [])
     [uc_token, uc_api_key, uc_username, uc_password, uc_client_id, uc_client_secret]"

fun secret_header_step :: "pystr list \<Rightarrow> pystr \<times> pystr \<Rightarrow> value_error + pystr list" where
  "secret_header_step lowered (name, value) =
     (if \<not> header_name_ok name \<or> py_lower name \<in> set lowered
      then Inl (ValueError ''static secret headers contain an invalid or duplicate name'')
      else if value = [] \<or> has_any ctl_chars value
      then Inl (ValueError ''static secret header value is empty or invalid'')
      else Inr (py_lower name # lowered))"

definition check_secret_headers :: "(pystr \<times> pystr) list \<Rightarrow> value_error + unit" where
  "check_secret_headers headers = rbind (rfold secret_header_step [] headers) (\<lambda>_. Inr ())"

definition validate_exact_secret_shape :: "upstream_credential \<Rightarrow> value_error + upstream_credential" where
  "validate_exact_secret_shape c =
     (if uc_type c = NoAuth then Inl (ValueError ''credential type'')
      else if present_fields c \<noteq> required_fields (uc_type c) then Inl (ValueError ''credential secret shape is invalid'')
      else if empty_secret c then Inl (ValueError ''credential contains an empty secret'')
      else if uc_type c = Basic \<and> (case uc_username c of None \<Rightarrow> False | Some u \<Rightarrow> CHR '':'' \<in> set u)
      then Inl (ValueError ''Basic-auth usernames cannot contain a colon'')
      else rbind (case uc_headers c of None \<Rightarrow> Inr () | Some h \<Rightarrow> check_secret_headers h) (\<lambda>_. Inr c))"

section \<open>Inbound authentication\<close>

record static_token_digest =
  td_id :: pystr
  td_sha256 :: pystr
  td_expires_at :: "int option"
  td_has_timezone :: bool

definition lower_hex_digits :: pystr where
  "lower_hex_digits = ''0123456789abcdef''"

definition removeprefix :: "pystr \<Rightarrow> pystr \<Rightarrow> pystr" where
  "removeprefix p s = (if startswith s p then drop (length p) s else s)"

definition valid_sha256 :: "pystr \<Rightarrow> value_error + pystr" where
  "valid_sha256 value =
     (let normalized = py_lower (removeprefix ''sha256:'' value) in
      if length normalized \<noteq> 64 \<or> \<not> list_all (\<lambda>c. c \<in> set lower_hex_digits) normalized
      then Inl (ValueError ''token verifier must be a SHA-256 digest'') else Inr normalized)"

definition make_static_token :: "static_token_digest \<Rightarrow> value_error + static_token_digest" where
  "make_static_token t =
     (if td_id t = [] \<or> length (td_id t) > 128 then Inl (ValueError ''id'')
      else if has_any ctl_chars (td_id t)
      then Inl (ValueError ''token verifier identifier contains forbidden characters'')
      else rbind (valid_sha256 (td_sha256 t)) (\<lambda>d.
        if td_expires_at t \<noteq> None \<and> \<not> td_has_timezone t
        then Inl (ValueError ''token verifier expiration must include a timezone'')
        else Inr (t\<lparr>td_sha256 := d\<rparr>)))"

datatype inbound_mode = StaticBearer | ExternalOauthOidc | DisabledDev

record inbound_auth_secrets =
  ia_mode :: inbound_mode
  ia_static_tokens :: "static_token_digest list"
  ia_issuer_url :: "pystr option"
  ia_jwks_url :: "pystr option"
  ia_resource_url :: "pystr option"
  ia_audiences :: "pystr list"
  ia_required_scopes :: "pystr list"
  ia_allowed_algorithms :: "pystr list"

definition normalize_string_sets :: "pystr list \<Rightarrow> value_error + pystr list" where
  "normalize_string_sets values =
     rbind (rfold (\<lambda>acc value.
       let item = strip value in
       if item = [] \<or> length item > 512 \<or> has_any ctl_chars item
       then Inl (ValueError ''inbound authentication values are invalid'')
       else Inr (if item \<in> set acc then acc else acc @ [item])) [] values) (\<lambda>normalized.
     if length normalized > 100 then Inl (ValueError ''inbound authentication contains too many values'')
     else Inr normalized)"

definition permitted_algorithms :: "pystr list" where
  "permitted_algorithms = [''RS256'', ''RS384'', ''RS512'', ''PS256'', ''PS384'', ''PS512'',
     ''ES256'', ''ES384'', ''ES512'', ''EdDSA'']"

definition has_oidc_configuration :: "inbound_auth_secrets \<Rightarrow> bool" where
  "has_oidc_configuration s \<longleftrightarrow> ia_issuer_url s \<noteq> None \<or> ia_jwks_url s \<noteq> None \<or> ia_resource_url s \<noteq> None
     \<or> ia_audiences s \<noteq> [] \<or> ia_required_scopes s \<noteq> [] \<or> ia_allowed_algorithms s \<noteq> []"

definition mode_configuration_is_complete :: "inbound_auth_secrets \<Rightarrow> value_error + inbound_auth_secrets" where
  "mode_configuration_is_complete s =
     (if \<not> distinct (map td_id (ia_static_tokens s))
      then Inl (ValueError ''static bearer token verifier identifiers must be unique'')
      else case ia_mode s of
        StaticBearer \<Rightarrow>
          if ia_static_tokens s = [] then Inl (ValueError ''static bearer mode requires at least one token verifier'')
          else if has_oidc_configuration s then Inl (ValueError ''static bearer mode cannot contain OIDC configuration'')
          else Inr s
      | ExternalOauthOidc \<Rightarrow>
          if ia_issuer_url s = None \<or> ia_resource_url s = None \<or> ia_audiences s = []
          then Inl (ValueError ''OIDC mode requires issuer, resource URL, and audience'')
          else if ia_static_tokens s \<noteq> [] then Inl (ValueError ''OIDC mode cannot contain static token verifiers'')
          else if ia_allowed_algorithms s = [] \<or> \<not> set (ia_allowed_algorithms s) \<subseteq> set permitted_algorithms
          then Inl (ValueError ''OIDC algorithms must be an explicit asymmetric allowlist'')
          else Inr s
      | DisabledDev \<Rightarrow>
          if ia_static_tokens s \<noteq> [] \<or> has_oidc_configuration s
          then Inl (ValueError ''disabled authentication mode cannot contain verifier material'')
          else Inr s)"

section \<open>Network policy and bundle\<close>

definition normalize_host_allowlist :: "netenv \<Rightarrow> pystr list \<Rightarrow> value_error + pystr list" where
  "normalize_host_allowlist env values =
     rfold (\<lambda>acc value.
       if value = [] \<or> contains value ''://'' \<or> has_any (''/?#@'' @ CHR 0x5C # ctl_chars) value
       then Inl (ValueError ''runtime network allowlists contain invalid host names'')
       else rbind (urlsplit (bracketed_ok env) (''//'' @ value)) (\<lambda>parsed.
         case url_hostname parsed of
           None \<Rightarrow> Inl (ValueError ''runtime network allowlists contain invalid host names'')
         | Some h \<Rightarrow>
           rbind (url_port parsed) (\<lambda>port.
           if port \<noteq> None then Inl (ValueError ''runtime network allowlists contain invalid host names'')
           else case normalized_host env h of
               Inl _ \<Rightarrow> Inl (ValueError ''runtime network allowlists contain invalid host names'')
             | Inr host \<Rightarrow> Inr (if host \<in> set acc then acc else acc @ [host])))) [] values"

record runtime_secret_bundle =
  upstream_credentials :: "(pystr \<times> upstream_credential) list"
  inbound_auth :: inbound_auth_secrets
  net_allowed_private_hosts :: "pystr list"
  net_allowed_development_hosts :: "pystr list"

definition validate_credential_references :: "(pystr \<times> upstream_credential) list \<Rightarrow> value_error + unit" where
  "validate_credential_references values =
     riter (\<lambda>(reference, _).
       rguard (reference \<noteq> [] \<and> length reference \<le> 200 \<and> \<not> has_any ctl_chars reference)
         (ValueError ''runtime credential reference is invalid'')) values"

section \<open>What the validators guarantee\<close>

lemma validate_exact_secret_shape_Inr:
  assumes "validate_exact_secret_shape c = Inr c'"
  shows "c' = c" and "present_fields c = required_fields (uc_type c)" and "\<not> empty_secret c"
  using assms by (auto simp: validate_exact_secret_shape_def result_simps split: if_splits)

lemma secret_header_steps:
  "rfold secret_header_step acc xs = Inr r \<Longrightarrow>
     distinct (map (\<lambda>h. py_lower (fst h)) xs) \<and> (\<forall>h\<in>set xs. py_lower (fst h) \<notin> set acc)
     \<and> (\<forall>(n, v)\<in>set xs. header_name_ok n \<and> v \<noteq> [] \<and> \<not> has_any ctl_chars v)"
  by (induction xs arbitrary: acc) (fastforce simp: result_simps split: if_splits)+

lemma check_secret_headers_Inr:
  assumes "check_secret_headers hs = Inr ()"
  shows "distinct (map (\<lambda>h. py_lower (fst h)) hs)"
    and "\<forall>(n, v)\<in>set hs. header_name_ok n \<and> v \<noteq> [] \<and> \<not> has_any ctl_chars v"
proof -
  obtain r where "rfold secret_header_step [] hs = Inr r"
    using assms by (auto simp: check_secret_headers_def result_simps)
  from secret_header_steps [OF this] show "distinct (map (\<lambda>h. py_lower (fst h)) hs)"
    and "\<forall>(n, v)\<in>set hs. header_name_ok n \<and> v \<noteq> [] \<and> \<not> has_any ctl_chars v"
    by simp_all
qed

lemma normalize_string_sets_Inr:
  assumes "normalize_string_sets vs = Inr ns"
  shows "distinct ns" and "length ns \<le> 100" and "\<forall>n\<in>set ns. n \<noteq> [] \<and> \<not> has_any ctl_chars n"
proof -
  obtain ns' where f: "rfold (\<lambda>acc value.
       let item = strip value in
       if item = [] \<or> length item > 512 \<or> has_any ctl_chars item
       then Inl (ValueError ''inbound authentication values are invalid'')
       else Inr (if item \<in> set acc then acc else acc @ [item])) [] vs = Inr ns'"
    and ns: "ns' = ns" "length ns \<le> 100"
    using assms by (auto simp: normalize_string_sets_def result_simps split: if_splits)
  have "distinct ns' \<and> (\<forall>n\<in>set ns'. n \<noteq> [] \<and> \<not> has_any ctl_chars n)"
    by (rule rfold_invariant [OF f]) (auto simp: Let_def split: if_splits)
  with ns show "distinct ns" and "length ns \<le> 100" and "\<forall>n\<in>set ns. n \<noteq> [] \<and> \<not> has_any ctl_chars n"
    by auto
qed

end
