(* ===== verification/Base64.thy ===== *)
theory Base64
  imports Percent
begin

text \<open>
  Base64 as \<^verbatim>\<open>base64.b64encode\<close> and the strict \<^verbatim>\<open>base64.b64decode(..., validate=True)\<close> compute
  it, and the round trip between them.
\<close>

definition b64_alphabet :: pystr where
  "b64_alphabet = ''ABCDEFGHIJKLMNOPQRSTUVWXYZabcdefghijklmnopqrstuvwxyz0123456789+/''"

definition b64_char :: "nat \<Rightarrow> char" where
  "b64_char n = b64_alphabet ! n"

definition b64_val :: "char \<Rightarrow> nat option" where
  "b64_val c = index_of c b64_alphabet"

fun b64_groups :: "nat list \<Rightarrow> pystr" where
  "b64_groups [] = []"
| "b64_groups [a] = [b64_char (a div 4), b64_char ((a mod 4) * 16), CHR ''='', CHR ''='']"
| "b64_groups [a, b] = [b64_char (a div 4), b64_char ((a mod 4) * 16 + b div 16), b64_char ((b mod 16) * 4), CHR ''='']"
| "b64_groups (a # b # c # s) =
     b64_char (a div 4) # b64_char ((a mod 4) * 16 + b div 16) # b64_char ((b mod 16) * 4 + c div 64)
     # b64_char (c mod 64) # b64_groups s"

definition b64encode :: "pystr \<Rightarrow> pystr" where
  "b64encode s = b64_groups (map of_char s)"

fun b64_ungroup :: "pystr \<Rightarrow> nat list option" where
  "b64_ungroup [] = Some []"
| "b64_ungroup (w # x # y # z # s) =
     (if y = CHR ''='' \<and> z = CHR ''='' \<and> s = [] then
        (case (b64_val w, b64_val x) of
           (Some p, Some q) \<Rightarrow> Some [p * 4 + q div 16]
         | _ \<Rightarrow> None)
      else if z = CHR ''='' \<and> s = [] then
        (case (b64_val w, b64_val x, b64_val y) of
           (Some p, Some q, Some r) \<Rightarrow> Some [p * 4 + q div 16, (q mod 16) * 16 + r div 4]
         | _ \<Rightarrow> None)
      else
        (case (b64_val w, b64_val x, b64_val y, b64_val z) of
           (Some p, Some q, Some r, Some t) \<Rightarrow>
             map_option (\<lambda>rest. (p * 4 + q div 16) # ((q mod 16) * 16 + r div 4) # ((r mod 4) * 64 + t) # rest)
               (b64_ungroup s)
         | _ \<Rightarrow> None))"
| "b64_ungroup _ = None"

definition b64decode :: "pystr \<Rightarrow> pystr option" where
  "b64decode s = map_option (map char_of) (b64_ungroup s)"

lemma b64_char_facts: "n < 64 \<Longrightarrow> b64_val (b64_char n) = Some n \<and> b64_char n \<noteq> CHR ''=''"
proof -
  have "\<forall>n\<in>set [0..<64]. b64_val (b64_char n) = Some n \<and> b64_char n \<noteq> CHR ''=''"
    by (simp add: upt_rec b64_val_def b64_char_def b64_alphabet_def)
  then show "n < 64 \<Longrightarrow> b64_val (b64_char n) = Some n \<and> b64_char n \<noteq> CHR ''=''" by simp
qed

lemma b64_groups_roundtrip: "\<forall>x\<in>set s. x < 256 \<Longrightarrow> b64_ungroup (b64_groups s) = Some s"
proof (induction s rule: b64_groups.induct)
  case (2 a)
  then have "a div 4 < 64" "(a mod 4) * 16 < 64" by auto
  moreover have "(a div 4) * 4 + (a mod 4) * 16 div 16 = a" by simp
  ultimately show ?case by (simp add: b64_char_facts)
next
  case (3 a b)
  then have r: "a div 4 < 64" "(a mod 4) * 16 + b div 16 < 64" "(b mod 16) * 4 < 64" by auto
  from 3 have "b div 16 < 16" by auto
  then have "(a div 4) * 4 + ((a mod 4) * 16 + b div 16) div 16 = a"
    "(((a mod 4) * 16 + b div 16) mod 16) * 16 + (b mod 16) * 4 div 4 = b" by simp_all
  with r show ?case by (simp add: b64_char_facts)
next
  case (4 a b c s)
  then have r: "a div 4 < 64" "(a mod 4) * 16 + b div 16 < 64" "(b mod 16) * 4 + c div 64 < 64" "c mod 64 < 64" by auto
  note v = b64_char_facts [OF r(1)] b64_char_facts [OF r(2)] b64_char_facts [OF r(3)] b64_char_facts [OF r(4)]
  from 4 have d: "b div 16 < 16" "c div 64 < 4" by auto
  have a: "(a div 4) * 4 + ((a mod 4) * 16 + b div 16) div 16 = a" using d(1) by simp
  have b: "(((a mod 4) * 16 + b div 16) mod 16) * 16 + ((b mod 16) * 4 + c div 64) div 4 = b"
    using d by simp
  have c: "(((b mod 16) * 4 + c div 64) mod 4) * 64 + c mod 64 = c" using d(2) by simp
  from 4 have IH: "b64_ungroup (b64_groups s) = Some s" by simp
  show ?case
    unfolding b64_groups.simps b64_ungroup.simps
    by (simp only: v IH a b c option.case prod.case option.map simp_thms if_False)
qed simp

lemma b64decode_encode: "b64decode (b64encode s) = Some s"
proof -
  have "b64_ungroup (b64_groups (map of_char s)) = Some (map of_char s)"
    by (rule b64_groups_roundtrip) (auto simp: of_char_lt)
  then show ?thesis by (simp add: b64decode_def b64encode_def comp_def)
qed

end
