(* ===== verification/UpstreamAuth.thy ===== *)
theory UpstreamAuth
  imports RuntimeSecrets Base64
begin

text \<open>
  Upstream authentication of the runtime (\<^verbatim>\<open>mcp_runtime/app/auth/upstream.py\<close>): the check
  that the secret bundle fits the manifest, the headers or query parameter injected for a
  profile, and the cache of OAuth access tokens. The token endpoint is the parameter
  \<open>fetch\<close>; readings of the monotonic clock and the cache as another task may have left it
  when the lock of the profile is acquired are arguments.
\<close>

record auth_injection =
  inj_headers :: "(pystr \<times> pystr) list"
  inj_query :: "(pystr \<times> pystr) list"

definition no_injection :: auth_injection where
  "no_injection = \<lparr>inj_headers = [], inj_query = []\<rparr>"

record oauth_access_token =
  oat_value :: pystr
  expires_in_seconds :: rat

record cached_token =
  ct_value :: pystr
  refresh_at :: rat

type_synonym token_cache = "(pystr \<times> cached_token) list"

type_synonym fetcher = "auth_profile \<Rightarrow> upstream_credential \<Rightarrow> runtime_error + oauth_access_token"

record auth_manager =
  am_profiles :: "(pystr \<times> auth_profile) list"
  am_credentials :: "(pystr \<times> upstream_credential) list"

definition credential_key :: "auth_profile \<Rightarrow> pystr" where
  \<comment> \<open>\<^verbatim>\<open>profile.credential_ref or ""\<close>\<close>
  "credential_key p = (case credential_ref p of None \<Rightarrow> [] | Some r \<Rightarrow> r)"

section \<open>Configuration\<close>

definition referenced_profiles :: "mcp_manifest \<Rightarrow> pystr list" where
  "referenced_profiles m = remdups (List.map_filter security_profile_ref (enabled_tools m))"

definition require_credential :: "auth_manager \<Rightarrow> pystr list \<Rightarrow> pystr \<Rightarrow> runtime_error + pystr list" where
  "require_credential am required profile_id =
     (case map_of (am_profiles am) profile_id of
        None \<Rightarrow> Inl (RuntimeConfigurationError ''Manifest references an unknown auth profile'')
      | Some p \<Rightarrow>
        if ap_type p = NoAuth then Inr required
        else case map_of (am_credentials am) (credential_key p) of
            None \<Rightarrow> Inl (RuntimeConfigurationError ''Credential material is missing or mismatched'')
          | Some c \<Rightarrow> if uc_type c \<noteq> ap_type p
              then Inl (RuntimeConfigurationError ''Credential material is missing or mismatched'')
              else Inr (credential_key p # required))"

definition check_static_headers :: "auth_manager \<Rightarrow> pystr list \<Rightarrow> pystr \<Rightarrow> runtime_error + unit" where
  "check_static_headers am referenced ref =
     (case map_of (am_credentials am) ref of
        None \<Rightarrow> Inr ()
      | Some c \<Rightarrow>
        if uc_type c \<noteq> StaticHeader then Inr ()
        else let profiles = filter (\<lambda>p. credential_ref p = Some ref) (List.map_filter (map_of (am_profiles am)) referenced);
                 expected = py_lower ` set (List.map_filter ap_name profiles);
                 actual = py_lower ` set (dkeys (case uc_headers c of None \<Rightarrow> [] | Some h \<Rightarrow> h))
             in if actual \<noteq> expected
                then Inl (RuntimeConfigurationError ''Static-header credential does not exactly match enabled profiles'')
                else Inr ())"

definition validate_configuration :: "auth_manager \<Rightarrow> mcp_manifest \<Rightarrow> runtime_error + unit" where
  "validate_configuration am m =
     (let referenced = referenced_profiles m in
      rbind (rfold (require_credential am) [] referenced) (\<lambda>required.
      if set (dkeys (am_credentials am)) \<noteq> set required
      then Inl (RuntimeConfigurationError ''Runtime secret bundle does not exactly match enabled tool credentials'')
      else riter (check_static_headers am referenced) required))"

definition auth_manager_init :: "mcp_manifest \<Rightarrow> runtime_secret_bundle \<Rightarrow> runtime_error + auth_manager" where
  "auth_manager_init m bundle =
     (let am = \<lparr>am_profiles = fold (\<lambda>p d. AList.update (ap_id p) p d) (auth_profiles m) [],
                am_credentials = upstream_credentials bundle\<rparr>
      in rbind (validate_configuration am m) (\<lambda>_. Inr am))"

section \<open>Token cache\<close>

definition safety_margin :: "rat \<Rightarrow> rat" where
  "safety_margin expires = min 30 (max 1 (expires / 10))"

definition cache_entry :: "rat \<Rightarrow> oauth_access_token \<Rightarrow> cached_token" where
  "cache_entry now tok =
     \<lparr>ct_value = oat_value tok,
      refresh_at = now + max 1 (expires_in_seconds tok - safety_margin (expires_in_seconds tok))\<rparr>"

definition cached_at :: "token_cache \<Rightarrow> pystr \<Rightarrow> rat \<Rightarrow> pystr option" where
  "cached_at cache profile_id now =
     (case map_of cache profile_id of
        None \<Rightarrow> None | Some t \<Rightarrow> if refresh_at t > now then Some (ct_value t) else None)"

definition oauth_token ::
  "fetcher \<Rightarrow> auth_profile \<Rightarrow> upstream_credential \<Rightarrow> rat \<Rightarrow> token_cache \<Rightarrow> rat \<Rightarrow> token_cache \<Rightarrow> rat
   \<Rightarrow> runtime_error + (pystr \<times> token_cache)" where
  "oauth_token fetch p c now1 cache1 now2 cache2 now3 =
     (case cached_at cache1 (ap_id p) now1 of
        Some v \<Rightarrow> Inr (v, cache1)
      | None \<Rightarrow>
        (case cached_at cache2 (ap_id p) now2 of
           Some v \<Rightarrow> Inr (v, cache2)
         | None \<Rightarrow> rbind (fetch p c) (\<lambda>tok.
             Inr (oat_value tok, AList.update (ap_id p) (cache_entry now3 tok) cache2))))"

section \<open>Injection\<close>

definition basic_value :: "pystr \<Rightarrow> pystr \<Rightarrow> pystr" where
  "basic_value user pass = ''Basic '' @ b64encode (user @ '':'' @ pass)"

definition find_header :: "pystr \<Rightarrow> (pystr \<times> pystr) list \<Rightarrow> pystr option" where
  "find_header name hs = map_option snd (List.find (\<lambda>(n, _). py_lower n = py_lower name) hs)"

definition build_injection ::
  "(auth_profile \<Rightarrow> upstream_credential \<Rightarrow> runtime_error + pystr) \<Rightarrow> auth_profile \<Rightarrow> upstream_credential
   \<Rightarrow> runtime_error + auth_injection" where
  "build_injection oauth p c =
     (case ap_type p of
        Bearer \<Rightarrow> (case uc_token c of
            None \<Rightarrow> Inl (EscapedValueError ''assertion'')
          | Some t \<Rightarrow> Inr (no_injection\<lparr>inj_headers := [(''Authorization'', ''Bearer '' @ t)]\<rparr>))
      | ApiKey \<Rightarrow> (case (ap_name p, key_loc p, uc_api_key c) of
            (Some (n # ns), Some loc, Some k) \<Rightarrow>
              let value = (case ap_prefix p of None \<Rightarrow> [] | Some x \<Rightarrow> x) @ k in
              Inr (if loc = InHeader then no_injection\<lparr>inj_headers := [(n # ns, value)]\<rparr>
                   else no_injection\<lparr>inj_query := [(n # ns, value)]\<rparr>)
          | _ \<Rightarrow> Inl (RuntimeConfigurationError ''API-key auth profile is incomplete''))
      | Basic \<Rightarrow> (case (uc_username c, uc_password c) of
            (Some u, Some w) \<Rightarrow> Inr (no_injection\<lparr>inj_headers := [(''Authorization'', basic_value u w)]\<rparr>)
          | _ \<Rightarrow> Inl (RuntimeConfigurationError ''Basic auth profile is incomplete''))
      | OAuth2ClientCredentials \<Rightarrow> rbind (oauth p c) (\<lambda>t.
            Inr (no_injection\<lparr>inj_headers := [(''Authorization'', ''Bearer '' @ t)]\<rparr>))
      | StaticHeader \<Rightarrow> (case (ap_name p, uc_headers c) of
            (Some (n # ns), Some hs) \<Rightarrow>
              (case find_header (n # ns) hs of
                 None \<Rightarrow> Inl (RuntimeConfigurationError ''Static-header credential is missing its value'')
               | Some v \<Rightarrow> Inr (no_injection\<lparr>inj_headers := [(n # ns, v)]\<rparr>))
          | _ \<Rightarrow> Inl (RuntimeConfigurationError ''Static-header auth profile is incomplete''))
      | NoAuth \<Rightarrow> Inl (RuntimeConfigurationError ''Unsupported upstream authentication profile''))"

definition injection_for ::
  "(auth_profile \<Rightarrow> upstream_credential \<Rightarrow> runtime_error + pystr) \<Rightarrow> auth_manager \<Rightarrow> pystr option
   \<Rightarrow> runtime_error + auth_injection" where
  "injection_for oauth am profile_id =
     (case profile_id of
        None \<Rightarrow> Inr no_injection
      | Some i \<Rightarrow>
        (case map_of (am_profiles am) i of
           None \<Rightarrow> Inl (RuntimeConfigurationError ''Manifest references an unknown auth profile'')
         | Some p \<Rightarrow>
           if ap_type p = NoAuth then Inr no_injection
           else case map_of (am_credentials am) (credential_key p) of
               None \<Rightarrow> Inl RuntimeNotConfigured
             | Some c \<Rightarrow> if uc_type c \<noteq> ap_type p then Inl RuntimeNotConfigured
                 else build_injection oauth p c))"

section \<open>Facts\<close>

lemma cached_at_fresh: "cached_at cache i now = Some v \<Longrightarrow>
  \<exists>t. map_of cache i = Some t \<and> ct_value t = v \<and> now < refresh_at t"
  by (auto simp: cached_at_def split: option.splits if_splits)

lemma refresh_before_expiry:
  assumes "1 \<le> expires_in_seconds tok"
  shows "now < refresh_at (cache_entry now tok)"
    and "refresh_at (cache_entry now tok) \<le> now + expires_in_seconds tok"
    and "2 \<le> expires_in_seconds tok \<Longrightarrow> refresh_at (cache_entry now tok) \<le> now + expires_in_seconds tok - 1"
  using assms by (auto simp: cache_entry_def safety_margin_def)

lemma require_credentials_fold:
  assumes "rfold (require_credential am) acc ids = Inr required"
  shows "\<forall>i\<in>set ids. \<exists>p. map_of (am_profiles am) i = Some p \<and> (ap_type p = NoAuth \<or>
      (\<exists>c. map_of (am_credentials am) (credential_key p) = Some c \<and> uc_type c = ap_type p))"
  using assms
proof (induction ids arbitrary: acc)
  case (Cons i ids)
  then obtain acc' where s: "require_credential am acc i = Inr acc'" and r: "rfold (require_credential am) acc' ids = Inr required"
    by (auto simp: result_simps)
  from Cons.IH [OF r] s show ?case
    by (auto simp: require_credential_def split: option.splits if_splits)
qed simp

lemma validate_configuration_Inr:
  assumes "validate_configuration am m = Inr ()" and "t \<in> set (enabled_tools m)" and "security_profile_ref t = Some i"
  shows "\<exists>p. map_of (am_profiles am) i = Some p \<and> (ap_type p = NoAuth \<or>
      (\<exists>c. map_of (am_credentials am) (credential_key p) = Some c \<and> uc_type c = ap_type p))"
proof -
  obtain required where "rfold (require_credential am) [] (referenced_profiles m) = Inr required"
    using assms(1) by (auto simp: validate_configuration_def Let_def result_simps)
  moreover have "i \<in> set (referenced_profiles m)"
    using assms(2,3) by (force simp: referenced_profiles_def List.map_filter_def)
  ultimately show ?thesis using require_credentials_fold by blast
qed

lemma find_header_Some: "find_header n hs = Some v \<Longrightarrow> \<exists>k. (k, v) \<in> set hs \<and> py_lower k = py_lower n"
  by (auto simp: find_header_def find_Some_iff) (metis nth_mem)

end
