(* ===== verification/ManifestContract.thy ===== *)
theory ManifestContract
  imports Manifest Url
begin

text \<open>
  The infrastructure-independent validation of a manifest
  (\<^verbatim>\<open>packages/contracts/src/mcp_contracts/validation.py\<close>), which the compiler's output and
  the runtime's input both pass. The version range check of the package \<^verbatim>\<open>packaging\<close> is the
  parameter \<open>in_range\<close> (None: an invalid range or version), the IDNA encoder the parameter
  \<open>enc\<close>.
\<close>

section \<open>Operation paths\<close>

definition is_control :: "char \<Rightarrow> bool" where
  "is_control c \<longleftrightarrow> c \<le> CHR 0x1F \<or> c = CHR 0x7F"

definition encoded_separator :: "pystr \<Rightarrow> bool" where
  \<comment> \<open>\<^verbatim>\<open>%(?:2f|5c)\<close>, ignoring case, anywhere\<close>
  "encoded_separator p \<longleftrightarrow> contains (py_lower p) ''%2f'' \<or> contains (py_lower p) ''%5c''"

definition validate_operation_path :: "pystr \<Rightarrow> value_error + unit" where
  "validate_operation_path path =
     (if \<not> startswith path ''/'' \<or> startswith path ''//''
      then Inl (ValueError ''manifest operation paths must be origin-relative'')
      else if list_ex is_control path \<or> CHR 0x5C \<in> set path
      then Inl (ValueError ''manifest operation path contains forbidden characters'')
      else if CHR ''?'' \<in> set path \<or> CHR ''#'' \<in> set path
      then Inl (ValueError ''manifest operation path cannot contain query or fragment data'')
      else if encoded_separator path
      then Inl (ValueError ''manifest operation path cannot contain encoded path separators'')
      else if list_ex (\<lambda>w. w = ''.'' \<or> w = ''..'') (split_on (CHR ''/'') (unquote path))
      then Inl (ValueError ''manifest operation path cannot contain dot segments'')
      else Inr ())"

definition validate_runtime_compatibility :: "(pystr \<Rightarrow> pystr \<Rightarrow> bool option) \<Rightarrow> pystr \<Rightarrow> pystr \<Rightarrow> value_error + unit" where
  "validate_runtime_compatibility in_range specifier version =
     (case in_range specifier version of
        None \<Rightarrow> Inl (ValueError ''manifest runtime compatibility range is invalid'')
      | Some False \<Rightarrow> Inl (ValueError ''manifest is incompatible with this runtime version'')
      | Some True \<Rightarrow> Inr ())"

definition normalize_allowed_host :: "(pystr \<Rightarrow> value_error + pystr) \<Rightarrow> (pystr \<Rightarrow> bool) \<Rightarrow> pystr \<Rightarrow> value_error + pystr" where
  "normalize_allowed_host enc brk value =
     (if contains value ''://'' \<or> has_any (''/?#@'' @ CHR 0x5C # ctl_chars) value
      then Inl (ValueError ''manifest allowed upstream hosts must contain host names only'')
      else rbind (urlsplit brk (''//'' @ value)) (\<lambda>parsed.
        case url_hostname parsed of
          None \<Rightarrow> Inl (ValueError ''manifest contains an invalid allowed upstream host'')
        | Some h \<Rightarrow>
          (case url_port parsed of
             Inr None \<Rightarrow>
               (case enc (rstrip_char (CHR ''.'') h) of
                  Inr x \<Rightarrow> Inr (py_lower x)
                | Inl _ \<Rightarrow> Inl (ValueError ''manifest contains an invalid allowed upstream host''))
           | _ \<Rightarrow> Inl (ValueError ''manifest contains an invalid allowed upstream host''))))"

section \<open>Local references of JSON Schemas\<close>

definition unescape_token :: "pystr \<Rightarrow> pystr" where
  "unescape_token t = replace ''~0'' ''~'' (replace ''~1'' ''/'' (unquote t))"

definition digits_only :: "pystr \<Rightarrow> bool" where
  "digits_only s \<longleftrightarrow> s \<noteq> [] \<and> list_all is_digit_char s"

fun follow_tokens :: "json \<Rightarrow> pystr list \<Rightarrow> json option" where
  "follow_tokens j [] = Some j"
| "follow_tokens j (raw # ts) =
     (let token = unescape_token raw in
      case j of
        JObj m \<Rightarrow> (case map_of m token of Some v \<Rightarrow> follow_tokens v ts | None \<Rightarrow> None)
      | JArr vs \<Rightarrow> (if digits_only token \<and> parse_digits token < length vs
                   then follow_tokens (vs ! parse_digits token) ts else None)
      | _ \<Rightarrow> None)"

definition resolve_local_reference :: "json_object \<Rightarrow> pystr \<Rightarrow> value_error + unit" where
  "resolve_local_reference base reference =
     (if reference = ''#'' then Inr ()
      else if \<not> startswith reference ''#/''
      then Inl (ValueError ''contains an unsupported local JSON Schema anchor'')
      else case follow_tokens (JObj base) (split_on (CHR ''/'') (drop 2 reference)) of
             None \<Rightarrow> Inl (ValueError ''contains an unresolved local JSON Schema reference'')
           | Some _ \<Rightarrow> Inr ())"

text \<open>The check of one dictionary: a \<^verbatim>\<open>$ref\<close> that is not \<^verbatim>\<open>None\<close> is a local reference that resolves.\<close>

definition check_reference :: "json_object \<Rightarrow> json_object \<Rightarrow> value_error + unit" where
  "check_reference base m =
     (case map_of m ''$ref'' of
        None \<Rightarrow> Inr ()
      | Some JNull \<Rightarrow> Inr ()
      | Some (JStr r) \<Rightarrow>
          if \<not> startswith r ''#'' then Inl (ValueError ''contains a non-local JSON Schema reference'')
          else resolve_local_reference base r
      | Some _ \<Rightarrow> Inl (ValueError ''contains a non-local JSON Schema reference''))"

text \<open>
  The loop over \<open>pending\<close>; the head of the list is the end of the Python list, where
  \<^verbatim>\<open>pop\<close> takes from and \<^verbatim>\<open>extend\<close> adds to.
\<close>

fun children :: "json \<Rightarrow> json list" where
  "children (JObj m) = map snd m"
| "children (JArr vs) = vs"
| "children _ = []"

lemma size_sum_pairs: "sum_list (map (\<lambda>v. Suc (size v)) (map snd m)) \<le> size_list (size_prod (\<lambda>_. 0) size) m"
  by (induction m) auto

lemma size_sum_elems: "sum_list (map (\<lambda>v. Suc (size v)) vs) \<le> size_list size vs"
  by (induction vs) auto

lemma size_children: "sum_list (map (\<lambda>v. Suc (size v)) (children v)) \<le> size (v :: json)"
  using size_sum_pairs size_sum_elems by (cases v) (auto simp del: map_map intro: le_SucI)

function check_pending :: "json_object \<Rightarrow> json list \<Rightarrow> value_error + unit" where
  "check_pending base [] = Inr ()"
| "check_pending base (v # pending) =
     rbind (case v of JObj m \<Rightarrow> check_reference base m | _ \<Rightarrow> Inr ())
       (\<lambda>_. check_pending base (rev (children v) @ pending))"
  by pat_completeness auto
termination
proof (relation "measure (\<lambda>(base, pending). sum_list (map (\<lambda>v. Suc (size v)) pending))", goal_cases)
  case (2 base v pending x)
  then show ?case using size_children [of v] by (simp add: rev_map [symmetric] sum_list_rev)
qed simp

definition validate_local_schema_references :: "json_object \<Rightarrow> value_error + unit" where
  "validate_local_schema_references schema = check_pending schema [JObj schema]"

text \<open>The values inside a value.\<close>

inductive inside :: "json \<Rightarrow> json \<Rightarrow> bool" where
  inside_refl: "inside v v"
| inside_child: "inside u w \<Longrightarrow> w \<in> set (children v) \<Longrightarrow> inside u v"

inductive_cases insideE: "inside u v"

lemma inside_unfold: "inside u v \<longleftrightarrow> u = v \<or> (\<exists>w\<in>set (children v). inside u w)"
  by (auto intro: inside.intros elim: insideE)

lemma check_pending_iff:
  "check_pending base pending = Inr () \<longleftrightarrow>
     (\<forall>v\<in>set pending. \<forall>m. inside (JObj m) v \<longrightarrow> check_reference base m = Inr ())"
proof (induction base pending rule: check_pending.induct)
  case (1 base)
  then show ?case by simp
next
  case (2 base v pending)
  have "(case v of JObj m \<Rightarrow> check_reference base m | _ \<Rightarrow> Inr ()) = Inr ()
      \<longleftrightarrow> (\<forall>m. JObj m = v \<longrightarrow> check_reference base m = Inr ())"
    by (cases v) auto
  moreover have "check_pending base (v # pending) = Inr () \<longleftrightarrow>
      (case v of JObj m \<Rightarrow> check_reference base m | _ \<Rightarrow> Inr ()) = Inr ()
      \<and> check_pending base (rev (children v) @ pending) = Inr ()"
    by (auto simp: result_simps)
  ultimately show ?case
    using 2 by (auto simp: ball_Un inside_unfold [of _ v])
qed

lemma validate_refs_iff:
  "validate_local_schema_references schema = Inr () \<longleftrightarrow>
     (\<forall>m. inside (JObj m) (JObj schema) \<longrightarrow> check_reference schema m = Inr ())"
  unfolding validate_local_schema_references_def check_pending_iff by simp

section \<open>The manifest\<close>

definition server_host :: "(pystr \<Rightarrow> value_error + pystr) \<Rightarrow> (pystr \<Rightarrow> bool) \<Rightarrow> server_definition \<Rightarrow> value_error + pystr" where
  "server_host enc brk s =
     rbind (urlsplit brk (sd_url s)) (\<lambda>parsed.
     case url_hostname parsed of
       None \<Rightarrow> Inl (ValueError ''server has an invalid HTTP URL'')
     | Some h \<Rightarrow>
       if scheme parsed \<notin> {''http'', ''https''} then Inl (ValueError ''server has an invalid HTTP URL'')
       else if truthy (url_username parsed) \<or> truthy (url_password parsed) \<or> query parsed \<noteq> [] \<or> fragment parsed \<noteq> []
       then Inl (ValueError ''server URL contains forbidden components'')
       else rbind (enc (rstrip_char (CHR ''.'') h)) (\<lambda>x. Inr (py_lower x)))"

definition schema_type_is_object :: "json_object \<Rightarrow> bool" where
  "schema_type_is_object s = json_is_str (map_of s ''type'') ''object''"

definition validate_parameter :: "pystr \<Rightarrow> pystr list \<Rightarrow> parameter_mapping \<Rightarrow> value_error + unit" where
  "validate_parameter path properties p =
     (if tool_field p \<notin> set properties then Inl (ValueError ''tool maps absent schema field'')
      else if target p = PathTarget \<and> \<not> contains path (placeholder (source_name p))
      then Inl (ValueError ''tool path is missing placeholder'')
      else if target p = HeaderTarget \<and> py_lower (source_name p) \<in> set forbidden_caller_headers
      then Inl (ValueError ''tool maps a forbidden caller header'')
      else if target p = PathTarget \<and> style p \<notin> {None, Some ''simple''}
      then Inl (ValueError ''tool has unsupported path serialization'')
      else if target p = HeaderTarget \<and> style p \<notin> {None, Some ''simple''}
      then Inl (ValueError ''tool has unsupported header serialization'')
      else if target p \<noteq> QueryTarget \<and> allow_reserved p
      then Inl (ValueError ''allow_reserved is valid only for query parameters'')
      else Inr ())"

definition mapped_fields :: "request_mapping \<Rightarrow> pystr list" where
  "mapped_fields mapping = map tool_field (parameters mapping)
     @ (case body mapping of None \<Rightarrow> [] | Some b \<Rightarrow> [body_field b])"

definition path_sources :: "request_mapping \<Rightarrow> pystr list" where
  "path_sources mapping = map source_name (filter (\<lambda>p. target p = PathTarget) (parameters mapping))"

definition validate_tool_schemas :: "mcp_tool \<Rightarrow> value_error + unit" where
  "validate_tool_schemas t =
     rbind (validate_local_schema_references (input_schema t)) (\<lambda>_.
     rbind (case output_schema t of None \<Rightarrow> Inr () | Some s \<Rightarrow> validate_local_schema_references s) (\<lambda>_.
     riter (\<lambda>r. case rd_schema r of None \<Rightarrow> Inr () | Some s \<Rightarrow> validate_local_schema_references s) (responses t)))"

definition validate_tool_mapping :: "mcp_tool \<Rightarrow> value_error + unit" where
  "validate_tool_mapping t =
     (let mapping = request_mapping t; fields = mapped_fields mapping in
      if \<not> distinct fields then Inl (ValueError ''tool maps fields more than once'')
      else if \<not> distinct (map (\<lambda>p. (target p, py_lower (source_name p))) (parameters mapping))
      then Inl (ValueError ''tool maps destinations more than once'')
      else case (case map_of (input_schema t) ''properties'' of None \<Rightarrow> JObj [] | Some j \<Rightarrow> j) of
        JObj props \<Rightarrow>
          if \<not> set (dkeys props) \<subseteq> set fields then Inl (ValueError ''tool has unmapped input fields'')
          else rbind (riter (validate_parameter (rm_path mapping) (dkeys props)) (parameters mapping)) (\<lambda>_.
               rbind (path_parameter_names (rm_path mapping)) (\<lambda>names.
               if set names \<noteq> set (path_sources mapping)
               then Inl (ValueError ''tool path placeholders do not match mappings'')
               else case body mapping of None \<Rightarrow> Inr ()
                 | Some b \<Rightarrow>
                   if body_field b \<notin> set (dkeys props) then Inl (ValueError ''tool maps absent body field'')
                   else if \<not> distinct (map content_field (multipart_files b))
                   then Inl (ValueError ''tool has duplicate multipart file mappings'') else Inr ()))
      | _ \<Rightarrow> Inl (ValueError ''tool schema properties must be an object''))"

definition validate_contract_tool :: "mcp_manifest \<Rightarrow> mcp_tool \<Rightarrow> value_error + unit" where
  "validate_contract_tool m t =
     (if server_ref (request_mapping t) \<notin> set (map sd_id (servers m))
      then Inl (ValueError ''tool references an unknown server'')
      else if truthy (security_profile_ref t) \<and> the (security_profile_ref t) \<notin> set (map ap_id (auth_profiles m))
      then Inl (ValueError ''tool references an unknown auth profile'')
      else if \<not> schema_type_is_object (input_schema t)
      then Inl (ValueError ''tool input schema must be object-shaped'')
      else if (case output_schema t of None \<Rightarrow> False | Some s \<Rightarrow> \<not> schema_type_is_object s)
      then Inl (ValueError ''tool output schema must be object-shaped'')
      else rbind (validate_tool_schemas t) (\<lambda>_.
           rbind (validate_operation_path (rm_path (request_mapping t))) (\<lambda>_.
           validate_tool_mapping t)))"

definition validate_manifest_contract ::
  "(pystr \<Rightarrow> pystr \<Rightarrow> bool option) \<Rightarrow> (pystr \<Rightarrow> value_error + pystr) \<Rightarrow> (pystr \<Rightarrow> bool) \<Rightarrow>
   mcp_manifest \<Rightarrow> pystr \<Rightarrow> value_error + unit" where
  "validate_manifest_contract in_range enc brk m runtime_version =
     rbind (validate_runtime_compatibility in_range (runtime_compatibility m) runtime_version) (\<lambda>_.
     if \<not> distinct (map sd_id (servers m)) then Inl (ValueError ''manifest contains duplicate server ids'')
     else if \<not> distinct (map ap_id (auth_profiles m)) then Inl (ValueError ''manifest contains duplicate auth profile ids'')
     else if \<not> distinct (map tool_name (tools m)) then Inl (ValueError ''manifest contains duplicate tool names'')
     else if \<not> distinct (map res_uri (resources m)) then Inl (ValueError ''manifest contains duplicate resource URIs'')
     else rbind (rmap (server_host enc brk) (servers m)) (\<lambda>server_hosts.
          rbind (rmap (normalize_allowed_host enc brk) (allowed_upstream_hosts (security m))) (\<lambda>allowed_hosts.
          if set allowed_hosts \<noteq> set server_hosts
          then Inl (ValueError ''manifest upstream host allowlist must match configured API servers'')
          else riter (validate_contract_tool m) (tools m))))"

section \<open>What a valid tool satisfies\<close>

lemma validate_operation_path_Inr:
  assumes "validate_operation_path p = Inr u"
  shows "startswith p ''/''" and "\<not> startswith p ''//''" and "\<forall>c\<in>set p. \<not> is_control c"
    and "CHR 0x5C \<notin> set p" and "CHR ''?'' \<notin> set p" and "CHR ''#'' \<notin> set p"
    and "\<forall>w\<in>set (split_on (CHR ''/'') (unquote p)). w \<noteq> ''.'' \<and> w \<noteq> ''..''"
    and "\<not> encoded_separator p"
  using assms by (auto simp: validate_operation_path_def list_ex_iff split: if_splits)

lemma validate_contract_tool_Inr:
  assumes "validate_contract_tool m t = Inr ()"
  shows "server_ref (request_mapping t) \<in> set (map sd_id (servers m))"
    and "validate_operation_path (rm_path (request_mapping t)) = Inr ()"
    and "validate_tool_mapping t = Inr ()"
    and "validate_tool_schemas t = Inr ()"
  using assms by (auto simp: validate_contract_tool_def result_simps split: if_splits)

lemma validate_tool_mapping_Inr:
  assumes "validate_tool_mapping t = Inr ()"
  obtains names and props :: json_object where "distinct (mapped_fields (request_mapping t))"
    and "distinct (map (\<lambda>p. (target p, py_lower (source_name p))) (parameters (request_mapping t)))"
    and "path_parameter_names (rm_path (request_mapping t)) = Inr names"
    and "set names = set (path_sources (request_mapping t))"
    and "set (dkeys props) \<subseteq> set (mapped_fields (request_mapping t))"
    and "\<forall>p\<in>set (parameters (request_mapping t)).
      validate_parameter (rm_path (request_mapping t)) (dkeys props) p = Inr ()"
proof -
  define pj where "pj = (case map_of (input_schema t) ''properties'' of None \<Rightarrow> JObj [] | Some j \<Rightarrow> j)"
  obtain props where props: "pj = JObj props"
    using assms by (cases pj) (auto simp: validate_tool_mapping_def Let_def pj_def [symmetric] split: if_splits)
  show ?thesis
    by (rule that [of "projr (path_parameter_names (rm_path (request_mapping t)))" props])
      (use assms in \<open>auto simp: validate_tool_mapping_def Let_def pj_def [symmetric] props result_simps split: if_splits\<close>)
qed

lemma validate_manifest_contract_Inr:
  assumes "validate_manifest_contract in_range enc brk m v = Inr ()"
  shows "\<forall>t\<in>set (tools m). validate_contract_tool m t = Inr ()"
    and "distinct (map sd_id (servers m))" and "distinct (map tool_name (tools m))"
    and "distinct (map ap_id (auth_profiles m))"
  using assms by (auto simp: validate_manifest_contract_def result_simps split: if_splits)

section \<open>An example\<close>

text \<open>One tool, \<^verbatim>\<open>GET /pets/{id}\<close> with a query parameter and a bearer profile, on one server.\<close>

definition path_parameter :: "pystr \<Rightarrow> parameter_mapping" where
  "path_parameter n = \<lparr>tool_field = n, source_name = n, target = PathTarget, pm_required = True,
     style = None, explode = None, allow_reserved = False\<rparr>"

definition query_parameter_mapping :: "pystr \<Rightarrow> parameter_mapping" where
  "query_parameter_mapping n = \<lparr>tool_field = n, source_name = n, target = QueryTarget, pm_required = False,
     style = None, explode = None, allow_reserved = False\<rparr>"

definition sample_tool :: mcp_tool where
  "sample_tool = \<lparr>tool_name = ''get_pet'', tool_title = ''Get pet'', tool_description = ''Get pet'',
     input_schema = [(''type'', JStr ''object''), (''properties'', JObj [(''id'', JObj []), (''limit'', JObj [])])],
     output_schema = None,
     responses = [\<lparr>status_code = ''200'', media_type = None, rd_schema = None, rd_description = None\<rparr>],
     operation_key = ''GET /pets/{id}'',
     request_mapping = \<lparr>server_ref = ''s1'', rm_method = GET, rm_path = ''/pets/{id}'',
       parameters = [path_parameter ''id'', query_parameter_mapping ''limit''], body = None\<rparr>,
     security_profile_ref = Some ''a1'', timeout_ms = 30000, max_response_bytes = 1000000, enabled = True,
     max_request_bytes = 1000000, tool_provenance = []\<rparr>"

definition sample_profile :: auth_profile where
  "sample_profile = \<lparr>ap_id = ''a1'', ap_type = Bearer, credential_ref = Some ''c1'', token_url = None,
     ap_scopes = [], token_method = ClientSecretBasic, key_loc = None, ap_name = None, ap_prefix = None\<rparr>"

definition sample_manifest :: mcp_manifest where
  "sample_manifest = \<lparr>manifest_id = ''m1'', project = \<lparr>mp_id = ''p'', mp_name = ''p'', mp_slug = ''p''\<rparr>,
     runtime_compatibility = ''>=1'',
     servers = [\<lparr>sd_id = ''s1'', sd_url = ''https://api.io/v1'', sd_description = None\<rparr>],
     auth_profiles = [sample_profile], tools = [sample_tool], resources = [],
     security = \<lparr>allowed_upstream_hosts = [''api.io''], allow_insecure_none_only_in_development = True,
       default_timeout_ms = 30000, default_max_response_bytes = 1000000\<rparr>,
     build = \<lparr>bm_build_id = ''b'', bm_source_version_ids = [], bm_source_digest = [], bm_canonical_sha256 = [],
       bm_created_at = [], bm_compiler_version = ''1'', bm_prompt_bundle_version = None, bm_analysis_model = None,
       bm_validation_model = None, bm_embedding_model = None\<rparr>\<rparr>"

lemma sample_tool_valid: "validate_contract_tool sample_manifest sample_tool = Inr ()"
  by code_simp

lemma sample_manifest_valid:
  "validate_manifest_contract (\<lambda>_ _. Some True) idna_ascii (\<lambda>_. False) sample_manifest ''1'' = Inr ()"
  by code_simp

end
