(* ===== verification/RequestBuilder.thy ===== *)
theory RequestBuilder
  imports UpstreamAuth ManifestContract
begin

text \<open>
  Building the upstream request of a tool call
  (\<^verbatim>\<open>mcp_runtime/app/executor/request_builder.py\<close>): serialization of arguments into path,
  query, headers and body, injection of the upstream credentials and resolution of the URL.
  The URL resolver is what the locale \<open>url_resolver\<close> asks of it; the destination policy
  interprets the locale.
\<close>

section \<open>Serialization\<close>

record query_parameter =
  qp_name :: pystr
  qp_value :: pystr
  qp_allow_reserved :: bool

record multipart_part =
  mpp_name :: pystr
  mpp_content :: pystr
  mpp_filename :: "pystr option"
  mpp_content_type :: "pystr option"

record built_request =
  br_method :: pystr
  br_url :: pystr
  br_headers :: "(pystr \<times> pystr) list"
  br_query :: "query_parameter list"
  json_body :: json
  form_body :: "(pystr \<times> pystr) list option"
  multipart_body :: "multipart_part list option"

fun scalar :: "json \<Rightarrow> runtime_error + pystr" where
  "scalar JNull = Inr []"
| "scalar (JBool b) = Inr (if b then ''true'' else ''false'')"
| "scalar (JStr s) = Inr s"
| "scalar (JInt i) = Inr (str_int i)"
| "scalar (JFloat q t) = Inr t"
| "scalar _ = Inl (ArgumentValidationError ''Field cannot be serialized as a scalar'')"

definition array_values :: "json list \<Rightarrow> runtime_error + pystr list" where
  "array_values vs = rmap scalar vs"

definition object_values :: "json_object \<Rightarrow> runtime_error + (pystr \<times> pystr) list" where
  \<comment> \<open>\<^verbatim>\<open>_object\<close>; the keys of a JSON object are strings\<close>
  "object_values kvs = rmap (\<lambda>(k, v). rbind (scalar v) (\<lambda>t. Inr (k, t))) (sort_key fst kvs)"

definition style_of :: "parameter_mapping \<Rightarrow> pystr \<times> bool" where
  "style_of p =
     (if target p = QueryTarget
      then (if truthy (style p) then the (style p) else ''form'', case explode p of Some e \<Rightarrow> e | None \<Rightarrow> True)
      else (if truthy (style p) then the (style p) else ''simple'', case explode p of Some e \<Rightarrow> e | None \<Rightarrow> False))"

definition flatten_pairs :: "(pystr \<times> pystr) list \<Rightarrow> pystr list" where
  "flatten_pairs items = concat (map (\<lambda>(a, b). [a, b]) items)"

definition path_value :: "parameter_mapping \<Rightarrow> json \<Rightarrow> runtime_error + pystr" where
  "path_value p value =
     (if fst (style_of p) \<noteq> ''simple''
      then Inl (ArgumentValidationError ''Path parameters support only simple serialization'')
      else case value of
        JArr vs \<Rightarrow> rbind (rmap (\<lambda>v. encode_path_value (py_str v)) vs) (\<lambda>ws. Inr (join '','' ws))
      | JObj kvs \<Rightarrow> rbind (object_values kvs) (\<lambda>items.
          if snd (style_of p)
          then rbind (rmap (\<lambda>(k, t). rbind (encode_path_value k) (\<lambda>a. rbind (encode_path_value t) (\<lambda>b. Inr (a @ ''='' @ b)))) items)
                 (\<lambda>ws. Inr (join '','' ws))
          else rbind (rmap encode_path_value (flatten_pairs items)) (\<lambda>ws. Inr (join '','' ws)))
      | _ \<Rightarrow> rbind (scalar value) encode_path_value)"

definition delimiter :: "pystr \<Rightarrow> pystr option" where
  "delimiter s = map_of [(''form'', '',''), (''spaceDelimited'', '' ''), (''pipeDelimited'', ''|'')] s"

definition query_values :: "parameter_mapping \<Rightarrow> json \<Rightarrow> runtime_error + query_parameter list" where
  "query_values p value =
     (let (sty, expl) = style_of p; name = source_name p; reserved = allow_reserved p;
          qp = (\<lambda>n v. \<lparr>qp_name = n, qp_value = v, qp_allow_reserved = reserved\<rparr>)
      in case value of
        JArr vs \<Rightarrow> rbind (array_values vs) (\<lambda>values.
          if sty = ''form'' \<and> expl then Inr (map (qp name) values)
          else case delimiter sty of
              None \<Rightarrow> Inl (ArgumentValidationError ''Array query parameter uses an unsupported style'')
            | Some d \<Rightarrow> Inr [qp name (join d values)])
      | JObj kvs \<Rightarrow> rbind (object_values kvs) (\<lambda>items.
          if sty = ''deepObject'' then Inr (map (\<lambda>(k, t). qp (name @ ''['' @ k @ '']'') t) items)
          else if sty = ''form'' \<and> expl then Inr (map (\<lambda>(k, t). qp k t) items)
          else case delimiter sty of
              None \<Rightarrow> Inl (ArgumentValidationError ''Object query parameter uses an unsupported style'')
            | Some d \<Rightarrow> Inr [qp name (join d (flatten_pairs items))])
      | _ \<Rightarrow>
          if delimiter sty = None
          then Inl (ArgumentValidationError ''Scalar query parameter uses an unsupported style'')
          else rbind (scalar value) (\<lambda>t. Inr [qp name t]))"

definition header_value :: "parameter_mapping \<Rightarrow> json \<Rightarrow> runtime_error + pystr" where
  "header_value p value =
     (if fst (style_of p) \<noteq> ''simple''
      then Inl (ArgumentValidationError ''Header parameters support only simple serialization'')
      else case value of
        JArr vs \<Rightarrow> rbind (array_values vs) (\<lambda>ws. Inr (join '','' ws))
      | JObj kvs \<Rightarrow> rbind (object_values kvs) (\<lambda>items.
          if snd (style_of p) then Inr (join '','' (map (\<lambda>(k, t). k @ ''='' @ t) items))
          else Inr (join '','' (flatten_pairs items)))
      | _ \<Rightarrow> scalar value)"

definition validate_header :: "pystr \<Rightarrow> pystr \<Rightarrow> runtime_error + unit" where
  "validate_header name value =
     (if \<not> header_name_ok name then Inl (ArgumentValidationError ''Manifest contains an invalid header name'')
      else if has_any ctl_chars value then Inl (ArgumentValidationError ''Header value contains forbidden characters'')
      else Inr ())"

section \<open>Credentials\<close>

definition auth_conflict :: runtime_error where
  "auth_conflict = ArgumentValidationError ''Caller mapping conflicts with upstream authentication''"

fun add_auth_header :: "(pystr \<times> pystr) list \<Rightarrow> pystr \<times> pystr \<Rightarrow> runtime_error + (pystr \<times> pystr) list" where
  "add_auth_header headers (name, value) =
     rbind (validate_header name value) (\<lambda>_.
     if py_lower name \<in> set (map (\<lambda>h. py_lower (fst h)) headers) then Inl auth_conflict
     else Inr (headers @ [(name, value)]))"

fun add_auth_query :: "query_parameter list \<Rightarrow> pystr \<times> pystr \<Rightarrow> runtime_error + query_parameter list" where
  "add_auth_query q (name, value) =
     (if name \<in> set (map qp_name q) then Inl auth_conflict
      else Inr (q @ [\<lparr>qp_name = name, qp_value = value, qp_allow_reserved = False\<rparr>]))"

definition apply_auth ::
  "(pystr \<times> pystr) list \<Rightarrow> query_parameter list \<Rightarrow> auth_injection
   \<Rightarrow> runtime_error + ((pystr \<times> pystr) list \<times> query_parameter list)" where
  "apply_auth headers q auth =
     rbind (rfold add_auth_header headers (inj_headers auth)) (\<lambda>hs.
     rbind (rfold add_auth_query q (inj_query auth)) (\<lambda>qs. Inr (hs, qs)))"

section \<open>Bodies\<close>

definition form_field :: "pystr \<times> json \<Rightarrow> runtime_error + (pystr \<times> pystr) list" where
  "form_field kv = (case snd kv of
      JArr vs \<Rightarrow> rmap (\<lambda>v. rbind (scalar v) (\<lambda>t. Inr (fst kv, t))) vs
    | v \<Rightarrow> rbind (scalar v) (\<lambda>t. Inr [(fst kv, t)]))"

definition form_fields :: "json \<Rightarrow> runtime_error + (pystr \<times> pystr) list" where
  "form_fields raw = (case raw of
      JObj kvs \<Rightarrow> rbind (rmap form_field kvs) (\<lambda>fss. Inr (concat fss))
    | _ \<Rightarrow> Inl (ArgumentValidationError ''Form body must be an object''))"

definition media_type_chars :: pystr where
  "media_type_chars = ''ABCDEFGHIJKLMNOPQRSTUVWXYZabcdefghijklmnopqrstuvwxyz0123456789!#$&^_.+-''"

definition media_type_ok :: "pystr \<Rightarrow> bool" where
  \<comment> \<open>\<^verbatim>\<open>_MEDIA_TYPE.fullmatch\<close>: two non-empty tokens around one slash\<close>
  "media_type_ok s = (case partition_on (CHR ''/'') s of (a, b) \<Rightarrow>
     CHR ''/'' \<in> set s \<and> a \<noteq> [] \<and> b \<noteq> [] \<and> list_all (\<lambda>c. c \<in> set media_type_chars) a
     \<and> list_all (\<lambda>c. c \<in> set media_type_chars) b)"

definition dict_get :: "json_object \<Rightarrow> pystr \<Rightarrow> json" where
  \<comment> \<open>\<^verbatim>\<open>values.get(key)\<close>, with None for an absent key and for JSON null\<close>
  "dict_get d k = (case map_of d k of None \<Rightarrow> JNull | Some v \<Rightarrow> v)"

definition optional_field :: "json_object \<Rightarrow> pystr option \<Rightarrow> pystr \<Rightarrow> json" where
  "optional_field values field dflt = (case field of Some f \<Rightarrow> dict_get values f | None \<Rightarrow> JStr dflt)"

definition file_fields :: "multipart_file_mapping \<Rightarrow> pystr list" where
  "file_fields f = [content_field f] @ (if truthy (filename_field f) then [the (filename_field f)] else [])
     @ (if truthy (content_type_field f) then [the (content_type_field f)] else [])"

definition file_part :: "json_object \<Rightarrow> multipart_file_mapping \<Rightarrow> runtime_error + (pystr list \<times> multipart_part list)" where
  "file_part values f =
     (case dict_get values (content_field f) of
        JNull \<Rightarrow> if mf_required f then Inl (ArgumentValidationError ''Missing multipart file field'') else Inr ([], [])
      | JStr text \<Rightarrow>
        (case b64decode text of
           None \<Rightarrow> Inl (ArgumentValidationError ''Multipart file content is not valid base64'')
         | Some content \<Rightarrow>
           (case (optional_field values (filename_field f) (default_filename f),
                  optional_field values (content_type_field f) (default_content_type f)) of
              (JStr filename, ctype) \<Rightarrow>
                if filename = [] then Inl (ArgumentValidationError ''Multipart filename must be non-empty text'')
                else if has_any (ctl_chars @ [CHR ''/'', CHR 0x5C, CHR 0x22]) filename
                then Inl (ArgumentValidationError ''Multipart filename contains forbidden characters'')
                else (case ctype of
                    JStr ct \<Rightarrow>
                      if media_type_ok ct
                      then Inr (file_fields f, [\<lparr>mpp_name = part_name f, mpp_content = content,
                          mpp_filename = Some filename, mpp_content_type = Some ct\<rparr>])
                      else Inl (ArgumentValidationError ''Multipart content type is invalid'')
                  | _ \<Rightarrow> Inl (ArgumentValidationError ''Multipart content type is invalid''))
            | _ \<Rightarrow> Inl (ArgumentValidationError ''Multipart filename must be non-empty text'')))
      | _ \<Rightarrow> Inl (ArgumentValidationError ''Multipart file content must be base64 text''))"

definition plain_part :: "pystr \<Rightarrow> pystr \<Rightarrow> multipart_part" where
  "plain_part name content =
     \<lparr>mpp_name = name, mpp_content = content, mpp_filename = None, mpp_content_type = None\<rparr>"

definition multipart_parts :: "request_body_mapping \<Rightarrow> json \<Rightarrow> runtime_error + multipart_part list" where
  "multipart_parts b raw = (case raw of
      JObj values \<Rightarrow>
        rbind (rmap (file_part values) (multipart_files b)) (\<lambda>files.
        let consumed = concat (map fst files)
        in rbind (rmap form_field (filter (\<lambda>(k, _). k \<notin> set consumed) values)) (\<lambda>rest.
           Inr (concat (map snd files) @ map (\<lambda>(n, t). plain_part n t) (concat rest))))
    | _ \<Rightarrow> Inl (ArgumentValidationError ''Multipart body must be an object''))"

section \<open>The request\<close>

record build_state =
  bs_path :: pystr
  bs_query :: "query_parameter list"
  bs_headers :: "(pystr \<times> pystr) list"

definition accept_header :: "pystr \<times> pystr" where
  "accept_header = (''Accept'', ''application/json, text/plain;q=0.9, */*;q=0.1'')"

definition apply_parameter :: "json_object \<Rightarrow> build_state \<Rightarrow> parameter_mapping \<Rightarrow> runtime_error + build_state" where
  "apply_parameter arguments st p =
     (case map_of arguments (tool_field p) of
        None \<Rightarrow> if pm_required p then Inl (ArgumentValidationError ''Missing required field'') else Inr st
      | Some value \<Rightarrow>
        (case target p of
           PathTarget \<Rightarrow>
             if \<not> contains (bs_path st) (placeholder (source_name p))
             then Inl (ArgumentValidationError ''Manifest path mapping is inconsistent'')
             else rbind (path_value p value) (\<lambda>v.
               Inr (st\<lparr>bs_path := replace (placeholder (source_name p)) v (bs_path st)\<rparr>))
         | QueryTarget \<Rightarrow> rbind (query_values p value) (\<lambda>qs. Inr (st\<lparr>bs_query := bs_query st @ qs\<rparr>))
         | HeaderTarget \<Rightarrow>
             if py_lower (source_name p) \<in> set forbidden_caller_headers
             then Inl (ArgumentValidationError ''Caller-controlled security header is forbidden'')
             else rbind (header_value p value) (\<lambda>v.
                  rbind (validate_header (source_name p) v) (\<lambda>_.
                  Inr (st\<lparr>bs_headers := bs_headers st @ [(source_name p, v)]\<rparr>)))))"

definition mapped_field_set :: "request_mapping \<Rightarrow> pystr set" where
  "mapped_field_set mapping = set (map tool_field (parameters mapping))
     \<union> (case body mapping of None \<Rightarrow> {} | Some b \<Rightarrow> {body_field b})"

definition apply_body ::
  "request_mapping \<Rightarrow> json_object \<Rightarrow>
   runtime_error + ((pystr \<times> pystr) list \<times> json \<times> (pystr \<times> pystr) list option \<times> multipart_part list option)" where
  "apply_body mapping arguments =
     (case body mapping of None \<Rightarrow> Inr ([], JNull, None, None)
      | Some b \<Rightarrow>
        (case map_of arguments (body_field b) of
           None \<Rightarrow> if body_required b then Inl (ArgumentValidationError ''Missing required request body field'')
                   else Inr ([], JNull, None, None)
         | Some raw \<Rightarrow>
           (case body_media_type b of
              ApplicationJson \<Rightarrow> Inr ([(''Content-Type'', ''application/json'')], raw, None, None)
            | FormUrlencoded \<Rightarrow> rbind (form_fields raw) (\<lambda>fs.
                Inr ([(''Content-Type'', ''application/x-www-form-urlencoded'')], JNull, Some fs, None))
            | MultipartFormData \<Rightarrow> rbind (multipart_parts b raw) (\<lambda>ps. Inr ([], JNull, None, Some ps)))))"

definition build_request ::
  "(pystr \<Rightarrow> pystr \<Rightarrow> runtime_error + pystr) \<Rightarrow> mcp_tool \<Rightarrow> json_object \<Rightarrow> auth_injection
   \<Rightarrow> runtime_error + built_request" where
  "build_request resolve tool arguments auth =
     (let mapping = request_mapping tool in
      if \<not> set (dkeys arguments) \<subseteq> mapped_field_set mapping
      then Inl (ArgumentValidationError ''Undeclared tool arguments are forbidden'')
      else rbind (rfold (apply_parameter arguments)
          \<lparr>bs_path = rm_path mapping, bs_query = [], bs_headers = [accept_header]\<rparr> (parameters mapping)) (\<lambda>st.
        if CHR ''{'' \<in> set (bs_path st) \<or> CHR ''}'' \<in> set (bs_path st)
        then Inl (ArgumentValidationError ''Not all path parameters were resolved'')
        else rbind (apply_body mapping arguments) (\<lambda>(content_headers, jb, fb, mb).
             rbind (apply_auth (bs_headers st @ content_headers) (bs_query st) auth) (\<lambda>(hs, qs).
             rbind (resolve (server_ref mapping) (bs_path st)) (\<lambda>url.
             Inr \<lparr>br_method = method_value (rm_method mapping), br_url = url, br_headers = hs, br_query = qs,
                  json_body = jb, form_body = fb, multipart_body = mb\<rparr>)))))"

section \<open>Headers\<close>

definition header_ok :: "pystr \<times> pystr \<Rightarrow> bool" where
  "header_ok h \<longleftrightarrow> header_name_ok (fst h) \<and> \<not> has_any ctl_chars (snd h)"

lemma validate_header_Inr [result_simps]: "validate_header n v = Inr u \<longleftrightarrow> header_ok (n, v)"
  by (auto simp: validate_header_def header_ok_def)

lemma add_auth_headers:
  assumes "rfold add_auth_header hs extra = Inr hs'"
  shows "hs' = hs @ extra" and "\<forall>h\<in>set extra. header_ok h"
    and "\<forall>h\<in>set extra. py_lower (fst h) \<notin> set (map (\<lambda>h. py_lower (fst h)) hs)"
    and "distinct (map (\<lambda>h. py_lower (fst h)) extra)"
proof -
  have "hs' = hs @ extra \<and> (\<forall>h\<in>set extra. header_ok h)
    \<and> (\<forall>h\<in>set extra. py_lower (fst h) \<notin> set (map (\<lambda>h. py_lower (fst h)) hs))
    \<and> distinct (map (\<lambda>h. py_lower (fst h)) extra)"
    using assms
  proof (induction extra arbitrary: hs)
    case (Cons h extra)
    obtain n v where h: "h = (n, v)" by fastforce
    with Cons.prems have ok: "header_ok (n, v)" "py_lower n \<notin> set (map (\<lambda>h. py_lower (fst h)) hs)"
      and r: "rfold add_auth_header (hs @ [(n, v)]) extra = Inr hs'"
      by (auto simp: result_simps split: if_splits)
    from Cons.IH [OF r] ok h show ?case by auto
  qed simp
  then show "hs' = hs @ extra" and "\<forall>h\<in>set extra. header_ok h"
    and "\<forall>h\<in>set extra. py_lower (fst h) \<notin> set (map (\<lambda>h. py_lower (fst h)) hs)"
    and "distinct (map (\<lambda>h. py_lower (fst h)) extra)" by auto
qed

lemma add_auth_queries:
  "rfold add_auth_query q extra = Inr q' \<Longrightarrow>
    map qp_name q' = map qp_name q @ map fst extra \<and> (\<forall>x\<in>set extra. fst x \<notin> qp_name ` set q)"
proof (induction extra arbitrary: q)
  case (Cons x extra)
  obtain n v where x: "x = (n, v)" by fastforce
  with Cons.prems have n: "n \<notin> qp_name ` set q"
    and r: "rfold add_auth_query (q @ [\<lparr>qp_name = n, qp_value = v, qp_allow_reserved = False\<rparr>]) extra = Inr q'"
    by (auto split: if_splits)
  from Cons.IH [OF r] n x show ?case by auto
qed simp

text \<open>The headers that come from the caller's arguments.\<close>

definition caller_header_ok :: "pystr \<times> pystr \<Rightarrow> bool" where
  "caller_header_ok h \<longleftrightarrow> header_ok h \<and> py_lower (fst h) \<notin> set forbidden_caller_headers"

lemma accept_header_ok: "caller_header_ok accept_header"
  by (simp add: caller_header_ok_def header_ok_def accept_header_def header_name_ok_def header_name_chars_def
      has_any_def ctl_chars_def py_lower_def lower_char_def less_eq_char_def
      forbidden_caller_headers_def forbidden_auth_headers_def)

lemma apply_parameter_headers:
  assumes "apply_parameter args st p = Inr st'" and "\<forall>h\<in>set (bs_headers st). caller_header_ok h"
  shows "\<forall>h\<in>set (bs_headers st'). caller_header_ok h"
  using assms
  by (auto simp: apply_parameter_def result_simps caller_header_ok_def
      split: option.splits if_splits parameter_target.splits)

lemma apply_body_headers:
  "apply_body mapping args = Inr (hs, r) \<Longrightarrow> hs = [] \<or> (\<exists>v. hs = [(''Content-Type'', v)] \<and> header_ok (''Content-Type'', v))"
  by (auto simp: apply_body_def result_simps header_ok_def header_name_ok_def header_name_chars_def has_any_def ctl_chars_def
      split: option.splits if_splits body_media.splits)

lemma build_request_Inr:
  assumes "build_request resolve tool args auth = Inr r"
  obtains st chs jb fb mb qs where
    "rfold (apply_parameter args) \<lparr>bs_path = rm_path (request_mapping tool), bs_query = [], bs_headers = [accept_header]\<rparr>
       (parameters (request_mapping tool)) = Inr st"
    and "set (dkeys args) \<subseteq> mapped_field_set (request_mapping tool)"
    and "CHR ''{'' \<notin> set (bs_path st)" and "CHR ''}'' \<notin> set (bs_path st)"
    and "apply_body (request_mapping tool) args = Inr (chs, jb, fb, mb)"
    and "apply_auth (bs_headers st @ chs) (bs_query st) auth = Inr (br_headers r, qs)"
    and "resolve (server_ref (request_mapping tool)) (bs_path st) = Inr (br_url r)"
    and "br_query r = qs"
  using assms
  by (auto simp: build_request_def Let_def result_simps split: if_splits)

section \<open>Paths\<close>

text \<open>The bytes a serialized path value consists of: what \<^verbatim>\<open>quote\<close> leaves, commas and equal signs.\<close>

definition path_chars :: pystr where
  "path_chars = unreserved @ ''%,=''"

lemma encode_path_value_chars: "encode_path_value s = Inr t \<Longrightarrow> set t \<subseteq> set path_chars"
  using quote_range [of "[]" s] by (auto simp: encode_path_value_def path_chars_def split: if_splits)

lemma join_chars: "\<forall>w\<in>set ws. set w \<subseteq> set path_chars \<Longrightarrow> set (join '','' ws) \<subseteq> set path_chars"
  using set_join [of "'',''" ws] by (auto simp: path_chars_def)

lemma rmap_join_chars:
  "rmap f xs = Inr ws \<Longrightarrow> (\<And>x w. f x = Inr w \<Longrightarrow> set w \<subseteq> set path_chars) \<Longrightarrow> set (join '','' ws) \<subseteq> set path_chars"
  by (rule join_chars) (metis rmap_set)

lemma path_value_chars: "path_value p v = Inr t \<Longrightarrow> set t \<subseteq> set path_chars"
proof -
  assume t: "path_value p v = Inr t"
  have e: "CHR ''='' \<in> set path_chars" by (simp add: path_chars_def)
  let ?pair = "\<lambda>(k, u). rbind (encode_path_value k) (\<lambda>a. rbind (encode_path_value u) (\<lambda>b. Inr (a @ CHR ''='' # b)))"
  have pair: "?pair x = Inr w \<Longrightarrow> set w \<subseteq> set path_chars" for x w
    using e by (cases x) (auto simp: result_simps dest!: encode_path_value_chars)
  have c: "rmap ?pair xs = Inr ws \<Longrightarrow> set (join '','' ws) \<subseteq> set path_chars" for xs ws
    by (rule rmap_join_chars) (use pair in blast)+
  have d: "rmap (\<lambda>x. encode_path_value (g x)) xs = Inr ws \<Longrightarrow> set (join '','' ws) \<subseteq> set path_chars"
    for g :: "'b \<Rightarrow> pystr" and xs ws
    by (rule rmap_join_chars) (use encode_path_value_chars in blast)+
  from t show ?thesis
    by (cases v) (auto simp: path_value_def result_simps simp del: set_append
        dest!: c d [of py_str] d [of "\<lambda>x. x"] encode_path_value_chars split: if_splits)
qed

text \<open>What the loop over the parameters keeps: the path is a template over the bytes of the
  operation path and of serialized values, with as many slashes as the operation path.\<close>

definition slashes :: "pystr \<Rightarrow> nat" where
  "slashes s = length (filter (\<lambda>c. c = CHR ''/'') s)"

definition path_progress :: "pystr \<Rightarrow> pystr \<Rightarrow> bool" where
  "path_progress template path \<longleftrightarrow>
     (\<exists>ps. wf_template ps \<and> render ps = path) \<and> slashes path = slashes template
     \<and> set path \<subseteq> set template \<union> set path_chars"

lemma slashes_append [simp]: "slashes (a @ b) = slashes a + slashes b"
  by (simp add: slashes_def)

lemma slashes_zero: "CHR ''/'' \<notin> set s \<Longrightarrow> slashes s = 0"
  by (auto simp: slashes_def filter_empty_conv)

lemma slashes_split: "length (split_on (CHR ''/'') s) = Suc (slashes s)"
  by (induction s) (auto simp: slashes_def split: list.splits)

lemma slashes_subst:
  assumes "wf_template ps" and "wf_name n" and "CHR ''/'' \<notin> set v"
  shows "slashes (render (subst_template n v ps)) = slashes (render ps)"
  using assms(1)
proof (induction ps rule: render.induct)
  case (3 m ps)
  have "slashes (render (Param m # ps)) = slashes (render ps)"
    using 3 by (auto simp: slashes_def wf_name_def filter_empty_conv)
  then show ?case using 3 slashes_zero [OF assms(3)]
    by (auto simp: subst_template_def slashes_def wf_name_def)
qed (auto simp: subst_template_def slashes_def)

lemma set_subst: "set (render (subst_template n v ps)) \<subseteq> set (render ps) \<union> set v"
  by (induction ps rule: render.induct) (auto simp: subst_template_def)

lemma path_chars_facts:
  "CHR ''/'' \<notin> set path_chars" "CHR ''{'' \<notin> set path_chars" "CHR ''}'' \<notin> set path_chars"
  "CHR 0x09 \<notin> set path_chars" "CHR 0x0A \<notin> set path_chars" "CHR 0x0D \<notin> set path_chars"
  by (simp_all add: path_chars_def unreserved_def)

lemma path_progress_replace:
  assumes "path_progress tmpl path" and n: "wf_name n" and v: "set v \<subseteq> set path_chars"
  shows "path_progress tmpl (replace (placeholder n) v path)"
proof -
  from assms(1) obtain ps where ps: "wf_template ps" "render ps = path"
    and sl: "slashes path = slashes tmpl" and sub: "set path \<subseteq> set tmpl \<union> set path_chars"
    by (auto simp: path_progress_def)
  have r: "replace (placeholder n) v path = render (subst_template n v ps)"
    using replace_placeholder [OF ps(1) n] ps(2) by simp
  have nb: "CHR ''/'' \<notin> set v" "CHR ''{'' \<notin> set v" "CHR ''}'' \<notin> set v"
    using v path_chars_facts by blast+
  show ?thesis
    unfolding path_progress_def r
    using wf_subst [OF ps(1) nb(2,3)] slashes_subst [OF ps(1) n nb(1)] set_subst [of n v ps] ps(2) sl sub v by fastforce
qed

lemma apply_parameter_path:
  assumes "apply_parameter args st p = Inr st'" and "path_progress tmpl (bs_path st)"
    and "target p = PathTarget \<Longrightarrow> wf_name (source_name p)"
  shows "path_progress tmpl (bs_path st')"
  using assms path_progress_replace [OF assms(2)]
  by (auto simp: apply_parameter_def result_simps dest!: path_value_chars
      split: option.splits if_splits parameter_target.splits)

lemma valid_tool_paths:
  assumes "validate_tool_mapping t = Inr ()"
  shows "path_progress (rm_path (request_mapping t)) (rm_path (request_mapping t))"
    and "\<forall>p\<in>set (parameters (request_mapping t)). target p = PathTarget \<longrightarrow> wf_name (source_name p)"
proof -
  from validate_tool_mapping_Inr [OF assms] obtain names
    where n: "path_parameter_names (rm_path (request_mapping t)) = Inr names"
      and s: "set names = set (path_sources (request_mapping t))" by metis
  show "path_progress (rm_path (request_mapping t)) (rm_path (request_mapping t))"
    using parse_complete [OF n] by (auto simp: path_progress_def)
  show "\<forall>p\<in>set (parameters (request_mapping t)). target p = PathTarget \<longrightarrow> wf_name (source_name p)"
    using names_wf [OF n] s by (auto simp: path_sources_def)
qed

lemma built_path:
  assumes "validate_tool_mapping t = Inr ()"
    and "rfold (apply_parameter args) \<lparr>bs_path = rm_path (request_mapping t), bs_query = [], bs_headers = hs\<rparr>
      (parameters (request_mapping t)) = Inr st"
  shows "path_progress (rm_path (request_mapping t)) (bs_path st)"
  by (rule rfold_invariant [where P = "\<lambda>st. path_progress (rm_path (request_mapping t)) (bs_path st)", OF assms(2)])
    (use valid_tool_paths [OF assms(1)] apply_parameter_path in auto)

section \<open>The resolver of URLs\<close>

lemma url_ws_control: "is_url_ws c \<Longrightarrow> is_control c"
  unfolding is_url_ws_def is_control_def by (elim disjE) (simp_all add: less_eq_char_def)

text \<open>What the builder relies on: a URL resolved from a path without line breaks and tabs is one
  the policy allows.\<close>

locale url_resolver =
  fixes resolve :: "'p \<Rightarrow> pystr \<Rightarrow> pystr \<Rightarrow> runtime_error + pystr"
    and invar :: "'p \<Rightarrow> bool"
    and allowed :: "'p \<Rightarrow> pystr \<Rightarrow> bool"
  assumes resolve_allowed:
    "invar p \<Longrightarrow> \<forall>c\<in>set path. \<not> is_url_ws c \<Longrightarrow> resolve p srv path = Inr u \<Longrightarrow> allowed p u"
begin

lemma built_url_allowed:
  assumes "invar p" and "validate_tool_mapping t = Inr ()"
    and "validate_operation_path (rm_path (request_mapping t)) = Inr ()"
    and "build_request (resolve p) t args auth = Inr r"
  shows "allowed p (br_url r)"
proof -
  from build_request_Inr [OF assms(4)] obtain st where
    st: "rfold (apply_parameter args) \<lparr>bs_path = rm_path (request_mapping t), bs_query = [], bs_headers = [accept_header]\<rparr>
       (parameters (request_mapping t)) = Inr st"
    and u: "resolve p (server_ref (request_mapping t)) (bs_path st) = Inr (br_url r)" by metis
  have "set (bs_path st) \<subseteq> set (rm_path (request_mapping t)) \<union> set path_chars"
    using built_path [OF assms(2) st] by (simp add: path_progress_def)
  moreover have "\<forall>c\<in>set (rm_path (request_mapping t)). \<not> is_url_ws c"
    using validate_operation_path_Inr(3) [OF assms(3)] url_ws_control by blast
  moreover have "\<forall>c\<in>set path_chars. \<not> is_url_ws c"
    unfolding is_url_ws_def using path_chars_facts(4-6) by blast
  ultimately have "\<forall>c\<in>set (bs_path st). \<not> is_url_ws c" by blast
  then show ?thesis using resolve_allowed [OF assms(1) _ u] by blast
qed

end

lemma policy_resolve_allowed:
  assumes "\<forall>(i, o1)\<in>set (origins p). wf_origin env o1" and "\<forall>c\<in>set path. \<not> is_url_ws c"
    and "policy_resolve p srv path = Inr u"
  shows "\<exists>o1. assert_url_is_allowlisted env p u = Inr o1"
proof -
  from assms(3) obtain o1 where o1: "map_of (origins p) srv = Some o1" and r: "resolve_origin o1 path = Inr u"
    by (auto simp: policy_resolve_def split: option.splits)
  have mem: "(srv, o1) \<in> set (origins p)" using map_of_SomeD [OF o1] .
  with assms(1) have "wf_origin env o1" by auto
  from resolve_origin_parses [OF this r assms(2)]
  have "request_origin env False u = Inr (o1\<lparr>base_path := []\<rparr>)" .
  moreover have "list_ex (\<lambda>(_, a). same_origin (o1\<lparr>base_path := []\<rparr>) a) (origins p)"
    using mem by (force simp: list_ex_iff same_origin_def)
  ultimately show ?thesis by (simp add: assert_url_is_allowlisted_def)
qed

interpretation policy: url_resolver policy_resolve "\<lambda>p. \<forall>(i, o1)\<in>set (origins p). wf_origin env o1"
  "\<lambda>p u. \<exists>o1. assert_url_is_allowlisted env p u = Inr o1" for env
  by unfold_locales (rule policy_resolve_allowed)

section \<open>Properties\<close>

definition sample_args :: json_object where
  "sample_args = [(''id'', JStr ''a/../b''), (''limit'', JInt 5)]"

definition sample_injection :: auth_injection where
  "sample_injection = \<lparr>inj_headers = [(''Authorization'', ''Bearer t'')], inj_query = []\<rparr>"

definition sample_request :: built_request where
  "sample_request = \<lparr>br_method = ''GET'', br_url = ''https://api.io/v1/pets/a%2F..%2Fb'',
     br_headers = [accept_header, (''Authorization'', ''Bearer t'')],
     br_query = [\<lparr>qp_name = ''limit'', qp_value = ''5'', qp_allow_reserved = False\<rparr>],
     json_body = JNull, form_body = None, multipart_body = None\<rparr>"

lemma sample_build: "build_request (policy_resolve sample_policy) sample_tool sample_args sample_injection = Inr sample_request"
  by code_simp

lemma sample_origins: "\<forall>(i, o1)\<in>set (origins sample_policy). plain_host sample_env (o_hostname o1)"
  using sample_plain_host by (simp add: sample_policy_def)

text \<open>C2: A request that is built for a tool of a validated manifest, under a policy made from the
  manifest's server URLs whose host names need no brackets, has a URL that passes the
  allowlist check before connecting: no argument of the caller can move the request to another
  scheme, host or port.\<close>

theorem built_request_on_allowed_origin:
  assumes "url_policy_init env srv private dev mode = Inr p"
    and "\<forall>(i, o1)\<in>set (origins p). plain_host env (o_hostname o1)"
    and "validate_contract_tool m t = Inr ()"
    and "build_request (policy_resolve p) t args auth = Inr r"
  shows "\<exists>o1. assert_url_is_allowlisted env p (br_url r) = Inr o1"
proof -
  have "\<forall>(i, o1)\<in>set (origins p). wf_origin env o1"
    using policy_origins(1) [OF assms(1)] assms(2) from_url_wf by fastforce
  then show ?thesis
    using policy.built_url_allowed [OF _ validate_contract_tool_Inr(3,2) [OF assms(3)] assms(4)] assms(3) by blast
qed

theorem built_request_on_allowed_origin_witness:
  "\<exists>o1. assert_url_is_allowlisted sample_env sample_policy (br_url sample_request) = Inr o1"
  by (rule built_request_on_allowed_origin
      [OF sample_policy_init sample_origins sample_tool_valid sample_build])

text \<open>C12: The path a request is sent to has exactly as many segments as the operation path of the
  tool's manifest entry, and no braces are left: a serialized argument fills its placeholder
  and adds no separator.\<close>

theorem built_path_keeps_segments:
  assumes "validate_tool_mapping t = Inr ()" and "build_request resolve t args auth = Inr r"
  shows "\<exists>path. resolve (server_ref (request_mapping t)) path = Inr (br_url r)
    \<and> length (split_on (CHR ''/'') path) = length (split_on (CHR ''/'') (rm_path (request_mapping t)))
    \<and> CHR ''{'' \<notin> set path \<and> CHR ''}'' \<notin> set path
    \<and> set path \<subseteq> set (rm_path (request_mapping t)) \<union> set path_chars"
proof -
  from build_request_Inr [OF assms(2)] obtain st where
    st: "rfold (apply_parameter args) \<lparr>bs_path = rm_path (request_mapping t), bs_query = [], bs_headers = [accept_header]\<rparr>
       (parameters (request_mapping t)) = Inr st"
    and u: "resolve (server_ref (request_mapping t)) (bs_path st) = Inr (br_url r)"
    and b: "CHR ''{'' \<notin> set (bs_path st)" "CHR ''}'' \<notin> set (bs_path st)" by metis
  show ?thesis
    using built_path [OF assms(1) st] u b by (auto simp: path_progress_def slashes_split)
qed

theorem built_path_keeps_segments_witness:
  "\<exists>path. policy_resolve sample_policy ''s1'' path = Inr (br_url sample_request)
    \<and> length (split_on (CHR ''/'') path) = 3"
  using built_path_keeps_segments [OF validate_contract_tool_Inr(3) [OF sample_tool_valid] sample_build]
  by (auto simp: sample_tool_def)

text \<open>C13: The headers of a built request are those of the caller, the content type and the injected
  credentials, in this order; every name and value is well formed (no line break can split a
  header), no caller header is a security header, and no header of the caller or the body has
  the name of an injected one, whatever the case of the letters.\<close>

theorem built_headers:
  assumes "build_request resolve t args auth = Inr r"
  shows "\<exists>hs content. br_headers r = hs @ content @ inj_headers auth
    \<and> (\<forall>h\<in>set (br_headers r). header_name_ok (fst h) \<and> \<not> has_any ctl_chars (snd h))
    \<and> (\<forall>h\<in>set hs. py_lower (fst h) \<notin> set forbidden_caller_headers)
    \<and> (\<forall>h\<in>set content. fst h = ''Content-Type'')
    \<and> (\<forall>a\<in>set (inj_headers auth). \<forall>h\<in>set (hs @ content). py_lower (fst h) \<noteq> py_lower (fst a))"
proof -
  from build_request_Inr [OF assms] obtain st chs jb fb mb where
    st: "rfold (apply_parameter args) \<lparr>bs_path = rm_path (request_mapping t), bs_query = [], bs_headers = [accept_header]\<rparr>
       (parameters (request_mapping t)) = Inr st"
    and b: "apply_body (request_mapping t) args = Inr (chs, jb, fb, mb)"
    and a: "apply_auth (bs_headers st @ chs) (bs_query st) auth = Inr (br_headers r, br_query r)" by metis
  have c: "\<forall>h\<in>set (bs_headers st). caller_header_ok h"
    by (rule rfold_invariant [where P = "\<lambda>st. \<forall>h\<in>set (bs_headers st). caller_header_ok h", OF st])
      (use accept_header_ok apply_parameter_headers in auto)
  from a have "rfold add_auth_header (bs_headers st @ chs) (inj_headers auth) = Inr (br_headers r)"
    by (auto simp: apply_auth_def result_simps)
  note f = add_auth_headers [OF this]
  have g: "\<forall>a\<in>set (inj_headers auth). \<forall>h\<in>set (bs_headers st @ chs). py_lower (fst h) \<noteq> py_lower (fst a)"
    using f(3) by force
  show ?thesis
    by (rule exI [of _ "bs_headers st"], rule exI [of _ chs])
      (use g c f(1,2) apply_body_headers [OF b] in \<open>auto simp: caller_header_ok_def header_ok_def\<close>)
qed

theorem built_headers_witness:
  "\<exists>hs content. br_headers sample_request = hs @ content @ inj_headers sample_injection
    \<and> (\<forall>h\<in>set (br_headers sample_request). header_name_ok (fst h) \<and> \<not> has_any ctl_chars (snd h))"
  using built_headers [OF sample_build] by blast

end
