(* ===== verification/ApiClient.thy ===== *)
theory ApiClient
  imports RequestBuilder
begin

text \<open>
  The HTTP client of the runtime (\<^verbatim>\<open>mcp_runtime/app/clients/api_client.py\<close> and
  \<^verbatim>\<open>response_reader.py\<close>): the query string, the outbound request with its timeouts, the bounded
  reading of the response body and its decoding.

  The package \<^verbatim>\<open>httpx\<close> is the record \<open>httpx\<close>: the length it declares for an outbound request
  and what sending it gives. What arrives while a body is read is a list of events; an event that
  is not a chunk ends the loop. A passed deadline of \<^verbatim>\<open>asyncio.timeout\<close> is an event of its own.
\<close>

section \<open>Responses and outbound requests\<close>

record upstream_result =
  ur_status :: nat
  ur_content_type :: pystr
  ur_data :: json

definition is_error :: "upstream_result \<Rightarrow> bool" where
  "is_error r \<longleftrightarrow> ur_status r \<ge> 300"

datatype stream_event = Chunk pystr | StreamTimeout | StreamHttpError | StreamDeadline

record http_response =
  resp_status :: nat
  resp_length :: "pystr option"
  resp_content_type :: "pystr option"
  resp_stream :: "stream_event list"

datatype send_result = SendTimeout | SendHttpError | SendDeadline | Response http_response

datatype outbound_content =
    JsonContent json
  | FormContent pystr
  | FilesContent "(pystr \<times> (pystr option \<times> pystr \<times> pystr option)) list"

record phase_timeouts =
  connect_timeout :: rat
  read_timeout :: rat
  write_timeout :: rat
  pool_timeout :: rat

record outbound_request =
  ob_method :: pystr
  ob_url :: pystr
  ob_headers :: "(pystr \<times> pystr) list"
  ob_content :: outbound_content
  ob_timeouts :: phase_timeouts

record httpx =
  content_length :: "outbound_request \<Rightarrow> nat option"
  send :: "outbound_request \<Rightarrow> send_result"
  json_loads :: "pystr \<Rightarrow> json option"
  decode_replace :: "pystr \<Rightarrow> pystr"

record api_client =
  ac_policy :: url_policy
  ac_timeouts :: phase_timeouts
  ac_max_request_bytes :: int

section \<open>Query strings\<close>

definition reserved_safe :: pystr where
  "reserved_safe = '':/?@!$'' @ [CHR 0x27] @ ''()*+,;''"

definition encode_pair :: "query_parameter \<Rightarrow> pystr" where
  "encode_pair q = quote [] (qp_name q) @ ''='' @ quote (if qp_allow_reserved q then reserved_safe else []) (qp_value q)"

definition append_query :: "pystr \<Rightarrow> query_parameter list \<Rightarrow> pystr" where
  "append_query url ps = (if ps = [] then url else url @ ''?'' @ join ''&'' (map encode_pair ps))"

definition urlencode :: "(pystr \<times> pystr) list \<Rightarrow> pystr" where
  "urlencode kvs = join ''&'' (map (\<lambda>(k, v). quote_plus k @ ''='' @ quote_plus v) kvs)"

section \<open>Bounded bodies\<close>

text \<open>Python's \<^verbatim>\<open>int\<close> of a header value: blanks around, a sign, digits with single underscores between them.\<close>

fun int_digits :: "pystr \<Rightarrow> pystr option" where
  "int_digits [] = None"
| "int_digits [c] = (if is_digit_char c then Some [c] else None)"
| "int_digits (c # d # s) =
     (if \<not> is_digit_char c then None
      else if d = CHR ''_'' then map_option (Cons c) (int_digits s)
      else map_option (Cons c) (int_digits (d # s)))"

definition py_int :: "pystr \<Rightarrow> int option" where
  "py_int text = (case strip text of
      [] \<Rightarrow> None
    | c # s \<Rightarrow>
        if c = CHR ''-'' then map_option (\<lambda>ds. - int (parse_digits ds)) (int_digits s)
        else if c = CHR ''+'' then map_option (\<lambda>ds. int (parse_digits ds)) (int_digits s)
        else map_option (\<lambda>ds. int (parse_digits ds)) (int_digits (c # s)))"

fun read_chunks :: "int \<Rightarrow> pystr list \<Rightarrow> int \<Rightarrow> stream_event list \<Rightarrow> runtime_error + pystr" where
  "read_chunks max_bytes chunks received [] = Inr (concat (rev chunks))"
| "read_chunks max_bytes chunks received (Chunk c # es) =
     (let received' = received + int (length c) in
      if received' > max_bytes then Inl UpstreamResponseTooLargeError
      else read_chunks max_bytes (c # chunks) received' es)"
| "read_chunks max_bytes chunks received (StreamTimeout # es) = Inl UpstreamTimeoutError"
| "read_chunks max_bytes chunks received (StreamHttpError # es) = Inl UpstreamConnectionError"
| "read_chunks max_bytes chunks received (StreamDeadline # es) = Inl UpstreamTimeoutError"

definition read_bounded_body :: "http_response \<Rightarrow> int \<Rightarrow> runtime_error + pystr" where
  "read_bounded_body r max_bytes =
     rbind (case resp_length r of
         None \<Rightarrow> Inr ()
       | Some declared \<Rightarrow>
         (case py_int declared of
            None \<Rightarrow> Inl UpstreamConnectionError
          | Some n \<Rightarrow>
              if n < 0 then Inl UpstreamConnectionError
              else if n > max_bytes then Inl UpstreamResponseTooLargeError
              else Inr ()))
     (\<lambda>_. read_chunks max_bytes [] 0 (resp_stream r))"

section \<open>Sending a request\<close>

definition phase_timeout :: "rat \<Rightarrow> rat \<Rightarrow> rat" where
  \<comment> \<open>\<^verbatim>\<open>min(configured or timeout_seconds, timeout_seconds)\<close>\<close>
  "phase_timeout configured t = min (if configured = 0 then t else configured) t"

definition request_timeouts :: "phase_timeouts \<Rightarrow> int \<Rightarrow> phase_timeouts" where
  "request_timeouts c ms =
     (let t = of_int ms / 1000 in
      \<lparr>connect_timeout = phase_timeout (connect_timeout c) t, read_timeout = phase_timeout (read_timeout c) t,
       write_timeout = phase_timeout (write_timeout c) t, pool_timeout = phase_timeout (pool_timeout c) t\<rparr>)"

definition part_value :: "multipart_part \<Rightarrow> pystr \<times> (pystr option \<times> pystr \<times> pystr option)" where
  "part_value p = (mpp_name p, case mpp_filename p of
      None \<Rightarrow> (None, mpp_content p, None) | Some f \<Rightarrow> (Some f, mpp_content p, mpp_content_type p))"

definition outbound :: "api_client \<Rightarrow> built_request \<Rightarrow> int \<Rightarrow> outbound_request" where
  "outbound c r ms =
     \<lparr>ob_method = br_method r, ob_url = append_query (br_url r) (br_query r), ob_headers = br_headers r,
      ob_content = (case multipart_body r of
          Some ps \<Rightarrow> FilesContent (map part_value ps)
        | None \<Rightarrow> (case form_body r of Some fs \<Rightarrow> FormContent (urlencode fs) | None \<Rightarrow> JsonContent (json_body r))),
      ob_timeouts = request_timeouts (ac_timeouts c) ms\<rparr>"

definition normalized_content_type :: "pystr option \<Rightarrow> pystr" where
  "normalized_content_type h =
     py_lower (strip (before (CHR '';'') (case h of None \<Rightarrow> ''application/octet-stream'' | Some t \<Rightarrow> t)))"

definition upstream_error_data :: "nat \<Rightarrow> json" where
  "upstream_error_data status = JObj [(''error'', JStr ''upstream_http_error''), (''status'', JInt (int status))]"

definition decode_body :: "httpx \<Rightarrow> pystr \<Rightarrow> pystr \<Rightarrow> runtime_error + json" where
  "decode_body x ctype content =
     (if content = [] then Inr JNull
      else if ctype = ''application/json'' \<or> endswith ctype ''+json''
      then (case json_loads x content of None \<Rightarrow> Inl UpstreamContentTypeError | Some j \<Rightarrow> Inr j)
      else if startswith ctype ''text/'' then Inr (JStr (decode_replace x content))
      else Inl UpstreamContentTypeError)"

definition api_execute ::
  "netenv \<Rightarrow> httpx \<Rightarrow> api_client \<Rightarrow> built_request \<Rightarrow> int \<Rightarrow> int \<Rightarrow> int \<Rightarrow> runtime_error + upstream_result" where
  "api_execute env x c r timeout max_request max_response =
     rbind (validate_before_connect env (ac_policy c) (br_url r)) (\<lambda>_.
     let req = outbound c r timeout; limit = min (ac_max_request_bytes c) max_request
     in if (case content_length x req of None \<Rightarrow> False | Some n \<Rightarrow> int n > limit)
        then Inl UpstreamRequestTooLargeError
        else case send x req of
            SendTimeout \<Rightarrow> Inl UpstreamTimeoutError
          | SendHttpError \<Rightarrow> Inl UpstreamConnectionError
          | SendDeadline \<Rightarrow> Inl UpstreamTimeoutError
          | Response resp \<Rightarrow>
              rbind (read_bounded_body resp max_response) (\<lambda>content.
              let ctype = normalized_content_type (resp_content_type resp)
              in if resp_status resp \<ge> 300
                 then Inr \<lparr>ur_status = resp_status resp, ur_content_type = ctype,
                           ur_data = upstream_error_data (resp_status resp)\<rparr>
                 else rbind (decode_body x ctype content) (\<lambda>d.
                   Inr \<lparr>ur_status = resp_status resp, ur_content_type = ctype, ur_data = d\<rparr>)))"

section \<open>The query is read back\<close>

definition decode_pair :: "pystr \<Rightarrow> pystr \<times> pystr" where
  "decode_pair s = (case partition_on (CHR ''='') s of (a, b) \<Rightarrow> (unquote a, unquote b))"

lemma reserved_safe_facts: "CHR ''&'' \<notin> set reserved_safe" "CHR ''='' \<notin> set reserved_safe"
  "CHR ''#'' \<notin> set reserved_safe" "CHR ''%'' \<notin> set reserved_safe"
  by (simp_all add: reserved_safe_def)

lemma unreserved_facts: "CHR ''&'' \<notin> set unreserved" "CHR ''='' \<notin> set unreserved" "CHR ''#'' \<notin> set unreserved"
  by (simp_all add: unreserved_def)

lemma quote_name_free:
  assumes "c \<in> {CHR ''&'', CHR ''='', CHR ''#''}" and "safe = [] \<or> safe = reserved_safe"
  shows "c \<notin> set (quote safe s)"
proof -
  have "c \<notin> set unreserved" "c \<notin> set safe" "c \<noteq> CHR ''%''"
    using assms reserved_safe_facts unreserved_facts by auto
  then show ?thesis using quote_range [of safe s] by blast
qed

lemma decode_encode_pair: "decode_pair (encode_pair q) = (qp_name q, qp_value q)"
proof -
  have n: "CHR ''='' \<notin> set (quote [] (qp_name q))" by (rule quote_name_free) auto
  have "partition_on (CHR ''='') (encode_pair q)
      = (quote [] (qp_name q), quote (if qp_allow_reserved q then reserved_safe else []) (qp_value q))"
    using partition_on_here [OF n] by (simp add: encode_pair_def)
  then show ?thesis
    using reserved_safe_facts(4) by (simp add: decode_pair_def unquote_quote)
qed

lemma encode_pair_free: "CHR ''&'' \<notin> set (encode_pair q)" "CHR ''#'' \<notin> set (encode_pair q)"
  using quote_name_free [of "CHR ''&''"] quote_name_free [of "CHR ''#''"] by (auto simp: encode_pair_def)

lemma split_join:
  "ws \<noteq> [] \<Longrightarrow> \<forall>w\<in>set ws. d \<notin> set w \<Longrightarrow> split_on d (join [d] ws) = ws"
proof (induction ws)
  case (Cons w ws)
  then show ?case
    by (cases ws) (simp_all add: split_on_id split_on_append_sep)
qed simp

section \<open>What is read is bounded\<close>

lemma read_chunks_bound:
  "read_chunks m chunks received es = Inr b \<Longrightarrow> received = int (length (concat chunks)) \<Longrightarrow> received \<le> m \<Longrightarrow>
    int (length b) \<le> m \<and> (\<exists>cs. es = map Chunk cs \<and> b = concat (rev chunks) @ concat cs)"
proof (induction m chunks received es rule: read_chunks.induct)
  case (1 m chunks received)
  have "length (concat (rev chunks)) = length (concat chunks)"
    by (simp add: length_concat rev_map [symmetric] sum_list_rev)
  with 1 show ?case by (auto intro: exI [of _ "[]"])
next
  case (2 m chunks received c es)
  then have r: "\<not> received + int (length c) > m" by (auto simp: Let_def split: if_splits)
  with 2 have "int (length b) \<le> m \<and> (\<exists>cs. es = map Chunk cs \<and> b = concat (rev (c # chunks)) @ concat cs)"
    by (simp add: Let_def add.commute)
  then obtain cs where "int (length b) \<le> m" "es = map Chunk cs" "b = concat (rev chunks) @ c @ concat cs" by auto
  then show ?case by (intro conjI exI [of _ "c # cs"]) simp_all
qed simp_all

lemma read_chunks_complete:
  "received + int (length (concat cs)) \<le> m \<Longrightarrow>
    read_chunks m chunks received (map Chunk cs) = Inr (concat (rev chunks) @ concat cs)"
  by (induction cs arbitrary: chunks received) (simp_all add: Let_def)

lemma api_execute_Inr:
  assumes "api_execute env x c r timeout mq mr = Inr res"
  obtains resp content where "validate_before_connect env (ac_policy c) (br_url r) = Inr ()"
    and "send x (outbound c r timeout) = Response resp" and "read_bounded_body resp mr = Inr content"
    and "ur_status res = resp_status resp"
    and "ur_data res = (if resp_status resp \<ge> 300 then upstream_error_data (resp_status resp) else ur_data res)"
    and "resp_status resp < 300 \<Longrightarrow> decode_body x (ur_content_type res) content = Inr (ur_data res)"
    and "case content_length x (outbound c r timeout) of None \<Rightarrow> True | Some n \<Rightarrow> int n \<le> min (ac_max_request_bytes c) mq"
proof -
  from assms have v: "validate_before_connect env (ac_policy c) (br_url r) = Inr ()"
    and l: "case content_length x (outbound c r timeout) of None \<Rightarrow> True | Some n \<Rightarrow> int n \<le> min (ac_max_request_bytes c) mq"
    by (auto simp: api_execute_def Let_def result_simps split: if_splits option.splits)
  from assms obtain resp where s: "send x (outbound c r timeout) = Response resp"
    by (auto simp: api_execute_def Let_def result_simps split: if_splits send_result.splits)
  from assms s obtain content where b: "read_bounded_body resp mr = Inr content"
    by (auto simp: api_execute_def Let_def result_simps split: if_splits)
  show ?thesis
    by (rule that [OF v s b _ _ _ l])
      (use assms s b in \<open>auto simp: api_execute_def Let_def result_simps split: if_splits\<close>)
qed

section \<open>Properties\<close>

text \<open>C14: The query string of a request is read back exactly: splitting it at the ampersands and
  decoding both sides of the first equal sign gives the names and values of the parameters, in
  their order, also for values that may keep reserved characters; the fragment delimiter never
  appears in it.\<close>

theorem append_query_roundtrip:
  assumes "ps \<noteq> []"
  shows "\<exists>q. append_query url ps = url @ ''?'' @ q
    \<and> map decode_pair (split_on (CHR ''&'') q) = map (\<lambda>p. (qp_name p, qp_value p)) ps
    \<and> CHR ''#'' \<notin> set q"
proof -
  let ?q = "join ''&'' (map encode_pair ps)"
  have "split_on (CHR ''&'') ?q = map encode_pair ps"
    using assms encode_pair_free(1) by (intro split_join) auto
  moreover have "CHR ''#'' \<notin> set ?q"
    using set_join [of "''&''" "map encode_pair ps"] encode_pair_free(2) by auto
  ultimately show ?thesis
    using assms by (intro exI [of _ ?q]) (simp add: append_query_def decode_encode_pair)
qed

theorem append_query_roundtrip_witness:
  "\<exists>q. append_query ''u'' [\<lparr>qp_name = ''a&b'', qp_value = ''1=2#'', qp_allow_reserved = True\<rparr>] = ''u?'' @ q
    \<and> map decode_pair (split_on (CHR ''&'') q) = [(''a&b'', ''1=2#'')]"
  using append_query_roundtrip [of "[\<lparr>qp_name = ''a&b'', qp_value = ''1=2#'', qp_allow_reserved = True\<rparr>]" "''u''"]
  by auto

text \<open>C15: A body is accepted only complete and within the limit, whatever length the server declared:
  the reader returns exactly the concatenated chunks, of at most \<^verbatim>\<open>max_bytes\<close> bytes, and no event
  other than a chunk was seen.\<close>

theorem read_bounded_body_bound:
  assumes "read_bounded_body r max_bytes = Inr content" and "0 \<le> max_bytes"
  shows "int (length content) \<le> max_bytes \<and> (\<exists>cs. resp_stream r = map Chunk cs \<and> content = concat cs)"
proof -
  from assms(1) have "read_chunks max_bytes [] 0 (resp_stream r) = Inr content"
    by (auto simp: read_bounded_body_def result_simps)
  from read_chunks_bound [OF this] assms(2) show ?thesis by auto
qed

theorem read_bounded_body_bound_witness:
  "int (length ''abc'') \<le> 4 \<and> (\<exists>cs. [Chunk ''ab'', Chunk ''c''] = map Chunk cs \<and> ''abc'' = concat cs)"
  using read_bounded_body_bound [of "\<lparr>resp_status = 200, resp_length = Some '' 0_3 '', resp_content_type = None,
      resp_stream = [Chunk ''ab'', Chunk ''c'']\<rparr>" 4 "''abc''"]
  by (simp add: read_bounded_body_def py_int_def strip_def is_space_def is_digit_char_def less_eq_char_def
      parse_digits_def digit_value_def)

end
