(* ===== verification/ToolExecutor.thy ===== *)
theory ToolExecutor
  imports ApiClient
begin

text \<open>
  Executing a tool call (\<^verbatim>\<open>mcp_runtime/app/executor/\<close>: \<^verbatim>\<open>response_contract.py\<close>,
  \<^verbatim>\<open>response_mapper.py\<close> and \<^verbatim>\<open>executor.py\<close>): the response contract compiled from a tool, the
  check of an upstream response against it, the tool executor and the mapping to MCP results.

  The package \<^verbatim>\<open>jsonschema\<close> is the record \<open>schema_lib\<close>: whether a schema is one, and the path of
  the first error of an instance (None when it is valid). The protocol
  \<^verbatim>\<open>UpstreamRequestExecutor\<close> is the locale \<open>upstream_executor\<close>, interpreted by the HTTP client.
\<close>

record schema_lib =
  check_schema :: "json_object \<Rightarrow> bool"
  instance_error :: "json_object \<Rightarrow> json \<Rightarrow> pystr list option"

section \<open>Response contracts\<close>

fun compile_step ::
  "schema_lib \<Rightarrow> response_definition list \<Rightarrow> response_definition \<Rightarrow> runtime_error + response_definition list" where
  "compile_step lib compiled d =
     (if (status_code d, media_type d) \<in> set (map (\<lambda>e. (status_code e, media_type e)) compiled)
      then Inl (RuntimeConfigurationError ''Tool has duplicate response dispatch definitions'')
      else case rd_schema d of
          None \<Rightarrow> Inr (compiled @ [d])
        | Some s \<Rightarrow> if check_schema lib s then Inr (compiled @ [d])
            else Inl (RuntimeConfigurationError ''Tool has an invalid response schema''))"

definition compile_response_contract :: "schema_lib \<Rightarrow> mcp_tool \<Rightarrow> runtime_error + response_definition list" where
  "compile_response_contract lib t = rfold (compile_step lib) [] (responses t)"

definition media_specificity :: "pystr option \<Rightarrow> pystr \<Rightarrow> int" where
  "media_specificity expected actual =
     (case expected of None \<Rightarrow> -1
      | Some e \<Rightarrow>
        let (et, es) = partition_on (CHR ''/'') e; (at1, as1) = partition_on (CHR ''/'') actual in
        if e = actual then 4
        else if e = ''*/*'' then 1
        else if et = at1 \<and> es = ''*'' then 2
        else if et = at1 \<and> startswith es ''*+'' \<and> endswith as1 (drop 1 es) then 3
        else -1)"

text \<open>\<^verbatim>\<open>max(scored, key=...)\<close>: the first pair of highest score.\<close>

fun first_max :: "(int \<times> 'a) \<Rightarrow> (int \<times> 'a) list \<Rightarrow> int \<times> 'a" where
  "first_max m [] = m"
| "first_max m (x # xs) = first_max (if fst x > fst m then x else m) xs"

definition select_media :: "response_definition list \<Rightarrow> pystr \<Rightarrow> json \<Rightarrow> response_definition option" where
  "select_media candidates actual data =
     (let without_media = filter (\<lambda>d. media_type d = None) candidates;
          scored = map (\<lambda>d. (media_specificity (media_type d) actual, d))
            (filter (\<lambda>d. media_type d \<noteq> None) candidates)
      in if data = JNull \<and> without_media \<noteq> [] then Some (hd without_media)
         else if filter (\<lambda>(score, _). score \<ge> 0) scored = [] then None
         else Some (snd (first_max (hd scored) (tl scored))))"

definition status_keys :: "nat \<Rightarrow> pystr list" where
  "status_keys status = [digits_nat status, hd (digits_nat status) # ''XX'', ''default'']"

definition check_selected :: "schema_lib \<Rightarrow> response_definition list \<Rightarrow> upstream_result \<Rightarrow> runtime_error + unit" where
  "check_selected lib candidates r =
     (case select_media candidates (ur_content_type r) (ur_data r) of
        None \<Rightarrow> Inl UpstreamResponseContractError
      | Some d \<Rightarrow>
        (case rd_schema d of
           Some s \<Rightarrow> if instance_error lib s (ur_data r) = None then Inr () else Inl UpstreamResponseContractError
         | None \<Rightarrow> if media_type d = None \<and> ur_data r \<noteq> JNull then Inl UpstreamResponseContractError else Inr ()))"

fun check_status_keys ::
  "schema_lib \<Rightarrow> response_definition list \<Rightarrow> upstream_result \<Rightarrow> pystr list \<Rightarrow> runtime_error + unit" where
  "check_status_keys lib contract r [] = Inl UpstreamResponseContractError"
| "check_status_keys lib contract r (k # ks) =
     (let candidates = filter (\<lambda>d. status_code d = k) contract in
      if candidates = [] then check_status_keys lib contract r ks else check_selected lib candidates r)"

definition validate_upstream_response ::
  "schema_lib \<Rightarrow> response_definition list \<Rightarrow> upstream_result \<Rightarrow> runtime_error + unit" where
  "validate_upstream_response lib contract r =
     (if is_error r then Inr () else check_status_keys lib contract r (status_keys (ur_status r)))"

section \<open>The executor\<close>

record tool_executor =
  te_tools :: "(pystr \<times> mcp_tool) list"
  te_contracts :: "(pystr \<times> response_definition list) list"

definition tool_executor_init :: "schema_lib \<Rightarrow> mcp_manifest \<Rightarrow> runtime_error + tool_executor" where
  "tool_executor_init lib m =
     (let tools = fold (\<lambda>t d. AList.update (tool_name t) t d) (enabled_tools m) []
      in rbind (rmap (\<lambda>(n, t).
             if \<not> check_schema lib (input_schema t)
             then Inl (RuntimeConfigurationError ''Tool has an invalid input schema'')
             else rbind (compile_response_contract lib t) (\<lambda>c. Inr (n, c))) tools)
         (\<lambda>contracts. Inr \<lparr>te_tools = tools, te_contracts = contracts\<rparr>))"

definition argument_error :: "pystr list \<Rightarrow> runtime_error" where
  "argument_error path = ArgumentValidationError
     (''Invalid tool arguments'' @ (if join ''.'' path = [] then [] else '' at '' @ join ''.'' path))"

definition tool_execute ::
  "(built_request \<Rightarrow> int \<Rightarrow> int \<Rightarrow> int \<Rightarrow> runtime_error + upstream_result) \<Rightarrow> schema_lib \<Rightarrow>
   (auth_profile \<Rightarrow> upstream_credential \<Rightarrow> runtime_error + pystr) \<Rightarrow> auth_manager \<Rightarrow> url_policy \<Rightarrow>
   tool_executor \<Rightarrow> pystr \<Rightarrow> json_object \<Rightarrow> runtime_error + upstream_result" where
  "tool_execute api lib oauth am p te name arguments =
     (case map_of (te_tools te) name of
        None \<Rightarrow> Inl (ArgumentValidationError (''Unknown or disabled tool: '' @ name))
      | Some t \<Rightarrow>
        (case instance_error lib (input_schema t) (JObj arguments) of
           Some path \<Rightarrow> Inl (argument_error path)
         | None \<Rightarrow>
           rbind (injection_for oauth am (security_profile_ref t)) (\<lambda>auth.
           rbind (build_request (policy_resolve p) t arguments auth) (\<lambda>request.
           rbind (api request (timeout_ms t) (max_request_bytes t) (max_response_bytes t)) (\<lambda>result.
           rbind (validate_upstream_response lib
               (case map_of (te_contracts te) name of Some c \<Rightarrow> c | None \<Rightarrow> []) result)
             (\<lambda>_. Inr result))))))"

section \<open>Results for the MCP client\<close>

record call_tool_result =
  ctr_text :: pystr
  structured_content :: "json option"
  ctr_is_error :: bool
  ctr_meta :: json_object

definition result_text :: "json \<Rightarrow> pystr" where
  "result_text payload = (case payload of JStr s \<Rightarrow> s | JNull \<Rightarrow> [] | j \<Rightarrow> json_dumps j)"

definition map_upstream_result :: "upstream_result \<Rightarrow> call_tool_result" where
  "map_upstream_result r =
     (let payload = (if is_error r then ur_data r
            else JObj [(''status'', JInt (int (ur_status r))), (''contentType'', JStr (ur_content_type r)), (''body'', ur_data r)])
      in \<lparr>ctr_text = result_text payload, structured_content = (if is_error r then None else Some payload),
          ctr_is_error = is_error r,
          ctr_meta = [(''httpStatus'', JInt (int (ur_status r))), (''contentType'', JStr (ur_content_type r))]\<rparr>)"

definition map_runtime_error :: "pystr \<Rightarrow> pystr \<Rightarrow> call_tool_result" where
  \<comment> \<open>the code and the safe message of the error, both ASCII\<close>
  "map_runtime_error code message =
     \<lparr>ctr_text = json_dumps (JObj [(''error'', JStr code), (''message'', JStr message)]),
      structured_content = None, ctr_is_error = True, ctr_meta = [(''errorCode'', JStr code)]\<rparr>"

section \<open>Facts on contracts\<close>

lemma first_max_in: "first_max m xs \<in> set (m # xs)"
  by (induction xs arbitrary: m) auto

lemma first_max_ge: "x \<in> set (m # xs) \<Longrightarrow> fst x \<le> fst (first_max m xs)"
proof (induction xs arbitrary: m x)
  case (Cons y ys)
  let ?m = "if fst y > fst m then y else m"
  have h: "fst ?m \<le> fst (first_max ?m ys)" using Cons.IH [of ?m ?m] by simp
  show ?case
  proof (cases "x \<in> set ys")
    case True
    then show ?thesis using Cons.IH [of x ?m] by simp
  next
    case False
    then show ?thesis using h Cons.prems by (auto split: if_splits)
  qed
qed simp

lemma select_media_best:
  assumes "select_media cs actual d = Some e"
  shows "e \<in> set cs \<and> (d = JNull \<and> media_type e = None \<or>
    media_specificity (media_type e) actual \<ge> 0
    \<and> (\<forall>c\<in>set cs. media_specificity (media_type c) actual \<le> media_specificity (media_type e) actual))"
proof (cases "d = JNull \<and> filter (\<lambda>d. media_type d = None) cs \<noteq> []")
  case True
  then have "e = hd (filter (\<lambda>d. media_type d = None) cs)"
    using assms by (simp add: select_media_def Let_def)
  with True have "e \<in> set (filter (\<lambda>d. media_type d = None) cs)" using hd_in_set by blast
  with True show ?thesis by simp
next
  case False
  define scored where "scored = map (\<lambda>d. (media_specificity (media_type d) actual, d))
    (filter (\<lambda>d. media_type d \<noteq> None) cs)"
  from False assms have ne: "filter (\<lambda>(score, _). score \<ge> 0) scored \<noteq> []"
    and e: "e = snd (first_max (hd scored) (tl scored))"
    by (auto simp: select_media_def Let_def scored_def split: if_splits)
  from ne have c: "hd scored # tl scored = scored" by (cases scored) auto
  have mem: "first_max (hd scored) (tl scored) \<in> set scored" using first_max_in [of "hd scored" "tl scored"] c by simp
  then have e': "e \<in> set cs" "first_max (hd scored) (tl scored) = (media_specificity (media_type e) actual, e)"
    by (auto simp: scored_def e)
  have ge: "\<forall>x\<in>set scored. fst x \<le> media_specificity (media_type e) actual"
    using first_max_ge [of _ "hd scored" "tl scored"] c e'(2) by simp
  from ne obtain x where "x \<in> set scored" "fst x \<ge> 0" by (auto simp: filter_empty_conv)
  with ge have pos: "media_specificity (media_type e) actual \<ge> 0" by force
  have "media_specificity (media_type c) actual \<le> media_specificity (media_type e) actual" if "c \<in> set cs" for c
  proof (cases "media_type c")
    case None
    then show ?thesis using pos by (simp add: media_specificity_def)
  next
    case (Some m)
    with that have "(media_specificity (media_type c) actual, c) \<in> set scored" by (force simp: scored_def)
    with ge show ?thesis by force
  qed
  with e' pos show ?thesis by blast
qed

lemma check_status_keys_Inr:
  "check_status_keys lib contract r ks = Inr () \<Longrightarrow>
    \<exists>k pre post. ks = pre @ k # post \<and> (\<forall>j\<in>set pre. \<forall>d\<in>set contract. status_code d \<noteq> j)
      \<and> (\<exists>d\<in>set contract. status_code d = k)
      \<and> check_selected lib (filter (\<lambda>d. status_code d = k) contract) r = Inr ()"
proof (induction ks)
  case (Cons k ks)
  show ?case
  proof (cases "filter (\<lambda>d. status_code d = k) contract = []")
    case True
    with Cons obtain j pre post where "ks = pre @ j # post"
      "\<forall>j\<in>set pre. \<forall>d\<in>set contract. status_code d \<noteq> j" "\<exists>d\<in>set contract. status_code d = j"
      "check_selected lib (filter (\<lambda>d. status_code d = j) contract) r = Inr ()"
      by (auto simp: Let_def)
    with True show ?thesis
      by (intro exI [of _ j] exI [of _ "k # pre"] exI [of _ post]) (auto simp: filter_empty_conv)
  next
    case False
    with Cons.prems have "check_selected lib (filter (\<lambda>d. status_code d = k) contract) r = Inr ()" by simp
    moreover from False have "\<exists>d\<in>set contract. status_code d = k" by (auto simp: filter_empty_conv)
    ultimately show ?thesis by (intro exI [of _ k] exI [of _ "[]"] exI [of _ ks]) simp
  qed
qed simp

lemma check_selected_Inr:
  "check_selected lib cs r = Inr () \<Longrightarrow> \<exists>d. select_media cs (ur_content_type r) (ur_data r) = Some d
    \<and> (case rd_schema d of Some s \<Rightarrow> instance_error lib s (ur_data r) = None
       | None \<Rightarrow> media_type d \<noteq> None \<or> ur_data r = JNull)"
  by (auto simp: check_selected_def split: option.splits if_splits)

lemma tool_execute_Inr:
  assumes "tool_execute api lib oauth am p te name args = Inr res"
  obtains t auth req where "map_of (te_tools te) name = Some t"
    and "instance_error lib (input_schema t) (JObj args) = None"
    and "injection_for oauth am (security_profile_ref t) = Inr auth"
    and "build_request (policy_resolve p) t args auth = Inr req"
    and "api req (timeout_ms t) (max_request_bytes t) (max_response_bytes t) = Inr res"
    and "validate_upstream_response lib (case map_of (te_contracts te) name of Some c \<Rightarrow> c | None \<Rightarrow> []) res = Inr ()"
  using assms by (auto simp: tool_execute_def result_simps split: option.splits)

lemma fold_update_tools:
  "map_of (fold (\<lambda>t d. AList.update (tool_name t) t d) ts d) n = Some t \<Longrightarrow>
    map_of d n = Some t \<or> (t \<in> set ts \<and> tool_name t = n)"
proof (induction ts arbitrary: d)
  case (Cons a ts)
  from Cons.IH [of "AList.update (tool_name a) a d"] Cons.prems show ?case
    by (auto simp: update_conv' split: if_splits)
qed simp

lemma executor_tools:
  assumes "tool_executor_init lib m = Inr te" and "map_of (te_tools te) n = Some t"
  shows "t \<in> set (enabled_tools m)" and "tool_name t = n" and "check_schema lib (input_schema t)"
    and "\<exists>c. map_of (te_contracts te) n = Some c \<and> compile_response_contract lib t = Inr c"
proof -
  let ?f = "\<lambda>(n, t). if \<not> check_schema lib (input_schema t)
      then Inl (RuntimeConfigurationError ''Tool has an invalid input schema'')
      else rbind (compile_response_contract lib t) (\<lambda>c. Inr (n, c))"
  have te: "te_tools te = fold (\<lambda>t d. AList.update (tool_name t) t d) (enabled_tools m) []"
    and c: "rmap ?f (te_tools te) = Inr (te_contracts te)"
    using assms(1) by (auto simp: tool_executor_init_def Let_def result_simps)
  show "t \<in> set (enabled_tools m)" and "tool_name t = n"
    using fold_update_tools [of "enabled_tools m" "[]" n t] assms(2) te by auto
  have step: "map_of ts n = Some t \<Longrightarrow> rmap ?f ts = Inr cs \<Longrightarrow>
      check_schema lib (input_schema t) \<and> (\<exists>c. map_of cs n = Some c \<and> compile_response_contract lib t = Inr c)" for ts cs
    by (induction ts arbitrary: cs) (auto simp: result_simps split: if_splits)
  from step [OF assms(2) c] show "check_schema lib (input_schema t)"
    and "\<exists>c. map_of (te_contracts te) n = Some c \<and> compile_response_contract lib t = Inr c" by auto
qed

section \<open>The interface of the HTTP client\<close>

text \<open>What the executor relies on in whatever implements \<^verbatim>\<open>UpstreamRequestExecutor\<close>: a result is only
  returned for a destination the policy let through, and an error status carries no upstream data.\<close>

locale upstream_executor =
  fixes api :: "built_request \<Rightarrow> int \<Rightarrow> int \<Rightarrow> int \<Rightarrow> runtime_error + upstream_result"
    and cleared :: "pystr \<Rightarrow> bool"
  assumes api_cleared: "api r tm mq mr = Inr res \<Longrightarrow> cleared (br_url r)"
    and api_error_data: "api r tm mq mr = Inr res \<Longrightarrow> is_error res \<Longrightarrow> ur_data res = upstream_error_data (ur_status res)"
begin

lemma executed_call:
  assumes "tool_executor_init lib m = Inr te" and "tool_execute api lib oauth am p te name args = Inr res"
  shows "\<exists>t auth req contract. t \<in> set (enabled_tools m) \<and> tool_name t = name
    \<and> instance_error lib (input_schema t) (JObj args) = None
    \<and> injection_for oauth am (security_profile_ref t) = Inr auth
    \<and> build_request (policy_resolve p) t args auth = Inr req \<and> cleared (br_url req)
    \<and> compile_response_contract lib t = Inr contract
    \<and> validate_upstream_response lib contract res = Inr ()
    \<and> (is_error res \<longrightarrow> ur_data res = upstream_error_data (ur_status res))"
proof -
  from tool_execute_Inr [OF assms(2)] obtain t auth req where
    t: "map_of (te_tools te) name = Some t" and a: "instance_error lib (input_schema t) (JObj args) = None"
    and i: "injection_for oauth am (security_profile_ref t) = Inr auth"
    and b: "build_request (policy_resolve p) t args auth = Inr req"
    and r: "api req (timeout_ms t) (max_request_bytes t) (max_response_bytes t) = Inr res"
    and v: "validate_upstream_response lib (case map_of (te_contracts te) name of Some c \<Rightarrow> c | None \<Rightarrow> []) res = Inr ()"
    by metis
  from executor_tools(4) [OF assms(1) t] obtain c where
    "map_of (te_contracts te) name = Some c" "compile_response_contract lib t = Inr c" by blast
  with v executor_tools(1,2) [OF assms(1) t] a i b api_cleared [OF r] api_error_data [OF r] show ?thesis
    by (intro exI [of _ t] exI [of _ auth] exI [of _ req] exI [of _ c]) simp
qed

end

interpretation http: upstream_executor "api_execute env x c"
  "\<lambda>u. validate_before_connect env (ac_policy c) u = Inr ()" for env x c
proof
  fix r tm mq mr res
  assume e: "api_execute env x c r tm mq mr = Inr res"
  from api_execute_Inr [OF e] show "validate_before_connect env (ac_policy c) (br_url r) = Inr ()" by metis
  from api_execute_Inr [OF e] show "is_error res \<Longrightarrow> ur_data res = upstream_error_data (ur_status res)"
    by (metis is_error_def)
qed

section \<open>Properties\<close>


definition sample_lib :: schema_lib where
  "sample_lib = \<lparr>check_schema = (\<lambda>_. True), instance_error = (\<lambda>_ _. None)\<rparr>"

definition sample_httpx :: httpx where
  "sample_httpx = \<lparr>content_length = (\<lambda>_. None),
     send = (\<lambda>_. Response \<lparr>resp_status = 200, resp_length = None, resp_content_type = None, resp_stream = []\<rparr>),
     json_loads = (\<lambda>_. None), decode_replace = (\<lambda>s. s)\<rparr>"

definition sample_client :: api_client where
  "sample_client = \<lparr>ac_policy = sample_policy,
     ac_timeouts = \<lparr>connect_timeout = 10, read_timeout = 30, write_timeout = 30, pool_timeout = 10\<rparr>,
     ac_max_request_bytes = 10000000\<rparr>"

definition sample_manager :: auth_manager where
  "sample_manager = \<lparr>am_profiles = [(''a1'', sample_profile)],
     am_credentials = [(''c1'', \<lparr>uc_type = Bearer, uc_token = Some ''t'', uc_api_key = None, uc_username = None,
       uc_password = None, uc_client_id = None, uc_client_secret = None, uc_headers = None\<rparr>)]\<rparr>"

definition sample_executor :: tool_executor where
  "sample_executor = \<lparr>te_tools = [(''get_pet'', sample_tool)], te_contracts = [(''get_pet'', responses sample_tool)]\<rparr>"

lemma sample_executor_init: "tool_executor_init sample_lib sample_manifest = Inr sample_executor"
  by code_simp

lemma sample_global: "is_global (V4 0x08080808)"
  by (simp add: is_global4_def is_private4_def private4_def private4_exceptions_def in_net4_def ipv4_def)

lemma sample_connect: "validate_before_connect sample_env sample_policy (br_url sample_request) = Inr ()"
proof -
  have "assert_url_is_allowlisted sample_env sample_policy (br_url sample_request)
      = Inr \<lparr>o_scheme = ''https'', o_hostname = ''api.io'', o_port = 443, base_path = []\<rparr>"
    by code_simp
  moreover have "normalized_host sample_env ''api.io'' = Inr ''api.io''" by code_simp
  moreover have "policy_lookup sample_env ''api.io'' 443 = Inr [V4 0x08080808]" by code_simp
  ultimately show ?thesis
    using sample_global
    by (simp add: validate_before_connect_def resolve_for_connection_def max_resolved_addresses_def address_is_allowed_def)
qed

lemma sample_api:
  "api_execute sample_env sample_httpx sample_client sample_request 30000 1000000 1000000
   = Inr \<lparr>ur_status = 200, ur_content_type = ''application/octet-stream'', ur_data = JNull\<rparr>"
proof -
  have "normalized_content_type None = ''application/octet-stream''" by code_simp
  then show ?thesis
    using sample_connect
    by (simp add: api_execute_def sample_client_def sample_httpx_def read_bounded_body_def decode_body_def Let_def)
qed

lemma sample_execute:
  "tool_execute (api_execute sample_env sample_httpx sample_client) sample_lib (\<lambda>_ _. Inl UpstreamAuthenticationError)
     sample_manager sample_policy sample_executor ''get_pet'' sample_args
   = Inr \<lparr>ur_status = 200, ur_content_type = ''application/octet-stream'', ur_data = JNull\<rparr>"
proof -
  have "injection_for (\<lambda>_ _. Inl UpstreamAuthenticationError) sample_manager (security_profile_ref sample_tool)
      = Inr sample_injection" by code_simp
  moreover have "map_of (te_tools sample_executor) ''get_pet'' = Some sample_tool"
    "instance_error sample_lib (input_schema sample_tool) (JObj sample_args) = None" by code_simp+
  moreover have "validate_upstream_response sample_lib
      (case map_of (te_contracts sample_executor) ''get_pet'' of Some c \<Rightarrow> c | None \<Rightarrow> [])
      \<lparr>ur_status = 200, ur_content_type = ''application/octet-stream'', ur_data = JNull\<rparr> = Inr ()" by code_simp
  moreover have "timeout_ms sample_tool = 30000" "max_request_bytes sample_tool = 1000000"
    "max_response_bytes sample_tool = 1000000" by code_simp+
  ultimately show ?thesis using sample_build sample_api by (simp add: tool_execute_def)
qed



definition sample_response :: upstream_result where
  "sample_response = \<lparr>ur_status = 201, ur_content_type = ''text/plain'', ur_data = JStr ''x''\<rparr>"

definition sample_contract :: "response_definition list" where
  "sample_contract = [\<lparr>status_code = ''2XX'', media_type = Some ''text/*'', rd_schema = None, rd_description = None\<rparr>]"


end
