(* ===== verification/Table.thy ===== *)
theory Table
  imports Prelude
begin

text \<open>
  Tables of the backend's database as lists of rows: \<^verbatim>\<open>UPDATE ... WHERE\<close>, reading a row by its
  key, and the contract of token-fenced work items that the runtime command queue and the build
  admission queue share. Times are readings of the database clock in seconds; identifiers and
  tokens (UUIDs) are numbers.
\<close>

type_synonym time = rat
type_synonym uuid = nat

definition update_where :: "('r \<Rightarrow> bool) \<Rightarrow> ('r \<Rightarrow> 'r) \<Rightarrow> 'r list \<Rightarrow> 'r list" where
  "update_where P f rows = map (\<lambda>r. if P r then f r else r) rows"

definition find_by :: "('r \<Rightarrow> uuid) \<Rightarrow> uuid \<Rightarrow> 'r list \<Rightarrow> 'r option" where
  "find_by key i rows = List.find (\<lambda>r. key r = i) rows"

lemma update_where_map: "(\<And>r. P r \<Longrightarrow> g (f r) = g r) \<Longrightarrow> map g (update_where P f rows) = map g rows"
  by (simp add: update_where_def)

lemma update_where_in: "r' \<in> set (update_where P f rows) \<longleftrightarrow>
    (\<exists>r\<in>set rows. P r \<and> r' = f r) \<or> (r' \<in> set rows \<and> \<not> P r')"
  by (force simp: update_where_def)

lemma find_by_Some: "find_by key i rows = Some r \<Longrightarrow> r \<in> set rows \<and> key r = i"
  by (auto simp: find_by_def find_Some_iff)

lemma find_by_None: "find_by key i rows = None \<longleftrightarrow> (\<forall>r\<in>set rows. key r \<noteq> i)"
  by (auto simp: find_by_def find_None_iff)

lemma find_by_distinct:
  "distinct (map key rows) \<Longrightarrow> r \<in> set rows \<Longrightarrow> find_by key (key r) rows = Some r"
  by (induction rows) (auto simp: find_by_def image_iff)

lemma find_by_update:
  assumes "\<And>r. key (f r) = key r"
  shows "find_by key i (update_where P f rows) = map_option (\<lambda>r. if P r then f r else r) (find_by key i rows)"
  using assms by (induction rows) (auto simp: find_by_def update_where_def)

lemma find_by_snoc:
  "find_by key i (rows @ [r]) = (case find_by key i rows of Some x \<Rightarrow> Some x | None \<Rightarrow> if key r = i then Some r else None)"
  by (induction rows) (auto simp: find_by_def)

section \<open>Token-fenced work\<close>

text \<open>
  A work item carries the token of the execution that owns it, if any. The contract of a
  system of such items: a step keeps an item's token, clears it, or replaces it by a token
  that was never issued before.
\<close>

locale token_fence =
  fixes token_of :: "'s \<Rightarrow> uuid \<Rightarrow> uuid option"
    and issued :: "'s \<Rightarrow> uuid set"
    and step :: "'s \<Rightarrow> 's \<Rightarrow> bool"
  assumes issued_mono: "step s t \<Longrightarrow> issued s \<subseteq> issued t"
    and token_change: "step s t \<Longrightarrow> token_of t i = token_of s i \<or> token_of t i = None \<or>
      (\<exists>x. token_of t i = Some x \<and> x \<notin> issued s \<and> x \<in> issued t)"
begin

lemma issued_mono_star: "step\<^sup>*\<^sup>* s t \<Longrightarrow> issued s \<subseteq> issued t"
  by (induction rule: rtranclp_induct) (auto dest: issued_mono)

lemma fenced: "step\<^sup>*\<^sup>* s t \<Longrightarrow> x \<in> issued s \<Longrightarrow> token_of s i \<noteq> Some x \<Longrightarrow> token_of t i \<noteq> Some x"
proof (induction rule: rtranclp_induct)
  case (step t u)
  then have "x \<in> issued t" using issued_mono_star by blast
  with step token_change [of t u i] show ?case by auto
qed simp

lemma token_was_issued: "step\<^sup>*\<^sup>* s t \<Longrightarrow> (\<And>i x. token_of s i = Some x \<Longrightarrow> x \<in> issued s) \<Longrightarrow> token_of t i = Some x \<Longrightarrow> x \<in> issued t"
proof (induction arbitrary: i x rule: rtranclp_induct)
  case (step t u)
  from token_change [OF step(2), of i] issued_mono [OF step(2)] step show ?case by auto
qed blast

end

end
