(* ===== verification/BackendErrors.thy ===== *)
theory BackendErrors
  imports Prelude
begin

text \<open>
  The exception classes of the backend (\<^verbatim>\<open>backend/app/core/exceptions.py\<close>): the class hierarchy,
  the error code and the HTTP status each class has or inherits. A raised exception is its class
  and its message; \<open>Unexpected\<close> is an exception of any other class.
\<close>

datatype error_class =
    MCPlicaError | NotFoundError | ConflictError | InvalidStateError | ExecutionOwnershipError
  | DeployabilityError | PermissionDeniedError | AuthenticationError | RateLimitError | ValidationError
  | PayloadTooLargeError | SecurityPolicyError | ClientError | ClientConnectionError | ClientTimeoutError
  | ClientAuthenticationError | ClientRateLimitError | ClientResponseError | ClientUnavailableError
  | SourceParseError | ReferenceResolutionError | CanonicalizationError | IndexingError | AIAnalysisError
  | CompilationError | CoverageValidationError | ManifestValidationError | ProtocolValidationError
  | PackagingError | DockerOperationError | RuntimeStartupError | RuntimeHealthError | HostnameConflictError
  | SecretMaterializationError

fun base_class :: "error_class \<Rightarrow> error_class option" where
  "base_class MCPlicaError = None"
| "base_class ExecutionOwnershipError = Some InvalidStateError"
| "base_class DeployabilityError = Some InvalidStateError"
| "base_class RateLimitError = Some AuthenticationError"
| "base_class PayloadTooLargeError = Some ValidationError"
| "base_class ClientConnectionError = Some ClientError"
| "base_class ClientTimeoutError = Some ClientError"
| "base_class ClientAuthenticationError = Some ClientError"
| "base_class ClientRateLimitError = Some ClientError"
| "base_class ClientResponseError = Some ClientError"
| "base_class ClientUnavailableError = Some ClientError"
| "base_class SourceParseError = Some ValidationError"
| "base_class ReferenceResolutionError = Some SourceParseError"
| "base_class CanonicalizationError = Some ValidationError"
| "base_class CompilationError = Some ValidationError"
| "base_class CoverageValidationError = Some ValidationError"
| "base_class ManifestValidationError = Some ValidationError"
| "base_class ProtocolValidationError = Some ValidationError"
| "base_class DockerOperationError = Some ClientError"
| "base_class RuntimeStartupError = Some DockerOperationError"
| "base_class RuntimeHealthError = Some DockerOperationError"
| "base_class HostnameConflictError = Some ConflictError"
| "base_class c = Some MCPlicaError"

text \<open>Every class but the root has its own code; the HTTP status may be inherited.\<close>

fun class_code :: "error_class \<Rightarrow> pystr" where
  "class_code MCPlicaError = ''MCPLICA_ERROR''"
| "class_code NotFoundError = ''NOT_FOUND''"
| "class_code ConflictError = ''CONFLICT''"
| "class_code InvalidStateError = ''INVALID_STATE''"
| "class_code ExecutionOwnershipError = ''EXECUTION_OWNERSHIP_LOST''"
| "class_code DeployabilityError = ''DEPLOYABILITY_PREFLIGHT_FAILED''"
| "class_code PermissionDeniedError = ''PERMISSION_DENIED''"
| "class_code AuthenticationError = ''AUTHENTICATION_REQUIRED''"
| "class_code RateLimitError = ''RATE_LIMITED''"
| "class_code ValidationError = ''VALIDATION_ERROR''"
| "class_code PayloadTooLargeError = ''PAYLOAD_TOO_LARGE''"
| "class_code SecurityPolicyError = ''SECURITY_POLICY_BLOCK''"
| "class_code ClientError = ''CLIENT_ERROR''"
| "class_code ClientConnectionError = ''CLIENT_CONNECTION_ERROR''"
| "class_code ClientTimeoutError = ''CLIENT_TIMEOUT''"
| "class_code ClientAuthenticationError = ''CLIENT_AUTHENTICATION_ERROR''"
| "class_code ClientRateLimitError = ''CLIENT_RATE_LIMIT''"
| "class_code ClientResponseError = ''CLIENT_RESPONSE_ERROR''"
| "class_code ClientUnavailableError = ''CLIENT_UNAVAILABLE''"
| "class_code SourceParseError = ''SOURCE_PARSE_ERROR''"
| "class_code ReferenceResolutionError = ''REFERENCE_RESOLUTION_ERROR''"
| "class_code CanonicalizationError = ''CANONICALIZATION_ERROR''"
| "class_code IndexingError = ''INDEXING_ERROR''"
| "class_code AIAnalysisError = ''AI_ANALYSIS_ERROR''"
| "class_code CompilationError = ''COMPILATION_ERROR''"
| "class_code CoverageValidationError = ''COVERAGE_VALIDATION_ERROR''"
| "class_code ManifestValidationError = ''MANIFEST_VALIDATION_ERROR''"
| "class_code ProtocolValidationError = ''PROTOCOL_VALIDATION_ERROR''"
| "class_code PackagingError = ''PACKAGING_ERROR''"
| "class_code DockerOperationError = ''DOCKER_OPERATION_ERROR''"
| "class_code RuntimeStartupError = ''RUNTIME_STARTUP_ERROR''"
| "class_code RuntimeHealthError = ''RUNTIME_HEALTH_ERROR''"
| "class_code HostnameConflictError = ''HOSTNAME_CONFLICT''"
| "class_code SecretMaterializationError = ''SECRET_MATERIALIZATION_ERROR''"

fun own_status :: "error_class \<Rightarrow> nat option" where
  "own_status MCPlicaError = Some 400"
| "own_status NotFoundError = Some 404"
| "own_status ConflictError = Some 409"
| "own_status InvalidStateError = Some 409"
| "own_status PermissionDeniedError = Some 403"
| "own_status AuthenticationError = Some 401"
| "own_status RateLimitError = Some 429"
| "own_status ValidationError = Some 422"
| "own_status PayloadTooLargeError = Some 413"
| "own_status SecurityPolicyError = Some 403"
| "own_status ClientError = Some 502"
| "own_status ClientTimeoutError = Some 504"
| "own_status ClientRateLimitError = Some 503"
| "own_status ClientUnavailableError = Some 503"
| "own_status SecretMaterializationError = Some 500"
| "own_status _ = None"

text \<open>The classes of the method resolution order: single inheritance, at most three steps to the root.\<close>

definition resolution_order :: "error_class \<Rightarrow> error_class list" where
  "resolution_order c = c # (case base_class c of None \<Rightarrow> []
     | Some b \<Rightarrow> b # (case base_class b of None \<Rightarrow> []
       | Some d \<Rightarrow> d # (case base_class d of None \<Rightarrow> [] | Some e \<Rightarrow> [e])))"

definition is_instance :: "error_class \<Rightarrow> error_class \<Rightarrow> bool" where
  "is_instance c d \<longleftrightarrow> d \<in> set (resolution_order c)"

definition http_status :: "error_class \<Rightarrow> nat option" where
  "http_status c = (case List.map_filter own_status (resolution_order c) of [] \<Rightarrow> None | s # _ \<Rightarrow> Some s)"

datatype backend_error = Raised error_class pystr | Unexpected pystr

lemma every_class_below_root: "last (resolution_order c) = MCPlicaError"
  by (cases c) (simp_all add: resolution_order_def)

lemma class_code_inj: "class_code c = class_code d \<Longrightarrow> c = d"
  by (cases c; cases d) simp_all

lemma http_status_range: "\<exists>s. http_status c = Some s \<and> 400 \<le> s \<and> s < 600"
  by (cases c) (simp_all add: http_status_def resolution_order_def List.map_filter_def)

end
