(* ===== verification/RuntimeCommands.thy ===== *)
theory RuntimeCommands
  imports Table BackendErrors
begin

text \<open>
  The durable queue of runtime lifecycle commands: the rows of
  \<^verbatim>\<open>runtime_lifecycle_commands\<close> with the CHECK constraints of \<^verbatim>\<open>backend/app/models/runtime_command.py\<close>,
  the operations of \<^verbatim>\<open>backend/app/repositories/runtime_commands.py\<close>, each in one transaction at a
  reading \<open>now\<close> of the database clock, and the effect state the API reports
  (\<^verbatim>\<open>services/deployment/effect_state.py\<close>). Rows that another transaction has locked when due
  commands are claimed are the argument \<open>locked\<close>, the tokens \<^verbatim>\<open>uuid4\<close> gives the argument \<open>fresh\<close>.
\<close>

section \<open>Rows\<close>

datatype command_action = DeployAction | StopAction

datatype command_status = CPending | CDispatched | CRunning | CFailed | CEffective

record command_row =
  rc_id :: uuid
  rc_sequence :: nat
  rc_project :: uuid
  rc_deployment :: uuid
  rc_build :: uuid
  transition_id :: uuid
  rc_action :: command_action
  rc_status :: command_status
  rc_reason :: pystr
  subject_type :: "pystr option"
  subject_id :: "uuid option"
  idempotency_key :: pystr
  rc_requested_by :: uuid
  request_id :: "pystr option"
  attempt_count :: nat
  retryable :: bool
  next_attempt_at :: time
  dispatched_at :: "time option"
  rc_started_at :: "time option"
  effective_at :: "time option"
  rc_failed_at :: "time option"
  lease_expires_at :: "time option"
  execution_token :: "uuid option"
  last_error_code :: "pystr option"
  last_error_summary :: "pystr option"

record command_db =
  cmd_rows :: "command_row list"
  next_sequence :: nat

definition nonblank :: "pystr \<Rightarrow> bool" where
  \<comment> \<open>\<^verbatim>\<open>char_length(btrim(text)) > 0\<close>\<close>
  "nonblank s = list_ex (\<lambda>c. c \<noteq> CHR '' '') s"

definition row_checks :: "command_row \<Rightarrow> bool" where
  "row_checks r \<longleftrightarrow>
     nonblank (rc_reason r) \<and> nonblank (idempotency_key r)
     \<and> ((subject_type r = None) = (subject_id r = None))
     \<and> (case rc_status r of
          CEffective \<Rightarrow> effective_at r \<noteq> None \<and> rc_failed_at r = None
        | CFailed \<Rightarrow> rc_failed_at r \<noteq> None \<and> last_error_code r \<noteq> None
        | _ \<Rightarrow> True)
     \<and> (if rc_status r \<in> {CDispatched, CRunning} then execution_token r \<noteq> None \<and> lease_expires_at r \<noteq> None
        else execution_token r = None \<and> lease_expires_at r = None)"

definition command_blocked :: "command_db \<Rightarrow> command_row \<Rightarrow> bool" where
  \<comment> \<open>an earlier command of the same transition is not effective\<close>
  "command_blocked db r = list_ex (\<lambda>p. transition_id p = transition_id r \<and> rc_sequence p < rc_sequence r
      \<and> rc_status p \<noteq> CEffective) (cmd_rows db)"

definition find_command :: "command_db \<Rightarrow> uuid \<Rightarrow> command_row option" where
  "find_command db i = find_by rc_id i (cmd_rows db)"

definition update_commands :: "(command_row \<Rightarrow> bool) \<Rightarrow> (command_row \<Rightarrow> command_row) \<Rightarrow> command_db \<Rightarrow> command_db" where
  "update_commands P f db = db\<lparr>cmd_rows := update_where P f (cmd_rows db)\<rparr>"

abbreviation update_command :: "uuid \<Rightarrow> (command_row \<Rightarrow> command_row) \<Rightarrow> command_db \<Rightarrow> command_db" where
  "update_command i \<equiv> update_commands (\<lambda>r. rc_id r = i)"

section \<open>Operations\<close>

record new_command =
  nc_id :: uuid
  nc_project :: uuid
  nc_deployment :: uuid
  nc_build :: uuid
  nc_transition :: uuid
  nc_action :: command_action
  nc_reason :: pystr
  nc_subject_type :: "pystr option"
  nc_subject_id :: "uuid option"
  nc_requested_by :: uuid
  nc_request_id :: "pystr option"
  nc_idempotency_key :: pystr

definition pending_row :: "new_command \<Rightarrow> nat \<Rightarrow> time \<Rightarrow> command_row" where
  "pending_row c seq now =
     \<lparr>rc_id = nc_id c, rc_sequence = seq, rc_project = nc_project c, rc_deployment = nc_deployment c,
      rc_build = nc_build c, transition_id = nc_transition c, rc_action = nc_action c, rc_status = CPending,
      rc_reason = nc_reason c, subject_type = nc_subject_type c, subject_id = nc_subject_id c,
      idempotency_key = nc_idempotency_key c, rc_requested_by = nc_requested_by c, request_id = nc_request_id c,
      attempt_count = 0, retryable = True, next_attempt_at = now, dispatched_at = None, rc_started_at = None,
      effective_at = None, rc_failed_at = None, lease_expires_at = None, execution_token = None,
      last_error_code = None, last_error_summary = None\<rparr>"

definition integrity_error :: backend_error where
  "integrity_error = Unexpected ''IntegrityError''"

definition create_command :: "command_db \<Rightarrow> time \<Rightarrow> new_command \<Rightarrow> backend_error + command_row \<times> command_db" where
  "create_command db now c =
     (case List.find (\<lambda>r. idempotency_key r = nc_idempotency_key c) (cmd_rows db) of
        Some existing \<Rightarrow> Inr (existing, db)
      | None \<Rightarrow>
        let r = pending_row c (next_sequence db) now in
        if find_command db (nc_id c) \<noteq> None \<or> \<not> row_checks r then Inl integrity_error
        else Inr (r, \<lparr>cmd_rows = cmd_rows db @ [r], next_sequence = Suc (next_sequence db)\<rparr>))"

definition lease_free :: "time \<Rightarrow> command_row \<Rightarrow> bool" where
  "lease_free now r = (case lease_expires_at r of None \<Rightarrow> True | Some t \<Rightarrow> t \<le> now)"

definition command_due :: "command_db \<Rightarrow> time \<Rightarrow> command_row \<Rightarrow> bool" where
  "command_due db now r \<longleftrightarrow>
     rc_status r \<in> {CPending, CDispatched, CRunning, CFailed} \<and> retryable r \<and> next_attempt_at r \<le> now
     \<and> lease_free now r \<and> \<not> command_blocked db r"

definition due_commands :: "command_db \<Rightarrow> time \<Rightarrow> (uuid \<Rightarrow> bool) \<Rightarrow> nat \<Rightarrow> command_row list" where
  "due_commands db now locked limit =
     take limit (sort_key (\<lambda>r. (next_attempt_at r, rc_sequence r))
       (filter (\<lambda>r. command_due db now r \<and> \<not> locked (rc_id r)) (cmd_rows db)))"

definition dispatch_row :: "time \<Rightarrow> time \<Rightarrow> (uuid \<Rightarrow> uuid) \<Rightarrow> command_row \<Rightarrow> command_row" where
  "dispatch_row now lease_seconds fresh r =
     r\<lparr>rc_status := CDispatched, execution_token := Some (fresh (rc_id r)), attempt_count := attempt_count r + 1,
       dispatched_at := Some now, rc_failed_at := None, lease_expires_at := Some (now + lease_seconds),
       next_attempt_at := now + lease_seconds\<rparr>"

definition claim_due_for_dispatch ::
  "command_db \<Rightarrow> time \<Rightarrow> (uuid \<Rightarrow> bool) \<Rightarrow> (uuid \<Rightarrow> uuid) \<Rightarrow> nat \<Rightarrow> time \<Rightarrow> command_row list \<times> command_db" where
  "claim_due_for_dispatch db now locked fresh limit lease_seconds =
     (let models = due_commands db now locked limit
      in (map (dispatch_row now lease_seconds fresh) models,
          update_commands (\<lambda>r. rc_id r \<in> set (map rc_id models)) (dispatch_row now lease_seconds fresh) db))"

definition holds_lease :: "command_status \<Rightarrow> uuid \<Rightarrow> time \<Rightarrow> command_row \<Rightarrow> bool" where
  \<comment> \<open>the guard of every owner operation\<close>
  "holds_lease st tok now r \<longleftrightarrow> rc_status r = st \<and> execution_token r = Some tok
     \<and> (case lease_expires_at r of None \<Rightarrow> False | Some t \<Rightarrow> now < t)"

definition run_row :: "time \<Rightarrow> time \<Rightarrow> command_row \<Rightarrow> command_row" where
  "run_row now lease_seconds r =
     r\<lparr>rc_status := CRunning, rc_started_at := Some now, rc_failed_at := None,
       lease_expires_at := Some (now + lease_seconds), next_attempt_at := now + lease_seconds\<rparr>"

definition claim_for_execution ::
  "command_db \<Rightarrow> time \<Rightarrow> uuid \<Rightarrow> uuid \<Rightarrow> time \<Rightarrow> command_row option \<times> command_db" where
  "claim_for_execution db now i tok lease_seconds =
     (case find_command db i of
        None \<Rightarrow> (None, db)
      | Some r \<Rightarrow>
        if \<not> holds_lease CDispatched tok now r \<or> command_blocked db r then (None, db)
        else (Some (run_row now lease_seconds r), update_command i (run_row now lease_seconds) db))"

definition ownership_stale :: backend_error where
  "ownership_stale = Raised ExecutionOwnershipError ''Runtime command execution ownership is stale''"

definition predecessor_not_effective :: backend_error where
  "predecessor_not_effective = Raised ExecutionOwnershipError ''Runtime command predecessor is no longer effective''"

definition require_execution_owner :: "command_db \<Rightarrow> time \<Rightarrow> uuid \<Rightarrow> uuid \<Rightarrow> backend_error + command_row" where
  "require_execution_owner db now i tok =
     (case find_command db i of
        None \<Rightarrow> Inl ownership_stale
      | Some r \<Rightarrow>
        if \<not> holds_lease CRunning tok now r then Inl ownership_stale
        else if command_blocked db r then Inl predecessor_not_effective
        else Inr r)"

datatype lease_state = Owned | Lost

record lease_renewal =
  lr_state :: lease_state
  database_now :: time
  lr_lease_expires_at :: "time option"

definition renew_execution :: "command_db \<Rightarrow> time \<Rightarrow> uuid \<Rightarrow> uuid \<Rightarrow> time \<Rightarrow> lease_renewal \<times> command_db" where
  "renew_execution db now i tok lease_seconds =
     (case require_execution_owner db now i tok of
        Inl _ \<Rightarrow> (\<lparr>lr_state = Lost, database_now = now, lr_lease_expires_at = None\<rparr>, db)
      | Inr r \<Rightarrow>
        (\<lparr>lr_state = Owned, database_now = now, lr_lease_expires_at = Some (now + lease_seconds)\<rparr>,
         update_command i (\<lambda>r. r\<lparr>lease_expires_at := Some (now + lease_seconds), next_attempt_at := now + lease_seconds\<rparr>) db))"

definition effective_row :: "time \<Rightarrow> command_row \<Rightarrow> command_row" where
  "effective_row now r =
     r\<lparr>rc_status := CEffective, retryable := False, effective_at := Some now, rc_failed_at := None,
       lease_expires_at := None, execution_token := None, last_error_code := None, last_error_summary := None\<rparr>"

definition mark_effective :: "command_db \<Rightarrow> time \<Rightarrow> uuid \<Rightarrow> uuid \<Rightarrow> backend_error + command_db" where
  "mark_effective db now i tok =
     rbind (require_execution_owner db now i tok) (\<lambda>r. Inr (update_command i (effective_row now) db))"

definition apply_failure :: "time \<Rightarrow> pystr \<Rightarrow> pystr \<Rightarrow> bool \<Rightarrow> time \<Rightarrow> command_row \<Rightarrow> command_row" where
  "apply_failure now code summary retry delay r =
     r\<lparr>rc_status := CFailed, retryable := retry, rc_failed_at := Some now, lease_expires_at := None,
       execution_token := None, next_attempt_at := now + delay, last_error_code := Some (take 128 code),
       last_error_summary := Some (take 2000 summary)\<rparr>"

definition mark_failed ::
  "command_db \<Rightarrow> time \<Rightarrow> uuid \<Rightarrow> uuid \<Rightarrow> pystr \<Rightarrow> pystr \<Rightarrow> bool \<Rightarrow> time \<Rightarrow> backend_error + command_db" where
  "mark_failed db now i tok code summary retry delay =
     rbind (require_execution_owner db now i tok) (\<lambda>r. Inr (update_command i (apply_failure now code summary retry delay) db))"

definition mark_dispatch_failed ::
  "command_db \<Rightarrow> time \<Rightarrow> uuid \<Rightarrow> uuid \<Rightarrow> pystr \<Rightarrow> pystr \<Rightarrow> time \<Rightarrow> bool \<times> command_db" where
  "mark_dispatch_failed db now i tok code summary delay =
     (case find_command db i of
        None \<Rightarrow> (False, db)
      | Some r \<Rightarrow>
        if \<not> holds_lease CDispatched tok now r then (False, db)
        else (True, update_command i (apply_failure now code summary True delay) db))"

definition latest_for_subject :: "command_db \<Rightarrow> uuid \<Rightarrow> pystr \<Rightarrow> uuid \<Rightarrow> command_row option" where
  "latest_for_subject db p stype sid =
     (case rev (sort_key rc_sequence (filter (\<lambda>r. rc_project r = p \<and> subject_type r = Some stype
         \<and> subject_id r = Some sid) (cmd_rows db))) of [] \<Rightarrow> None | r # _ \<Rightarrow> Some r)"

definition list_transition :: "command_db \<Rightarrow> uuid \<Rightarrow> command_row list" where
  "list_transition db t = sort_key rc_sequence (filter (\<lambda>r. transition_id r = t) (cmd_rows db))"

datatype effect_state = EffectEffective | EffectPending | EffectFailed

definition runtime_effect_update ::
  "command_db \<Rightarrow> uuid \<Rightarrow> pystr \<Rightarrow> uuid \<Rightarrow> effect_state \<times> uuid option \<times> pystr option" where
  "runtime_effect_update db p stype sid =
     (case latest_for_subject db p stype sid of
        None \<Rightarrow> (EffectEffective, None, None)
      | Some latest \<Rightarrow>
        let transition = list_transition db (transition_id latest);
            failed = List.find (\<lambda>c. rc_status c = CFailed) transition;
            pending = List.find (\<lambda>c. rc_status c \<noteq> CEffective) transition;
            selected = (case failed of Some c \<Rightarrow> c | None \<Rightarrow> (case pending of Some c \<Rightarrow> c | None \<Rightarrow> latest));
            st = (if failed \<noteq> None then EffectFailed else if pending \<noteq> None then EffectPending else EffectEffective)
        in (st, Some (rc_id selected), last_error_code selected))"

section \<open>The queue as a system\<close>

text \<open>
  The state: the table, the last reading of the database clock and the tokens \<^verbatim>\<open>uuid4\<close> has
  given so far. Any number of API processes, dispatchers and workers interleave their
  transactions; each step is one transaction of one of them, at a later reading of the clock.
\<close>

record command_sys =
  sys_db :: command_db
  sys_clock :: time
  sys_issued :: "uuid set"

inductive cmd_step :: "command_sys \<Rightarrow> command_sys \<Rightarrow> bool" where
  step_create: "sys_clock s \<le> now \<Longrightarrow> create_command (sys_db s) now c = Inr (r, db')
    \<Longrightarrow> cmd_step s (s\<lparr>sys_db := db', sys_clock := now\<rparr>)"
| step_dispatch: "sys_clock s \<le> now \<Longrightarrow> 0 < lease
    \<Longrightarrow> claim_due_for_dispatch (sys_db s) now locked fresh limit lease = (rs, db')
    \<Longrightarrow> fresh ` set (map rc_id rs) \<inter> sys_issued s = {}
    \<Longrightarrow> cmd_step s (s\<lparr>sys_db := db', sys_clock := now, sys_issued := sys_issued s \<union> fresh ` set (map rc_id rs)\<rparr>)"
| step_claim: "sys_clock s \<le> now \<Longrightarrow> 0 < lease \<Longrightarrow> claim_for_execution (sys_db s) now i tok lease = (res, db')
    \<Longrightarrow> cmd_step s (s\<lparr>sys_db := db', sys_clock := now\<rparr>)"
| step_renew: "sys_clock s \<le> now \<Longrightarrow> 0 < lease \<Longrightarrow> renew_execution (sys_db s) now i tok lease = (ren, db')
    \<Longrightarrow> cmd_step s (s\<lparr>sys_db := db', sys_clock := now\<rparr>)"
| step_effective: "sys_clock s \<le> now \<Longrightarrow> mark_effective (sys_db s) now i tok = Inr db'
    \<Longrightarrow> cmd_step s (s\<lparr>sys_db := db', sys_clock := now\<rparr>)"
| step_failed: "sys_clock s \<le> now \<Longrightarrow> mark_failed (sys_db s) now i tok code summary retry delay = Inr db'
    \<Longrightarrow> cmd_step s (s\<lparr>sys_db := db', sys_clock := now\<rparr>)"
| step_dispatch_failed: "sys_clock s \<le> now \<Longrightarrow> mark_dispatch_failed (sys_db s) now i tok code summary delay = (ok, db')
    \<Longrightarrow> cmd_step s (s\<lparr>sys_db := db', sys_clock := now\<rparr>)"

inductive_cases cmd_stepE: "cmd_step s t"

definition empty_sys :: command_sys where
  "empty_sys = \<lparr>sys_db = \<lparr>cmd_rows = [], next_sequence = 1\<rparr>, sys_clock = 0, sys_issued = {}\<rparr>"

section \<open>The invariant of the table\<close>

definition ordered_rows :: "command_db \<Rightarrow> bool" where
  "ordered_rows db \<longleftrightarrow> (\<forall>r\<in>set (cmd_rows db). rc_status r \<noteq> CPending \<longrightarrow> \<not> command_blocked db r)"

definition wf_commands :: "command_db \<Rightarrow> bool" where
  "wf_commands db \<longleftrightarrow> distinct (map rc_id (cmd_rows db)) \<and> distinct (map rc_sequence (cmd_rows db))
     \<and> distinct (map idempotency_key (cmd_rows db))
     \<and> (\<forall>r\<in>set (cmd_rows db). rc_sequence r < next_sequence db \<and> row_checks r) \<and> ordered_rows db"

text \<open>What no update of a row changes.\<close>

definition same_identity :: "command_row \<Rightarrow> command_row \<Rightarrow> bool" where
  "same_identity r r' \<longleftrightarrow> rc_id r' = rc_id r \<and> rc_sequence r' = rc_sequence r \<and> transition_id r' = transition_id r
     \<and> idempotency_key r' = idempotency_key r \<and> rc_reason r' = rc_reason r \<and> subject_type r' = subject_type r
     \<and> subject_id r' = subject_id r"

lemma row_updates_identity [simp]:
  "same_identity r (dispatch_row now lease fresh r)" "same_identity r (run_row now lease r)"
  "same_identity r (effective_row now r)" "same_identity r (apply_failure now code summary retry delay r)"
  "same_identity r (r\<lparr>lease_expires_at := l, next_attempt_at := n\<rparr>)"
  by (simp_all add: same_identity_def dispatch_row_def run_row_def effective_row_def apply_failure_def)

lemma dispatch_row_id: "rc_id (dispatch_row now lease fresh r) = rc_id r"
  by (simp add: dispatch_row_def)

lemma row_updates_checks:
  assumes "row_checks r"
  shows "row_checks (dispatch_row now lease fresh r)" "execution_token r \<noteq> None \<Longrightarrow> row_checks (run_row now lease r)"
    "row_checks (effective_row now r)" "row_checks (apply_failure now code summary retry delay r)"
    "rc_status r \<in> {CDispatched, CRunning} \<Longrightarrow> row_checks (r\<lparr>lease_expires_at := Some l, next_attempt_at := n\<rparr>)"
  using assms
  by (auto simp: row_checks_def dispatch_row_def run_row_def effective_row_def apply_failure_def
      split: command_status.splits if_splits)

lemma blocked_antimono:
  assumes "command_blocked db' r'" and "transition_id r' = transition_id r" and "rc_sequence r' = rc_sequence r"
    and "\<forall>p'\<in>set (cmd_rows db'). \<exists>p\<in>set (cmd_rows db). same_identity p p' \<and> (rc_status p = CEffective \<longrightarrow> rc_status p' = CEffective)"
  shows "command_blocked db r"
proof -
  from assms(1) obtain p' where p': "p' \<in> set (cmd_rows db')" "transition_id p' = transition_id r'"
    "rc_sequence p' < rc_sequence r'" "rc_status p' \<noteq> CEffective"
    by (auto simp: command_blocked_def list_ex_iff)
  with assms(4) obtain p where "p \<in> set (cmd_rows db)" "same_identity p p'" "rc_status p \<noteq> CEffective" by blast
  with p' assms(2,3) show ?thesis by (auto simp: command_blocked_def list_ex_iff same_identity_def)
qed

lemma wf_update_commands:
  assumes wf: "wf_commands db"
    and id: "\<And>r. same_identity r (f r)"
    and checks: "\<And>r. r \<in> set (cmd_rows db) \<Longrightarrow> P r \<Longrightarrow> row_checks (f r)"
    and eff: "\<And>r. r \<in> set (cmd_rows db) \<Longrightarrow> P r \<Longrightarrow> rc_status r \<noteq> CEffective"
    and free: "\<And>r. r \<in> set (cmd_rows db) \<Longrightarrow> P r \<Longrightarrow> \<not> command_blocked db r"
  shows "wf_commands (update_commands P f db)"
proof -
  let ?db = "update_commands P f db"
  have rows: "cmd_rows ?db = update_where P f (cmd_rows db)" and ns: "next_sequence ?db = next_sequence db"
    by (simp_all add: update_commands_def)
  have keys: "map g (cmd_rows ?db) = map g (cmd_rows db)" if "\<And>r. g (f r) = g r" for g :: "command_row \<Rightarrow> 'k"
    unfolding rows by (rule update_where_map) (rule that)
  have pre: "\<forall>p'\<in>set (cmd_rows ?db). \<exists>p\<in>set (cmd_rows db). same_identity p p' \<and> (rc_status p = CEffective \<longrightarrow> rc_status p' = CEffective)"
  proof
    fix p' assume "p' \<in> set (cmd_rows ?db)"
    then consider p where "p \<in> set (cmd_rows db)" "P p" "p' = f p" | "p' \<in> set (cmd_rows db)"
      unfolding rows update_where_in by blast
    then show "\<exists>p\<in>set (cmd_rows db). same_identity p p' \<and> (rc_status p = CEffective \<longrightarrow> rc_status p' = CEffective)"
      using id eff by cases (blast, auto simp: same_identity_def)
  qed
  have row: "rc_sequence r' < next_sequence db \<and> row_checks r' \<and> (rc_status r' \<noteq> CPending \<longrightarrow> \<not> command_blocked ?db r')"
    if r': "r' \<in> set (cmd_rows ?db)" for r'
  proof -
    from r' consider (upd) r where "r \<in> set (cmd_rows db)" "P r" "r' = f r" | (old) "r' \<in> set (cmd_rows db)"
      unfolding rows update_where_in by blast
    then show ?thesis
    proof cases
      case upd
      then have "\<not> command_blocked ?db r'"
        using free blocked_antimono [OF _ _ _ pre, of r' r] id [of r] by (auto simp: same_identity_def)
      with upd wf checks id [of r] show ?thesis by (simp add: wf_commands_def same_identity_def)
    next
      case old
      then show ?thesis
        using wf blocked_antimono [OF _ refl refl pre, of r'] by (auto simp: wf_commands_def ordered_rows_def)
    qed
  qed
  have "distinct (map rc_id (cmd_rows ?db))" "distinct (map rc_sequence (cmd_rows ?db))" "distinct (map idempotency_key (cmd_rows ?db))"
    using wf id by (simp_all add: keys wf_commands_def same_identity_def)
  with row ns show ?thesis by (simp add: wf_commands_def ordered_rows_def)
qed

lemma find_command_Some:
  "find_command db i = Some r \<Longrightarrow> r \<in> set (cmd_rows db) \<and> rc_id r = i"
  by (simp add: find_command_def find_by_Some)

lemma wf_find_unique:
  "wf_commands db \<Longrightarrow> find_command db i = Some r \<Longrightarrow> r' \<in> set (cmd_rows db) \<Longrightarrow> rc_id r' = i \<Longrightarrow> r' = r"
  using find_by_distinct [of rc_id "cmd_rows db" r'] by (simp add: find_command_def wf_commands_def)

text \<open>The update of the one row an owner operation has found.\<close>

lemma wf_update_command:
  assumes "wf_commands db" and r: "find_command db i = Some r" and "\<And>r. same_identity r (f r)"
    and "row_checks (f r)" and "rc_status r \<noteq> CEffective" and "\<not> command_blocked db r"
  shows "wf_commands (update_command i f db)"
proof (rule wf_update_commands [OF assms(1)])
  fix r' assume "r' \<in> set (cmd_rows db)" and "rc_id r' = i"
  then have "r' = r" by (rule wf_find_unique [OF assms(1) r])
  then show "row_checks (f r')" "rc_status r' \<noteq> CEffective" "\<not> command_blocked db r'" using assms(4-6) by simp_all
qed (rule assms(3))

lemma holds_lease_facts:
  "holds_lease st tok now r \<Longrightarrow> rc_status r = st \<and> execution_token r = Some tok"
  by (simp add: holds_lease_def)

lemma require_owner_Inr:
  assumes "require_execution_owner db now i tok = Inr r"
  shows "find_command db i = Some r" and "holds_lease CRunning tok now r" and "\<not> command_blocked db r"
  using assms by (auto simp: require_execution_owner_def split: option.splits if_splits)

section \<open>Every operation keeps the invariant\<close>

lemma create_command_wf:
  assumes wf: "wf_commands db" and c: "create_command db now c = Inr (r, db')"
  shows "wf_commands db'"
proof (cases "List.find (\<lambda>r. idempotency_key r = nc_idempotency_key c) (cmd_rows db)")
  case (Some e)
  with c wf show ?thesis by (simp add: create_command_def)
next
  case None
  let ?r = "pending_row c (next_sequence db) now"
  from None c have new: "find_command db (nc_id c) = None" "row_checks ?r"
    and db': "db' = \<lparr>cmd_rows = cmd_rows db @ [?r], next_sequence = Suc (next_sequence db)\<rparr>"
    by (auto simp: create_command_def Let_def split: if_splits)
  have fields: "rc_id ?r = nc_id c" "rc_sequence ?r = next_sequence db" "idempotency_key ?r = nc_idempotency_key c"
    "rc_status ?r = CPending" by (simp_all add: pending_row_def)
  have old: "command_blocked db' x \<longleftrightarrow> command_blocked db x" if "x \<in> set (cmd_rows db)" for x
    using wf that fields by (auto simp: db' command_blocked_def wf_commands_def dest!: bspec)
  have "\<forall>x\<in>set (cmd_rows db). idempotency_key x \<noteq> nc_idempotency_key c"
    using None by (auto simp: find_None_iff)
  moreover have "\<forall>x\<in>set (cmd_rows db). rc_id x \<noteq> nc_id c"
    using new(1) by (simp add: find_command_def find_by_None)
  ultimately show ?thesis
    using wf new(2) fields old by (auto simp: wf_commands_def ordered_rows_def db' less_Suc_eq)
qed

lemma due_commands_sub: "r \<in> set (due_commands db now locked limit) \<Longrightarrow> r \<in> set (cmd_rows db) \<and> command_due db now r"
  by (auto simp: due_commands_def dest: in_set_takeD)

lemma claimed_row_due:
  assumes wf: "wf_commands db" and r: "r \<in> set (cmd_rows db)"
    and "rc_id r \<in> set (map rc_id (due_commands db now locked limit))"
  shows "command_due db now r" and "rc_status r \<noteq> CEffective" and "\<not> command_blocked db r" and "row_checks r"
proof -
  from assms(3) obtain m where m: "m \<in> set (due_commands db now locked limit)" "rc_id m = rc_id r" by auto
  then have "find_command db (rc_id r) = Some m"
    using find_by_distinct [of rc_id "cmd_rows db" m] wf due_commands_sub by (force simp: wf_commands_def find_command_def)
  then have "r = m" using wf_find_unique [OF wf] r by blast
  with m due_commands_sub show d: "command_due db now r" by blast
  then show "rc_status r \<noteq> CEffective" and "\<not> command_blocked db r" by (auto simp: command_due_def)
  from wf r show "row_checks r" by (simp add: wf_commands_def)
qed

lemma claim_due_wf:
  assumes wf: "wf_commands db" and c: "claim_due_for_dispatch db now locked fresh limit lease = (rs, db')"
  shows "wf_commands db'"
proof -
  have "db' = update_commands (\<lambda>r. rc_id r \<in> set (map rc_id (due_commands db now locked limit))) (dispatch_row now lease fresh) db"
    using c by (simp add: claim_due_for_dispatch_def Let_def)
  then show ?thesis
    using claimed_row_due [OF wf] row_updates_checks(1) by (simp only:) (rule wf_update_commands [OF wf], auto)
qed

lemma claim_for_execution_wf:
  assumes wf: "wf_commands db" and c: "claim_for_execution db now i tok lease = (res, db')"
  shows "wf_commands db'"
proof (cases res)
  case None
  with c wf show ?thesis by (auto simp: claim_for_execution_def split: option.splits if_splits)
next
  case (Some x)
  with c obtain r where r: "find_command db i = Some r" "holds_lease CDispatched tok now r" "\<not> command_blocked db r"
    and db': "db' = update_command i (run_row now lease) db"
    by (auto simp: claim_for_execution_def split: option.splits if_splits)
  have "row_checks r" using wf find_command_Some [OF r(1)] by (simp add: wf_commands_def)
  then show ?thesis
    unfolding db' using r holds_lease_facts [OF r(2)]
    by (intro wf_update_command [OF wf r(1)]) (auto intro: row_updates_checks)
qed

lemma owner_update_wf:
  assumes wf: "wf_commands db" and o: "require_execution_owner db now i tok = Inr r"
    and "\<And>r. same_identity r (f r)" and "row_checks r \<Longrightarrow> rc_status r = CRunning \<Longrightarrow> row_checks (f r)"
  shows "wf_commands (update_command i f db)"
proof -
  note r = require_owner_Inr [OF o]
  have "row_checks r" using wf find_command_Some [OF r(1)] by (simp add: wf_commands_def)
  then show ?thesis
    using holds_lease_facts [OF r(2)] assms(3,4) r(3) by (intro wf_update_command [OF wf r(1)]) auto
qed

lemma renew_execution_wf:
  assumes "wf_commands db" and "renew_execution db now i tok lease = (ren, db')"
  shows "wf_commands db'"
  using assms owner_update_wf [OF assms(1), of now i tok, where f = "\<lambda>r. r\<lparr>lease_expires_at := Some (now + lease), next_attempt_at := now + lease\<rparr>"]
  by (auto simp: renew_execution_def row_updates_checks split: sum.splits)

lemma mark_effective_wf: "wf_commands db \<Longrightarrow> mark_effective db now i tok = Inr db' \<Longrightarrow> wf_commands db'"
  using owner_update_wf [of db now i tok _ "effective_row now"]
  by (auto simp: mark_effective_def result_simps row_updates_checks)

lemma mark_failed_wf:
  "wf_commands db \<Longrightarrow> mark_failed db now i tok code summary retry delay = Inr db' \<Longrightarrow> wf_commands db'"
  using owner_update_wf [of db now i tok _ "apply_failure now code summary retry delay"]
  by (auto simp: mark_failed_def result_simps row_updates_checks)

lemma mark_dispatch_failed_wf:
  assumes wf: "wf_commands db" and c: "mark_dispatch_failed db now i tok code summary delay = (ok, db')"
  shows "wf_commands db'"
proof (cases ok)
  case False
  with c wf show ?thesis by (auto simp: mark_dispatch_failed_def split: option.splits if_splits)
next
  case True
  with c obtain r where r: "find_command db i = Some r" "holds_lease CDispatched tok now r"
    and db': "db' = update_command i (apply_failure now code summary True delay) db"
    by (auto simp: mark_dispatch_failed_def split: option.splits if_splits)
  have m: "r \<in> set (cmd_rows db)" "row_checks r" using wf find_command_Some [OF r(1)] by (auto simp: wf_commands_def)
  have "\<not> command_blocked db r"
    using wf m(1) holds_lease_facts [OF r(2)] by (auto simp: wf_commands_def ordered_rows_def)
  then show ?thesis
    unfolding db' using m holds_lease_facts [OF r(2)]
    by (intro wf_update_command [OF wf r(1)]) (auto intro: row_updates_checks)
qed

lemmas operations_wf = create_command_wf claim_due_wf claim_for_execution_wf renew_execution_wf
  mark_effective_wf mark_failed_wf mark_dispatch_failed_wf

lemma step_wf: "cmd_step s t \<Longrightarrow> wf_commands (sys_db s) \<Longrightarrow> wf_commands (sys_db t)"
  by (induction rule: cmd_step.induct) (auto intro: operations_wf)

lemma reachable_wf: "cmd_step\<^sup>*\<^sup>* s t \<Longrightarrow> wf_commands (sys_db s) \<Longrightarrow> wf_commands (sys_db t)"
  by (induction rule: rtranclp_induct) (auto intro: step_wf)

lemma empty_wf: "wf_commands (sys_db empty_sys)"
  by (simp add: empty_sys_def wf_commands_def ordered_rows_def)

section \<open>Tokens fence executions\<close>

definition command_token :: "command_sys \<Rightarrow> uuid \<Rightarrow> uuid option" where
  "command_token s i = (case find_command (sys_db s) i of None \<Rightarrow> None | Some r \<Rightarrow> execution_token r)"

lemma find_command_update:
  "(\<And>r. same_identity r (f r)) \<Longrightarrow>
    find_command (update_commands P f db) i = map_option (\<lambda>r. if P r then f r else r) (find_command db i)"
  by (simp add: find_command_def update_commands_def find_by_update same_identity_def)

lemma find_command_create:
  assumes "create_command db now c = Inr (r, db')"
  shows "find_command db' i = find_command db i \<or>
    find_command db i = None \<and> find_command db' i = Some (pending_row c (next_sequence db) now)"
  using assms
  by (auto simp: create_command_def Let_def find_command_def find_by_snoc split: option.splits if_splits)

text \<open>An operation of an owner changes at most the row it found, which is not effective, and keeps or
  clears its token.\<close>

definition owner_update :: "command_db \<Rightarrow> command_db \<Rightarrow> bool" where
  "owner_update db db' \<longleftrightarrow> db' = db \<or> (\<exists>i r f. find_command db i = Some r \<and> rc_status r \<noteq> CEffective
     \<and> (\<forall>r. same_identity r (f r)) \<and> execution_token (f r) \<in> {execution_token r, None} \<and> db' = update_command i f db)"

lemma owner_updateI:
  "find_command db i = Some r \<Longrightarrow> rc_status r \<noteq> CEffective \<Longrightarrow> (\<And>r. same_identity r (f r)) \<Longrightarrow>
    execution_token (f r) \<in> {execution_token r, None} \<Longrightarrow> owner_update db (update_command i f db)"
  unfolding owner_update_def by blast

lemma owner_operations:
  "claim_for_execution db now i tok lease = (res, db') \<Longrightarrow> owner_update db db'"
  "renew_execution db now i tok lease = (ren, db') \<Longrightarrow> owner_update db db'"
  "mark_effective db now i tok = Inr db' \<Longrightarrow> owner_update db db'"
  "mark_failed db now i tok code summary retry delay = Inr db' \<Longrightarrow> owner_update db db'"
  "mark_dispatch_failed db now i tok code summary delay = (ok, db') \<Longrightarrow> owner_update db db'"
proof -
  have same: "owner_update db db" by (simp add: owner_update_def)
  have owned: "owner_update db (update_command i f db)"
    if "require_execution_owner db now i tok = Inr r" "\<And>r. same_identity r (f r)"
      "execution_token (f r) \<in> {execution_token r, None}" for r f
    using require_owner_Inr [OF that(1)] that(2,3) by (intro owner_updateI) (auto simp: holds_lease_def)
  have disp: "owner_update db (update_command i f db)"
    if "find_command db i = Some r" "holds_lease CDispatched tok now r" "\<And>r. same_identity r (f r)"
      "execution_token (f r) \<in> {execution_token r, None}" for r f
    using that by (intro owner_updateI) (auto simp: holds_lease_def)
  have tok: "execution_token (run_row now lease r) = execution_token r" "execution_token (effective_row now r) = None"
    "execution_token (apply_failure now code summary retry' delay r) = None" for r retry'
    by (simp_all add: run_row_def effective_row_def apply_failure_def)
  show "claim_for_execution db now i tok lease = (res, db') \<Longrightarrow> owner_update db db'"
    using same disp by (auto simp: claim_for_execution_def tok split: option.splits if_splits)
  show "renew_execution db now i tok lease = (ren, db') \<Longrightarrow> owner_update db db'"
    using same owned by (auto simp: renew_execution_def split: sum.splits)
  show "mark_effective db now i tok = Inr db' \<Longrightarrow> owner_update db db'"
    using owned by (auto simp: mark_effective_def result_simps tok)
  show "mark_failed db now i tok code summary retry delay = Inr db' \<Longrightarrow> owner_update db db'"
    using owned by (auto simp: mark_failed_def result_simps tok)
  show "mark_dispatch_failed db now i tok code summary delay = (ok, db') \<Longrightarrow> owner_update db db'"
    using same disp by (auto simp: mark_dispatch_failed_def tok split: option.splits if_splits)
qed

lemma owner_update_row:
  assumes "owner_update db db'"
  shows "find_command db' i = find_command db i \<or> (\<exists>r r'. find_command db i = Some r \<and> find_command db' i = Some r'
    \<and> rc_status r \<noteq> CEffective \<and> execution_token r' \<in> {execution_token r, None})"
proof (cases "db' = db")
  case False
  with assms obtain j r f where u: "find_command db j = Some r" "rc_status r \<noteq> CEffective" "\<And>r. same_identity r (f r)"
    "execution_token (f r) \<in> {execution_token r, None}" "db' = update_command j f db"
    by (auto simp: owner_update_def)
  have "find_command db' i = map_option (\<lambda>r. if rc_id r = j then f r else r) (find_command db i)"
    unfolding u(5) by (rule find_command_update [OF u(3)])
  then show ?thesis using u(1,2,4) find_command_Some [of db i] by (cases "find_command db i"; cases "i = j") auto
qed simp

text \<open>What a step does to one row.\<close>

lemma step_row:
  assumes "cmd_step s t" and "wf_commands (sys_db s)"
  shows "find_command (sys_db t) i = find_command (sys_db s) i
    \<or> (\<exists>r'. find_command (sys_db s) i = None \<and> find_command (sys_db t) i = Some r' \<and> execution_token r' = None)
    \<or> (\<exists>r r'. find_command (sys_db s) i = Some r \<and> find_command (sys_db t) i = Some r' \<and> rc_status r \<noteq> CEffective
        \<and> (execution_token r' = execution_token r \<or> execution_token r' = None
           \<or> (\<exists>x. execution_token r' = Some x \<and> x \<notin> sys_issued s \<and> x \<in> sys_issued t)))"
  using assms
proof (induction rule: cmd_step.induct)
  case (step_create s now c r db')
  then show ?case using find_command_create [OF step_create(2), of i] by (auto simp: pending_row_def)
next
  case (step_dispatch s now lease locked fresh limit rs db')
  let ?ids = "set (map rc_id (due_commands (sys_db s) now locked limit))"
  have f: "find_command db' i = map_option (\<lambda>r. if rc_id r \<in> ?ids then dispatch_row now lease fresh r else r) (find_command (sys_db s) i)"
    and ids: "set (map rc_id rs) = ?ids"
    using step_dispatch(3) find_command_update [of "dispatch_row now lease fresh" "\<lambda>r. rc_id r \<in> ?ids" "sys_db s" i]
    by (auto simp: claim_due_for_dispatch_def Let_def image_image dispatch_row_id)
  show ?case
  proof (cases "find_command (sys_db s) i")
    case (Some r)
    note r = find_command_Some [OF Some]
    show ?thesis
    proof (cases "rc_id r \<in> ?ids")
      case True
      with claimed_row_due(2) [OF step_dispatch(5)] r have "rc_status r \<noteq> CEffective" by blast
      moreover have "fresh (rc_id r) \<notin> sys_issued s" "fresh (rc_id r) \<in> fresh ` set (map rc_id rs)"
        using step_dispatch(4) True ids by blast+
      ultimately show ?thesis using f Some True by (simp add: dispatch_row_def)
    qed (use f Some in simp)
  qed (use f in simp)
qed (auto dest!: owner_operations dest: owner_update_row [where i = i])

lemma step_issued: "cmd_step s t \<Longrightarrow> sys_issued s \<subseteq> sys_issued t"
  by (induction rule: cmd_step.induct) auto

text \<open>The steps from states that satisfy the invariant, for which the queue is a fenced system.\<close>

definition wf_cmd_step :: "command_sys \<Rightarrow> command_sys \<Rightarrow> bool" where
  "wf_cmd_step s t \<longleftrightarrow> wf_commands (sys_db s) \<and> cmd_step s t"

interpretation command_fence: token_fence command_token sys_issued wf_cmd_step
proof
  fix s t i
  assume st: "wf_cmd_step s t"
  then show "sys_issued s \<subseteq> sys_issued t" by (auto simp: wf_cmd_step_def dest: step_issued)
  show "command_token t i = command_token s i \<or> command_token t i = None \<or>
      (\<exists>x. command_token t i = Some x \<and> x \<notin> sys_issued s \<and> x \<in> sys_issued t)"
    using st step_row [of s t i] by (auto simp: wf_cmd_step_def command_token_def)
qed

lemma wf_steps: "cmd_step\<^sup>*\<^sup>* s t \<Longrightarrow> wf_commands (sys_db s) \<Longrightarrow> wf_cmd_step\<^sup>*\<^sup>* s t"
proof (induction rule: rtranclp_induct)
  case (step t u)
  then have "wf_commands (sys_db t)" using reachable_wf by blast
  with step show ?case by (auto simp: wf_cmd_step_def intro: rtranclp.rtrancl_into_rtrancl)
qed simp

lemma owner_has_token: "require_execution_owner (sys_db s) now i tok = Inr r \<Longrightarrow> command_token s i = Some tok"
  using require_owner_Inr [of "sys_db s" now i tok r] by (simp add: command_token_def holds_lease_def)

section \<open>Properties\<close>

definition sample_command :: "uuid \<Rightarrow> pystr \<Rightarrow> command_action \<Rightarrow> new_command" where
  "sample_command i key act = \<lparr>nc_id = i, nc_project = 1, nc_deployment = 1, nc_build = 1, nc_transition = 7, nc_action = act,
     nc_reason = ''r'', nc_subject_type = Some ''deployment'', nc_subject_id = Some 1, nc_requested_by = 1, nc_request_id = None,
     nc_idempotency_key = key\<rparr>"

definition sample_db :: command_db where
  "sample_db = \<lparr>cmd_rows = [dispatch_row 0 60 (\<lambda>_. 100) (pending_row (sample_command 10 ''a'' StopAction) 1 0),
     pending_row (sample_command 11 ''b'' DeployAction) 2 0], next_sequence = 3\<rparr>"

definition sample_sys :: command_sys where
  "sample_sys = \<lparr>sys_db = sample_db, sys_clock = 0, sys_issued = {100}\<rparr>"

lemma sample_reachable: "cmd_step\<^sup>*\<^sup>* empty_sys sample_sys"
proof -
  let ?d0 = "\<lparr>cmd_rows = [], next_sequence = 1\<rparr>"
  let ?r1 = "pending_row (sample_command 10 ''a'' StopAction) 1 0"
  let ?r2 = "pending_row (sample_command 11 ''b'' DeployAction) 2 0"
  let ?d1 = "\<lparr>cmd_rows = [?r1], next_sequence = 2\<rparr>"
  let ?d2 = "\<lparr>cmd_rows = [?r1, ?r2], next_sequence = 3\<rparr>"
  have c1: "create_command ?d0 0 (sample_command 10 ''a'' StopAction) = Inr (?r1, ?d1)" by code_simp
  have c2: "create_command ?d1 0 (sample_command 11 ''b'' DeployAction) = Inr (?r2, ?d2)" by code_simp
  have c3: "claim_due_for_dispatch ?d2 0 (\<lambda>_. False) (\<lambda>_. 100) 5 60 = ([dispatch_row 0 60 (\<lambda>_. 100) ?r1], sample_db)" by code_simp
  have "cmd_step empty_sys (empty_sys\<lparr>sys_db := ?d1, sys_clock := 0\<rparr>)"
    using step_create [of empty_sys 0 _ ?r1 ?d1] c1 by (simp add: empty_sys_def)
  moreover have "cmd_step (empty_sys\<lparr>sys_db := ?d1\<rparr>) (empty_sys\<lparr>sys_db := ?d2\<rparr>)"
    using step_create [of "empty_sys\<lparr>sys_db := ?d1\<rparr>" 0 _ ?r2 ?d2] c2 by (simp add: empty_sys_def)
  moreover have "cmd_step (empty_sys\<lparr>sys_db := ?d2\<rparr>) sample_sys"
    using step_dispatch [of "empty_sys\<lparr>sys_db := ?d2\<rparr>" 0 60 "\<lambda>_. False" "\<lambda>_. 100" 5] c3
    by (simp add: empty_sys_def sample_sys_def)
  ultimately show ?thesis by (simp add: empty_sys_def)
qed

lemma sample_wf: "wf_commands (sys_db sample_sys)"
  using reachable_wf [OF sample_reachable empty_wf] .

text \<open>C1: However transactions interleave, a command leaves the pending state only after every earlier
  command of its transition is effective: no later command of a transition (a deploy) is ever
  dispatched, run or recorded before an earlier one (the stop of the old runtime) took effect.
  Every row satisfies the CHECK constraints of the table.\<close>

theorem transition_order_kept:
  assumes "cmd_step\<^sup>*\<^sup>* empty_sys s" and "r \<in> set (cmd_rows (sys_db s))"
  shows "row_checks r \<and> (rc_status r \<noteq> CPending \<longrightarrow> (\<forall>p\<in>set (cmd_rows (sys_db s)).
    transition_id p = transition_id r \<longrightarrow> rc_sequence p < rc_sequence r \<longrightarrow> rc_status p = CEffective))"
proof -
  have "row_checks r" and "rc_status r \<noteq> CPending \<longrightarrow> \<not> command_blocked (sys_db s) r"
    using reachable_wf [OF assms(1) empty_wf] assms(2) by (auto simp: wf_commands_def ordered_rows_def)
  then show ?thesis unfolding command_blocked_def list_ex_iff by blast
qed

theorem transition_order_kept_witness: "row_checks (cmd_rows (sys_db sample_sys) ! 0)"
  using transition_order_kept [OF sample_reachable, of "cmd_rows (sys_db sample_sys) ! 0"]
  by (simp add: sample_sys_def sample_db_def)

text \<open>C7: A token that no longer owns a command never owns it again: whatever steps follow, every
  attempt of the stale execution to renew, complete or fail the command is rejected and
  changes nothing.\<close>

theorem stale_token_rejected:
  assumes "wf_commands (sys_db s)" and "cmd_step\<^sup>*\<^sup>* s t" and "tok \<in> sys_issued s" and "command_token s i \<noteq> Some tok"
  shows "mark_effective (sys_db t) now i tok = Inl ownership_stale
    \<and> mark_failed (sys_db t) now i tok code summary retry delay = Inl ownership_stale
    \<and> snd (renew_execution (sys_db t) now i tok lease) = sys_db t
    \<and> lr_state (fst (renew_execution (sys_db t) now i tok lease)) = Lost
    \<and> claim_for_execution (sys_db t) now i tok lease = (None, sys_db t)
    \<and> mark_dispatch_failed (sys_db t) now i tok code summary delay = (False, sys_db t)"
proof -
  have "command_token t i \<noteq> Some tok"
    by (rule command_fence.fenced [OF wf_steps [OF assms(2,1)] assms(3,4)])
  then have h: "find_command (sys_db t) i = Some r \<Longrightarrow> \<not> holds_lease st tok now r" for r st
    by (auto simp: command_token_def holds_lease_def)
  then have "require_execution_owner (sys_db t) now i tok = Inl ownership_stale"
    by (auto simp: require_execution_owner_def split: option.splits)
  with h show ?thesis
    by (auto simp: mark_effective_def mark_failed_def renew_execution_def claim_for_execution_def
        mark_dispatch_failed_def split: option.splits)
qed

theorem stale_token_rejected_witness: "mark_effective (sys_db sample_sys) 1 11 100 = Inl ownership_stale"
proof -
  have "command_token sample_sys 11 \<noteq> Some 100" by code_simp
  then show ?thesis
    using stale_token_rejected [OF sample_wf rtranclp.rtrancl_refl, of 100 11]
    by (simp add: sample_sys_def)
qed

text \<open>An effective command is final: no later transaction changes its row.\<close>

lemma effective_is_final:
  assumes "wf_commands (sys_db s)" and "cmd_step\<^sup>*\<^sup>* s t"
    and "find_command (sys_db s) i = Some r" and "rc_status r = CEffective"
  shows "find_command (sys_db t) i = Some r"
  using assms(2)
proof (induction rule: rtranclp_induct)
  case (step t u)
  have "wf_commands (sys_db t)" using reachable_wf [OF step(1) assms(1)] .
  from step_row [OF step(2) this, of i] step(3) assms(4) show ?case by auto
qed (rule assms(3))

text \<open>C11: A worker that claims a dispatched command owns it: until its lease runs out the owner check
  passes for its token and for no other, and the dispatcher does not claim the command again.\<close>

theorem claim_gives_exclusive_ownership:
  assumes "wf_commands db" and "claim_for_execution db now i tok lease = (Some r, db')"
    and "now \<le> now'" and "now' < now + lease"
  shows "require_execution_owner db' now' i tok = Inr r
    \<and> (\<forall>tok'. tok' \<noteq> tok \<longrightarrow> require_execution_owner db' now' i tok' = Inl ownership_stale)
    \<and> i \<notin> set (map rc_id (fst (claim_due_for_dispatch db' now' locked fresh limit lease')))"
proof -
  from assms(2) obtain r0 where r0: "find_command db i = Some r0" "holds_lease CDispatched tok now r0"
    "\<not> command_blocked db r0" and db': "db' = update_command i (run_row now lease) db" and r: "r = run_row now lease r0"
    by (auto simp: claim_for_execution_def split: option.splits if_splits)
  have wf': "wf_commands db'" using claim_for_execution_wf [OF assms(1,2)] .
  have f: "find_command db' i = Some r"
    using find_command_update [of "run_row now lease" "\<lambda>r. rc_id r = i" db i] r0(1) find_command_Some [OF r0(1)]
    by (simp add: db' r)
  have nb: "\<not> command_blocked db' r"
    using wf' find_command_Some [OF f] by (auto simp: wf_commands_def ordered_rows_def r run_row_def)
  have "holds_lease CRunning tok now' r" "\<And>tok'. tok' \<noteq> tok \<Longrightarrow> \<not> holds_lease CRunning tok' now' r"
    using r0(2) assms(4) by (auto simp: r run_row_def holds_lease_def)
  moreover have "i \<notin> set (map rc_id (due_commands db' now' locked limit))"
  proof
    assume "i \<in> set (map rc_id (due_commands db' now' locked limit))"
    then have "command_due db' now' r"
      using claimed_row_due(1) [OF wf', of r now' locked limit] find_command_Some [OF f] by simp
    then show False using assms(4) by (auto simp: command_due_def lease_free_def r run_row_def)
  qed
  ultimately show ?thesis
    using f nb by (auto simp: require_execution_owner_def claim_due_for_dispatch_def Let_def image_image dispatch_row_id)
qed

theorem claim_gives_exclusive_ownership_witness:
  "\<exists>r. require_execution_owner (snd (claim_for_execution sample_db 1 10 100 60)) 30 10 100 = Inr r"
proof -
  have "claim_for_execution sample_db 1 10 100 60
      = (Some (run_row 1 60 (cmd_rows sample_db ! 0)), snd (claim_for_execution sample_db 1 10 100 60))"
    by code_simp
  then show ?thesis
    using claim_gives_exclusive_ownership [of sample_db 1 10 100 60 "run_row 1 60 (cmd_rows sample_db ! 0)" _ 30]
      sample_wf by (auto simp: sample_sys_def)
qed

text \<open>A due command that no other transaction has locked is dispatched, provided the batch is not
  filled by others: it becomes dispatched under its new token and lease, with one more attempt.\<close>

lemma due_command_is_dispatched:
  assumes "wf_commands db" and "r \<in> set (cmd_rows db)" and "command_due db now r" and "\<not> locked (rc_id r)"
    and "length (cmd_rows db) \<le> limit"
  shows "dispatch_row now lease fresh r \<in> set (fst (claim_due_for_dispatch db now locked fresh limit lease))
    \<and> find_command (snd (claim_due_for_dispatch db now locked fresh limit lease)) (rc_id r) = Some (dispatch_row now lease fresh r)"
proof -
  have "length (filter (\<lambda>r. command_due db now r \<and> \<not> locked (rc_id r)) (cmd_rows db)) \<le> limit"
    using assms(5) by (meson length_filter_le order_trans)
  then have m: "r \<in> set (due_commands db now locked limit)"
    using assms(2-4) by (simp add: due_commands_def)
  moreover have "find_command db (rc_id r) = Some r"
    using find_by_distinct [of rc_id "cmd_rows db" r] assms(1,2) by (simp add: find_command_def wf_commands_def)
  ultimately show ?thesis
    using find_command_update [of "dispatch_row now lease fresh" "\<lambda>r. rc_id r \<in> set (map rc_id (due_commands db now locked limit))" db "rc_id r"]
    by (auto simp: claim_due_for_dispatch_def Let_def)
qed

text \<open>Creating a command is idempotent: a second request under the same key returns the row the first
  one made, whatever its arguments, and leaves the table as it is.\<close>

lemma create_command_idempotent:
  assumes "create_command db now c = Inr (r, db')" and "nc_idempotency_key c' = nc_idempotency_key c"
  shows "create_command db' now' c' = Inr (r, db')"
proof (cases "List.find (\<lambda>r. idempotency_key r = nc_idempotency_key c) (cmd_rows db)")
  case (Some e)
  with assms show ?thesis by (auto simp: create_command_def)
next
  case None
  have "List.find P (xs @ [x]) = (case List.find P xs of Some y \<Rightarrow> Some y | None \<Rightarrow> if P x then Some x else None)" for P xs and x :: command_row
    by (induction xs) auto
  with None assms show ?thesis
    by (auto simp: create_command_def Let_def pending_row_def split: if_splits)
qed

end
