(* ===== verification/Deployments.thy ===== *)
theory Deployments
  imports Table BackendErrors Json
begin

text \<open>
  Deployments of the backend: the domain (\<^verbatim>\<open>backend/app/domain/deployments.py\<close>), with the
  content-bound proof of an activation, and the repository
  (\<^verbatim>\<open>backend/app/repositories/deployments.py\<close>) over the tables of deployments and projects, each
  operation at a reading \<open>now\<close> of the clock. The hash function is the parameter \<open>sha\<close>; texts in a
  proof are ASCII, so that \<^verbatim>\<open>json.dumps\<close> escapes nothing else.
\<close>

section \<open>Domain\<close>

datatype deployment_status =
    DPending | DDeploying | DHealthcheck | DRunning | DUnhealthy | DStopping | DStopped | DFailed

definition status_terminal :: "deployment_status \<Rightarrow> bool" where
  "status_terminal s \<longleftrightarrow> s \<in> {DUnhealthy, DStopped, DFailed}"

datatype deployment_intent = IntentNormal | IntentSecurityRefresh | IntentRollback

datatype activation_phase = PhaseVerified | PhaseRetiringPrevious | PhaseRunning | PhaseLegacyRunning | PhaseFailed

text \<open>A \<^verbatim>\<open>datetime\<close>, in microseconds since the epoch, with or without an offset.\<close>

datatype datetime = Aware int | Naive int

record deployment =
  d_id :: uuid
  d_project :: uuid
  d_build :: uuid
  d_intent :: deployment_intent
  previous_active :: "uuid option"
  d_status :: deployment_status
  d_hostname :: pystr
  container_name :: pystr
  container_id :: "pystr option"
  image_ref :: pystr
  image_digest :: "pystr option"
  runtime_version :: pystr
  network_name :: pystr
  d_manifest_sha256 :: pystr
  auth_overlay_sha256 :: "pystr option"
  route_priority :: int
  stop_old_first :: bool
  health_status :: "pystr option"
  deployed_by :: uuid
  d_created_at :: time
  d_started_at :: "time option"
  activated_at :: "time option"
  phase :: "activation_phase option"
  verified_at :: "datetime option"
  proof_sha256 :: "pystr option"
  stopped_at :: "time option"
  d_failed_at :: "time option"
  d_error_code :: "pystr option"
  d_error_summary :: "pystr option"

subsection \<open>Text of identifiers and times\<close>

definition hex_pad :: "nat \<Rightarrow> nat \<Rightarrow> pystr" where
  "hex_pad k n = map (\<lambda>i. ''0123456789abcdef'' ! (n div 16 ^ (k - 1 - i) mod 16)) [0..<k]"

lemma hex_pad_code [code]:
  "hex_pad 0 n = []"
  "hex_pad (Suc k) n = hex_pad k (n div 16) @ [''0123456789abcdef'' ! (n mod 16)]"
proof -
  have "n div 16 div 16 ^ (k - 1 - i) = n div 16 ^ (k - i)" if "i < k" for i
    using that by (simp add: div_mult2_eq [symmetric] power_Suc [symmetric] Suc_diff_Suc del: power_Suc)
  then show "hex_pad (Suc k) n = hex_pad k (n div 16) @ [''0123456789abcdef'' ! (n mod 16)]"
    by (simp add: hex_pad_def)
qed (simp add: hex_pad_def)

definition uuid_str :: "uuid \<Rightarrow> pystr" where
  "uuid_str n = (let h = hex_pad 32 n in
     take 8 h @ ''-'' @ take 4 (drop 8 h) @ ''-'' @ take 4 (drop 12 h) @ ''-'' @ take 4 (drop 16 h) @ ''-'' @ drop 20 h)"

definition dec_pad :: "nat \<Rightarrow> int \<Rightarrow> pystr" where
  "dec_pad k n = map (\<lambda>i. ''0123456789'' ! nat (n div 10 ^ (k - 1 - i) mod 10)) [0..<k]"

definition civil_date :: "int \<Rightarrow> int \<times> int \<times> int" where
  \<comment> \<open>year, month and day of a day counted from the epoch\<close>
  "civil_date days =
     (let z = days + 719468; era = z div 146097; doe = z mod 146097;
          yoe = (doe - doe div 1460 + doe div 36524 - doe div 146096) div 365;
          doy = doe - (365 * yoe + yoe div 4 - yoe div 100); mp = (5 * doy + 2) div 153;
          d = doy - (153 * mp + 2) div 5 + 1; m = (if mp < 10 then mp + 3 else mp - 9)
      in (yoe + era * 400 + (if m \<le> 2 then 1 else 0), m, d))"

definition iso_utc :: "int \<Rightarrow> pystr" where
  \<comment> \<open>\<^verbatim>\<open>astimezone(UTC).isoformat(timespec="microseconds")\<close>\<close>
  "iso_utc us =
     (let secs = us div 1000000; (y, m, d) = civil_date (secs div 86400); s = secs mod 86400 in
      dec_pad 4 y @ ''-'' @ dec_pad 2 m @ ''-'' @ dec_pad 2 d @ ''T'' @ dec_pad 2 (s div 3600) @ '':''
      @ dec_pad 2 (s div 60 mod 60) @ '':'' @ dec_pad 2 (s mod 60) @ ''.'' @ dec_pad 6 (us mod 1000000) @ ''+00:00'')"

fun datetime_utc :: "datetime \<Rightarrow> int" where
  "datetime_utc (Aware us) = us"
| "datetime_utc (Naive us) = us"

fun is_aware :: "datetime \<Rightarrow> bool" where
  "is_aware (Aware us) = True"
| "is_aware (Naive us) = False"

subsection \<open>Proofs of activation\<close>

record activation_proof =
  p_deployment :: uuid
  p_project :: uuid
  p_build :: uuid
  p_container :: pystr
  p_image_digest :: pystr
  p_hostname :: pystr
  p_manifest_sha256 :: pystr
  p_runtime_version :: pystr
  p_verified_at :: datetime
  p_proof_sha256 :: pystr

definition activation_payload ::
  "uuid \<Rightarrow> uuid \<Rightarrow> uuid \<Rightarrow> pystr \<Rightarrow> pystr \<Rightarrow> pystr \<Rightarrow> pystr \<Rightarrow> pystr \<Rightarrow> datetime \<Rightarrow> json" where
  \<comment> \<open>the keys are in the order \<^verbatim>\<open>sort_keys\<close> gives\<close>
  "activation_payload did pid bid container digest host manifest version vat =
     JObj [(''build_id'', JStr (uuid_str bid)), (''container_id'', JStr container), (''deployment_id'', JStr (uuid_str did)),
       (''hostname'', JStr host), (''image_digest'', JStr digest), (''manifest_sha256'', JStr manifest),
       (''project_id'', JStr (uuid_str pid)), (''runtime_version'', JStr version), (''verified_at'', JStr (iso_utc (datetime_utc vat)))]"

definition activation_proof_sha256 ::
  "(pystr \<Rightarrow> pystr) \<Rightarrow> uuid \<Rightarrow> uuid \<Rightarrow> uuid \<Rightarrow> pystr \<Rightarrow> pystr \<Rightarrow> pystr \<Rightarrow> pystr \<Rightarrow> pystr \<Rightarrow> datetime \<Rightarrow> pystr" where
  "activation_proof_sha256 sha did pid bid container digest host manifest version vat =
     sha (json_dumps (activation_payload did pid bid container digest host manifest version vat))"

definition is_sha256_text :: "pystr \<Rightarrow> bool" where
  \<comment> \<open>\<^verbatim>\<open>^[a-f0-9]{64}$\<close>\<close>
  "is_sha256_text s \<longleftrightarrow> length s = 64 \<and> list_all (\<lambda>c. c \<in> set ''0123456789abcdef'') s"

definition proof_binding :: "(pystr \<Rightarrow> pystr) \<Rightarrow> activation_proof \<Rightarrow> pystr" where
  "proof_binding sha p = activation_proof_sha256 sha (p_deployment p) (p_project p) (p_build p) (p_container p)
     (p_image_digest p) (p_hostname p) (p_manifest_sha256 p) (p_runtime_version p) (p_verified_at p)"

definition validate_content_binding :: "(pystr \<Rightarrow> pystr) \<Rightarrow> activation_proof \<Rightarrow> value_error + activation_proof" where
  "validate_content_binding sha p =
     (if p_container p = [] \<or> p_image_digest p = [] \<or> p_hostname p = [] \<or> p_runtime_version p = []
         \<or> \<not> is_sha256_text (p_manifest_sha256 p) \<or> \<not> is_sha256_text (p_proof_sha256 p)
      then Inl (ValueError ''activation proof field'')
      else if \<not> is_aware (p_verified_at p) then Inl (ValueError ''Activation proof timestamp must be timezone-aware'')
      else if proof_binding sha p \<noteq> p_proof_sha256 p then Inl (ValueError ''Activation proof content binding is invalid'')
      else Inr p)"

definition proof_verified ::
  "(pystr \<Rightarrow> pystr) \<Rightarrow> uuid \<Rightarrow> uuid \<Rightarrow> uuid \<Rightarrow> pystr \<Rightarrow> pystr \<Rightarrow> pystr \<Rightarrow> pystr \<Rightarrow> pystr \<Rightarrow> datetime
   \<Rightarrow> value_error + activation_proof" where
  "proof_verified sha did pid bid container digest host manifest version vat =
     validate_content_binding sha
       \<lparr>p_deployment = did, p_project = pid, p_build = bid, p_container = container, p_image_digest = digest,
        p_hostname = host, p_manifest_sha256 = manifest, p_runtime_version = version, p_verified_at = vat,
        p_proof_sha256 = activation_proof_sha256 sha did pid bid container digest host manifest version vat\<rparr>"

definition has_successful_activation :: "(pystr \<Rightarrow> pystr) \<Rightarrow> deployment \<Rightarrow> bool" where
  "has_successful_activation sha r =
     (case (activated_at r, d_started_at r, container_id r, image_digest r) of
        (Some _, Some _, Some container, Some digest) \<Rightarrow>
          if phase r = Some PhaseLegacyRunning then True
          else (case (verified_at r, proof_sha256 r) of
              (Some vat, Some proof) \<Rightarrow> is_aware vat \<and>
                activation_proof_sha256 sha (d_id r) (d_project r) (d_build r) container digest (d_hostname r)
                  (d_manifest_sha256 r) (runtime_version r) vat = proof
            | _ \<Rightarrow> False)
      | _ \<Rightarrow> False)"

definition is_rollback_eligible :: "(pystr \<Rightarrow> pystr) \<Rightarrow> deployment \<Rightarrow> uuid option \<Rightarrow> bool" where
  "is_rollback_eligible sha r active \<longleftrightarrow> Some (d_id r) \<noteq> active \<and> has_successful_activation sha r"

definition is_restart_eligible :: "(pystr \<Rightarrow> pystr) \<Rightarrow> deployment \<Rightarrow> uuid option \<Rightarrow> bool" where
  "is_restart_eligible sha r active \<longleftrightarrow> Some (d_id r) = active \<and> d_status r = DRunning \<and> has_successful_activation sha r"

section \<open>The repository\<close>

record project_row =
  pr_id :: uuid
  pr_hostname :: pystr
  is_enabled :: bool
  active_build :: "uuid option"
  active_deployment :: "uuid option"

record deployment_db =
  deployments :: "deployment list"
  projects :: "project_row list"

definition get_deployment :: "deployment_db \<Rightarrow> uuid \<Rightarrow> deployment option" where
  "get_deployment db i = find_by d_id i (deployments db)"

definition get_project :: "deployment_db \<Rightarrow> uuid \<Rightarrow> project_row option" where
  "get_project db i = find_by pr_id i (projects db)"

definition update_deployments :: "(deployment \<Rightarrow> bool) \<Rightarrow> (deployment \<Rightarrow> deployment) \<Rightarrow> deployment_db \<Rightarrow> deployment_db" where
  "update_deployments P f db = db\<lparr>deployments := update_where P f (deployments db)\<rparr>"

definition set_active :: "uuid \<Rightarrow> uuid option \<Rightarrow> uuid option \<Rightarrow> deployment_db \<Rightarrow> deployment_db" where
  "set_active pid b d db =
     db\<lparr>projects := update_where (\<lambda>p. pr_id p = pid) (\<lambda>p. p\<lparr>active_build := b, active_deployment := d\<rparr>) (projects db)\<rparr>"

text \<open>The partial unique indexes: one running and one starting deployment per project.\<close>

definition unique_status :: "deployment_status set \<Rightarrow> deployment_db \<Rightarrow> bool" where
  "unique_status st db = distinct (map d_project (filter (\<lambda>d. d_status d \<in> st) (deployments db)))"

definition one_running :: "deployment_db \<Rightarrow> bool" where
  "one_running db = unique_status {DRunning} db"

definition one_in_progress :: "deployment_db \<Rightarrow> bool" where
  "one_in_progress db = unique_status {DPending, DDeploying, DHealthcheck} db"

record new_deployment =
  nd_id :: uuid
  nd_project :: uuid
  nd_build :: uuid
  nd_intent :: deployment_intent
  nd_previous :: "uuid option"
  nd_hostname :: pystr
  nd_container_name :: pystr
  nd_image_ref :: pystr
  nd_runtime_version :: pystr
  nd_network_name :: pystr
  nd_manifest_sha256 :: pystr
  nd_route_priority :: int
  nd_stop_old_first :: bool
  nd_deployed_by :: uuid

definition pending_deployment :: "new_deployment \<Rightarrow> time \<Rightarrow> deployment" where
  "pending_deployment n now =
     \<lparr>d_id = nd_id n, d_project = nd_project n, d_build = nd_build n, d_intent = nd_intent n, previous_active = nd_previous n,
      d_status = DPending, d_hostname = nd_hostname n, container_name = nd_container_name n, container_id = None,
      image_ref = nd_image_ref n, image_digest = None, runtime_version = nd_runtime_version n,
      network_name = nd_network_name n, d_manifest_sha256 = nd_manifest_sha256 n, auth_overlay_sha256 = None,
      route_priority = nd_route_priority n, stop_old_first = nd_stop_old_first n, health_status = None,
      deployed_by = nd_deployed_by n, d_created_at = now, d_started_at = None, activated_at = None, phase = None,
      verified_at = None, proof_sha256 = None, stopped_at = None, d_failed_at = None, d_error_code = None,
      d_error_summary = None\<rparr>"

definition create_deployment :: "deployment_db \<Rightarrow> time \<Rightarrow> new_deployment \<Rightarrow> backend_error + deployment \<times> deployment_db" where
  "create_deployment db now n =
     (let r = pending_deployment n now; db' = db\<lparr>deployments := deployments db @ [r]\<rparr> in
      if get_deployment db (nd_id n) \<noteq> None \<or> \<not> one_in_progress db'
         \<or> list_ex (\<lambda>d. d_project d = nd_project n \<and> route_priority d = nd_route_priority n) (deployments db)
      then Inl (Unexpected ''IntegrityError'') else Inr (r, db'))"

definition next_route_priority :: "deployment_db \<Rightarrow> uuid \<Rightarrow> int" where
  "next_route_priority db pid =
     (let ps = map route_priority (filter (\<lambda>d. d_project d = pid) (deployments db));
          current = (if ps = [] then 0 else Max (set ps))
      in max 100 ((if current = 0 then 99 else current) + 1))"

definition has_in_progress :: "deployment_db \<Rightarrow> uuid \<Rightarrow> uuid set \<Rightarrow> bool" where
  "has_in_progress db pid transition_stopping =
     list_ex (\<lambda>d. d_project d = pid \<and> d_status d \<in> {DPending, DDeploying, DHealthcheck, DStopping}
       \<and> \<not> (d_status d = DStopping \<and> d_id d \<in> transition_stopping)) (deployments db)"

definition transition_deployment ::
  "deployment_db \<Rightarrow> uuid \<Rightarrow> deployment_status set \<Rightarrow> deployment_status \<Rightarrow> (deployment \<Rightarrow> deployment)
   \<Rightarrow> (deployment option \<times> deployment_db)" where
  \<comment> \<open>\<open>values\<close> are the other columns the caller sets\<close>
  "transition_deployment db i expected st values =
     (case get_deployment db i of
        None \<Rightarrow> (None, db)
      | Some d \<Rightarrow> if d_status d \<notin> expected then (None, db)
          else let db' = update_deployments (\<lambda>d. d_id d = i) (\<lambda>d. (values d)\<lparr>d_status := st\<rparr>) db
               in (get_deployment db' i, db'))"

definition proof_matches :: "deployment \<Rightarrow> activation_proof \<Rightarrow> bool" where
  "proof_matches d p \<longleftrightarrow> p_deployment p = d_id d \<and> p_project p = d_project d \<and> p_build p = d_build d
     \<and> container_id d = Some (p_container p) \<and> image_digest d = Some (p_image_digest p)
     \<and> p_hostname p = d_hostname d \<and> p_manifest_sha256 p = d_manifest_sha256 d \<and> p_runtime_version p = runtime_version d"

definition begin_activation :: "deployment_db \<Rightarrow> uuid \<Rightarrow> activation_proof \<Rightarrow> bool \<times> deployment_db" where
  "begin_activation db i p =
     (case get_deployment db i of
        None \<Rightarrow> (False, db)
      | Some d \<Rightarrow>
        if d_status d \<notin> {DDeploying, DHealthcheck} then (False, db)
        else (case get_project db (d_project d) of
            None \<Rightarrow> (False, db)
          | Some pr \<Rightarrow>
            if \<not> is_enabled pr \<or> \<not> proof_matches d p
               \<or> active_deployment pr \<notin> {None, Some i, previous_active d} then (False, db)
            else let db1 = (if previous_active d \<noteq> None \<and> active_deployment pr = previous_active d
                            then update_deployments (\<lambda>o1. Some (d_id o1) = previous_active d \<and> d_status o1 = DRunning)
                                   (\<lambda>o1. o1\<lparr>d_status := DStopping\<rparr>) db
                            else db);
                     db2 = update_deployments (\<lambda>e. d_id e = i \<and> d_status e \<in> {DDeploying, DHealthcheck})
                       (\<lambda>e. e\<lparr>d_status := DHealthcheck, health_status := Some ''activating'', phase := Some PhaseVerified,
                          verified_at := Some (p_verified_at p), proof_sha256 := Some (p_proof_sha256 p),
                          d_error_code := None, d_error_summary := None\<rparr>) db1
                 in (True, set_active (d_project d) (Some (d_build d)) (Some (d_id d)) db2)))"

definition refresh_activation_proof :: "deployment_db \<Rightarrow> uuid \<Rightarrow> activation_proof \<Rightarrow> deployment option \<times> deployment_db" where
  "refresh_activation_proof db i p =
     (case get_deployment db i of
        None \<Rightarrow> (None, db)
      | Some d \<Rightarrow>
        if d_status d \<notin> {DHealthcheck, DRunning} \<or> \<not> proof_matches d p then (None, db)
        else let db' = (if d_status d = DRunning
                 then update_deployments (\<lambda>e. d_id e = i \<and> d_status e = DRunning) (\<lambda>e. e\<lparr>health_status := Some ''healthy''\<rparr>) db
                 else update_deployments (\<lambda>e. d_id e = i) (\<lambda>e. e\<lparr>phase := Some (if phase d = Some PhaseRetiringPrevious
                          then PhaseRetiringPrevious else PhaseVerified),
                        verified_at := Some (p_verified_at p), proof_sha256 := Some (p_proof_sha256 p),
                        health_status := Some ''activating''\<rparr>) db)
             in (get_deployment db' i, db'))"

definition mark_retiring_previous :: "deployment_db \<Rightarrow> uuid \<Rightarrow> bool \<times> deployment_db" where
  "mark_retiring_previous db i =
     (let P = (\<lambda>d. d_id d = i \<and> d_status d = DHealthcheck \<and> phase d \<in> {Some PhaseVerified, Some PhaseRetiringPrevious}
            \<and> verified_at d \<noteq> None \<and> proof_sha256 d \<noteq> None)
      in (list_ex P (deployments db), update_deployments P (\<lambda>d. d\<lparr>phase := Some PhaseRetiringPrevious\<rparr>) db))"

definition restore_previous_after_failed_activation ::
  "deployment_db \<Rightarrow> time \<Rightarrow> uuid \<Rightarrow> bool \<Rightarrow> pystr \<Rightarrow> pystr \<Rightarrow> backend_error + deployment option \<times> deployment_db" where
  "restore_previous_after_failed_activation db now i ready code summary =
     (case get_deployment db i of
        None \<Rightarrow> Inr (None, db)
      | Some d \<Rightarrow>
        (case get_project db (d_project d) of
           None \<Rightarrow> Inr (Some d, db)
         | Some pr \<Rightarrow>
           if active_deployment pr \<noteq> Some i then Inr (Some d, db)
           else let previous = (case previous_active d of None \<Rightarrow> None | Some j \<Rightarrow> get_deployment db j);
                    db1 = update_deployments (\<lambda>e. d_id e = i \<and> d_status e \<in> {DHealthcheck, DRunning})
                      (\<lambda>e. e\<lparr>d_status := DUnhealthy, health_status := Some ''unhealthy'', phase := Some PhaseFailed,
                         d_failed_at := Some now, d_error_code := Some (take 128 code), d_error_summary := Some (take 2000 summary)\<rparr>) db
                in (case previous of
                      Some o1 \<Rightarrow>
                        if ready \<and> d_status o1 \<in> {DStopping, DStopped} \<and> d_started_at o1 \<noteq> None
                        then let db2 = update_deployments (\<lambda>e. d_id e = d_id o1 \<and> d_status e \<in> {DStopping, DStopped})
                               (\<lambda>e. e\<lparr>d_status := DRunning, health_status := Some ''healthy'', stopped_at := None\<rparr>) db1;
                               db3 = set_active (d_project d) (Some (d_build o1)) (Some (d_id o1)) db2
                             in if one_running db3 then Inr (get_deployment db3 i, db3) else Inl (Unexpected ''IntegrityError'')
                        else let db2 = set_active (d_project d) None None db1 in Inr (get_deployment db2 i, db2)
                    | None \<Rightarrow> let db2 = set_active (d_project d) None None db1 in Inr (get_deployment db2 i, db2))))"

definition previous_retired :: "deployment_db \<Rightarrow> deployment \<Rightarrow> bool" where
  \<comment> \<open>the guard on the previous deployment in \<^verbatim>\<open>complete_activation\<close>\<close>
  "previous_retired db d =
     (case previous_active d of None \<Rightarrow> True
      | Some j \<Rightarrow> (case get_deployment db j of None \<Rightarrow> False
        | Some o1 \<Rightarrow> d_project o1 = d_project d \<and> d_status o1 \<in> {DStopping, DStopped}
            \<and> \<not> (d_status o1 = DStopped \<and> stopped_at o1 = None)))"

definition retire_row :: "time \<Rightarrow> deployment \<Rightarrow> deployment" where
  "retire_row now d = d\<lparr>d_status := DStopped, health_status := Some ''stopped'', stopped_at := Some now\<rparr>"

definition activatable :: "uuid \<Rightarrow> deployment \<Rightarrow> bool" where
  "activatable i d \<longleftrightarrow> d_id d = i \<and> d_status d = DHealthcheck \<and> phase d = Some PhaseRetiringPrevious
     \<and> verified_at d \<noteq> None \<and> proof_sha256 d \<noteq> None"

definition activate_row :: "time \<Rightarrow> deployment \<Rightarrow> deployment" where
  "activate_row now d = d\<lparr>d_status := DRunning, health_status := Some ''healthy'', d_started_at := Some now,
     activated_at := Some now, phase := Some PhaseRunning, d_error_code := None, d_error_summary := None\<rparr>"

definition other_running :: "deployment_db \<Rightarrow> deployment \<Rightarrow> bool" where
  "other_running db d = list_ex (\<lambda>e. d_project e = d_project d \<and> d_id e \<noteq> d_id d \<and> d_status e = DRunning) (deployments db)"

definition complete_activation :: "deployment_db \<Rightarrow> time \<Rightarrow> uuid \<Rightarrow> deployment option \<times> deployment_db" where
  "complete_activation db now i =
     (case get_deployment db i of
        None \<Rightarrow> (None, db)
      | Some d \<Rightarrow>
        if \<not> activatable i d then (None, db)
        else (case get_project db (d_project d) of
            None \<Rightarrow> (None, db)
          | Some pr \<Rightarrow>
            if \<not> is_enabled pr \<or> active_deployment pr \<noteq> Some i \<or> \<not> previous_retired db d \<or> other_running db d
            then (None, db)
            else let db1 = update_deployments (\<lambda>o1. Some (d_id o1) = previous_active d \<and> d_status o1 = DStopping) (retire_row now) db;
                     db2 = update_deployments (activatable i) (activate_row now) db1
                 in (if list_ex (activatable i) (deployments db1) then get_deployment db2 i else None, db2)))"

definition clear_active :: "deployment_db \<Rightarrow> uuid \<Rightarrow> uuid \<Rightarrow> deployment_db" where
  "clear_active db pid i = db\<lparr>projects := update_where (\<lambda>p. pr_id p = pid \<and> active_deployment p = Some i)
     (\<lambda>p. p\<lparr>active_deployment := None\<rparr>) (projects db)\<rparr>"

definition mark_stopped :: "deployment_db \<Rightarrow> time \<Rightarrow> uuid \<Rightarrow> deployment option \<times> deployment_db" where
  "mark_stopped db now i =
     (let db' = update_deployments (\<lambda>d. d_id d = i)
        (\<lambda>d. d\<lparr>d_status := DStopped, health_status := Some ''stopped'', stopped_at := Some now\<rparr>) db
      in (get_deployment db' i, db'))"

definition mark_deployment_failed ::
  "deployment_db \<Rightarrow> time \<Rightarrow> uuid \<Rightarrow> pystr \<Rightarrow> pystr \<Rightarrow> bool \<Rightarrow> deployment option \<times> deployment_db" where
  "mark_deployment_failed db now i code summary unhealthy =
     (let P = (\<lambda>d. d_id d = i \<and> d_status d \<in> {DPending, DDeploying, DHealthcheck});
          db' = update_deployments P (\<lambda>d. d\<lparr>d_status := (if unhealthy then DUnhealthy else DFailed),
            health_status := Some (if unhealthy then ''unhealthy'' else ''failed''), phase := Some PhaseFailed,
            d_failed_at := Some now, d_error_code := Some (take 128 code), d_error_summary := Some (take 2000 summary)\<rparr>) db
      in (if list_ex P (deployments db) then get_deployment db' i else None, db'))"

definition reset_for_retry :: "deployment_db \<Rightarrow> uuid \<Rightarrow> deployment option \<times> deployment_db" where
  "reset_for_retry db i =
     (let P = (\<lambda>d. d_id d = i \<and> d_status d \<in> {DDeploying, DHealthcheck});
          db' = update_deployments P (\<lambda>d. d\<lparr>d_status := DPending, container_id := None, image_digest := None,
            health_status := None, d_started_at := None, activated_at := None, phase := None, verified_at := None,
            proof_sha256 := None, d_failed_at := None, d_error_code := None, d_error_summary := None\<rparr>) db
      in (if list_ex P (deployments db) then get_deployment db' i else None, db'))"

definition find_superseded_running :: "deployment_db \<Rightarrow> deployment \<Rightarrow> deployment list" where
  "find_superseded_running db active =
     filter (\<lambda>d. d_project d = d_project active \<and> d_id d \<noteq> d_id active \<and> d_status d \<in> {DRunning, DStopping}) (deployments db)"

definition list_active_for_route_reconciliation :: "deployment_db \<Rightarrow> deployment list" where
  "list_active_for_route_reconciliation db =
     sort_key (\<lambda>d. (d_project d, d_id d)) (concat (map (\<lambda>p.
       filter (\<lambda>d. active_deployment p = Some (d_id d) \<and> is_enabled p \<and> active_build p = Some (d_build d)) (deployments db))
       (projects db)))"

section \<open>Transactions of the deployment service\<close>

text \<open>
  The transactions of \<^verbatim>\<open>services/deployment/service.py\<close> that call \<^verbatim>\<open>transition\<close>: stopping, starting,
  and recording the provisioned container together with the start of its activation, which is
  rolled back when the activation is refused.
\<close>

definition stop_transition :: "deployment_db \<Rightarrow> uuid \<Rightarrow> deployment option \<times> deployment_db" where
  "stop_transition db i =
     transition_deployment db i {DPending, DDeploying, DHealthcheck, DRunning, DUnhealthy} DStopping (\<lambda>d. d)"

definition start_transition :: "deployment_db \<Rightarrow> uuid \<Rightarrow> deployment option \<times> deployment_db" where
  "start_transition db i = transition_deployment db i {DPending, DDeploying, DHealthcheck} DDeploying (\<lambda>d. d)"

definition mounts_transition :: "deployment_db \<Rightarrow> uuid \<Rightarrow> pystr option \<Rightarrow> deployment option \<times> deployment_db" where
  "mounts_transition db i overlay = transition_deployment db i {DDeploying, DHealthcheck} DHealthcheck
     (\<lambda>d. d\<lparr>health_status := Some ''starting'', auth_overlay_sha256 := overlay\<rparr>)"

definition record_provisioned ::
  "deployment_db \<Rightarrow> uuid \<Rightarrow> pystr \<Rightarrow> pystr \<Rightarrow> pystr option \<Rightarrow> activation_proof \<Rightarrow> backend_error + deployment_db" where
  "record_provisioned db i container digest health p =
     (case transition_deployment db i {DHealthcheck} DHealthcheck
         (\<lambda>d. d\<lparr>container_id := Some container, image_digest := Some digest, health_status := health\<rparr>) of
        (None, _) \<Rightarrow> Inl (Raised InvalidStateError ''Deployment was cancelled during startup'')
      | (Some d, db1) \<Rightarrow>
        (case begin_activation db1 (d_id d) p of
           (True, db2) \<Rightarrow> Inr db2
         | (False, _) \<Rightarrow> Inl (Raised InvalidStateError ''Deployment was cancelled before activation'')))"

inductive dep_step :: "(pystr \<Rightarrow> pystr) \<Rightarrow> deployment_db \<Rightarrow> deployment_db \<Rightarrow> bool" for sha where
  dep_create: "create_deployment db now n = Inr (r, db') \<Longrightarrow> dep_step sha db db'"
| dep_stop: "stop_transition db i = (r, db') \<Longrightarrow> dep_step sha db db'"
| dep_start: "start_transition db i = (r, db') \<Longrightarrow> dep_step sha db db'"
| dep_mounts: "mounts_transition db i overlay = (r, db') \<Longrightarrow> dep_step sha db db'"
| dep_provisioned: "validate_content_binding sha p = Inr p \<Longrightarrow> record_provisioned db i container digest health p = Inr db'
    \<Longrightarrow> dep_step sha db db'"
| dep_refresh: "validate_content_binding sha p = Inr p \<Longrightarrow> refresh_activation_proof db i p = (r, db') \<Longrightarrow> dep_step sha db db'"
| dep_retiring: "mark_retiring_previous db i = (b, db') \<Longrightarrow> dep_step sha db db'"
| dep_restore: "restore_previous_after_failed_activation db now i ready code summary = Inr (r, db') \<Longrightarrow> dep_step sha db db'"
| dep_complete: "complete_activation db now i = (r, db') \<Longrightarrow> dep_step sha db db'"
| dep_clear: "dep_step sha db (clear_active db pid i)"
| dep_stopped: "mark_stopped db now i = (r, db') \<Longrightarrow> dep_step sha db db'"
| dep_failed: "mark_deployment_failed db now i code summary unhealthy = (r, db') \<Longrightarrow> dep_step sha db db'"
| dep_reset: "reset_for_retry db i = (r, db') \<Longrightarrow> dep_step sha db db'"
| dep_projects: "deployments db' = deployments db \<Longrightarrow> dep_step sha db db'"

inductive_cases dep_stepE: "dep_step sha db db'"

section \<open>What every deployment satisfies\<close>

definition bound_proof :: "(pystr \<Rightarrow> pystr) \<Rightarrow> deployment \<Rightarrow> bool" where
  "bound_proof sha d = (case proof_sha256 d of None \<Rightarrow> True
     | Some h \<Rightarrow> (case (container_id d, image_digest d, verified_at d) of
         (Some c, Some g, Some v) \<Rightarrow> is_aware v \<and> activation_proof_sha256 sha (d_id d) (d_project d) (d_build d) c g
            (d_hostname d) (d_manifest_sha256 d) (runtime_version d) v = h
       | _ \<Rightarrow> False))"

definition deployment_inv :: "(pystr \<Rightarrow> pystr) \<Rightarrow> deployment \<Rightarrow> bool" where
  "deployment_inv sha d \<longleftrightarrow> bound_proof sha d
     \<and> (d_started_at d \<noteq> None \<longleftrightarrow> activated_at d \<noteq> None)
     \<and> (d_started_at d \<noteq> None \<longrightarrow> proof_sha256 d \<noteq> None \<and> d_status d \<notin> {DPending, DDeploying, DHealthcheck})
     \<and> (d_status d = DRunning \<longrightarrow> d_started_at d \<noteq> None)"

definition rows_inv :: "(deployment \<Rightarrow> bool) \<Rightarrow> deployment_db \<Rightarrow> bool" where
  "rows_inv I db \<longleftrightarrow> distinct (map d_id (deployments db)) \<and> (\<forall>d\<in>set (deployments db). I d) \<and> one_running db"

abbreviation deployments_inv :: "(pystr \<Rightarrow> pystr) \<Rightarrow> deployment_db \<Rightarrow> bool" where
  "deployments_inv sha \<equiv> rows_inv (deployment_inv sha)"

lemma inv_activated: "deployment_inv sha d \<Longrightarrow> d_started_at d \<noteq> None \<Longrightarrow> has_successful_activation sha d"
  by (auto simp: deployment_inv_def bound_proof_def has_successful_activation_def split: option.splits)

lemma one_running_iff:
  assumes "distinct (map d_id (deployments db))"
  shows "one_running db \<longleftrightarrow> (\<forall>d\<in>set (deployments db). \<forall>e\<in>set (deployments db).
    d_status d = DRunning \<longrightarrow> d_status e = DRunning \<longrightarrow> d_project d = d_project e \<longrightarrow> d_id d = d_id e)"
proof -
  have "distinct (deployments db)" and inj: "inj_on d_id (set (deployments db))"
    using assms by (auto simp: distinct_map)
  then have "one_running db \<longleftrightarrow> inj_on d_project {d \<in> set (deployments db). d_status d = DRunning}"
    by (simp add: one_running_def unique_status_def distinct_map)
  also have "\<dots> \<longleftrightarrow> (\<forall>d\<in>set (deployments db). \<forall>e\<in>set (deployments db).
    d_status d = DRunning \<longrightarrow> d_status e = DRunning \<longrightarrow> d_project d = d_project e \<longrightarrow> d_id d = d_id e)"
    using inj by (auto simp: inj_on_def)
  finally show ?thesis .
qed

text \<open>An update that keeps the identity of the rows and each row's invariant, and does not start a runtime.\<close>

definition keeps_row :: "(deployment \<Rightarrow> deployment) \<Rightarrow> bool" where
  "keeps_row f \<longleftrightarrow> (\<forall>d. d_id (f d) = d_id d \<and> d_project (f d) = d_project d)"

lemma update_ids: "keeps_row f \<Longrightarrow> map d_id (deployments (update_deployments P f db)) = map d_id (deployments db)"
  by (simp add: update_deployments_def update_where_map keeps_row_def)

lemma update_rows_inv:
  assumes inv: "rows_inv I db" and k: "keeps_row f"
    and row: "\<And>d. d \<in> set (deployments db) \<Longrightarrow> I d \<Longrightarrow> P d \<Longrightarrow> J (f d)"
    and other: "\<And>d. d \<in> set (deployments db) \<Longrightarrow> I d \<Longrightarrow> \<not> P d \<Longrightarrow> J d"
    and run: "\<And>d. d \<in> set (deployments db) \<Longrightarrow> P d \<Longrightarrow> d_status (f d) = DRunning \<Longrightarrow> d_status d = DRunning"
  shows "rows_inv J (update_deployments P f db)"
proof -
  let ?db = "update_deployments P f db"
  have ids: "distinct (map d_id (deployments ?db))" using inv by (simp add: update_ids [OF k] rows_inv_def)
  have origin: "\<exists>d\<in>set (deployments db). d_id d = d_id e \<and> d_project d = d_project e
      \<and> (d_status e = DRunning \<longrightarrow> d_status d = DRunning) \<and> J e" if "e \<in> set (deployments ?db)" for e
  proof -
    have "(\<exists>d\<in>set (deployments db). P d \<and> e = f d) \<or> (e \<in> set (deployments db) \<and> \<not> P e)"
      using that by (auto simp: update_deployments_def update_where_in)
    moreover have "\<forall>d\<in>set (deployments db). I d" using inv by (simp add: rows_inv_def)
    ultimately show ?thesis using k row other run by (auto simp: keeps_row_def)
  qed
  have "one_running ?db"
    unfolding one_running_iff [OF ids]
    using inv origin one_running_iff [of db] by (metis rows_inv_def)
  with ids origin show ?thesis by (auto simp: rows_inv_def)
qed

lemmas update_inv = update_rows_inv [where I = I and J = I for I]

lemma update_ball:
  "\<forall>x\<in>set (deployments db). I x \<Longrightarrow> (\<And>x. P x \<Longrightarrow> I x \<Longrightarrow> I (f x)) \<Longrightarrow> \<forall>x\<in>set (deployments (update_deployments P f db)). I x"
  by (auto simp: update_deployments_def update_where_in)

lemma set_active_deployments [simp]: "deployments (set_active pid b d db) = deployments db"
  by (simp add: set_active_def)

lemma inv_cong: "deployments db' = deployments db \<Longrightarrow> rows_inv I db' = rows_inv I db"
  by (simp add: rows_inv_def one_running_def unique_status_def)

lemma set_active_inv [simp]: "rows_inv I (set_active pid b d db) = rows_inv I db"
  by (rule inv_cong) simp

section \<open>Every transaction keeps the invariant\<close>

lemma get_deployment_Some: "get_deployment db i = Some d \<Longrightarrow> d \<in> set (deployments db) \<and> d_id d = i"
  by (simp add: get_deployment_def find_by_Some)

lemma get_unique:
  "rows_inv I db \<Longrightarrow> get_deployment db i = Some d \<Longrightarrow> e \<in> set (deployments db) \<Longrightarrow> d_id e = i \<Longrightarrow> e = d"
  using find_by_distinct [of d_id "deployments db" e] by (simp add: get_deployment_def rows_inv_def)

lemma create_inv:
  assumes inv: "deployments_inv sha db" and c: "create_deployment db now n = Inr (r, db')"
  shows "deployments_inv sha db'"
proof -
  let ?r = "pending_deployment n now"
  from c have new: "\<forall>d\<in>set (deployments db). d_id d \<noteq> nd_id n" and db': "db' = db\<lparr>deployments := deployments db @ [?r]\<rparr>"
    by (auto simp: create_deployment_def Let_def get_deployment_def find_by_None split: if_splits)
  have "deployment_inv sha ?r" "d_status ?r = DPending" "d_id ?r = nd_id n"
    by (simp_all add: deployment_inv_def bound_proof_def pending_deployment_def)
  with inv new show ?thesis by (auto simp: rows_inv_def db' one_running_def unique_status_def)
qed

text \<open>The transitions keep the columns the invariant is about, whatever the other values are.\<close>

lemma transition_inv:
  assumes inv: "deployments_inv sha db" and t: "transition_deployment db i expected st values = (r, db')"
    and k: "keeps_row (\<lambda>d. (values d)\<lparr>d_status := st\<rparr>)"
    and row: "\<And>d. deployment_inv sha d \<Longrightarrow> d_status d \<in> expected \<Longrightarrow> deployment_inv sha ((values d)\<lparr>d_status := st\<rparr>)"
    and st: "st \<noteq> DRunning"
  shows "deployments_inv sha db'"
proof (cases "db' = db")
  case False
  with t obtain d where d: "get_deployment db i = Some d" "d_status d \<in> expected"
    and db': "db' = update_deployments (\<lambda>d. d_id d = i) (\<lambda>d. (values d)\<lparr>d_status := st\<rparr>) db"
    by (auto simp: transition_deployment_def Let_def split: option.splits if_splits)
  show ?thesis
    unfolding db' by (rule update_inv [OF inv k]) (use get_unique [OF inv d(1)] d(2) row st in auto)
qed (use inv in simp)

lemma simple_transitions_inv:
  assumes inv: "deployments_inv sha db"
  shows "stop_transition db i = (r, db') \<Longrightarrow> deployments_inv sha db'"
    and "start_transition db i = (r, db') \<Longrightarrow> deployments_inv sha db'"
    and "mounts_transition db i overlay = (r, db') \<Longrightarrow> deployments_inv sha db'"
  unfolding stop_transition_def start_transition_def mounts_transition_def
  by (erule transition_inv [OF inv];
      auto simp: keeps_row_def deployment_inv_def bound_proof_def split: option.splits)+

lemma proof_bound:
  assumes "validate_content_binding sha p = Inr p" and "proof_matches d p"
  shows "bound_proof sha (d\<lparr>verified_at := Some (p_verified_at p), proof_sha256 := Some (p_proof_sha256 p)\<rparr>)"
  using assms by (auto simp: validate_content_binding_def proof_matches_def bound_proof_def proof_binding_def
      split: if_splits option.splits)

lemma begin_activation_inv:
  assumes inv: "rows_inv (\<lambda>e. if d_id e = i then e = d else deployment_inv sha e) db" and d: "get_deployment db i = Some d"
    and fresh: "d_started_at d = None" "activated_at d = None" and p: "validate_content_binding sha p = Inr p"
    and b: "begin_activation db i p = (True, db')"
  shows "deployments_inv sha db'"
proof -
  from d b have st: "d_status d \<in> {DDeploying, DHealthcheck}" and m: "proof_matches d p"
    by (auto simp: begin_activation_def split: option.splits if_splits)
  let ?P = "\<lambda>o1. Some (d_id o1) = previous_active d \<and> d_status o1 = DRunning"
  let ?f = "\<lambda>e. e\<lparr>d_status := DHealthcheck, health_status := Some ''activating'', phase := Some PhaseVerified,
     verified_at := Some (p_verified_at p), proof_sha256 := Some (p_proof_sha256 p), d_error_code := None, d_error_summary := None\<rparr>"
  let ?Q = "\<lambda>e. d_id e = i \<and> d_status e \<in> {DDeploying, DHealthcheck}"
  from d b obtain pr where pr: "get_project db (d_project d) = Some pr"
    by (auto simp: begin_activation_def split: option.splits if_splits)
  define db1 where "db1 = (if previous_active d \<noteq> None \<and> active_deployment pr = previous_active d
    then update_deployments ?P (\<lambda>o1. o1\<lparr>d_status := DStopping\<rparr>) db else db)"
  from d b pr have "db' = set_active (d_project d) (Some (d_build d)) (Some (d_id d)) (update_deployments ?Q ?f db1)"
    unfolding db1_def by (auto simp: begin_activation_def Let_def split: if_splits)
  then have db': "deployments db' = deployments (update_deployments ?Q ?f db1)" by simp
  have k: "keeps_row (\<lambda>o1. o1\<lparr>d_status := DStopping\<rparr>)" "keeps_row ?f" by (simp_all add: keeps_row_def)
  have "rows_inv (\<lambda>e. if d_id e = i then e = d else deployment_inv sha e) (update_deployments ?P (\<lambda>o1. o1\<lparr>d_status := DStopping\<rparr>) db)"
    by (rule update_rows_inv [OF inv k(1)])
      (use st in \<open>auto simp: deployment_inv_def bound_proof_def split: if_splits option.splits\<close>)
  with inv have inv1: "rows_inv (\<lambda>e. if d_id e = i then e = d else deployment_inv sha e) db1" by (simp add: db1_def)
  have "deployment_inv sha (?f d)"
    using proof_bound [OF p m] fresh by (auto simp: deployment_inv_def bound_proof_def split: option.splits)
  then have "deployments_inv sha (update_deployments ?Q ?f db1)"
    using st by (intro update_rows_inv [OF inv1 k(2)]) (auto split: if_splits)
  then show ?thesis using inv_cong [OF db'] by simp
qed

lemma record_provisioned_inv:
  assumes inv: "deployments_inv sha db" and p: "validate_content_binding sha p = Inr p"
    and r: "record_provisioned db i container digest health p = Inr db'"
  shows "deployments_inv sha db'"
proof -
  let ?f = "\<lambda>d. d\<lparr>container_id := Some container, image_digest := Some digest, health_status := health, d_status := DHealthcheck\<rparr>"
  let ?db1 = "update_deployments (\<lambda>d. d_id d = i) ?f db"
  obtain d0 where d0: "get_deployment db i = Some d0" "d_status d0 = DHealthcheck"
    using r by (auto simp: record_provisioned_def transition_deployment_def Let_def split: option.splits if_splits prod.splits)
  have k: "keeps_row ?f" by (simp add: keeps_row_def)
  have d: "get_deployment ?db1 i = Some (?f d0)"
    using d0(1) get_deployment_Some [OF d0(1)]
    by (simp add: get_deployment_def update_deployments_def find_by_update)
  have b: "begin_activation ?db1 i p = (True, db')"
    using r d d0 get_deployment_Some [OF d0(1)]
    by (auto simp: record_provisioned_def transition_deployment_def Let_def split: prod.splits bool.splits)
  have "deployment_inv sha d0" using inv get_deployment_Some [OF d0(1)] by (auto simp: rows_inv_def)
  with d0(2) have fresh: "d_started_at (?f d0) = None" "activated_at (?f d0) = None" by (auto simp: deployment_inv_def)
  have "rows_inv (\<lambda>e. if d_id e = i then e = ?f d0 else deployment_inv sha e) ?db1"
    by (rule update_rows_inv [OF inv k]) (use get_unique [OF inv d0(1)] in auto)
  then show ?thesis by (rule begin_activation_inv [OF _ d fresh p b])
qed

lemma refresh_inv:
  assumes inv: "deployments_inv sha db" and p: "validate_content_binding sha p = Inr p"
    and r: "refresh_activation_proof db i p = (res, db')"
  shows "deployments_inv sha db'"
proof (cases "db' = db")
  case False
  with r obtain d where d: "get_deployment db i = Some d" "proof_matches d p" "d_status d \<in> {DHealthcheck, DRunning}"
    by (auto simp: refresh_activation_proof_def Let_def split: option.splits if_splits)
  have u: "e \<in> set (deployments db) \<Longrightarrow> d_id e = i \<Longrightarrow> e = d" for e by (rule get_unique [OF inv d(1)])
  let ?f = "\<lambda>e. e\<lparr>phase := Some (if phase d = Some PhaseRetiringPrevious then PhaseRetiringPrevious else PhaseVerified),
     verified_at := Some (p_verified_at p), proof_sha256 := Some (p_proof_sha256 p), health_status := Some ''activating''\<rparr>"
  have f: "deployment_inv sha d \<Longrightarrow> deployment_inv sha (?f d)"
    using proof_bound [OF p d(2)] by (auto simp: deployment_inv_def bound_proof_def split: option.splits)
  have "deployments_inv sha (update_deployments (\<lambda>e. d_id e = i \<and> d_status e = DRunning) (\<lambda>e. e\<lparr>health_status := Some ''healthy''\<rparr>) db)"
    by (rule update_inv [OF inv]) (auto simp: keeps_row_def deployment_inv_def bound_proof_def split: option.splits)
  moreover have "deployments_inv sha (update_deployments (\<lambda>e. d_id e = i) ?f db)"
    by (rule update_inv [OF inv]) (use u f in \<open>auto simp: keeps_row_def\<close>)
  ultimately show ?thesis
    using r d False by (auto simp: refresh_activation_proof_def Let_def split: if_splits)
qed (use inv in simp)

lemma guarded_updates_inv:
  assumes inv: "deployments_inv sha db"
  shows "mark_retiring_previous db i = (b, db') \<Longrightarrow> deployments_inv sha db'"
    and "mark_stopped db now i = (r, db') \<Longrightarrow> deployments_inv sha db'"
    and "mark_deployment_failed db now i code summary unhealthy = (r, db') \<Longrightarrow> deployments_inv sha db'"
    and "reset_for_retry db i = (r, db') \<Longrightarrow> deployments_inv sha db'"
  unfolding mark_retiring_previous_def mark_stopped_def mark_deployment_failed_def reset_for_retry_def Let_def
  by (auto intro!: update_inv [OF inv] simp: keeps_row_def deployment_inv_def bound_proof_def
      split: option.splits if_split_asm)

lemma complete_activation_cases:
  assumes c: "complete_activation db now i = (r, db')" and "db' \<noteq> db"
  obtains d where "get_deployment db i = Some d" and "activatable i d" and "\<not> other_running db d"
    and "db' = update_deployments (activatable i) (activate_row now)
      (update_deployments (\<lambda>o1. Some (d_id o1) = previous_active d \<and> d_status o1 = DStopping) (retire_row now) db)"
proof -
  from assms obtain d where d: "get_deployment db i = Some d"
    by (auto simp: complete_activation_def split: option.splits)
  with assms obtain pr where pr: "get_project db (d_project d) = Some pr"
    by (auto simp: complete_activation_def split: option.splits if_splits)
  show ?thesis
    by (rule that [OF d]) (use assms d pr in \<open>auto simp: complete_activation_def Let_def split: if_splits\<close>)
qed

lemma activation_rows:
  "keeps_row (retire_row now)" "keeps_row (activate_row now)"
  "deployment_inv sha d \<Longrightarrow> deployment_inv sha (retire_row now d)"
  "deployment_inv sha d \<Longrightarrow> activatable i d \<Longrightarrow> deployment_inv sha (activate_row now d)"
  "d_status (retire_row now d) \<noteq> DRunning"
  by (auto simp: keeps_row_def retire_row_def activate_row_def activatable_def deployment_inv_def bound_proof_def
      split: option.splits)

text \<open>Starting the one row of a project in which nothing else runs.\<close>

lemma activate_one_running:
  assumes inv: "rows_inv I db" and d: "get_deployment db i = Some d" and none: "\<not> other_running db d"
  shows "one_running (update_deployments (activatable i) (activate_row now) db)"
proof -
  let ?db = "update_deployments (activatable i) (activate_row now) db"
  have ids: "distinct (map d_id (deployments ?db))"
    using inv update_ids [OF activation_rows(2)] by (simp add: rows_inv_def)
  have rows: "\<exists>e0\<in>set (deployments db). d_id e0 = d_id e \<and> d_project e0 = d_project e
      \<and> (d_id e = i \<or> e0 = e)" if "e \<in> set (deployments ?db)" for e
    using that activation_rows(2) [of now]
    by (auto simp: update_deployments_def update_where_in activatable_def keeps_row_def)
  have proj: "d_project e = d_project d" if "e \<in> set (deployments ?db)" "d_id e = i" for e
    using rows [OF that(1)] get_unique [OF inv d] that(2) by auto
  have other: "d_project e \<noteq> d_project d" if "e \<in> set (deployments ?db)" "d_id e \<noteq> i" "d_status e = DRunning" for e
    using rows [OF that(1)] that(2,3) none get_deployment_Some [OF d] by (auto simp: other_running_def list_ex_iff)
  have mem: "e \<in> set (deployments db)" if "e \<in> set (deployments ?db)" "d_id e \<noteq> i" for e
    using rows [OF that(1)] that(2) by blast
  have "distinct (map d_id (deployments db))" "one_running db" using inv by (auto simp: rows_inv_def)
  then have running: "\<forall>d\<in>set (deployments db). \<forall>e\<in>set (deployments db).
      d_status d = DRunning \<longrightarrow> d_status e = DRunning \<longrightarrow> d_project d = d_project e \<longrightarrow> d_id d = d_id e"
    using one_running_iff by blast
  have old: "d_id e = d_id e'" if "e \<in> set (deployments ?db)" "e' \<in> set (deployments ?db)" "d_id e \<noteq> i" "d_id e' \<noteq> i"
      "d_status e = DRunning" "d_status e' = DRunning" "d_project e = d_project e'" for e e'
    using mem [OF that(1,3)] mem [OF that(2,4)] running that(5-7) by blast
  show ?thesis unfolding one_running_iff [OF ids]
  proof (intro ballI impI)
    fix e e'
    assume "e \<in> set (deployments ?db)" "e' \<in> set (deployments ?db)" "d_status e = DRunning" "d_status e' = DRunning"
      "d_project e = d_project e'"
    then show "d_id e = d_id e'"
      using proj other old by (cases "d_id e = i"; cases "d_id e' = i") auto
  qed
qed

lemma complete_activation_inv:
  assumes inv: "deployments_inv sha db" and c: "complete_activation db now i = (r, db')"
  shows "deployments_inv sha db'"
proof (cases "db' = db")
  case False
  from complete_activation_cases [OF c False] obtain d where d: "get_deployment db i = Some d" "activatable i d"
    "\<not> other_running db d" and db': "db' = update_deployments (activatable i) (activate_row now)
      (update_deployments (\<lambda>o1. Some (d_id o1) = previous_active d \<and> d_status o1 = DStopping) (retire_row now) db)" by metis
  define Q :: "deployment \<Rightarrow> bool" where "Q = (\<lambda>o1. Some (d_id o1) = previous_active d \<and> d_status o1 = DStopping)"
  let ?db1 = "update_deployments Q (retire_row now) db"
  have inv1: "deployments_inv sha ?db1"
    by (rule update_inv [OF inv activation_rows(1)]) (simp_all add: activation_rows)
  obtain e where e: "get_deployment ?db1 i = Some e" "d_project e = d_project d" "d_id e = d_id d"
    using d(1) activation_rows(1) [of now]
    by (simp add: get_deployment_def update_deployments_def find_by_update keeps_row_def)
  have "\<not> other_running ?db1 e"
    using d(3) e activation_rows(1,5) [of now]
    by (auto simp: other_running_def list_ex_iff update_deployments_def update_where_in keeps_row_def)
  from activate_one_running [OF inv1 e(1) this] have "one_running db'" by (simp add: db' Q_def)
  moreover have "distinct (map d_id (deployments db'))"
    using inv1 update_ids [OF activation_rows(2)] by (simp add: rows_inv_def db' Q_def)
  moreover have "\<forall>x\<in>set (deployments db'). deployment_inv sha x"
    unfolding db' Q_def [symmetric]
    by (rule update_ball) (use inv1 activation_rows(4) in \<open>auto simp: rows_inv_def\<close>)
  ultimately show ?thesis by (simp add: rows_inv_def)
qed (use inv in simp)

lemma restore_inv:
  assumes inv: "deployments_inv sha db"
    and r: "restore_previous_after_failed_activation db now i ready code summary = Inr (res, db')"
  shows "deployments_inv sha db'"
proof (cases "db' = db")
  case False
  define f where "f = (\<lambda>e :: deployment. e\<lparr>d_status := DUnhealthy, health_status := Some ''unhealthy'', phase := Some PhaseFailed,
    d_failed_at := Some now, d_error_code := Some (take 128 code), d_error_summary := Some (take 2000 summary)\<rparr>)"
  define g where "g = (\<lambda>e :: deployment. e\<lparr>d_status := DRunning, health_status := Some ''healthy'', stopped_at := None\<rparr>)"
  define db1 where "db1 = update_deployments (\<lambda>e. d_id e = i \<and> d_status e \<in> {DHealthcheck, DRunning}) f db"
  have k: "keeps_row f" "keeps_row g" by (simp_all add: keeps_row_def f_def g_def)
  have inv1: "deployments_inv sha db1"
    unfolding db1_def by (rule update_inv [OF inv k(1)])
      (auto simp: f_def deployment_inv_def bound_proof_def split: option.splits)
  from r False obtain d pr where d: "get_deployment db i = Some d" "get_project db (d_project d) = Some pr"
    "active_deployment pr = Some i"
    by (auto simp: restore_previous_after_failed_activation_def split: option.splits if_splits)
  define previous where "previous = (case previous_active d of None \<Rightarrow> None | Some j \<Rightarrow> get_deployment db j)"
  consider (cleared) "deployments db' = deployments db1"
    | (restored) o1 where "previous = Some o1" "d_started_at o1 \<noteq> None" "one_running db'"
      "deployments db' = deployments (update_deployments (\<lambda>e. d_id e = d_id o1 \<and> d_status e \<in> {DStopping, DStopped}) g db1)"
    using r d unfolding restore_previous_after_failed_activation_def Let_def
    by (auto simp: f_def [symmetric] g_def [symmetric] db1_def previous_def [symmetric]
        split: option.splits if_splits)
  then show ?thesis
  proof cases
    case cleared
    then show ?thesis using inv1 inv_cong by blast
  next
    case restored
    then obtain j where "get_deployment db j = Some o1" by (auto simp: previous_def split: option.splits)
    then have o1: "o1 \<in> set (deployments db)" using get_deployment_Some by blast
    have started: "d_started_at e \<noteq> None" if e: "e \<in> set (deployments db1)" "d_id e = d_id o1" for e
    proof -
      have "\<exists>e0\<in>set (deployments db). d_id e0 = d_id e \<and> d_started_at e0 = d_started_at e"
        using e(1) by (auto simp: db1_def f_def update_deployments_def update_where_in)
      then obtain e0 where "e0 \<in> set (deployments db)" "d_id e0 = d_id o1" "d_started_at e0 = d_started_at e"
        using e(2) by auto
      moreover have "e0 = o1" using calculation o1 inv by (auto simp: rows_inv_def distinct_map inj_on_def)
      ultimately show ?thesis using restored(2) by simp
    qed
    let ?db2 = "update_deployments (\<lambda>e. d_id e = d_id o1 \<and> d_status e \<in> {DStopping, DStopped}) g db1"
    have "\<forall>x\<in>set (deployments ?db2). deployment_inv sha x"
    proof
      fix x assume "x \<in> set (deployments ?db2)"
      then consider e where "e \<in> set (deployments db1)" "d_id e = d_id o1" "x = g e" | "x \<in> set (deployments db1)"
        by (auto simp: update_deployments_def update_where_in)
      moreover have "deployment_inv sha e \<Longrightarrow> d_started_at e \<noteq> None \<Longrightarrow> deployment_inv sha (g e)" for e
        by (auto simp: g_def deployment_inv_def bound_proof_def split: option.splits)
      ultimately show "deployment_inv sha x"
        using inv1 started by cases (auto simp: rows_inv_def)
    qed
    moreover have "distinct (map d_id (deployments ?db2))" using inv1 update_ids [OF k(2)] by (simp add: rows_inv_def)
    ultimately show ?thesis using restored(3,4) by (simp add: rows_inv_def)
  qed
qed (use inv in simp)

lemma dep_step_inv: "dep_step sha db db' \<Longrightarrow> deployments_inv sha db \<Longrightarrow> deployments_inv sha db'"
proof (induction rule: dep_step.induct)
  case (dep_clear db pid i)
  then show ?case using inv_cong [of "clear_active db pid i" db] by (simp add: clear_active_def)
next
  case (dep_projects db' db)
  then show ?case using inv_cong by blast
qed (blast intro: create_inv simple_transitions_inv record_provisioned_inv refresh_inv guarded_updates_inv
    restore_inv complete_activation_inv)+

lemma reachable_deployments: "(dep_step sha)\<^sup>*\<^sup>* db db' \<Longrightarrow> deployments_inv sha db \<Longrightarrow> deployments_inv sha db'"
  by (induction rule: rtranclp_induct) (auto intro: dep_step_inv)

section \<open>Properties\<close>

definition empty_deployments :: deployment_db where
  "empty_deployments = \<lparr>deployments = [], projects = [\<lparr>pr_id = 1, pr_hostname = ''h'', is_enabled = True, active_build = None, active_deployment = None\<rparr>]\<rparr>"

lemma empty_deployments_inv: "deployments_inv sha empty_deployments"
  by (simp add: rows_inv_def one_running_def unique_status_def empty_deployments_def)

definition sample_new :: new_deployment where
  "sample_new = \<lparr>nd_id = 5, nd_project = 1, nd_build = 2, nd_intent = IntentNormal, nd_previous = None, nd_hostname = ''h'',
     nd_container_name = ''c'', nd_image_ref = ''i'', nd_runtime_version = ''1'', nd_network_name = ''n'',
     nd_manifest_sha256 = replicate 64 (CHR ''a''), nd_route_priority = 100, nd_stop_old_first = False, nd_deployed_by = 1\<rparr>"

definition sample_sha :: "pystr \<Rightarrow> pystr" where
  "sample_sha s = replicate 64 (CHR ''b'')"

definition sample_proof :: activation_proof where
  "sample_proof = \<lparr>p_deployment = 5, p_project = 1, p_build = 2, p_container = ''x'', p_image_digest = ''y'', p_hostname = ''h'',
     p_manifest_sha256 = replicate 64 (CHR ''a''), p_runtime_version = ''1'', p_verified_at = Aware 0,
     p_proof_sha256 = replicate 64 (CHR ''b'')\<rparr>"

definition sample_row :: "deployment_status \<Rightarrow> activation_phase option \<Rightarrow> bool \<Rightarrow> time option \<Rightarrow> pystr option \<Rightarrow> deployment" where
  "sample_row st ph proven t health =
     (pending_deployment sample_new 1)\<lparr>d_status := st, phase := ph, health_status := health,
       container_id := (if proven then Some ''x'' else None), image_digest := (if proven then Some ''y'' else None),
       verified_at := (if proven then Some (Aware 0) else None),
       proof_sha256 := (if proven then Some (replicate 64 (CHR ''b'')) else None), d_started_at := t, activated_at := t\<rparr>"

definition sample_state :: "bool \<Rightarrow> deployment \<Rightarrow> deployment_db" where
  "sample_state active d = \<lparr>deployments = [d], projects = [\<lparr>pr_id = 1, pr_hostname = ''h'', is_enabled = True,
     active_build = (if active then Some 2 else None), active_deployment = (if active then Some 5 else None)\<rparr>]\<rparr>"

definition sample_running :: deployment_db where
  "sample_running = sample_state True (sample_row DRunning (Some PhaseRunning) True (Some 9) (Some ''healthy''))"

lemma sample_run: "(dep_step sample_sha)\<^sup>*\<^sup>* empty_deployments sample_running"
proof -
  let ?d1 = "sample_state False (sample_row DPending None False None None)"
  let ?d2 = "sample_state False (sample_row DDeploying None False None None)"
  let ?d3 = "sample_state False (sample_row DHealthcheck None False None (Some ''starting''))"
  let ?d4 = "sample_state True (sample_row DHealthcheck (Some PhaseVerified) True None (Some ''activating''))"
  let ?d5 = "sample_state True (sample_row DHealthcheck (Some PhaseRetiringPrevious) True None (Some ''activating''))"
  have "create_deployment empty_deployments 1 sample_new = Inr (pending_deployment sample_new 1, ?d1)" by code_simp
  then have s1: "dep_step sample_sha empty_deployments ?d1" by (rule dep_create)
  have "start_transition ?d1 5 = (Some (sample_row DDeploying None False None None), ?d2)" by code_simp
  then have s2: "dep_step sample_sha ?d1 ?d2" by (rule dep_start)
  have "mounts_transition ?d2 5 None = (Some (sample_row DHealthcheck None False None (Some ''starting'')), ?d3)" by code_simp
  then have s3: "dep_step sample_sha ?d2 ?d3" by (rule dep_mounts)
  have p: "validate_content_binding sample_sha sample_proof = Inr sample_proof"
    by (simp add: validate_content_binding_def sample_proof_def is_sha256_text_def proof_binding_def
        activation_proof_sha256_def sample_sha_def list_all_iff)
  have "record_provisioned ?d3 5 ''x'' ''y'' None sample_proof = Inr ?d4" by code_simp
  then have s4: "dep_step sample_sha ?d3 ?d4" by (rule dep_provisioned [OF p])
  have "mark_retiring_previous ?d4 5 = (True, ?d5)" by code_simp
  then have s5: "dep_step sample_sha ?d4 ?d5" by (rule dep_retiring)
  have "complete_activation ?d5 9 5 = (Some (sample_row DRunning (Some PhaseRunning) True (Some 9) (Some ''healthy'')), sample_running)"
    by code_simp
  then have s6: "dep_step sample_sha ?d5 sample_running" by (rule dep_complete)
  from s1 s2 s3 s4 s5 s6 show ?thesis by (blast intro: converse_rtranclp_into_rtranclp)
qed

text \<open>C3: In every state the service can reach, a running deployment carries valid evidence of its
  activation, content-bound to exactly its container, image, host and manifest, and no project
  has two running deployments.\<close>

theorem running_deployment_is_proven:
  assumes "(dep_step sha)\<^sup>*\<^sup>* empty_deployments db" and "d \<in> set (deployments db)" and "d_status d = DRunning"
  shows "has_successful_activation sha d
    \<and> (\<forall>e\<in>set (deployments db). d_status e = DRunning \<longrightarrow> d_project e = d_project d \<longrightarrow> e = d)"
proof -
  have inv: "deployments_inv sha db" by (rule reachable_deployments [OF assms(1) empty_deployments_inv])
  then have "deployment_inv sha d" using assms(2) by (auto simp: rows_inv_def)
  then have "has_successful_activation sha d"
    using inv_activated assms(3) by (auto simp: deployment_inv_def)
  moreover have "e = d" if "e \<in> set (deployments db)" "d_status e = DRunning" "d_project e = d_project d" for e
  proof -
    have ids: "distinct (map d_id (deployments db))" and "one_running db" using inv by (auto simp: rows_inv_def)
    then have "d_id e = d_id d" using that assms(2,3) one_running_iff by blast
    then show ?thesis using ids that(1) assms(2) by (metis distinct_map inj_onD)
  qed
  ultimately show ?thesis by blast
qed

theorem running_deployment_is_proven_witness:
  "has_successful_activation sample_sha (sample_row DRunning (Some PhaseRunning) True (Some 9) (Some ''healthy''))"
proof -
  let ?r = "sample_row DRunning (Some PhaseRunning) True (Some 9) (Some ''healthy'')"
  have "?r \<in> set (deployments sample_running)" by (simp add: sample_running_def sample_state_def)
  moreover have "d_status ?r = DRunning" by (simp add: sample_row_def)
  ultimately show ?thesis using running_deployment_is_proven [OF sample_run] by blast
qed


definition long_sha :: "pystr \<Rightarrow> pystr" where
  "long_sha s = s"


end
