(* ===== verification/CommandExecution.thy ===== *)
theory CommandExecution
  imports RuntimeCommands Deployments
begin

text \<open>
  Dispatching and executing runtime commands
  (\<^verbatim>\<open>backend/app/services/deployment/command_dispatcher.py\<close> and \<^verbatim>\<open>command_executor.py\<close>). The
  executor runs several transactions with the work of other processes in between: before its
  \<open>k\<close>-th transaction the tables are what \<open>gap k\<close> makes of them, and \<open>db_clock k\<close> is the reading of the
  database clock there. The deployment runner (\<^verbatim>\<open>DeploymentRunner.run\<close> and \<^verbatim>\<open>stop\<close>), the queue client
  and the flag of the heartbeat task are parameters.
\<close>

type_synonym tables = "command_db \<times> deployment_db"

datatype run_failure = RunError backend_error | RunCancelled

record runner_targets =
  rollback_target :: "uuid option"
  restart_target :: "uuid option"

record exec_env =
  gap :: "nat \<Rightarrow> tables \<Rightarrow> tables"
  db_clock :: "nat \<Rightarrow> time"
  runner :: "command_row \<Rightarrow> runner_targets \<Rightarrow> tables \<Rightarrow> run_failure option \<times> tables"
  ownership_lost :: "nat \<Rightarrow> bool"

datatype exec_outcome = NotClaimed | Completed | Discarded | Interrupted | FailedWith backend_error

section \<open>Errors and retries\<close>

definition is_retryable_deployment_error :: "backend_error \<Rightarrow> bool" where
  "is_retryable_deployment_error e = (case e of
      Raised c _ \<Rightarrow> is_instance c ClientConnectionError \<or> is_instance c ClientTimeoutError
        \<or> is_instance c ClientUnavailableError \<or> is_instance c DockerOperationError
    | Unexpected _ \<Rightarrow> False)"

definition safe_error :: "backend_error \<Rightarrow> pystr \<times> pystr" where
  "safe_error e = (case e of Raised c m \<Rightarrow> (py_lower (class_code c), m)
     | Unexpected _ \<Rightarrow> (''unexpected_runtime_command_error'', ''Runtime command failed unexpectedly''))"

definition retry_delay :: "nat \<Rightarrow> rat" where
  "retry_delay attempts = min 300 (2 ^ min attempts 8)"

definition is_ownership_error :: "backend_error \<Rightarrow> bool" where
  "is_ownership_error e = (case e of Raised c _ \<Rightarrow> is_instance c ExecutionOwnershipError | Unexpected _ \<Rightarrow> False)"

section \<open>One execution\<close>

definition targets_of :: "command_row \<Rightarrow> runner_targets" where
  "targets_of c =
     \<lparr>rollback_target = (if rc_reason c = ''deployment.rollback_requested'' \<and> subject_type c = Some ''deployment''
        then subject_id c else None),
      restart_target = (if rc_reason c = ''deployment.restarted'' \<and> subject_type c = Some ''deployment''
        then subject_id c else None)\<rparr>"

definition checkpoint :: "exec_env \<Rightarrow> nat \<Rightarrow> uuid \<Rightarrow> uuid \<Rightarrow> tables \<Rightarrow> backend_error + unit" where
  "checkpoint env k i tok s =
     (if ownership_lost env k then Inl ownership_stale
      else rbind (require_execution_owner (fst s) (db_clock env k) i tok) (\<lambda>_. Inr ()))"

definition effective_status :: "command_action \<Rightarrow> deployment_status \<Rightarrow> bool" where
  "effective_status a st = (case a of DeployAction \<Rightarrow> st = DRunning | StopAction \<Rightarrow> st \<in> {DStopped, DFailed})"

definition verify_and_mark_effective ::
  "tables \<Rightarrow> time \<Rightarrow> time \<Rightarrow> uuid \<Rightarrow> uuid \<Rightarrow> command_action \<Rightarrow> uuid \<Rightarrow> backend_error + tables" where
  "verify_and_mark_effective s now now' i tok a dep =
     rbind (require_execution_owner (fst s) now i tok) (\<lambda>_.
     case get_deployment (snd s) dep of
       None \<Rightarrow> Inl (Raised NotFoundError ''Runtime command deployment was not found'')
     | Some d \<Rightarrow>
       if \<not> effective_status a (d_status d)
       then Inl (Raised InvalidStateError ''Runtime command completed without reaching its requested effective state'')
       else rbind (mark_effective (fst s) now' i tok) (\<lambda>cdb. Inr (cdb, snd s)))"

text \<open>The body under the project's advisory lock: transactions 1 (checkpoint), the runner, 2 (verification).\<close>

definition exec_body :: "exec_env \<Rightarrow> uuid \<Rightarrow> uuid \<Rightarrow> command_row \<Rightarrow> tables \<Rightarrow> (run_failure \<times> tables) + tables" where
  "exec_body env i tok c s =
     (let s1 = gap env 1 s in
      case checkpoint env 1 i tok s1 of
        Inl e \<Rightarrow> Inl (RunError e, s1)
      | Inr _ \<Rightarrow>
        (case runner env c (targets_of c) s1 of
           (Some f, s2) \<Rightarrow> Inl (f, s2)
         | (None, s2) \<Rightarrow>
           let s3 = gap env 2 s2 in
           (case verify_and_mark_effective s3 (db_clock env 2) (db_clock env 3) i tok (rc_action c) (rc_deployment c) of
              Inl e \<Rightarrow> Inl (RunError e, s3)
            | Inr s4 \<Rightarrow> Inr s4)))"

definition exec_failure :: "exec_env \<Rightarrow> uuid \<Rightarrow> uuid \<Rightarrow> command_row \<Rightarrow> backend_error \<Rightarrow> tables \<Rightarrow> exec_outcome \<times> tables" where
  "exec_failure env i tok c e s =
     (let s4 = gap env 3 s; (code, summary) = safe_error e in
      case mark_failed (fst s4) (db_clock env 4) i tok code summary (is_retryable_deployment_error e)
          (retry_delay (attempt_count c)) of
        Inl _ \<Rightarrow> (Discarded, s4)
      | Inr cdb \<Rightarrow> (FailedWith e, (cdb, snd s4)))"

definition exec_run :: "exec_env \<Rightarrow> time \<Rightarrow> uuid \<Rightarrow> uuid \<Rightarrow> tables \<Rightarrow> exec_outcome \<times> tables" where
  "exec_run env lease i tok s =
     (let s0 = gap env 0 s in
      case claim_for_execution (fst s0) (db_clock env 0) i tok lease of
        (None, cdb) \<Rightarrow> (NotClaimed, (cdb, snd s0))
      | (Some c, cdb) \<Rightarrow>
        (case exec_body env i tok c (cdb, snd s0) of
           Inr s' \<Rightarrow> (Completed, s')
         | Inl (RunCancelled, s') \<Rightarrow> (if ownership_lost env 2 then Discarded else Interrupted, s')
         | Inl (RunError e, s') \<Rightarrow>
             if is_ownership_error e then (Discarded, s') else exec_failure env i tok c e s'))"

section \<open>The heartbeat\<close>

text \<open>
  One iteration of the heartbeat loop, on readings of the local monotonic clock: \<open>now\<close> at its start,
  \<open>stopped\<close> when the event is set while waiting, else the renewal that started at \<open>started\<close>: its
  result, or None when it raised. The result is the new deadline or the final state.
\<close>

datatype beat_result = Continue time | Finished lease_state

definition heartbeat_iteration :: "time \<Rightarrow> time \<Rightarrow> bool \<Rightarrow> time \<Rightarrow> lease_renewal option \<Rightarrow> beat_result" where
  "heartbeat_iteration deadline now stopped started renewal =
     (if deadline - now \<le> 0 then Finished Lost
      else if stopped then Finished Owned
      else case renewal of
          None \<Rightarrow> Continue deadline
        | Some r \<Rightarrow>
          if lr_state r = Lost then Finished Lost
          else (case lr_lease_expires_at r of
              None \<Rightarrow> Continue deadline \<comment> \<open>the failed assertion is caught and logged\<close>
            | Some t \<Rightarrow> Continue (started + max 0 (t - database_now r))))"

section \<open>Dispatching\<close>

record dispatch_env =
  de_gap :: "nat \<Rightarrow> command_db \<Rightarrow> command_db"
  de_clock :: "nat \<Rightarrow> time"
  enqueue :: "uuid \<Rightarrow> uuid \<Rightarrow> nat \<Rightarrow> backend_error option"

definition dispatch_error :: "backend_error \<Rightarrow> pystr \<times> pystr" where
  "dispatch_error e = (case e of Raised c m \<Rightarrow> (py_lower (class_code c), m)
     | Unexpected _ \<Rightarrow> (''runtime_queue_unavailable'', ''Runtime queue is unavailable''))"

fun deliver :: "dispatch_env \<Rightarrow> time \<Rightarrow> nat \<Rightarrow> command_row list \<Rightarrow> command_db \<Rightarrow> command_db" where
  "deliver env interval k [] db = db"
| "deliver env interval k (c # cs) db =
     (case execution_token c of
        None \<Rightarrow> deliver env interval k cs db
      | Some tok \<Rightarrow>
        (case enqueue env (rc_id c) tok (attempt_count c) of
           None \<Rightarrow> deliver env interval k cs db
         | Some e \<Rightarrow>
           let (code, summary) = dispatch_error e in
           deliver env interval (Suc k) cs
             (snd (mark_dispatch_failed (de_gap env k db) (de_clock env k) (rc_id c) tok code summary interval))))"

definition dispatch_once ::
  "dispatch_env \<Rightarrow> (uuid \<Rightarrow> bool) \<Rightarrow> (uuid \<Rightarrow> uuid) \<Rightarrow> nat \<Rightarrow> time \<Rightarrow> time \<Rightarrow> command_db \<Rightarrow> nat \<times> command_db" where
  "dispatch_once env locked fresh batch lease interval db =
     (case claim_due_for_dispatch (de_gap env 0 db) (de_clock env 0) locked fresh batch lease of
        (cs, db') \<Rightarrow> (length cs, deliver env interval 1 cs db'))"

section \<open>Facts\<close>

lemma retry_delay_bounds: "1 \<le> retry_delay n" "retry_delay n \<le> 256"
proof -
  have "(2::rat) ^ min n 8 \<le> 2 ^ 8" by (rule power_increasing) auto
  then show "retry_delay n \<le> 256" by (simp add: retry_delay_def)
  have "(1::rat) \<le> 2 ^ min n 8" by simp
  then show "1 \<le> retry_delay n" by (simp add: retry_delay_def)
qed

lemma update_command_find:
  assumes "find_command db i = Some r" and "\<And>r. same_identity r (f r)"
  shows "find_command (update_command i f db) i = Some (f r)"
  using find_command_update [of f "\<lambda>r. rc_id r = i" db i] assms find_command_Some [OF assms(1)] by simp

lemma mark_effective_find:
  assumes "mark_effective db now i tok = Inr db'"
  shows "\<exists>r. find_command db' i = Some (effective_row now r)"
proof -
  from assms obtain r where o1: "require_execution_owner db now i tok = Inr r"
    and db': "db' = update_command i (effective_row now) db"
    by (auto simp: mark_effective_def result_simps)
  show ?thesis unfolding db' using update_command_find [OF require_owner_Inr(1) [OF o1]] by (simp add: exI)
qed

lemma mark_failed_find:
  assumes "mark_failed db now i tok code summary retry delay = Inr db'"
  shows "\<exists>r. find_command db' i = Some (apply_failure now code summary retry delay r)"
proof -
  from assms obtain r where o1: "require_execution_owner db now i tok = Inr r"
    and db': "db' = update_command i (apply_failure now code summary retry delay) db"
    by (auto simp: mark_failed_def result_simps)
  show ?thesis unfolding db' using update_command_find [OF require_owner_Inr(1) [OF o1]] by (simp add: exI)
qed

lemma deliver_wf:
  assumes gap: "\<And>k db. wf_commands db \<Longrightarrow> wf_commands (de_gap env k db)"
  shows "wf_commands db \<Longrightarrow> wf_commands (deliver env interval k cs db)"
proof (induction cs arbitrary: k db)
  case (Cons c cs)
  have m: "wf_commands (snd (mark_dispatch_failed (de_gap env k db) now i tok code summary interval))" for now i tok code summary
    by (rule mark_dispatch_failed_wf [OF gap [OF Cons.prems] prod.collapse [symmetric]])
  show ?case using Cons m by (auto simp: Let_def split: option.splits prod.splits)
qed simp

lemma dispatch_once_wf:
  assumes "\<And>k db. wf_commands db \<Longrightarrow> wf_commands (de_gap env k db)" and "wf_commands db"
  shows "wf_commands (snd (dispatch_once env locked fresh batch lease interval db))"
  using claim_due_wf [OF assms(1) [OF assms(2)]] deliver_wf [OF assms(1)]
  by (auto simp: dispatch_once_def split: prod.splits)

lemma verify_Inr:
  assumes "verify_and_mark_effective s now now' i tok a dep = Inr s'"
  obtains r d where "find_command (fst s') i = Some (effective_row now' r)" and "get_deployment (snd s') dep = Some d"
    and "effective_status a (d_status d)"
proof -
  from assms obtain d cdb where d: "get_deployment (snd s) dep = Some d" "effective_status a (d_status d)"
    and m: "mark_effective (fst s) now' i tok = Inr cdb" and s': "s' = (cdb, snd s)"
    by (auto simp: verify_and_mark_effective_def result_simps split: option.splits if_splits)
  from mark_effective_find [OF m] d s' that show ?thesis by auto
qed

section \<open>Properties\<close>

text \<open>C8: An execution that completes claimed the command under its token, and leaves the command effective
  and the deployment in the state the command asked for: running after a deploy, stopped or
  failed after a stop.\<close>

theorem completed_execution_is_effective:
  assumes "exec_run env lease i tok s = (Completed, s')"
  shows "\<exists>c cdb r d. claim_for_execution (fst (gap env 0 s)) (db_clock env 0) i tok lease = (Some c, cdb)
    \<and> find_command (fst s') i = Some r \<and> rc_status r = CEffective
    \<and> get_deployment (snd s') (rc_deployment c) = Some d \<and> effective_status (rc_action c) (d_status d)"
proof -
  from assms obtain c cdb where c: "claim_for_execution (fst (gap env 0 s)) (db_clock env 0) i tok lease = (Some c, cdb)"
    and b: "exec_body env i tok c (cdb, snd (gap env 0 s)) = Inr s'"
    by (auto simp: exec_run_def exec_failure_def Let_def split: prod.splits option.splits sum.splits run_failure.splits if_splits)
  from b obtain s3 where "verify_and_mark_effective s3 (db_clock env 2) (db_clock env 3) i tok (rc_action c) (rc_deployment c) = Inr s'"
    by (auto simp: exec_body_def Let_def split: prod.splits option.splits sum.splits)
  then obtain r d where "find_command (fst s') i = Some (effective_row (db_clock env 3) r)"
    "get_deployment (snd s') (rc_deployment c) = Some d" "effective_status (rc_action c) (d_status d)"
    by (rule verify_Inr)
  with c show ?thesis by (auto simp: effective_row_def)
qed


definition sample_exec :: "run_failure option \<Rightarrow> exec_env" where
  "sample_exec f = \<lparr>gap = (\<lambda>_ s. s), db_clock = (\<lambda>_. 1), runner = (\<lambda>_ _ s. (f, s)), ownership_lost = (\<lambda>_. False)\<rparr>"

definition sample_tables :: tables where
  "sample_tables = (sample_db, sample_state True ((pending_deployment sample_new 1)\<lparr>d_id := 1, d_status := DStopped\<rparr>))"

lemma sample_completes: "fst (exec_run (sample_exec None) 60 10 100 sample_tables) = Completed"
  by code_simp

lemma sample_fails:
  "fst (exec_run (sample_exec (Some (RunError (Raised ClientTimeoutError ''t'')))) 60 10 100 sample_tables)
   = FailedWith (Raised ClientTimeoutError ''t'')"
  by code_simp

theorem completed_execution_is_effective_witness:
  "\<exists>r. find_command (fst (snd (exec_run (sample_exec None) 60 10 100 sample_tables))) 10 = Some r \<and> rc_status r = CEffective"
  using completed_execution_is_effective [of "sample_exec None" 60 10 100 sample_tables] sample_completes
  by (metis prod.collapse)


text \<open>C19: The deadline the heartbeat keeps on its local clock is safe: when the database read its clock no
  earlier than the renewal started (with \<open>off\<close> between the two clocks), the new deadline is not
  later than the lease stored for the command, so the worker gives up before another one may
  claim the command.\<close>

theorem heartbeat_deadline_is_safe:
  assumes "renew_execution db (started + off + delta) i tok lease = (r, db')" and "0 \<le> delta" and "0 < lease"
    and "heartbeat_iteration deadline now False started (Some r) = Continue deadline'"
  shows "\<exists>row t. find_command db' i = Some row \<and> execution_token row = Some tok \<and> lease_expires_at row = Some t
    \<and> deadline' + off \<le> t"
proof -
  have own: "lr_state r = Owned"
    using assms(4) by (cases "lr_state r") (auto simp: heartbeat_iteration_def split: if_splits)
  let ?f = "\<lambda>r. r\<lparr>lease_expires_at := Some (started + off + delta + lease), next_attempt_at := started + off + delta + lease\<rparr>"
  from assms(1) own obtain row where o1: "require_execution_owner db (started + off + delta) i tok = Inr row"
    and db': "db' = update_command i ?f db" and r: "database_now r = started + off + delta"
      "lr_lease_expires_at r = Some (started + off + delta + lease)"
    by (auto simp: renew_execution_def split: sum.splits)
  have f: "find_command db' i = Some (?f row)"
    unfolding db' by (rule update_command_find [OF require_owner_Inr(1) [OF o1]]) (rule row_updates_identity(5))
  have "deadline' = started + lease"
    using assms(3,4) own r by (auto simp: heartbeat_iteration_def split: if_splits)
  moreover have "execution_token row = Some tok" using require_owner_Inr(2) [OF o1] by (simp add: holds_lease_def)
  ultimately show ?thesis using f assms(2) by auto
qed

theorem heartbeat_deadline_is_safe_witness:
  "\<exists>row t. find_command (snd (renew_execution (snd (claim_for_execution sample_db 1 10 100 60)) 20 10 100 60)) 10 = Some row
    \<and> lease_expires_at row = Some t \<and> 75 + 5 \<le> t"
proof -
  have r: "renew_execution (snd (claim_for_execution sample_db 1 10 100 60)) (15 + 5 + 0) 10 100 60
    = (\<lparr>lr_state = Owned, database_now = 20, lr_lease_expires_at = Some 80\<rparr>,
       snd (renew_execution (snd (claim_for_execution sample_db 1 10 100 60)) 20 10 100 60))"
    by code_simp
  have "heartbeat_iteration 60 14 False 15 (Some \<lparr>lr_state = Owned, database_now = 20, lr_lease_expires_at = Some 80\<rparr>) = Continue 75"
    by (simp add: heartbeat_iteration_def)
  from heartbeat_deadline_is_safe [OF r _ _ this] show ?thesis by auto
qed

end
