(* ===== verification/Builds.thy ===== *)
theory Builds
  imports RuntimeCommands Deployments
begin

text \<open>
  Builds of the backend: the pipeline states (\<^verbatim>\<open>backend/app/domain/builds.py\<close>), the table
  \<^verbatim>\<open>builds\<close> with its CHECK constraints and unique index (\<^verbatim>\<open>backend/app/models/build.py\<close>), the
  ownership check (\<^verbatim>\<open>repositories/build_execution.py\<close>) and the operations of
  \<^verbatim>\<open>repositories/builds.py\<close>. An operation reads the database clock at \<open>now\<close> (a second reading is
  \<open>now2\<close>) and the clock of its process at \<open>wall\<close>. A write that violates a constraint of the
  table raises \<open>IntegrityError\<close> and leaves the database as it is.
\<close>

section \<open>Domain\<close>

datatype build_status =
    QUEUED | INGESTING | PARSING | INDEXING | ANALYZING | COMPILING | VALIDATING | PACKAGING | READY
  | FAILED | CANCELLED

datatype build_trigger = TriggerInitial | TriggerSourceChange | TriggerManualReview | TriggerManualRebuild

definition PIPELINE_STATUSES :: "build_status list" where
  "PIPELINE_STATUSES =
     [QUEUED, INGESTING, PARSING, INDEXING, ANALYZING, COMPILING, VALIDATING, PACKAGING, READY]"

definition TERMINAL_STATUSES :: "build_status set" where
  "TERMINAL_STATUSES = {READY, FAILED, CANCELLED}"

fun position :: "build_status \<Rightarrow> build_status list \<Rightarrow> nat option" where
  \<comment> \<open>\<^verbatim>\<open>tuple.index\<close>, which raises for an absent item\<close>
  "position s [] = None"
| "position s (x # xs) = (if x = s then Some 0 else map_option Suc (position s xs))"

definition next_status :: "build_status \<Rightarrow> backend_error + build_status" where
  "next_status current =
     (if current \<in> TERMINAL_STATUSES then Inl (Unexpected ''ValueError'')
      else case position current PIPELINE_STATUSES of
        None \<Rightarrow> Inl (Unexpected ''ValueError'')
      | Some n \<Rightarrow> if Suc n < length PIPELINE_STATUSES then Inr (PIPELINE_STATUSES ! Suc n)
          else Inl (Unexpected ''IndexError''))"

record build_row =
  b_id :: uuid
  b_project :: uuid
  b_sequence :: int
  b_status :: build_status
  pipeline_stage :: "build_status option"
  b_trigger :: build_trigger
  canonical_snapshot_id :: "uuid option"
  previous_build_id :: "uuid option"
  compiler_version :: pystr
  b_schema_version :: pystr
  b_compatibility :: pystr
  analysis_model :: "pystr option"
  validation_model :: "pystr option"
  embedding_model :: "pystr option"
  embedding_dimensions :: "int option"
  prompt_bundle_version :: "pystr option"
  build_config :: json_object
  enrichment_json :: "json_object option"
  enrichment_sha256 :: "pystr option"
  b_manifest_sha256 :: "pystr option"
  artifact_sha256 :: "pystr option"
  manifest_storage_key :: "pystr option"
  artifact_storage_key :: "pystr option"
  b_error_code :: "pystr option"
  b_error_summary :: "pystr option"
  b_requested_by :: uuid
  b_created_at :: time
  b_started_at :: "time option"
  completed_at :: "time option"
  cancellation_requested_at :: "time option"
  cancellation_requested_by :: "uuid option"
  cancellation_acknowledged_at :: "time option"
  admission_token :: "uuid option"
  admission_acquired_at :: "time option"
  admission_enqueued_at :: "time option"
  admission_heartbeat_at :: "time option"
  admission_lease_expires_at :: "time option"
  admission_released_at :: "time option"
  admission_attempt_count :: int

text \<open>One row of \<^verbatim>\<open>build_source_versions\<close>: the source version a build is made from, with the
  description of its source frozen at the creation of the build.\<close>

record source_binding =
  sb_version :: uuid
  sb_source :: uuid
  sb_kind :: pystr
  sb_name :: pystr
  sb_origin :: pystr
  sb_url :: "pystr option"
  sb_primary :: bool
  sb_created_at :: time
  sb_aliases :: "pystr list"
  sb_trustworthy :: bool

record build_db =
  builds :: "build_row list"
  bindings :: "(uuid \<times> source_binding) list"
  index_generations :: "uuid list" \<comment> \<open>the build of each generation of the document index\<close>

definition is_terminal :: "build_row \<Rightarrow> bool" where
  "is_terminal r \<longleftrightarrow> b_status r \<in> TERMINAL_STATUSES"

section \<open>Constraints of the table\<close>

definition optional_sha :: "pystr option \<Rightarrow> bool" where
  "optional_sha v = (case v of None \<Rightarrow> True | Some s \<Rightarrow> is_sha256_text s)"

definition ready_complete :: "build_row \<Rightarrow> bool" where
  "ready_complete r \<longleftrightarrow>
     canonical_snapshot_id r \<noteq> None \<and> enrichment_json r \<noteq> None \<and> enrichment_sha256 r \<noteq> None
     \<and> b_manifest_sha256 r \<noteq> None \<and> manifest_storage_key r \<noteq> None \<and> artifact_sha256 r \<noteq> None
     \<and> artifact_storage_key r \<noteq> None \<and> analysis_model r \<noteq> None \<and> validation_model r \<noteq> None
     \<and> prompt_bundle_version r \<noteq> None \<and> b_error_code r = None \<and> b_error_summary r = None"

definition value_checks :: "build_row \<Rightarrow> bool" where
  "value_checks r \<longleftrightarrow> 0 < b_sequence r \<and> (case embedding_dimensions r of None \<Rightarrow> True | Some d \<Rightarrow> 0 \<le> d)
     \<and> optional_sha (enrichment_sha256 r) \<and> optional_sha (b_manifest_sha256 r) \<and> optional_sha (artifact_sha256 r)
     \<and> 0 \<le> admission_attempt_count r
     \<and> (case pipeline_stage r of None \<Rightarrow> True | Some p \<Rightarrow> p \<noteq> FAILED \<and> p \<noteq> CANCELLED)"

definition status_checks :: "build_row \<Rightarrow> bool" where
  "status_checks r \<longleftrightarrow> (is_terminal r \<longleftrightarrow> completed_at r \<noteq> None)
     \<and> (b_status r = READY \<longrightarrow> ready_complete r)
     \<and> (b_status r = FAILED \<longrightarrow> b_error_code r \<noteq> None)
     \<and> (cancellation_acknowledged_at r \<noteq> None \<longrightarrow> cancellation_requested_at r \<noteq> None \<and> b_status r = CANCELLED)
     \<and> (b_status r = CANCELLED \<longrightarrow> cancellation_acknowledged_at r \<noteq> None)"

definition lease_checks :: "build_row \<Rightarrow> bool" where
  "lease_checks r \<longleftrightarrow> (admission_token r = None \<longleftrightarrow> admission_lease_expires_at r = None)
     \<and> (admission_token r \<noteq> None \<longrightarrow> admission_acquired_at r \<noteq> None)"

definition build_checks :: "build_row \<Rightarrow> bool" where
  "build_checks r \<longleftrightarrow> value_checks r \<and> status_checks r \<and> lease_checks r"

definition one_active :: "build_row list \<Rightarrow> bool" where
  "one_active rows = distinct (map b_project (filter (\<lambda>r. \<not> is_terminal r) rows))"

definition unique_sequence :: "build_row list \<Rightarrow> bool" where
  "unique_sequence rows = distinct (map (\<lambda>r. (b_project r, b_sequence r)) rows)"

definition table_ok :: "build_row list \<Rightarrow> bool" where
  "table_ok rows \<longleftrightarrow> distinct (map b_id rows) \<and> unique_sequence rows \<and> one_active rows \<and> list_all build_checks rows"

definition write_rows :: "build_db \<Rightarrow> build_row list \<Rightarrow> backend_error + build_db" where
  \<comment> \<open>the statement fails when it violates a constraint\<close>
  "write_rows db rows = (if table_ok rows then Inr (db\<lparr>builds := rows\<rparr>) else Inl integrity_error)"

definition update_builds ::
  "(build_row \<Rightarrow> bool) \<Rightarrow> (build_row \<Rightarrow> build_row) \<Rightarrow> build_db \<Rightarrow> backend_error + build_db" where
  "update_builds P f db = write_rows db (update_where P f (builds db))"

definition get_build :: "build_db \<Rightarrow> uuid \<Rightarrow> build_row option" where
  "get_build db i = find_by b_id i (builds db)"

section \<open>Operations of the repository\<close>

definition build_not_found :: backend_error where
  "build_not_found = Raised NotFoundError ''Build was not found''"

definition build_ownership_stale :: backend_error where
  "build_ownership_stale = Raised ExecutionOwnershipError ''Build execution ownership is stale''"

definition cancellation_pending :: backend_error where
  "cancellation_pending = Raised InvalidStateError ''Build cancellation is pending acknowledgement''"

definition live_lease :: "time \<Rightarrow> build_row \<Rightarrow> bool" where
  "live_lease now r = (case admission_lease_expires_at r of None \<Rightarrow> False | Some t \<Rightarrow> now < t)"

definition require_build_execution_owner ::
  "build_db \<Rightarrow> time \<Rightarrow> uuid \<Rightarrow> uuid \<Rightarrow> bool \<Rightarrow> backend_error + build_row" where
  "require_build_execution_owner db now i tok allow_cancellation =
     (case get_build db i of
        None \<Rightarrow> Inl build_not_found
      | Some r \<Rightarrow>
        if admission_token r \<noteq> Some tok \<or> \<not> live_lease now r \<or> is_terminal r then Inl build_ownership_stale
        else if cancellation_requested_at r \<noteq> None \<and> \<not> allow_cancellation then Inl cancellation_pending
        else Inr r)"

definition release_admission_values :: "time \<Rightarrow> build_row \<Rightarrow> build_row" where
  "release_admission_values now r =
     r\<lparr>admission_token := None, admission_enqueued_at := None, admission_heartbeat_at := None,
       admission_lease_expires_at := None, admission_released_at := Some now\<rparr>"

definition active_for_project :: "build_db \<Rightarrow> uuid \<Rightarrow> build_row option" where
  "active_for_project db p = List.find (\<lambda>r. b_project r = p \<and> \<not> is_terminal r) (builds db)"

definition last_by_sequence :: "build_row list \<Rightarrow> build_row option" where
  \<comment> \<open>\<^verbatim>\<open>ORDER BY sequence DESC LIMIT 1\<close>\<close>
  "last_by_sequence rows = (case rev (sort_key b_sequence rows) of [] \<Rightarrow> None | r # _ \<Rightarrow> Some r)"

definition latest_ready :: "build_db \<Rightarrow> uuid \<Rightarrow> build_row option" where
  "latest_ready db p = last_by_sequence (filter (\<lambda>r. b_project r = p \<and> b_status r = READY) (builds db))"

definition latest_with_canonical_snapshot :: "build_db \<Rightarrow> uuid \<Rightarrow> build_row option" where
  "latest_with_canonical_snapshot db p =
     last_by_sequence (filter (\<lambda>r. b_project r = p \<and> canonical_snapshot_id r \<noteq> None) (builds db))"

definition latest_for_source_version :: "build_db \<Rightarrow> uuid \<Rightarrow> build_row option" where
  "latest_for_source_version db v =
     last_by_sequence (filter (\<lambda>r. list_ex (\<lambda>(i, s). i = b_id r \<and> sb_version s = v) (bindings db)) (builds db))"

record new_build =
  nb_id :: uuid
  nb_project :: uuid
  nb_trigger :: build_trigger
  nb_bindings :: "source_binding list"
  nb_requested_by :: uuid
  nb_compiler_version :: pystr
  nb_compatibility :: pystr
  nb_analysis_model :: pystr
  nb_validation_model :: pystr
  nb_embedding_model :: "pystr option"
  nb_prompt_bundle :: pystr
  nb_config :: json_object

definition next_build_sequence :: "build_db \<Rightarrow> uuid \<Rightarrow> int" where
  "next_build_sequence db p = fold max (map b_sequence (filter (\<lambda>r. b_project r = p) (builds db))) 0 + 1"

definition queued_row :: "build_db \<Rightarrow> time \<Rightarrow> new_build \<Rightarrow> build_row" where
  "queued_row db now n =
     \<lparr>b_id = nb_id n, b_project = nb_project n, b_sequence = next_build_sequence db (nb_project n),
      b_status = QUEUED, pipeline_stage = Some QUEUED, b_trigger = nb_trigger n, canonical_snapshot_id = None,
      previous_build_id = map_option b_id (latest_ready db (nb_project n)), compiler_version = nb_compiler_version n,
      b_schema_version = ''mcp-manifest/v1'', b_compatibility = nb_compatibility n,
      analysis_model = Some (nb_analysis_model n), validation_model = Some (nb_validation_model n),
      embedding_model = nb_embedding_model n, embedding_dimensions = None,
      prompt_bundle_version = Some (nb_prompt_bundle n), build_config = nb_config n, enrichment_json = None,
      enrichment_sha256 = None, b_manifest_sha256 = None, artifact_sha256 = None, manifest_storage_key = None,
      artifact_storage_key = None, b_error_code = None, b_error_summary = None, b_requested_by = nb_requested_by n,
      b_created_at = now, b_started_at = None, completed_at = None, cancellation_requested_at = None,
      cancellation_requested_by = None, cancellation_acknowledged_at = None, admission_token = None,
      admission_acquired_at = None, admission_enqueued_at = None, admission_heartbeat_at = None,
      admission_lease_expires_at = None, admission_released_at = None, admission_attempt_count = 0\<rparr>"

definition create_build :: "build_db \<Rightarrow> time \<Rightarrow> new_build \<Rightarrow> backend_error + build_row \<times> build_db" where
  "create_build db now n =
     (if active_for_project db (nb_project n) \<noteq> None
      then Inl (Raised ConflictError ''The Project already has an active Build'')
      else if \<not> distinct (map sb_version (nb_bindings n)) then Inl integrity_error
      else rbind (write_rows db (builds db @ [queued_row db now n])) (\<lambda>db'.
        Inr (queued_row db now n,
             db'\<lparr>bindings := bindings db' @ map (\<lambda>b. (nb_id n, b\<lparr>sb_trustworthy := True\<rparr>)) (sort_key sb_version (nb_bindings n))\<rparr>)))"

definition source_version_ids :: "build_db \<Rightarrow> uuid \<Rightarrow> uuid list" where
  "source_version_ids db i = sort (map (sb_version \<circ> snd) (filter (\<lambda>(j, _). j = i) (bindings db)))"

definition source_bindings :: "build_db \<Rightarrow> uuid \<Rightarrow> backend_error + source_binding list" where
  "source_bindings db i =
     (case get_build db i of
        None \<Rightarrow> Inl (Raised InvalidStateError ''Build is unavailable'')
      | Some _ \<Rightarrow> Inr (sort_key sb_version (map snd (filter (\<lambda>(j, _). j = i) (bindings db)))))"

definition owned_open :: "uuid \<Rightarrow> uuid \<Rightarrow> build_row \<Rightarrow> bool" where
  \<comment> \<open>the part of the \<^verbatim>\<open>WHERE\<close> clause every owner write shares\<close>
  "owned_open i tok r \<longleftrightarrow> b_id r = i \<and> admission_token r = Some tok \<and> cancellation_requested_at r = None"

definition transition_row :: "time \<Rightarrow> build_status \<Rightarrow> build_status \<Rightarrow> build_row \<Rightarrow> build_row" where
  "transition_row wall expected target r =
     (let r1 = r\<lparr>b_status := target, pipeline_stage := Some target\<rparr>;
          r2 = (if expected = QUEUED then r1\<lparr>b_started_at := Some wall\<rparr> else r1)
      in if target \<in> TERMINAL_STATUSES then release_admission_values wall (r2\<lparr>completed_at := Some wall\<rparr>) else r2)"

definition transition_build ::
  "build_db \<Rightarrow> time \<Rightarrow> time \<Rightarrow> uuid \<Rightarrow> build_status \<Rightarrow> build_status \<Rightarrow> uuid \<Rightarrow> backend_error + build_row \<times> build_db" where
  "transition_build db now wall i expected target tok =
     rbind (require_build_execution_owner db now i tok False) (\<lambda>_.
     rbind (next_status expected) (\<lambda>nxt.
       if nxt \<noteq> target then Inl (Raised InvalidStateError ''Build transition is not monotonic'')
       else let P = (\<lambda>r. owned_open i tok r \<and> b_status r = expected) in
         rbind (update_builds P (transition_row wall expected target) db) (\<lambda>db'.
           if length (filter P (builds db)) \<noteq> 1 then Inl (Raised InvalidStateError ''Build did not transition'')
           else case get_build db' i of None \<Rightarrow> Inl (Unexpected ''AssertionError'') | Some r \<Rightarrow> Inr (r, db'))))"

definition mark_ready :: "build_db \<Rightarrow> time \<Rightarrow> time \<Rightarrow> uuid \<Rightarrow> uuid \<Rightarrow> backend_error + build_row \<times> build_db" where
  "mark_ready db now wall i tok = transition_build db now wall i PACKAGING READY tok"

definition stage_update ::
  "build_db \<Rightarrow> time \<Rightarrow> uuid \<Rightarrow> build_status \<Rightarrow> uuid \<Rightarrow> (build_row \<Rightarrow> build_row) \<Rightarrow> backend_error + build_db" where
  "stage_update db now i st tok values =
     rbind (require_build_execution_owner db now i tok False) (\<lambda>_.
       let P = (\<lambda>r. owned_open i tok r \<and> b_status r = st) in
       rbind (update_builds P values db) (\<lambda>db'.
         if length (filter P (builds db)) \<noteq> 1 then Inl (Raised InvalidStateError ''Build is not in the expected status'')
         else Inr db'))"

definition set_canonical_snapshot :: "build_db \<Rightarrow> time \<Rightarrow> uuid \<Rightarrow> uuid \<Rightarrow> uuid \<Rightarrow> backend_error + build_db" where
  "set_canonical_snapshot db now i snapshot tok =
     stage_update db now i PARSING tok (\<lambda>r. r\<lparr>canonical_snapshot_id := Some snapshot\<rparr>)"

definition set_embedding_metadata ::
  "build_db \<Rightarrow> time \<Rightarrow> uuid \<Rightarrow> pystr option \<Rightarrow> int \<Rightarrow> uuid \<Rightarrow> backend_error + build_db" where
  "set_embedding_metadata db now i model dimensions tok =
     stage_update db now i INDEXING tok (\<lambda>r. r\<lparr>embedding_model := model, embedding_dimensions := Some dimensions\<rparr>)"

definition set_enrichment :: "build_db \<Rightarrow> time \<Rightarrow> uuid \<Rightarrow> json_object \<Rightarrow> pystr \<Rightarrow> uuid \<Rightarrow> backend_error + build_db" where
  "set_enrichment db now i enrichment sha tok =
     stage_update db now i ANALYZING tok (\<lambda>r. r\<lparr>enrichment_json := Some enrichment, enrichment_sha256 := Some sha\<rparr>)"

definition set_manifest ::
  "build_db \<Rightarrow> time \<Rightarrow> time \<Rightarrow> uuid \<Rightarrow> pystr \<Rightarrow> pystr \<Rightarrow> uuid \<Rightarrow> backend_error + build_db" where
  "set_manifest db now now2 i sha key tok =
     rbind (require_build_execution_owner db now i tok False) (\<lambda>_.
       stage_update db now2 i COMPILING tok (\<lambda>r. r\<lparr>b_manifest_sha256 := Some sha, manifest_storage_key := Some key\<rparr>))"

definition set_artifact ::
  "build_db \<Rightarrow> time \<Rightarrow> time \<Rightarrow> uuid \<Rightarrow> pystr \<Rightarrow> pystr \<Rightarrow> uuid \<Rightarrow> backend_error + build_db" where
  "set_artifact db now now2 i sha key tok =
     rbind (require_build_execution_owner db now i tok False) (\<lambda>_.
       stage_update db now2 i PACKAGING tok (\<lambda>r. r\<lparr>artifact_sha256 := Some sha, artifact_storage_key := Some key\<rparr>))"

definition fail_row :: "time \<Rightarrow> pystr \<Rightarrow> pystr \<Rightarrow> build_row \<Rightarrow> build_row" where
  "fail_row wall code summary r =
     release_admission_values wall (r\<lparr>b_status := FAILED, b_error_code := Some (take 128 code),
       b_error_summary := Some (take 1000 summary), completed_at := Some wall\<rparr>)"

definition fail_build :: "build_db \<Rightarrow> time \<Rightarrow> time \<Rightarrow> uuid \<Rightarrow> pystr \<Rightarrow> pystr \<Rightarrow> uuid \<Rightarrow> backend_error + build_db" where
  "fail_build db now wall i code summary tok =
     rbind (require_build_execution_owner db now i tok False) (\<lambda>_.
       update_builds (\<lambda>r. owned_open i tok r \<and> \<not> is_terminal r) (fail_row wall code summary) db)"

definition request_cancellation ::
  "build_db \<Rightarrow> time \<Rightarrow> uuid \<Rightarrow> uuid \<Rightarrow> backend_error + build_row \<times> build_db" where
  "request_cancellation db wall i user =
     (case get_build db i of
        None \<Rightarrow> Inl (Raised InvalidStateError ''Build is unavailable'')
      | Some r \<Rightarrow>
        if is_terminal r then Inl (Raised InvalidStateError ''Only an active Build can be cancelled'')
        else if cancellation_requested_at r = None
        then let f = (\<lambda>r. r\<lparr>cancellation_requested_at := Some wall, cancellation_requested_by := Some user\<rparr>) in
          rbind (update_builds (\<lambda>r. b_id r = i) f db) (\<lambda>db'. Inr (f r, db'))
        else Inr (r, db))"

definition is_cancellation_requested :: "build_db \<Rightarrow> uuid \<Rightarrow> bool" where
  "is_cancellation_requested db i =
     (case get_build db i of None \<Rightarrow> False | Some r \<Rightarrow> cancellation_requested_at r \<noteq> None)"

definition cancel_row :: "time \<Rightarrow> build_row \<Rightarrow> build_row" where
  "cancel_row wall r =
     release_admission_values wall (r\<lparr>b_status := CANCELLED, completed_at := Some wall,
       cancellation_acknowledged_at := Some wall, b_manifest_sha256 := None, manifest_storage_key := None,
       artifact_sha256 := None, artifact_storage_key := None\<rparr>)"

definition acknowledge_cancellation ::
  "build_db \<Rightarrow> time \<Rightarrow> time \<Rightarrow> uuid \<Rightarrow> uuid \<Rightarrow> backend_error + build_row \<times> build_db" where
  "acknowledge_cancellation db now wall i tok =
     rbind (require_build_execution_owner db now i tok True) (\<lambda>_.
       let P = (\<lambda>r. b_id r = i \<and> admission_token r = Some tok \<and> \<not> is_terminal r \<and> cancellation_requested_at r \<noteq> None) in
       rbind (update_builds P (cancel_row wall) db) (\<lambda>db'.
         if length (filter P (builds db)) \<noteq> 1
         then case get_build db' i of
             Some r \<Rightarrow> if b_status r = CANCELLED then Inr (r, db')
               else Inl (Raised InvalidStateError ''Build cancellation is not pending acknowledgement'')
           | None \<Rightarrow> Inl (Raised InvalidStateError ''Build cancellation is not pending acknowledgement'')
         else let db2 = db'\<lparr>index_generations := filter (\<lambda>g. g \<noteq> i) (index_generations db')\<rparr> in
           case get_build db2 i of None \<Rightarrow> Inl (Unexpected ''AssertionError'') | Some r \<Rightarrow> Inr (r, db2)))"

end
