(* ===== verification/BuildAdmission.thy ===== *)
theory BuildAdmission
  imports Builds
begin

text \<open>
  Admission of builds: the leases of \<^verbatim>\<open>backend/app/repositories/build_admission.py\<close> and the
  dispatcher of \<^verbatim>\<open>backend/app/services/build_admission.py\<close>, which claims leases within the
  configured concurrency and delivers the claimed builds to the queue. Rows that another
  transaction has locked are the argument \<open>locked\<close>, the tokens \<^verbatim>\<open>uuid4\<close> gives the argument
  \<open>fresh\<close>; the queue and the readings of the clock between the dispatcher's transactions are
  parameters of the dispatcher.
\<close>

datatype build_lease_state = BuildOwned | BuildCancellationRequested | BuildLeaseLost

record build_lease_renewal =
  bl_state :: build_lease_state
  bl_expires :: "time option"

record build_claim =
  cl_build :: uuid
  cl_project :: uuid
  cl_requested_by :: uuid
  cl_status :: build_status
  cl_token :: uuid
  cl_attempt :: int
  cl_lease :: time
  cl_cancellation :: bool

definition expired_admission :: "time \<Rightarrow> build_row \<Rightarrow> bool" where
  "expired_admission now r \<longleftrightarrow> admission_token r \<noteq> None
     \<and> (is_terminal r \<or> (case admission_lease_expires_at r of None \<Rightarrow> False | Some t \<Rightarrow> t \<le> now))"

definition holding :: "time \<Rightarrow> build_row \<Rightarrow> bool" where
  "holding now r \<longleftrightarrow> admission_token r \<noteq> None \<and> live_lease now r \<and> \<not> is_terminal r"

definition active_count :: "time \<Rightarrow> build_db \<Rightarrow> nat" where
  "active_count now db = length (filter (holding now) (builds db))"

definition claim_priority :: "build_row \<Rightarrow> nat \<times> nat \<times> time \<times> uuid" where
  "claim_priority r = (if cancellation_requested_at r \<noteq> None then 0 else 1,
     if b_status r = QUEUED then 1 else 0, b_created_at r, b_id r)"

definition claim_candidates :: "build_db \<Rightarrow> (uuid \<Rightarrow> bool) \<Rightarrow> nat \<Rightarrow> build_row list" where
  "claim_candidates db locked available =
     take available (sort_key claim_priority
       (filter (\<lambda>r. \<not> is_terminal r \<and> admission_token r = None \<and> \<not> locked (b_id r)) (builds db)))"

definition admit_row :: "time \<Rightarrow> time \<Rightarrow> (uuid \<Rightarrow> uuid) \<Rightarrow> build_row \<Rightarrow> build_row" where
  "admit_row now lease_seconds fresh r =
     r\<lparr>admission_token := Some (fresh (b_id r)), admission_acquired_at := Some now, admission_enqueued_at := None,
       admission_heartbeat_at := Some now, admission_lease_expires_at := Some (now + lease_seconds),
       admission_released_at := None, admission_attempt_count := admission_attempt_count r + 1\<rparr>"

definition claim_of :: "time \<Rightarrow> time \<Rightarrow> (uuid \<Rightarrow> uuid) \<Rightarrow> build_row \<Rightarrow> build_claim" where
  "claim_of now lease_seconds fresh r =
     \<lparr>cl_build = b_id r, cl_project = b_project r, cl_requested_by = b_requested_by r, cl_status = b_status r,
      cl_token = fresh (b_id r), cl_attempt = admission_attempt_count r + 1, cl_lease = now + lease_seconds,
      cl_cancellation = (cancellation_requested_at r \<noteq> None)\<rparr>"

definition claim_available ::
  "build_db \<Rightarrow> time \<Rightarrow> (uuid \<Rightarrow> bool) \<Rightarrow> (uuid \<Rightarrow> uuid) \<Rightarrow> int \<Rightarrow> time \<Rightarrow> backend_error + build_claim list \<times> build_db" where
  "claim_available db now locked fresh configured lease_seconds =
     rbind (update_builds (expired_admission now) (release_admission_values now) db) (\<lambda>db1.
       let available = nat (max 0 (configured - int (active_count now db1))) in
       if available = 0 then Inr ([], db1)
       else let candidates = claim_candidates db1 locked available in
         rbind (update_builds (\<lambda>r. b_id r \<in> set (map b_id candidates)) (admit_row now lease_seconds fresh) db1) (\<lambda>db2.
           Inr (map (claim_of now lease_seconds fresh) candidates, db2)))"

definition mark_enqueued :: "build_db \<Rightarrow> time \<Rightarrow> uuid \<Rightarrow> uuid \<Rightarrow> backend_error + bool \<times> build_db" where
  "mark_enqueued db now i tok =
     (let P = (\<lambda>r. b_id r = i \<and> admission_token r = Some tok) in
      rbind (update_builds P (\<lambda>r. r\<lparr>admission_enqueued_at := Some now\<rparr>) db) (\<lambda>db'.
        Inr (list_ex P (builds db), db')))"

definition begin_or_renew :: "build_db \<Rightarrow> time \<Rightarrow> uuid \<Rightarrow> uuid \<Rightarrow> time \<Rightarrow> backend_error + build_lease_renewal \<times> build_db" where
  "begin_or_renew db now i tok lease_seconds =
     (case get_build db i of
        None \<Rightarrow> Inr (\<lparr>bl_state = BuildLeaseLost, bl_expires = None\<rparr>, db)
      | Some r \<Rightarrow>
        if admission_token r \<noteq> Some tok \<or> \<not> live_lease now r \<or> is_terminal r
        then Inr (\<lparr>bl_state = BuildLeaseLost, bl_expires = None\<rparr>, db)
        else if cancellation_requested_at r \<noteq> None
        then Inr (\<lparr>bl_state = BuildCancellationRequested, bl_expires = admission_lease_expires_at r\<rparr>, db)
        else rbind (update_builds (\<lambda>r. b_id r = i)
               (\<lambda>r. r\<lparr>admission_heartbeat_at := Some now, admission_lease_expires_at := Some (now + lease_seconds)\<rparr>) db) (\<lambda>db'.
             Inr (\<lparr>bl_state = BuildOwned, bl_expires = Some (now + lease_seconds)\<rparr>, db')))"

definition release_admission :: "build_db \<Rightarrow> time \<Rightarrow> uuid \<Rightarrow> uuid \<Rightarrow> backend_error + bool \<times> build_db" where
  "release_admission db now i tok =
     (let P = (\<lambda>r. b_id r = i \<and> admission_token r = Some tok) in
      rbind (update_builds P (release_admission_values now) db) (\<lambda>db'. Inr (list_ex P (builds db), db')))"

section \<open>The overview of the queue\<close>

datatype admission_state = AdmissionWaiting | AdmissionAdmitted | AdmissionRunning

record queued_admission =
  qa_build :: uuid
  qa_project :: uuid
  qa_status :: build_status
  qa_state :: admission_state
  qa_position :: "nat option"
  qa_admitted_at :: "time option"
  qa_lease :: "time option"

record admission_overview =
  ao_configured :: int
  ao_effective :: nat
  ao_waiting :: nat
  ao_entries :: "queued_admission list"

definition waiting_priority :: "build_row \<Rightarrow> nat \<times> time \<times> uuid" where
  "waiting_priority r = (if b_status r = QUEUED then 1 else 0, b_created_at r, b_id r)"

definition waiting_builds :: "build_db \<Rightarrow> time \<Rightarrow> build_row list" where
  "waiting_builds db now =
     sort_key waiting_priority (filter (\<lambda>r. \<not> is_terminal r \<and> (admission_token r = None
       \<or> (case admission_lease_expires_at r of None \<Rightarrow> False | Some t \<Rightarrow> t \<le> now))) (builds db))"

definition acquired_key :: "build_row \<Rightarrow> nat \<times> time \<times> uuid" where
  \<comment> \<open>ascending, a missing time last\<close>
  "acquired_key r = (case admission_acquired_at r of Some t \<Rightarrow> (0, t, b_id r) | None \<Rightarrow> (1, 0, b_id r))"

definition active_entry :: "build_row \<Rightarrow> queued_admission" where
  "active_entry r =
     \<lparr>qa_build = b_id r, qa_project = b_project r, qa_status = b_status r,
      qa_state = (if b_status r = QUEUED then AdmissionAdmitted else AdmissionRunning), qa_position = None,
      qa_admitted_at = admission_acquired_at r, qa_lease = admission_lease_expires_at r\<rparr>"

definition waiting_entry :: "nat \<Rightarrow> build_row \<Rightarrow> queued_admission" where
  "waiting_entry n r =
     \<lparr>qa_build = b_id r, qa_project = b_project r, qa_status = b_status r, qa_state = AdmissionWaiting,
      qa_position = Some n, qa_admitted_at = None, qa_lease = None\<rparr>"

definition admission_overview_of :: "build_db \<Rightarrow> time \<Rightarrow> int \<Rightarrow> nat \<Rightarrow> admission_overview" where
  "admission_overview_of db now configured limit =
     (let active = sort_key acquired_key (filter (holding now) (builds db));
          waiting = waiting_builds db now; shown = take limit waiting
      in \<lparr>ao_configured = configured, ao_effective = length active, ao_waiting = length waiting,
          ao_entries = map active_entry active @ map2 waiting_entry [1..<Suc (length shown)] shown\<rparr>)"

section \<open>The dispatcher\<close>

record audit_event =
  ev_actor :: uuid
  ev_type :: pystr
  ev_entity :: uuid
  ev_project :: uuid

record admission_env =
  queue_accepts :: "uuid \<Rightarrow> uuid \<Rightarrow> bool" \<comment> \<open>\<^verbatim>\<open>enqueue_build\<close> returned without an exception\<close>
  db_clock :: "nat \<Rightarrow> time"               \<comment> \<open>the reading for the n-th claim\<close>

fun deliver_claims ::
  "admission_env \<Rightarrow> nat \<Rightarrow> build_claim list \<Rightarrow> build_db \<Rightarrow> backend_error + nat \<times> audit_event list \<times> build_db" where
  "deliver_claims env n [] db = Inr (0, [], db)"
| "deliver_claims env n (c # cs) db =
     (let ev = (\<lambda>kind. \<lparr>ev_actor = cl_requested_by c, ev_type = kind, ev_entity = cl_build c, ev_project = cl_project c\<rparr>) in
      if \<not> queue_accepts env (cl_build c) (cl_token c)
      then rbind (release_admission db (db_clock env n) (cl_build c) (cl_token c)) (\<lambda>(released, db').
        rbind (deliver_claims env (Suc n) cs db') (\<lambda>(k, evs, db2).
          Inr (k, (if released then [ev ''build.admission_enqueue_failed''] else []) @ evs, db2)))
      else rbind (mark_enqueued db (db_clock env n) (cl_build c) (cl_token c)) (\<lambda>(marked, db').
        rbind (deliver_claims env (Suc n) cs db') (\<lambda>(k, evs, db2).
          Inr (if marked then Suc k else k, (if marked then [ev ''build.admitted''] else []) @ evs, db2))))"

definition dispatch_builds_once ::
  "admission_env \<Rightarrow> build_db \<Rightarrow> time \<Rightarrow> (uuid \<Rightarrow> bool) \<Rightarrow> (uuid \<Rightarrow> uuid) \<Rightarrow> int \<Rightarrow> time
   \<Rightarrow> backend_error + nat \<times> audit_event list \<times> build_db" where
  "dispatch_builds_once env db now locked fresh configured lease_seconds =
     rbind (claim_available db now locked fresh configured lease_seconds) (\<lambda>(claims, db1).
       deliver_claims env 0 claims db1)"

section \<open>The builds as a system\<close>

text \<open>
  Any number of API processes, dispatchers and workers interleave their transactions; a step
  is one committed transaction at a later reading of the database clock. \<open>bs_issued\<close> are the
  tokens given so far and \<open>bs_limit\<close> is the largest concurrency configured so far.
\<close>

record build_sys =
  bs_db :: build_db
  bs_clock :: time
  bs_issued :: "uuid set"
  bs_limit :: int

definition goto :: "build_sys \<Rightarrow> time \<Rightarrow> uuid set \<Rightarrow> build_db \<Rightarrow> build_sys" where
  "goto s now new db = s\<lparr>bs_db := db, bs_clock := now, bs_issued := bs_issued s \<union> new\<rparr>"

inductive build_step :: "build_sys \<Rightarrow> build_sys \<Rightarrow> bool" where
  bs_create: "bs_clock s \<le> now \<Longrightarrow> create_build (bs_db s) now n = Inr (r, db) \<Longrightarrow> build_step s (goto s now {} db)"
| bs_claim: "bs_clock s \<le> now \<Longrightarrow> claim_available (bs_db s) now locked fresh configured lease = Inr (cs, db)
    \<Longrightarrow> cl_token ` set cs \<inter> bs_issued s = {} \<Longrightarrow> build_step s ((goto s now (cl_token ` set cs) db)\<lparr>bs_limit := max (bs_limit s) configured\<rparr>)"
| bs_enqueued: "bs_clock s \<le> now \<Longrightarrow> mark_enqueued (bs_db s) now i tok = Inr (ok, db) \<Longrightarrow> build_step s (goto s now {} db)"
| bs_renew: "bs_clock s \<le> now \<Longrightarrow> begin_or_renew (bs_db s) now i tok lease = Inr (ren, db) \<Longrightarrow> build_step s (goto s now {} db)"
| bs_release: "bs_clock s \<le> now \<Longrightarrow> release_admission (bs_db s) now i tok = Inr (ok, db) \<Longrightarrow> build_step s (goto s now {} db)"
| bs_transition: "bs_clock s \<le> now \<Longrightarrow> transition_build (bs_db s) now wall i expected target tok = Inr (r, db)
    \<Longrightarrow> build_step s (goto s now {} db)"
| bs_snapshot: "bs_clock s \<le> now \<Longrightarrow> set_canonical_snapshot (bs_db s) now i snap tok = Inr db \<Longrightarrow> build_step s (goto s now {} db)"
| bs_embedding: "bs_clock s \<le> now \<Longrightarrow> set_embedding_metadata (bs_db s) now i model dims tok = Inr db
    \<Longrightarrow> build_step s (goto s now {} db)"
| bs_enrichment: "bs_clock s \<le> now \<Longrightarrow> set_enrichment (bs_db s) now i enr sha tok = Inr db \<Longrightarrow> build_step s (goto s now {} db)"
| bs_manifest: "bs_clock s \<le> now \<Longrightarrow> now \<le> now2 \<Longrightarrow> set_manifest (bs_db s) now now2 i sha key tok = Inr db
    \<Longrightarrow> build_step s (goto s now2 {} db)"
| bs_artifact: "bs_clock s \<le> now \<Longrightarrow> now \<le> now2 \<Longrightarrow> set_artifact (bs_db s) now now2 i sha key tok = Inr db
    \<Longrightarrow> build_step s (goto s now2 {} db)"
| bs_fail: "bs_clock s \<le> now \<Longrightarrow> fail_build (bs_db s) now wall i code summary tok = Inr db \<Longrightarrow> build_step s (goto s now {} db)"
| bs_request: "bs_clock s \<le> now \<Longrightarrow> request_cancellation (bs_db s) wall i user = Inr (r, db) \<Longrightarrow> build_step s (goto s now {} db)"
| bs_acknowledge: "bs_clock s \<le> now \<Longrightarrow> acknowledge_cancellation (bs_db s) now wall i tok = Inr (r, db)
    \<Longrightarrow> build_step s (goto s now {} db)"

inductive_cases build_stepE: "build_step s t"

end
