(* ===== verification/BuildLifecycle.thy ===== *)
theory BuildLifecycle
  imports BuildAdmission
begin

text \<open>
  The life of a build under interleaved transactions: an abstract life cycle (a build advances
  one stage at a time, is ready after the last, fails or is cancelled on the way and then never
  changes), the proof that the repository's operations refine it, the fence of admission tokens
  and the bound on concurrently admitted builds.
\<close>

section \<open>The abstract life cycle\<close>

datatype build_phase = Absent | InPipeline nat bool | Finished build_status

inductive phase_step :: "build_phase \<Rightarrow> build_phase \<Rightarrow> bool" where
  born: "phase_step Absent (InPipeline 0 False)"
| advance: "n < 7 \<Longrightarrow> phase_step (InPipeline n False) (InPipeline (Suc n) False)"
| complete: "phase_step (InPipeline 7 False) (Finished READY)"
| give_up: "phase_step (InPipeline n False) (Finished FAILED)"
| cancel_asked: "phase_step (InPipeline n False) (InPipeline n True)"
| cancelled: "phase_step (InPipeline n True) (Finished CANCELLED)"

inductive_simps phase_step_finished: "phase_step (Finished st) p"
inductive_simps phase_step_cancelling: "phase_step (InPipeline n True) p"

text \<open>Every change of the phase uses up a part of this budget.\<close>

fun phase_budget :: "build_phase \<Rightarrow> nat" where
  "phase_budget Absent = 18"
| "phase_budget (InPipeline n c) = 2 * (8 - n) + (if c then 0 else 1)"
| "phase_budget (Finished _) = 0"

lemma phase_step_budget:
  assumes "phase_step p q" and "\<And>n c. p = InPipeline n c \<Longrightarrow> n < 8"
  shows "phase_budget q < phase_budget p"
  using assms(1) by cases (use assms(2) in auto)

definition stage_index :: "build_status \<Rightarrow> nat" where
  "stage_index st = (case position st PIPELINE_STATUSES of None \<Rightarrow> 0 | Some n \<Rightarrow> n)"

fun phase_of :: "build_row option \<Rightarrow> build_phase" where
  "phase_of None = Absent"
| "phase_of (Some r) = (if is_terminal r then Finished (b_status r)
     else InPipeline (stage_index (b_status r)) (cancellation_requested_at r \<noteq> None))"

definition phase_at :: "build_sys \<Rightarrow> uuid \<Rightarrow> build_phase" where
  "phase_at s i = phase_of (get_build (bs_db s) i)"

text \<open>What an implementation of the life cycle promises, and what follows from it.\<close>

locale build_lifecycle =
  fixes phase_view :: "'s \<Rightarrow> uuid \<Rightarrow> build_phase"
    and lstep :: "'s \<Rightarrow> 's \<Rightarrow> bool"
  assumes refines: "lstep s t \<Longrightarrow> phase_view t i = phase_view s i \<or> phase_step (phase_view s i) (phase_view t i)"
begin

lemma finished_stays: "lstep\<^sup>*\<^sup>* s t \<Longrightarrow> phase_view s i = Finished st \<Longrightarrow> phase_view t i = Finished st"
proof (induction rule: rtranclp_induct)
  case (step t u)
  then show ?case using refines [of t u i] by (auto simp: phase_step_finished)
qed simp

lemma cancelling_stays:
  "lstep\<^sup>*\<^sup>* s t \<Longrightarrow> phase_view s i = InPipeline n True \<Longrightarrow>
    phase_view t i = InPipeline n True \<or> phase_view t i = Finished CANCELLED"
proof (induction rule: rtranclp_induct)
  case (step t u)
  then show ?case using refines [of t u i] by (auto simp: phase_step_finished phase_step_cancelling)
qed simp

lemma moves_forward:
  "lstep\<^sup>*\<^sup>* s t \<Longrightarrow> phase_view s i = InPipeline n c \<Longrightarrow>
    (\<exists>m d. phase_view t i = InPipeline m d \<and> n \<le> m) \<or> (\<exists>st. phase_view t i = Finished st)"
proof (induction rule: rtranclp_induct)
  case (step t u)
  then consider "phase_view u i = phase_view t i" | "phase_step (phase_view t i) (phase_view u i)"
    using refines [of t u i] by blast
  then show ?case
  proof cases
    case 2
    then show ?thesis using step.IH [OF step.prems] by cases auto
  qed (use step.IH step.prems in auto)
qed simp

end

section \<open>What a transaction does to a row\<close>

definition row_effect :: "uuid set \<Rightarrow> time \<Rightarrow> build_row \<Rightarrow> build_row \<Rightarrow> bool" where
  "row_effect F w r r' \<longleftrightarrow>
     b_id r' = b_id r \<and> b_project r' = b_project r \<and> b_sequence r' = b_sequence r \<and> b_created_at r' = b_created_at r
     \<and> build_config r' = build_config r \<and> \<not> is_terminal r
     \<and> (is_terminal r' \<longrightarrow> admission_token r' = None)
     \<and> (pipeline_stage r = Some (b_status r) \<longrightarrow> (b_status r' \<notin> {FAILED, CANCELLED} \<longrightarrow> pipeline_stage r' = Some (b_status r'))
         \<and> (b_status r' \<in> {FAILED, CANCELLED} \<longrightarrow> pipeline_stage r' = Some (b_status r)))
     \<and> admission_token r' \<in> {admission_token r, None} \<union> Some ` F
     \<and> (live_lease w r' \<longrightarrow> live_lease w r \<or> admission_token r' \<in> Some ` F)
     \<and> (phase_of (Some r') = phase_of (Some r) \<or> phase_step (phase_of (Some r)) (phase_of (Some r')))
     \<and> (cancellation_requested_at r \<noteq> None \<longrightarrow> cancellation_requested_at r' = cancellation_requested_at r
         \<and> (b_status r' = CANCELLED \<or> b_status r' = b_status r \<and> b_manifest_sha256 r' = b_manifest_sha256 r
             \<and> artifact_sha256 r' = artifact_sha256 r))
     \<and> (b_status r' = CANCELLED \<longrightarrow> b_manifest_sha256 r' = None \<and> artifact_sha256 r' = None
         \<and> manifest_storage_key r' = None \<and> artifact_storage_key r' = None)"

definition db_effect :: "uuid set \<Rightarrow> time \<Rightarrow> build_db \<Rightarrow> build_db \<Rightarrow> bool" where
  "db_effect F w db db' \<longleftrightarrow> bindings db' = bindings db \<and> (\<exists>g. builds db' = map g (builds db)
     \<and> (\<forall>r\<in>set (builds db). g r = r \<or> row_effect F w r (g r)))"

definition build_inv :: "build_db \<Rightarrow> bool" where
  "build_inv db \<longleftrightarrow> table_ok (builds db) \<and> (\<forall>r\<in>set (builds db). is_terminal r \<longrightarrow> admission_token r = None)"

lemma write_rows_Inr: "write_rows db rows = Inr db' \<longleftrightarrow> table_ok rows \<and> db' = db\<lparr>builds := rows\<rparr>"
  by (auto simp: write_rows_def)

lemma update_builds_Inr:
  "update_builds P f db = Inr db' \<longleftrightarrow> table_ok (update_where P f (builds db)) \<and> db' = db\<lparr>builds := update_where P f (builds db)\<rparr>"
  by (simp add: update_builds_def write_rows_Inr)

lemma update_effect:
  assumes "update_builds P f db = Inr db'" and "\<And>r. r \<in> set (builds db) \<Longrightarrow> P r \<Longrightarrow> f r = r \<or> row_effect F w r (f r)"
  shows "db_effect F w db db'" and "table_ok (builds db')"
proof -
  from assms(1) have db': "db' = db\<lparr>builds := map (\<lambda>r. if P r then f r else r) (builds db)\<rparr>"
    by (simp add: update_builds_Inr update_where_def)
  show "db_effect F w db db'"
    unfolding db_effect_def
  proof (intro conjI exI [of _ "\<lambda>r. if P r then f r else r"])
    show "bindings db' = bindings db" "builds db' = map (\<lambda>r. if P r then f r else r) (builds db)"
      by (simp_all add: db')
    show "\<forall>r\<in>set (builds db). (if P r then f r else r) = r \<or> row_effect F w r (if P r then f r else r)"
      using assms(2) by simp
  qed
  from assms(1) show "table_ok (builds db')" by (auto simp: update_builds_Inr)
qed

lemma db_effect_refl: "db_effect F w db db"
  by (auto simp: db_effect_def intro!: exI [of _ id])

lemma get_build_Some: "get_build db i = Some r \<Longrightarrow> r \<in> set (builds db) \<and> b_id r = i"
  by (simp add: get_build_def find_by_Some)

lemma get_build_unique:
  "table_ok (builds db) \<Longrightarrow> r \<in> set (builds db) \<Longrightarrow> get_build db (b_id r) = Some r"
  by (simp add: get_build_def find_by_distinct table_ok_def)

lemma find_by_map:
  "(\<And>r. r \<in> set rows \<Longrightarrow> key (g r) = key r) \<Longrightarrow> find_by key i (map g rows) = map_option g (find_by key i rows)"
  by (induction rows) (simp_all add: find_by_def)

lemma db_effect_row:
  assumes "db_effect F w db db'"
  shows "get_build db' i = get_build db i \<or>
    (\<exists>r r'. get_build db i = Some r \<and> get_build db' i = Some r' \<and> row_effect F w r r')"
proof -
  from assms obtain g where g: "builds db' = map g (builds db)" "\<forall>r\<in>set (builds db). g r = r \<or> row_effect F w r (g r)"
    by (auto simp: db_effect_def)
  have "get_build db' i = map_option g (get_build db i)"
    unfolding get_build_def g(1) by (rule find_by_map) (use g(2) in \<open>auto simp: row_effect_def\<close>)
  then show ?thesis using g(2) get_build_Some [of db i] by (cases "get_build db i") auto
qed

lemma db_effect_inv:
  assumes "build_inv db" and "db_effect F w db db'" and "table_ok (builds db')"
  shows "build_inv db'"
proof -
  have "admission_token r' = None" if r': "r' \<in> set (builds db')" "is_terminal r'" for r'
  proof -
    from assms(2) r'(1) obtain r where "r \<in> set (builds db)" "r' = r \<or> row_effect F w r r'"
      by (auto simp: db_effect_def)
    with assms(1) r'(2) show ?thesis by (auto simp: build_inv_def row_effect_def)
  qed
  with assms(3) show ?thesis by (simp add: build_inv_def)
qed

text \<open>The updates of the repository are such effects.\<close>

lemma stage_index_simps [simp]:
  "stage_index QUEUED = 0" "stage_index INGESTING = 1" "stage_index PARSING = 2" "stage_index INDEXING = 3"
  "stage_index ANALYZING = 4" "stage_index COMPILING = 5" "stage_index VALIDATING = 6" "stage_index PACKAGING = 7"
  by (simp_all add: stage_index_def PIPELINE_STATUSES_def)

lemma next_status_simps:
  "next_status QUEUED = Inr INGESTING" "next_status INGESTING = Inr PARSING" "next_status PARSING = Inr INDEXING"
  "next_status INDEXING = Inr ANALYZING" "next_status ANALYZING = Inr COMPILING" "next_status COMPILING = Inr VALIDATING"
  "next_status VALIDATING = Inr PACKAGING" "next_status PACKAGING = Inr READY"
  "next_status READY = Inl (Unexpected ''ValueError'')" "next_status FAILED = Inl (Unexpected ''ValueError'')"
  "next_status CANCELLED = Inl (Unexpected ''ValueError'')"
  by (simp_all add: next_status_def PIPELINE_STATUSES_def TERMINAL_STATUSES_def)

lemmas row_defs = row_effect_def live_lease_def is_terminal_def TERMINAL_STATUSES_def release_admission_values_def

lemma next_status_phase:
  assumes "next_status s = Inr t"
  shows "t \<noteq> FAILED" "t \<noteq> CANCELLED" "s \<notin> TERMINAL_STATUSES"
    "t \<in> TERMINAL_STATUSES \<longleftrightarrow> t = READY"
    "t \<noteq> READY \<Longrightarrow> phase_step (InPipeline (stage_index s) False) (InPipeline (stage_index t) False)"
    "t = READY \<Longrightarrow> stage_index s = 7"
proof -
  show "t \<noteq> FAILED" "t \<noteq> CANCELLED" "s \<notin> TERMINAL_STATUSES" "t \<in> TERMINAL_STATUSES \<longleftrightarrow> t = READY"
    "t = READY \<Longrightarrow> stage_index s = 7"
    using assms by (cases s; auto simp: next_status_simps TERMINAL_STATUSES_def)+
  show "phase_step (InPipeline (stage_index s) False) (InPipeline (stage_index t) False)" if "t \<noteq> READY"
  proof -
    have "stage_index t = Suc (stage_index s) \<and> stage_index s < 7"
      using assms that by (cases s) (auto simp: next_status_simps)
    then show ?thesis by (simp add: advance)
  qed
qed

lemma transition_effect:
  assumes nx: "next_status s = Inr t" and "b_status r = s" and "cancellation_requested_at r = None"
  shows "row_effect F w r (transition_row wall s t r)"
proof -
  note n = next_status_phase [OF nx]
  let ?r = "transition_row wall s t r"
  have st: "b_status ?r = t" "pipeline_stage ?r = Some t" "cancellation_requested_at ?r = None"
    and tok: "admission_token ?r = (if t = READY then None else admission_token r)"
    and same: "b_id ?r = b_id r" "b_project ?r = b_project r" "b_sequence ?r = b_sequence r"
      "b_created_at ?r = b_created_at r" "build_config ?r = build_config r"
    and lease: "admission_lease_expires_at ?r = (if t = READY then None else admission_lease_expires_at r)"
    using assms(3) n(4) by (simp_all add: transition_row_def release_admission_values_def Let_def)
  have ph: "phase_of (Some r) = InPipeline (stage_index s) False"
    using assms n(3) by (simp add: is_terminal_def)
  have "phase_step (phase_of (Some r)) (phase_of (Some ?r))"
  proof (cases "t = READY")
    case True
    then show ?thesis unfolding ph using n(6) complete st by (simp add: is_terminal_def TERMINAL_STATUSES_def)
  next
    case False
    then show ?thesis unfolding ph using n(4) n(5) st by (simp add: is_terminal_def)
  qed
  moreover have "\<not> is_terminal r" "is_terminal ?r \<longleftrightarrow> t = READY" using assms(2) n(3,4) st by (simp_all add: is_terminal_def)
  ultimately show ?thesis
    unfolding row_effect_def live_lease_def using st tok lease same n(1,2) assms(3) by auto
qed

lemma fail_effect: "\<not> is_terminal r \<Longrightarrow> cancellation_requested_at r = None \<Longrightarrow> row_effect F w r (fail_row wall code summary r)"
  by (auto simp: row_defs fail_row_def intro: give_up)

lemma request_effect:
  "\<not> is_terminal r \<Longrightarrow> cancellation_requested_at r = None \<Longrightarrow>
    row_effect F w r (r\<lparr>cancellation_requested_at := Some v, cancellation_requested_by := u\<rparr>)"
  by (auto simp: row_defs intro: cancel_asked)

lemma cancel_effect: "\<not> is_terminal r \<Longrightarrow> cancellation_requested_at r \<noteq> None \<Longrightarrow> row_effect F w r (cancel_row wall r)"
  by (auto simp: row_defs cancel_row_def intro: cancelled)

lemma admission_effects:
  assumes "\<not> is_terminal r"
  shows "row_effect F w r (release_admission_values now r)"
    "row_effect F w r (r\<lparr>admission_enqueued_at := e\<rparr>)"
    "live_lease w r \<Longrightarrow> row_effect F w r (r\<lparr>admission_heartbeat_at := h, admission_lease_expires_at := l\<rparr>)"
    "fresh (b_id r) \<in> F \<Longrightarrow> row_effect F w r (admit_row now lease fresh r)"
    "fresh (b_id r) \<in> F \<Longrightarrow> row_effect F w r (admit_row now lease fresh (release_admission_values now r))"
  using assms by (auto simp: row_defs admit_row_def live_lease_def)

lemma stage_effects:
  assumes "\<not> is_terminal r" and "cancellation_requested_at r = None"
  shows "row_effect F w r (r\<lparr>canonical_snapshot_id := a\<rparr>)"
    "row_effect F w r (r\<lparr>embedding_model := b, embedding_dimensions := c\<rparr>)"
    "row_effect F w r (r\<lparr>enrichment_json := d, enrichment_sha256 := e\<rparr>)"
    "row_effect F w r (r\<lparr>b_manifest_sha256 := f, manifest_storage_key := g\<rparr>)"
    "row_effect F w r (r\<lparr>artifact_sha256 := h, artifact_storage_key := k\<rparr>)"
  using assms by (auto simp: row_defs)

section \<open>The effect of every operation\<close>

lemma owner_Inr:
  assumes "require_build_execution_owner db now i tok allow = Inr r"
  shows "get_build db i = Some r" "admission_token r = Some tok" "live_lease now r" "\<not> is_terminal r"
    "\<not> allow \<Longrightarrow> cancellation_requested_at r = None"
  using assms by (auto simp: require_build_execution_owner_def split: option.splits if_splits)

lemma owned_not_terminal:
  "build_inv db \<Longrightarrow> r \<in> set (builds db) \<Longrightarrow> admission_token r = Some tok \<Longrightarrow> \<not> is_terminal r"
  by (auto simp: build_inv_def)

lemma stage_update_effect:
  assumes "build_inv db" and "stage_update db now i st tok values = Inr db'"
    and "\<And>r. \<not> is_terminal r \<Longrightarrow> cancellation_requested_at r = None \<Longrightarrow> row_effect F w r (values r)"
  shows "db_effect F w db db' \<and> table_ok (builds db')"
proof -
  from assms(2) have u: "update_builds (\<lambda>r. owned_open i tok r \<and> b_status r = st) values db = Inr db'"
    by (auto simp: stage_update_def Let_def result_simps split: if_splits)
  show ?thesis
    using update_effect [OF u, of F w] owned_not_terminal [OF assms(1)] assms(3) by (auto simp: owned_open_def)
qed

lemma stage_operations_effect:
  assumes "build_inv db"
  shows "set_canonical_snapshot db now i snap tok = Inr db' \<Longrightarrow> db_effect F w db db' \<and> table_ok (builds db')"
    "set_embedding_metadata db now i model dims tok = Inr db' \<Longrightarrow> db_effect F w db db' \<and> table_ok (builds db')"
    "set_enrichment db now i enr sha tok = Inr db' \<Longrightarrow> db_effect F w db db' \<and> table_ok (builds db')"
    "set_manifest db now now2 i sha key tok = Inr db' \<Longrightarrow> db_effect F w db db' \<and> table_ok (builds db')"
    "set_artifact db now now2 i sha key tok = Inr db' \<Longrightarrow> db_effect F w db db' \<and> table_ok (builds db')"
  unfolding set_canonical_snapshot_def set_embedding_metadata_def set_enrichment_def set_manifest_def set_artifact_def
      apply (erule stage_update_effect [OF assms], erule (1) stage_effects)
     apply (erule stage_update_effect [OF assms], erule (1) stage_effects)
    apply (erule stage_update_effect [OF assms], erule (1) stage_effects)
   apply (clarsimp simp: result_simps, erule stage_update_effect [OF assms], erule (1) stage_effects)
  apply (clarsimp simp: result_simps, erule stage_update_effect [OF assms], erule (1) stage_effects)
  done

lemma transition_build_effect:
  assumes "build_inv db" and "transition_build db now wall i e t tok = Inr (r, db')"
  shows "db_effect F w db db' \<and> table_ok (builds db')"
proof -
  from assms(2) have n: "next_status e = Inr t"
    and u: "update_builds (\<lambda>r. owned_open i tok r \<and> b_status r = e) (transition_row wall e t) db = Inr db'"
    by (auto simp: transition_build_def Let_def result_simps split: if_splits option.splits)
  show ?thesis
    using update_effect [OF u, of F w] transition_effect [OF n] by (auto simp: owned_open_def)
qed

lemma fail_build_effect:
  assumes "fail_build db now wall i code summary tok = Inr db'"
  shows "db_effect F w db db' \<and> table_ok (builds db')"
proof -
  from assms have u: "update_builds (\<lambda>r. owned_open i tok r \<and> \<not> is_terminal r) (fail_row wall code summary) db = Inr db'"
    by (auto simp: fail_build_def result_simps)
  show ?thesis using update_effect [OF u, of F w] fail_effect by (auto simp: owned_open_def)
qed

lemma request_cancellation_effect:
  assumes "build_inv db" and c: "request_cancellation db wall i user = Inr (r, db')"
  shows "db_effect F w db db' \<and> table_ok (builds db')"
proof -
  from c obtain x where x: "get_build db i = Some x" "\<not> is_terminal x"
    by (auto simp: request_cancellation_def split: option.splits if_splits)
  have tab: "table_ok (builds db)" using assms(1) by (simp add: build_inv_def)
  show ?thesis
  proof (cases "cancellation_requested_at x = None")
    case True
    let ?f = "\<lambda>r. r\<lparr>cancellation_requested_at := Some wall, cancellation_requested_by := Some user\<rparr>"
    from c x True have u: "update_builds (\<lambda>r. b_id r = i) ?f db = Inr db'"
      by (auto simp: request_cancellation_def Let_def result_simps)
    have "y = x" if "y \<in> set (builds db)" "b_id y = i" for y
      using get_build_unique [OF tab that(1)] that(2) x(1) by simp
    then show ?thesis using update_effect [OF u, of F w] request_effect [OF x(2) True] by blast
  next
    case False
    with c x tab show ?thesis by (auto simp: request_cancellation_def db_effect_refl)
  qed
qed

lemma db_effect_generations: "db_effect F w db (db'\<lparr>index_generations := g\<rparr>) = db_effect F w db db'"
  by (simp add: db_effect_def)

lemma acknowledge_effect:
  assumes "acknowledge_cancellation db now wall i tok = Inr (r, db')"
  shows "db_effect F w db db' \<and> table_ok (builds db')"
proof -
  let ?P = "\<lambda>r. b_id r = i \<and> admission_token r = Some tok \<and> \<not> is_terminal r \<and> cancellation_requested_at r \<noteq> None"
  from assms obtain d g where u: "update_builds ?P (cancel_row wall) db = Inr d"
    and db': "db' = d \<or> db' = d\<lparr>index_generations := g\<rparr>"
    by (auto simp: acknowledge_cancellation_def Let_def result_simps split: if_splits option.splits)
  have "db_effect F w db d" "table_ok (builds d)" using update_effect [OF u, of F w] cancel_effect by auto
  then show ?thesis using db' by (auto simp: db_effect_generations)
qed

lemma admission_operations_effect:
  assumes inv: "build_inv db"
  shows "mark_enqueued db now i tok = Inr (ok, db') \<Longrightarrow> db_effect F w db db' \<and> table_ok (builds db')"
    "release_admission db now i tok = Inr (ok, db') \<Longrightarrow> db_effect F w db db' \<and> table_ok (builds db')"
    "begin_or_renew db w i tok lease = Inr (ren, db') \<Longrightarrow> db_effect F w db db' \<and> table_ok (builds db')"
proof -
  have tab: "table_ok (builds db)" using inv by (simp add: build_inv_def)
  show "db_effect F w db db' \<and> table_ok (builds db')" if "mark_enqueued db now i tok = Inr (ok, db')"
  proof -
    from that have u: "update_builds (\<lambda>r. b_id r = i \<and> admission_token r = Some tok) (\<lambda>r. r\<lparr>admission_enqueued_at := Some now\<rparr>) db = Inr db'"
      by (auto simp: mark_enqueued_def Let_def result_simps)
    show ?thesis using update_effect [OF u, of F w] owned_not_terminal [OF inv] admission_effects(2) by blast
  qed
  show "db_effect F w db db' \<and> table_ok (builds db')" if "release_admission db now i tok = Inr (ok, db')"
  proof -
    from that have u: "update_builds (\<lambda>r. b_id r = i \<and> admission_token r = Some tok) (release_admission_values now) db = Inr db'"
      by (auto simp: release_admission_def Let_def result_simps)
    show ?thesis using update_effect [OF u, of F w] owned_not_terminal [OF inv] admission_effects(1) by blast
  qed
  show "db_effect F w db db' \<and> table_ok (builds db')" if c: "begin_or_renew db w i tok lease = Inr (ren, db')"
  proof (cases "db' = db")
    case True
    with tab show ?thesis by (simp add: db_effect_refl)
  next
    case False
    let ?f = "\<lambda>r. r\<lparr>admission_heartbeat_at := Some w, admission_lease_expires_at := Some (w + lease)\<rparr>"
    from c False obtain x where x: "get_build db i = Some x" "\<not> is_terminal x" "live_lease w x"
      and u: "update_builds (\<lambda>r. b_id r = i) ?f db = Inr db'"
      by (auto simp: begin_or_renew_def result_simps split: option.splits if_splits)
    have "y = x" if "y \<in> set (builds db)" "b_id y = i" for y
      using get_build_unique [OF tab that(1)] that(2) x(1) by simp
    then show ?thesis using update_effect [OF u, of F w] admission_effects(3) x(2,3) by blast
  qed
qed

text \<open>A claim releases the expired leases and admits waiting builds in the same transaction.\<close>

lemma candidate_row:
  assumes "table_ok (builds db)" and "r \<in> set (builds db)" and "b_id r \<in> set (map b_id (claim_candidates db locked n))"
  shows "\<not> is_terminal r" "admission_token r = None" "r \<in> set (claim_candidates db locked n)"
proof -
  from assms(3) obtain x where x: "x \<in> set (claim_candidates db locked n)" "b_id x = b_id r" by auto
  have f: "x \<in> set (builds db)" "\<not> is_terminal x" "admission_token x = None"
    using x(1) by (auto simp: claim_candidates_def dest: in_set_takeD)
  have "x = r" using get_build_unique [OF assms(1) f(1)] get_build_unique [OF assms(1,2)] unfolding x(2) by simp
  then show "\<not> is_terminal r" "admission_token r = None" "r \<in> set (claim_candidates db locked n)"
    using f x(1) by simp_all
qed

lemma claim_available_Inr:
  assumes "claim_available db now locked fresh configured lease = Inr (cs, db')"
  obtains (idle) "update_builds (expired_admission now) (release_admission_values now) db = Inr db'" "cs = []"
      "configured \<le> int (active_count now db')"
  | (admit) db1 n where "update_builds (expired_admission now) (release_admission_values now) db = Inr db1"
      "n = nat (configured - int (active_count now db1))"
      "update_builds (\<lambda>r. b_id r \<in> set (map b_id (claim_candidates db1 locked n))) (admit_row now lease fresh) db1 = Inr db'"
      "cs = map (claim_of now lease fresh) (claim_candidates db1 locked n)"
proof -
  from assms obtain d where d: "update_builds (expired_admission now) (release_admission_values now) db = Inr d"
    by (auto simp: claim_available_def result_simps)
  show thesis
  proof (cases "configured \<le> int (active_count now d)")
    case True
    with assms d show thesis by (intro idle) (auto simp: claim_available_def Let_def)
  next
    case False
    with assms d show thesis by (intro admit [OF d refl]) (auto simp: claim_available_def Let_def result_simps)
  qed
qed

lemma expired_not_terminal: "build_inv db \<Longrightarrow> r \<in> set (builds db) \<Longrightarrow> expired_admission now r \<Longrightarrow> \<not> is_terminal r"
  by (auto simp: build_inv_def expired_admission_def)

lemma claim_effect:
  assumes inv: "build_inv db" and c: "claim_available db now locked fresh configured lease = Inr (cs, db')"
  shows "db_effect (cl_token ` set cs) w db db' \<and> table_ok (builds db')"
  using c
proof (cases rule: claim_available_Inr)
  case idle
  then show ?thesis
    using update_effect [OF idle(1)] expired_not_terminal [OF inv] admission_effects(1) by blast
next
  case (admit d n)
  let ?F = "cl_token ` set cs"
  let ?C = "claim_candidates d locked n"
  define h where "h = (\<lambda>r. if expired_admission now r then release_admission_values now r else r)"
  define g where "g = (\<lambda>r. if b_id (h r) \<in> set (map b_id ?C) then admit_row now lease fresh (h r) else h r)"
  have d: "builds d = map h (builds db)" "table_ok (builds d)" "bindings d = bindings db"
    using admit(1) by (auto simp: update_builds_Inr update_where_def h_def)
  have tab: "table_ok (builds db')" and b: "builds db' = map g (builds db)" and bind: "bindings db' = bindings db"
    using admit(3) d(1,3) by (auto simp: update_builds_Inr update_where_def g_def)
  have "g r = r \<or> row_effect ?F w r (g r)" if r: "r \<in> set (builds db)" for r
  proof -
    have hr: "h r \<in> set (builds d)" "b_id (h r) = b_id r" "is_terminal (h r) = is_terminal r"
      using r by (auto simp: d(1) h_def release_admission_values_def is_terminal_def)
    show ?thesis
    proof (cases "b_id (h r) \<in> set (map b_id ?C)")
      case True
      note k = candidate_row [OF d(2) hr(1) True]
      have "\<not> is_terminal r" using k(1) hr(3) by simp
      moreover have "cl_token (claim_of now lease fresh (h r)) \<in> ?F" unfolding admit(4) using k(3) by simp
      ultimately show ?thesis
        using True admission_effects(4,5) by (auto simp: g_def h_def claim_of_def release_admission_values_def)
    next
      case False
      then show ?thesis
        using expired_not_terminal [OF inv r] admission_effects(1) by (auto simp: g_def h_def)
    qed
  qed
  then show ?thesis using tab b bind by (auto simp: db_effect_def)
qed

section \<open>Steps of the system\<close>

lemma create_build_Inr:
  assumes "create_build db now n = Inr (r, db')"
  shows "r = queued_row db now n" "builds db' = builds db @ [r]" "table_ok (builds db')"
    "bindings db' = bindings db @ map (\<lambda>b. (nb_id n, b\<lparr>sb_trustworthy := True\<rparr>)) (sort_key sb_version (nb_bindings n))"
    "active_for_project db (nb_project n) = None"
  using assms by (auto simp: create_build_def write_rows_Inr result_simps split: if_splits)

lemma queued_row_facts:
  "b_id (queued_row db now n) = nb_id n" "b_status (queued_row db now n) = QUEUED"
  "pipeline_stage (queued_row db now n) = Some QUEUED" "admission_token (queued_row db now n) = None"
  "cancellation_requested_at (queued_row db now n) = None" "b_project (queued_row db now n) = nb_project n"
  by (simp_all add: queued_row_def)

text \<open>What a step does to the database: it adds one queued build, or has an effect on the rows.\<close>

definition sys_effect :: "build_sys \<Rightarrow> build_sys \<Rightarrow> bool" where
  "sys_effect s t \<longleftrightarrow> bs_issued s \<subseteq> bs_issued t \<and> table_ok (builds (bs_db t)) \<and>
     ((\<exists>n now. create_build (bs_db s) now n = Inr (queued_row (bs_db s) now n, bs_db t))
      \<or> (\<exists>F. db_effect F (bs_clock t) (bs_db s) (bs_db t) \<and> F \<inter> bs_issued s = {} \<and> F \<subseteq> bs_issued t))"

lemma goto_simps [simp]:
  "bs_db (goto s now F db) = db" "bs_clock (goto s now F db) = now" "bs_issued (goto s now F db) = bs_issued s \<union> F"
  "bs_limit (goto s now F db) = bs_limit s"
  by (simp_all add: goto_def)

lemma sys_effectI:
  "db_effect {} now (bs_db s) db \<and> table_ok (builds db) \<Longrightarrow> sys_effect s (goto s now {} db)"
  unfolding sys_effect_def by auto

lemmas quiet_operations = admission_operations_effect stage_operations_effect transition_build_effect
  request_cancellation_effect

lemma step_effect:
  assumes "build_step s t" and inv: "build_inv (bs_db s)"
  shows "sys_effect s t"
  using assms(1)
proof cases
  case (bs_create now n r db)
  then show ?thesis
    using create_build_Inr [OF bs_create(3)] unfolding sys_effect_def by (auto intro!: exI [of _ n] exI [of _ now])
next
  case (bs_claim now locked fresh configured lease cs db)
  then show ?thesis
    using claim_effect [OF inv bs_claim(3), of now] unfolding sys_effect_def
    by (intro conjI disjI2 exI [of _ "cl_token ` set cs"]) auto
next
  case (bs_fail now wall i code summary tok db)
  then show ?thesis by (simp add: sys_effectI fail_build_effect)
next
  case (bs_acknowledge now wall i tok r db)
  then show ?thesis by (simp add: sys_effectI acknowledge_effect)
qed (simp_all add: sys_effectI quiet_operations [OF inv])

lemma step_inv: "build_step s t \<Longrightarrow> build_inv (bs_db s) \<Longrightarrow> build_inv (bs_db t)"
proof -
  assume st: "build_step s t" and inv: "build_inv (bs_db s)"
  from step_effect [OF st inv] have tab: "table_ok (builds (bs_db t))"
    and e: "(\<exists>n now. create_build (bs_db s) now n = Inr (queued_row (bs_db s) now n, bs_db t))
      \<or> (\<exists>F. db_effect F (bs_clock t) (bs_db s) (bs_db t))"
    by (auto simp: sys_effect_def)
  from e show "build_inv (bs_db t)"
  proof
    assume "\<exists>n now. create_build (bs_db s) now n = Inr (queued_row (bs_db s) now n, bs_db t)"
    then obtain n now where c: "create_build (bs_db s) now n = Inr (queued_row (bs_db s) now n, bs_db t)" by blast
    show ?thesis
      using tab inv create_build_Inr(2) [OF c] queued_row_facts(4) by (auto simp: build_inv_def)
  qed (use db_effect_inv [OF inv _ tab] in blast)
qed

lemma reachable_inv: "build_step\<^sup>*\<^sup>* s t \<Longrightarrow> build_inv (bs_db s) \<Longrightarrow> build_inv (bs_db t)"
  by (induction rule: rtranclp_induct) (auto intro: step_inv)

lemma build_step_row:
  assumes "build_step s t" and inv: "build_inv (bs_db s)"
  obtains (same) "get_build (bs_db t) i = get_build (bs_db s) i"
  | (created) n now where "get_build (bs_db s) i = None" "get_build (bs_db t) i = Some (queued_row (bs_db s) now n)"
  | (effect) r r' F where "get_build (bs_db s) i = Some r" "get_build (bs_db t) i = Some r'"
      "row_effect F (bs_clock t) r r'" "F \<inter> bs_issued s = {}" "F \<subseteq> bs_issued t"
proof -
  from step_effect [OF assms] consider
      (c) n now where "create_build (bs_db s) now n = Inr (queued_row (bs_db s) now n, bs_db t)"
    | (e) F where "db_effect F (bs_clock t) (bs_db s) (bs_db t)" "F \<inter> bs_issued s = {}" "F \<subseteq> bs_issued t"
    unfolding sys_effect_def by blast
  then show thesis
  proof cases
    case c
    note b = create_build_Inr(2) [OF c]
    show thesis
    proof (cases "get_build (bs_db s) i")
      case None
      then show thesis
        using b same created by (cases "nb_id n = i") (auto simp: get_build_def find_by_snoc queued_row_facts)
    next
      case (Some r)
      then show thesis using b same by (simp add: get_build_def find_by_snoc)
    qed
  next
    case e
    with db_effect_row [OF e(1), of i] same effect show thesis by blast
  qed
qed

definition inv_step :: "build_sys \<Rightarrow> build_sys \<Rightarrow> bool" where
  "inv_step s t \<longleftrightarrow> build_inv (bs_db s) \<and> build_step s t"

lemma inv_steps: "build_step\<^sup>*\<^sup>* s t \<Longrightarrow> build_inv (bs_db s) \<Longrightarrow> inv_step\<^sup>*\<^sup>* s t"
proof (induction rule: rtranclp_induct)
  case (step t u)
  then have "build_inv (bs_db t)" using reachable_inv by blast
  with step show ?case by (auto simp: inv_step_def intro: rtranclp.rtrancl_into_rtrancl)
qed simp

lemma queued_phase: "phase_of (Some (queued_row db now n)) = InPipeline 0 False"
  by (simp add: queued_row_facts is_terminal_def TERMINAL_STATUSES_def)

lemma step_phase:
  assumes "build_step s t" and "build_inv (bs_db s)"
  shows "phase_at t i = phase_at s i \<or> phase_step (phase_at s i) (phase_at t i)"
  by (rule build_step_row [OF assms, of i])
    (auto simp: phase_at_def queued_phase born row_effect_def simp del: phase_of.simps(2))

interpretation lifecycle: build_lifecycle phase_at inv_step
  by unfold_locales (auto simp: inv_step_def dest: step_phase)

definition build_token :: "build_sys \<Rightarrow> uuid \<Rightarrow> uuid option" where
  "build_token s i = (case get_build (bs_db s) i of None \<Rightarrow> None | Some r \<Rightarrow> admission_token r)"

lemma step_token:
  assumes "build_step s t" and "build_inv (bs_db s)"
  shows "build_token t i = build_token s i \<or> build_token t i = None \<or>
    (\<exists>x. build_token t i = Some x \<and> x \<notin> bs_issued s \<and> x \<in> bs_issued t)"
  by (rule build_step_row [OF assms, of i]) (auto simp: build_token_def queued_row_facts row_effect_def)

interpretation build_fence: token_fence build_token bs_issued inv_step
proof
  fix s t i
  assume "inv_step s t"
  then have st: "build_step s t" "build_inv (bs_db s)" by (auto simp: inv_step_def)
  show "bs_issued s \<subseteq> bs_issued t" using step_effect [OF st] by (simp add: sys_effect_def)
  show "build_token t i = build_token s i \<or> build_token t i = None \<or>
      (\<exists>x. build_token t i = Some x \<and> x \<notin> bs_issued s \<and> x \<in> bs_issued t)" by (rule step_token [OF st])
qed

section \<open>Concurrently admitted builds\<close>

lemma holding_later: "holding now r \<Longrightarrow> now0 \<le> now \<Longrightarrow> holding now0 r"
  by (auto simp: holding_def live_lease_def split: option.splits)

lemma filter_map_length: "(\<And>r. r \<in> set rows \<Longrightarrow> Q (g r) \<Longrightarrow> R r) \<Longrightarrow> length (filter Q (map g rows)) \<le> length (filter R rows)"
  by (induction rows) (auto simp: le_SucI)

lemma filter_update_length: "length (filter Q (update_where P f rows)) \<le> length (filter Q rows) + length (filter P rows)"
  by (induction rows) (auto simp: update_where_def)

lemma filter_keys_length:
  assumes "distinct (map key rows)"
  shows "length (filter (\<lambda>r. key r \<in> set ks) rows) \<le> length ks"
proof -
  let ?xs = "map key (filter (\<lambda>r. key r \<in> set ks) rows)"
  have "distinct ?xs" using assms by (simp add: distinct_map_filter)
  then have "length ?xs = card (set ?xs)" by (rule distinct_card [symmetric])
  also have "\<dots> \<le> card (set ks)" by (rule card_mono) auto
  finally show ?thesis using card_length [of ks] by simp
qed

lemma active_count_later: "now0 \<le> now \<Longrightarrow> active_count now db \<le> active_count now0 db"
  unfolding active_count_def using filter_map_length [of "builds db" "holding now" id "holding now0"] holding_later
  by simp

lemma row_effect_holding:
  assumes "row_effect {} now r r'" and "holding now r'"
  shows "holding now r"
proof -
  have "\<not> is_terminal r" "admission_token r' \<in> {admission_token r, None} \<union> Some ` {}"
    "live_lease now r' \<longrightarrow> live_lease now r \<or> admission_token r' \<in> Some ` {}"
    using assms(1) unfolding row_effect_def by blast+
  with assms(2) show ?thesis by (auto simp: holding_def)
qed

lemma quiet_active_count:
  assumes "db_effect {} now db db'"
  shows "active_count now db' \<le> active_count now db"
proof -
  from assms obtain g where g: "builds db' = map g (builds db)" "\<forall>r\<in>set (builds db). g r = r \<or> row_effect {} now r (g r)"
    by (auto simp: db_effect_def)
  show ?thesis
    unfolding active_count_def g(1) by (rule filter_map_length) (use g(2) row_effect_holding in \<open>metis\<close>)
qed

lemma created_active_count: "create_build db now0 n = Inr (r, db') \<Longrightarrow> active_count now db' = active_count now db"
  using create_build_Inr(1,2) [of db now0 n r db'] by (simp add: active_count_def holding_def queued_row_facts)

lemma claim_active_count:
  assumes inv: "build_inv db" and c: "claim_available db now locked fresh configured lease = Inr (cs, db')"
  shows "int (active_count now db') \<le> max configured (int (active_count now db))"
proof -
  have released: "active_count now d \<le> active_count now db" "table_ok (builds d)"
    if u: "update_builds (expired_admission now) (release_admission_values now) db = Inr d" for d
    using update_effect [OF u, of "{}" now] expired_not_terminal [OF inv] admission_effects(1) quiet_active_count by blast+
  from c show ?thesis
  proof (cases rule: claim_available_Inr)
    case idle
    then show ?thesis using released(1) by fastforce
  next
    case (admit d n)
    have "active_count now db' \<le> active_count now d + length (filter (\<lambda>r. b_id r \<in> set (map b_id (claim_candidates d locked n))) (builds d))"
      using admit(3) filter_update_length [of "holding now"] by (auto simp: active_count_def update_builds_Inr)
    moreover have "length (filter (\<lambda>r. b_id r \<in> set (map b_id (claim_candidates d locked n))) (builds d)) \<le> length (claim_candidates d locked n)"
      using filter_keys_length [of b_id "builds d" "map b_id (claim_candidates d locked n)"] released(2) [OF admit(1)] by (simp add: table_ok_def)
    moreover have "length (claim_candidates d locked n) \<le> n" by (simp add: claim_candidates_def)
    ultimately have "active_count now db' \<le> active_count now d + n" by linarith
    then show ?thesis using admit(2) released(1) [OF admit(1)] by linarith
  qed
qed

lemma step_active_count:
  assumes st: "build_step s t" and inv: "build_inv (bs_db s)" and "int (active_count (bs_clock s) (bs_db s)) \<le> bs_limit s"
  shows "int (active_count (bs_clock t) (bs_db t)) \<le> bs_limit t"
proof -
  have quiet: "int (active_count now db) \<le> bs_limit s" if "bs_clock s \<le> now" "db_effect {} now (bs_db s) db \<and> table_ok (builds db)" for now db
    using quiet_active_count [of now "bs_db s" db] active_count_later [OF that(1), of "bs_db s"] that(2) assms(3) by linarith
  from st show ?thesis
  proof cases
    case (bs_create now n r db)
    then show ?thesis
      using created_active_count [OF bs_create(3), of now] active_count_later [OF bs_create(2), of "bs_db s"] assms(3) by simp
  next
    case (bs_claim now locked fresh configured lease cs db)
    then show ?thesis
      using claim_active_count [OF inv bs_claim(3)] active_count_later [OF bs_claim(2), of "bs_db s"] assms(3) by simp
  next
    case (bs_fail now wall i code summary tok db)
    then show ?thesis by (simp add: quiet fail_build_effect)
  next
    case (bs_acknowledge now wall i tok r db)
    then show ?thesis by (simp add: quiet acknowledge_effect)
  qed (auto intro!: quiet simp: quiet_operations [OF inv])
qed

section \<open>Writes that no constraint rejects\<close>

lemma distinct_filter_map:
  assumes "distinct (map k (filter Q rows))" and "\<And>r. r \<in> set rows \<Longrightarrow> k (g r) = k r \<and> (Q (g r) \<longrightarrow> Q r)"
  shows "distinct (map k (filter Q (map g rows)))"
  using assms
proof (induction rows)
  case (Cons a rows)
  have "set (map k (filter Q (map g rows))) \<subseteq> set (map k (filter Q rows))" using Cons.prems(2) by force
  then have "k a \<notin> set (map k (filter Q (map g rows)))" if "Q a" using Cons.prems(1) that by auto
  then show ?case using Cons by (auto split: if_splits)
qed simp

lemma table_ok_update:
  assumes tab: "table_ok (builds db)"
    and f: "\<And>r. r \<in> set (builds db) \<Longrightarrow> P r \<Longrightarrow> b_id (f r) = b_id r \<and> b_project (f r) = b_project r
      \<and> b_sequence (f r) = b_sequence r \<and> (is_terminal r \<longrightarrow> is_terminal (f r)) \<and> build_checks (f r)"
  shows "update_builds P f db = Inr (db\<lparr>builds := update_where P f (builds db)\<rparr>)"
proof -
  let ?g = "\<lambda>r. if P r then f r else r"
  have "map b_id (map ?g (builds db)) = map b_id (builds db)"
    "map (\<lambda>r. (b_project r, b_sequence r)) (map ?g (builds db)) = map (\<lambda>r. (b_project r, b_sequence r)) (builds db)"
    using f by simp_all
  moreover have "one_active (map ?g (builds db))"
    unfolding one_active_def by (rule distinct_filter_map) (use tab f in \<open>auto simp: table_ok_def one_active_def\<close>)
  moreover have "list_all build_checks (map ?g (builds db))"
    using tab f by (auto simp: table_ok_def list_all_iff)
  ultimately have "table_ok (map ?g (builds db))"
    using tab unfolding table_ok_def unique_sequence_def by metis
  then show ?thesis by (simp add: update_builds_Inr update_where_def)
qed

lemma build_inv_checks: "build_inv db \<Longrightarrow> r \<in> set (builds db) \<Longrightarrow> build_checks r"
  by (simp add: build_inv_def table_ok_def list_all_iff)

lemma open_checks:
  assumes "build_checks r" and "\<not> is_terminal r"
  shows "completed_at r = None" "cancellation_acknowledged_at r = None"
  using assms unfolding build_checks_def status_checks_def is_terminal_def TERMINAL_STATUSES_def by blast+

text \<open>The checks of a row whose admission columns are changed, or whose other columns are.\<close>

lemma release_checks: "build_checks r \<Longrightarrow> build_checks (release_admission_values now r)"
  unfolding build_checks_def status_checks_def lease_checks_def value_checks_def ready_complete_def is_terminal_def
    release_admission_values_def
  by simp

lemma admit_checks: "build_checks r \<Longrightarrow> build_checks (admit_row now lease fresh r)"
  unfolding build_checks_def status_checks_def lease_checks_def value_checks_def ready_complete_def is_terminal_def
    admit_row_def
  by simp

lemma released_checks: "value_checks r \<Longrightarrow> status_checks r \<Longrightarrow> build_checks (release_admission_values now r)"
  unfolding build_checks_def status_checks_def lease_checks_def value_checks_def ready_complete_def is_terminal_def
    release_admission_values_def
  by simp

lemma fail_row_checks:
  assumes "build_checks r" and "\<not> is_terminal r"
  shows "build_checks (fail_row wall code summary r)"
  unfolding fail_row_def
proof (rule released_checks)
  show "status_checks (r\<lparr>b_status := FAILED, b_error_code := Some (take 128 code),
       b_error_summary := Some (take 1000 summary), completed_at := Some wall\<rparr>)"
    using open_checks [OF assms] by (simp add: status_checks_def is_terminal_def TERMINAL_STATUSES_def)
qed (use assms in \<open>simp add: build_checks_def value_checks_def\<close>)

lemma cancel_checks:
  assumes "build_checks r" and "cancellation_requested_at r \<noteq> None"
  shows "build_checks (cancel_row wall r)"
  unfolding cancel_row_def
  by (rule released_checks)
    (use assms in \<open>simp_all add: build_checks_def value_checks_def status_checks_def is_terminal_def TERMINAL_STATUSES_def optional_sha_def\<close>)

lemma ready_checks:
  assumes "build_checks r" and "b_status r = PACKAGING" and "ready_complete r"
  shows "build_checks (transition_row wall PACKAGING READY r)"
proof -
  have nt: "\<not> is_terminal r" using assms(2) by (simp add: is_terminal_def TERMINAL_STATUSES_def)
  have eq: "transition_row wall PACKAGING READY r =
      release_admission_values wall (r\<lparr>b_status := READY, pipeline_stage := Some READY, completed_at := Some wall\<rparr>)"
    by (simp add: transition_row_def TERMINAL_STATUSES_def)
  show ?thesis
    unfolding eq
  proof (rule released_checks)
    show "status_checks (r\<lparr>b_status := READY, pipeline_stage := Some READY, completed_at := Some wall\<rparr>)"
      using open_checks [OF assms(1) nt] assms(3)
      by (simp add: status_checks_def is_terminal_def TERMINAL_STATUSES_def ready_complete_def)
  qed (use assms in \<open>simp add: build_checks_def value_checks_def\<close>)
qed

lemma transition_checks:
  assumes "build_checks r" and "next_status (b_status r) = Inr t" and "t \<noteq> READY"
  shows "build_checks (transition_row wall (b_status r) t r)"
proof -
  note n = next_status_phase [OF assms(2)]
  have nt: "\<not> is_terminal r" using n(3) by (simp add: is_terminal_def)
  let ?r = "r\<lparr>b_status := t, pipeline_stage := Some t, b_started_at := (if b_status r = QUEUED then Some wall else b_started_at r)\<rparr>"
  have eq: "transition_row wall (b_status r) t r = ?r" using n(4) assms(3) by (simp add: transition_row_def Let_def)
  have "value_checks ?r" using assms(1) n(1,2) by (simp add: build_checks_def value_checks_def)
  moreover have "status_checks ?r"
    using open_checks [OF assms(1) nt] n(1,2,4) assms(3) by (simp add: status_checks_def is_terminal_def)
  moreover have "lease_checks ?r = lease_checks r" by (simp add: lease_checks_def)
  ultimately show ?thesis using assms(1) by (simp add: build_checks_def eq)
qed

lemma admission_fields [simp]:
  "b_id (release_admission_values now r) = b_id r" "b_project (release_admission_values now r) = b_project r"
  "b_sequence (release_admission_values now r) = b_sequence r" "is_terminal (release_admission_values now r) = is_terminal r"
  "b_id (admit_row now lease fresh r) = b_id r" "b_project (admit_row now lease fresh r) = b_project r"
  "b_sequence (admit_row now lease fresh r) = b_sequence r" "is_terminal (admit_row now lease fresh r) = is_terminal r"
  by (simp_all add: release_admission_values_def admit_row_def is_terminal_def)

lemma claim_succeeds:
  assumes inv: "build_inv db"
  shows "\<exists>cs db'. claim_available db now locked fresh configured lease = Inr (cs, db')"
proof -
  have tab: "table_ok (builds db)" using inv by (simp add: build_inv_def)
  let ?d = "db\<lparr>builds := update_where (expired_admission now) (release_admission_values now) (builds db)\<rparr>"
  have u: "update_builds (expired_admission now) (release_admission_values now) db = Inr ?d"
    by (rule table_ok_update [OF tab])
      (use build_inv_checks [OF inv] in \<open>auto intro: release_checks\<close>)
  then have tab': "table_ok (builds ?d)" by (auto simp: update_builds_Inr)
  have "update_builds P (admit_row now lease fresh) ?d
      = Inr (?d\<lparr>builds := update_where P (admit_row now lease fresh) (builds ?d)\<rparr>)" for P
    by (rule table_ok_update [OF tab'])
      (use tab' in \<open>auto intro: admit_checks simp: table_ok_def list_all_iff\<close>)
  with u show ?thesis unfolding claim_available_def by (simp add: Let_def)
qed

end
