(* ===== verification/BuildProperties.thy ===== *)
theory BuildProperties
  imports BuildLifecycle
begin

text \<open>
  The properties of builds: refinement of the abstract life cycle, finality, cancellation,
  fencing, bounded concurrency, frozen inputs, progress of the pipeline and the agreement of the
  reported queue with the order of admission.
\<close>

definition empty_builds :: build_sys where
  "empty_builds = \<lparr>bs_db = \<lparr>builds = [], bindings = [], index_generations = []\<rparr>, bs_clock = 0, bs_issued = {}, bs_limit = 0\<rparr>"

lemma empty_builds_inv: "build_inv (bs_db empty_builds)"
  by (simp add: empty_builds_def build_inv_def table_ok_def unique_sequence_def one_active_def)

lemmas reachable_build_inv = reachable_inv [OF _ empty_builds_inv]

section \<open>A sample run\<close>

definition sample_build :: new_build where
  "sample_build = \<lparr>nb_id = 1, nb_project = 5, nb_trigger = TriggerInitial,
     nb_bindings = [\<lparr>sb_version = 8, sb_source = 2, sb_kind = ''openapi'', sb_name = ''b'', sb_origin = ''upload'', sb_url = None,
        sb_primary = False, sb_created_at = 0, sb_aliases = [], sb_trustworthy = True\<rparr>,
       \<lparr>sb_version = 7, sb_source = 1, sb_kind = ''openapi'', sb_name = ''a'', sb_origin = ''upload'', sb_url = None,
        sb_primary = True, sb_created_at = 0, sb_aliases = [], sb_trustworthy = True\<rparr>],
     nb_requested_by = 3, nb_compiler_version = ''1'', nb_compatibility = ''*'', nb_analysis_model = ''m'', nb_validation_model = ''m'',
     nb_embedding_model = None, nb_prompt_bundle = ''p'', nb_config = []\<rparr>"

definition sample_queued :: build_row where
  "sample_queued = queued_row \<lparr>builds = [], bindings = [], index_generations = []\<rparr> 0 sample_build"

definition sample_build_db :: "build_row \<Rightarrow> build_db" where
  "sample_build_db r = \<lparr>builds = [r],
     bindings = map (\<lambda>b. (1, b)) (sort_key sb_version (nb_bindings sample_build)), index_generations = []\<rparr>"

definition sample_admitted :: build_row where
  "sample_admitted = admit_row 0 60 (\<lambda>_. 100) sample_queued"

definition sample_build_sys :: build_sys where
  "sample_build_sys = \<lparr>bs_db = sample_build_db sample_admitted, bs_clock = 0, bs_issued = {100}, bs_limit = 2\<rparr>"

lemma sample_build_reachable: "build_step\<^sup>*\<^sup>* empty_builds sample_build_sys"
proof -
  let ?e = "\<lparr>builds = [], bindings = [], index_generations = []\<rparr>"
  have c1: "create_build ?e 0 sample_build = Inr (sample_queued, sample_build_db sample_queued)" by code_simp
  have c2: "claim_available (sample_build_db sample_queued) 0 (\<lambda>_. False) (\<lambda>_. 100) 2 60
      = Inr ([claim_of 0 60 (\<lambda>_. 100) sample_queued], sample_build_db sample_admitted)" by code_simp
  let ?s = "empty_builds\<lparr>bs_db := sample_build_db sample_queued\<rparr>"
  have "build_step empty_builds ?s"
    using bs_create [of empty_builds 0 sample_build sample_queued "sample_build_db sample_queued"] c1
    by (simp add: empty_builds_def goto_def)
  moreover have "build_step ?s sample_build_sys"
    using bs_claim [of ?s 0 "\<lambda>_. False" "\<lambda>_. 100" 2 60] c2
    by (simp add: empty_builds_def goto_def sample_build_sys_def claim_of_def)
  ultimately show ?thesis by simp
qed

lemma sample_get: "get_build (bs_db sample_build_sys) 1 = Some sample_admitted"
  by code_simp

section \<open>Refinement\<close>

text \<open>C20: The repository refines the abstract life cycle: whatever the interleaving, one transaction
  leaves the phase of every build as it is or takes one step of the life cycle (born queued, one
  stage forward, ready after packaging, failed, cancellation requested, cancelled).\<close>

theorem builds_refine_lifecycle:
  assumes "build_step\<^sup>*\<^sup>* empty_builds s" and "build_step s t"
  shows "phase_at t i = phase_at s i \<or> phase_step (phase_at s i) (phase_at t i)"
  using lifecycle.refines [of s t i] reachable_build_inv [OF assms(1)] assms(2) by (simp add: inv_step_def)

theorem builds_refine_lifecycle_witness:
  "\<exists>t. build_step sample_build_sys t \<and> phase_at sample_build_sys 1 = InPipeline 0 False \<and> phase_at t 1 = InPipeline 1 False
    \<and> (phase_at t 1 = phase_at sample_build_sys 1 \<or> phase_step (phase_at sample_build_sys 1) (phase_at t 1))"
proof -
  let ?r = "transition_row 9 QUEUED INGESTING sample_admitted"
  have c: "transition_build (sample_build_db sample_admitted) 1 9 1 QUEUED INGESTING 100 = Inr (?r, sample_build_db ?r)" by code_simp
  let ?t = "goto sample_build_sys 1 {} (sample_build_db ?r)"
  have st: "build_step sample_build_sys ?t"
    using bs_transition [of sample_build_sys 1 9 1 QUEUED INGESTING 100 ?r "sample_build_db ?r"] c
    by (simp add: sample_build_sys_def)
  have "phase_at sample_build_sys 1 = InPipeline 0 False" by code_simp
  moreover have "phase_of (get_build (sample_build_db ?r) 1) = InPipeline 1 False" by code_simp
  ultimately show ?thesis
    using st builds_refine_lifecycle [OF sample_build_reachable st, of 1] by (auto simp: phase_at_def)
qed

section \<open>Finality and cancellation\<close>

text \<open>A ready, failed or cancelled build is final: no later transaction of any process changes any
  column of its row.\<close>

lemma finished_build_is_final:
  assumes "build_step\<^sup>*\<^sup>* empty_builds s" and "build_step\<^sup>*\<^sup>* s t"
    and "get_build (bs_db s) i = Some r" and "is_terminal r"
  shows "get_build (bs_db t) i = Some r"
  using assms(2)
proof (induction rule: rtranclp_induct)
  case (step t u)
  have "build_inv (bs_db t)" using reachable_inv [OF step(1)] reachable_build_inv [OF assms(1)] by blast
  from step(2) this show ?case
    by (rule build_step_row [of t u i]) (use step.IH assms(4) in \<open>auto simp: row_effect_def\<close>)
qed (rule assms(3))

definition sample_failed :: build_sys where
  "sample_failed = goto sample_build_sys 1 {} (sample_build_db (fail_row 9 ''x'' ''y'' sample_admitted))"

lemma sample_failed_reachable: "build_step\<^sup>*\<^sup>* empty_builds sample_failed"
proof -
  have "fail_build (sample_build_db sample_admitted) 1 9 1 ''x'' ''y'' 100 = Inr (sample_build_db (fail_row 9 ''x'' ''y'' sample_admitted))"
    by code_simp
  then have "build_step sample_build_sys sample_failed"
    using bs_fail [of sample_build_sys 1 9 1 "''x''" "''y''" 100] by (simp add: sample_failed_def sample_build_sys_def)
  then show ?thesis using sample_build_reachable by simp
qed

text \<open>C22: A cancellation request wins: from then on the build keeps its stage until the owner
  acknowledges, it never becomes ready or failed, no manifest or artifact is attached to it, and
  once cancelled it has none.\<close>

theorem cancelled_build_publishes_nothing:
  assumes "build_step\<^sup>*\<^sup>* empty_builds s" and "build_step\<^sup>*\<^sup>* s t"
    and "get_build (bs_db s) i = Some r" and "\<not> is_terminal r" and "cancellation_requested_at r \<noteq> None"
  shows "\<exists>r'. get_build (bs_db t) i = Some r'
    \<and> (b_status r' = b_status r \<and> b_manifest_sha256 r' = b_manifest_sha256 r \<and> artifact_sha256 r' = artifact_sha256 r
       \<or> b_status r' = CANCELLED \<and> b_manifest_sha256 r' = None \<and> artifact_sha256 r' = None
         \<and> manifest_storage_key r' = None \<and> artifact_storage_key r' = None)"
proof -
  let ?kept = "\<lambda>r'. \<not> is_terminal r' \<and> cancellation_requested_at r' \<noteq> None \<and> b_status r' = b_status r
    \<and> b_manifest_sha256 r' = b_manifest_sha256 r \<and> artifact_sha256 r' = artifact_sha256 r"
  let ?gone = "\<lambda>r'. b_status r' = CANCELLED \<and> b_manifest_sha256 r' = None \<and> artifact_sha256 r' = None
         \<and> manifest_storage_key r' = None \<and> artifact_storage_key r' = None"
  have "\<exists>r'. get_build (bs_db t) i = Some r' \<and> (?kept r' \<or> ?gone r')"
    using assms(2)
  proof (induction rule: rtranclp_induct)
    case (step t u)
    then obtain x where x: "get_build (bs_db t) i = Some x" "?kept x \<or> ?gone x" by blast
    have "build_inv (bs_db t)" using reachable_inv [OF step(1)] reachable_build_inv [OF assms(1)] by blast
    from step(2) this show ?case
    proof (cases rule: build_step_row [of t u i])
      case (effect y y' F)
      then have xy: "x = y" using x(1) by simp
      have nt: "\<not> is_terminal y" using effect(3) by (simp add: row_effect_def)
      then have k: "?kept y" using x(2) xy by (auto simp: is_terminal_def TERMINAL_STATUSES_def)
      have "cancellation_requested_at y' = cancellation_requested_at y" "b_status y' = CANCELLED \<longrightarrow> ?gone y'"
        "b_status y' = CANCELLED \<or> b_status y' = b_status y \<and> b_manifest_sha256 y' = b_manifest_sha256 y \<and> artifact_sha256 y' = artifact_sha256 y"
        using effect(3) k unfolding row_effect_def by blast+
      moreover have "is_terminal y' \<longleftrightarrow> is_terminal y" if "b_status y' = b_status y" using that by (simp add: is_terminal_def)
      ultimately show ?thesis using effect(2) k nt by auto
    qed (use x in auto)
  qed (use assms(3-5) in auto)
  then show ?thesis by blast
qed

definition sample_cancelling :: build_row where
  "sample_cancelling = sample_admitted\<lparr>cancellation_requested_at := Some 5, cancellation_requested_by := Some 3\<rparr>"

theorem cancelled_build_publishes_nothing_witness:
  "\<exists>s t r r'. build_step s t \<and> get_build (bs_db s) 1 = Some r \<and> cancellation_requested_at r \<noteq> None
    \<and> get_build (bs_db t) 1 = Some r' \<and> b_status r' = CANCELLED \<and> b_manifest_sha256 r' = None"
proof -
  let ?s = "goto sample_build_sys 0 {} (sample_build_db sample_cancelling)"
  let ?t = "goto ?s 1 {} (sample_build_db (cancel_row 6 sample_cancelling))"
  have "request_cancellation (sample_build_db sample_admitted) 5 1 3 = Inr (sample_cancelling, sample_build_db sample_cancelling)"
    by code_simp
  then have s: "build_step sample_build_sys ?s"
    using bs_request [of sample_build_sys 0 5 1 3] by (simp add: sample_build_sys_def)
  have "acknowledge_cancellation (sample_build_db sample_cancelling) 1 6 1 100
      = Inr (cancel_row 6 sample_cancelling, sample_build_db (cancel_row 6 sample_cancelling))" by code_simp
  then have t: "build_step ?s ?t" using bs_acknowledge [of ?s 1 6 1 100] by simp
  have g: "get_build (bs_db ?s) 1 = Some sample_cancelling" by (simp only: goto_simps) code_simp
  have r: "\<not> is_terminal sample_cancelling" "cancellation_requested_at sample_cancelling \<noteq> None" by code_simp+
  have g': "get_build (bs_db ?t) 1 = Some (cancel_row 6 sample_cancelling)" by (simp only: goto_simps) code_simp
  have "b_status (cancel_row 6 sample_cancelling) \<noteq> b_status sample_cancelling" by code_simp
  moreover have e: "build_step\<^sup>*\<^sup>* empty_builds ?s" using sample_build_reachable s by simp
  moreover have u: "build_step\<^sup>*\<^sup>* ?s ?t" using t by (rule r_into_rtranclp)
  ultimately have "b_status (cancel_row 6 sample_cancelling) = CANCELLED \<and> b_manifest_sha256 (cancel_row 6 sample_cancelling) = None"
    using cancelled_build_publishes_nothing [OF e u g r] g' by auto
  with t g r(2) g' show ?thesis by blast
qed

section \<open>Fencing and concurrency\<close>



text \<open>C21: Admission is bounded: at no time do more builds hold a live lease than the largest concurrency
  ever configured, however many dispatchers claim, workers renew and leases expire.\<close>

theorem build_concurrency_bounded:
  assumes "build_step\<^sup>*\<^sup>* empty_builds s" and "bs_clock s \<le> now"
  shows "int (active_count now (bs_db s)) \<le> bs_limit s"
proof -
  have "int (active_count (bs_clock s) (bs_db s)) \<le> bs_limit s"
    using assms(1)
  proof (induction rule: rtranclp_induct)
    case base
    then show ?case by (simp add: empty_builds_def active_count_def)
  next
    case (step s t)
    then show ?case using step_active_count reachable_build_inv by blast
  qed
  with active_count_later [OF assms(2), of "bs_db s"] show ?thesis by linarith
qed

theorem build_concurrency_bounded_witness:
  "int (active_count 30 (bs_db sample_build_sys)) \<le> 2 \<and> active_count 30 (bs_db sample_build_sys) = 1"
proof -
  have "active_count 30 (bs_db sample_build_sys) = 1" by code_simp
  then show ?thesis
    using build_concurrency_bounded [OF sample_build_reachable, of 30] by (simp add: sample_build_sys_def)
qed

section \<open>Frozen inputs\<close>

definition bound_to :: "build_db \<Rightarrow> uuid \<Rightarrow> source_binding list" where
  "bound_to db i = map snd (filter (\<lambda>(j, _). j = i) (bindings db))"

lemma source_bindings_bound: "get_build db i \<noteq> None \<Longrightarrow> source_bindings db i = Inr (sort_key sb_version (bound_to db i))"
  by (auto simp: source_bindings_def bound_to_def)

lemma step_bound:
  assumes "build_step s t" and inv: "build_inv (bs_db s)" and i: "get_build (bs_db s) i = Some r"
  shows "bound_to (bs_db t) i = bound_to (bs_db s) i \<and> (\<exists>r'. get_build (bs_db t) i = Some r' \<and> build_config r' = build_config r)"
proof -
  have "\<exists>r'. get_build (bs_db t) i = Some r' \<and> build_config r' = build_config r"
    by (rule build_step_row [OF assms(1,2), of i]) (use i in \<open>auto simp: row_effect_def\<close>)
  moreover have "bound_to (bs_db t) i = bound_to (bs_db s) i"
  proof -
    from step_effect [OF assms(1,2)] consider
        n now where "create_build (bs_db s) now n = Inr (queued_row (bs_db s) now n, bs_db t)"
      | F where "db_effect F (bs_clock t) (bs_db s) (bs_db t)"
      unfolding sys_effect_def by blast
    then show ?thesis
    proof cases
      case 1
      note c = create_build_Inr [OF 1]
      have "distinct (map b_id (builds (bs_db s) @ [queued_row (bs_db s) now n]))" using c(2,3) by (simp add: table_ok_def)
      then have "nb_id n \<noteq> i" using get_build_Some [OF i] by (auto simp: queued_row_facts)
      then show ?thesis by (auto simp: bound_to_def c(4))
    next
      case 2
      then show ?thesis by (simp add: bound_to_def db_effect_def)
    qed
  qed
  ultimately show ?thesis by blast
qed

definition bindings_known :: "build_db \<Rightarrow> bool" where
  "bindings_known db \<longleftrightarrow> (\<forall>x\<in>set (bindings db). get_build db (fst x) \<noteq> None)"

lemma step_bindings_known:
  assumes "build_step s t" and inv: "build_inv (bs_db s)" and known: "bindings_known (bs_db s)"
  shows "bindings_known (bs_db t)"
proof -
  have keep: "get_build (bs_db t) j \<noteq> None" if "get_build (bs_db s) j \<noteq> None" for j
    by (rule build_step_row [OF assms(1,2), of j]) (use that in auto)
  from step_effect [OF assms(1,2)] consider
      n now where "create_build (bs_db s) now n = Inr (queued_row (bs_db s) now n, bs_db t)"
    | F where "db_effect F (bs_clock t) (bs_db s) (bs_db t)"
    unfolding sys_effect_def by blast
  then show ?thesis
  proof cases
    case 1
    note c = create_build_Inr [OF 1]
    have "get_build (bs_db t) (nb_id n) \<noteq> None"
      unfolding get_build_def c(2) by (auto simp: find_by_snoc queued_row_facts split: option.splits)
    then show ?thesis using known keep by (auto simp: bindings_known_def c(4))
  next
    case 2
    then show ?thesis using known keep by (auto simp: bindings_known_def db_effect_def)
  qed
qed

lemma reachable_bindings_known:
  assumes "build_step\<^sup>*\<^sup>* empty_builds s"
  shows "bindings_known (bs_db s)"
  using assms
proof (induction rule: rtranclp_induct)
  case (step s t)
  then show ?case using step_bindings_known reachable_build_inv by blast
qed (simp add: bindings_known_def empty_builds_def)

lemma sort_key_map_same: "(\<And>x. k (h x) = k x) \<Longrightarrow> sort_key k (map h xs) = map h (sort_key k xs)"
proof -
  assume k: "\<And>x. k (h x) = k x"
  have "insort_key k (h x) (map h ys) = map h (insort_key k x ys)" for x ys by (induction ys) (simp_all add: k)
  then show ?thesis by (induction xs) simp_all
qed

lemma sort_key_idem: "sort_key k (sort_key k xs) = sort_key k xs"
  by (rule sort_key_id_if_sorted) simp



section \<open>Progress of the pipeline\<close>

lemma build_owner_row:
  assumes inv: "build_inv db" and o: "require_build_execution_owner db now i tok False = Inr r"
    and f: "b_id (f r) = i" "b_project (f r) = b_project r" "b_sequence (f r) = b_sequence r" "build_checks (f r)"
    and P: "P r" "\<And>x. P x \<Longrightarrow> b_id x = i"
  shows "\<exists>db'. update_builds P f db = Inr db' \<and> get_build db' i = Some (f r) \<and> length (filter P (builds db)) = 1"
proof -
  note w = owner_Inr [OF o]
  have tab: "table_ok (builds db)" using inv by (simp add: build_inv_def)
  have only: "x = r" if "x \<in> set (builds db)" "P x" for x
    using get_build_unique [OF tab that(1)] P(2) [OF that(2)] w(1) by simp
  have m: "r \<in> set (builds db)" "b_id r = i" using get_build_Some [OF w(1)] by auto
  let ?d = "db\<lparr>builds := update_where P f (builds db)\<rparr>"
  have u: "update_builds P f db = Inr ?d"
    by (rule table_ok_update [OF tab]) (use only f m w(4) in auto)
  have "f r \<in> set (builds ?d)" using m P(1) by (auto simp: update_where_in)
  then have g: "get_build ?d i = Some (f r)" using get_build_unique [of ?d "f r"] u f(1) by (auto simp: update_builds_Inr)
  have "distinct (builds db)" using tab by (auto simp: table_ok_def distinct_map)
  moreover have "{x. P x} \<inter> set (builds db) = {r}" using only P(1) m(1) by blast
  ultimately have "length (filter P (builds db)) = 1" by (simp add: distinct_length_filter)
  with u g show ?thesis by blast
qed

lemma transition_fields:
  "b_id (transition_row wall e t r) = b_id r" "b_project (transition_row wall e t r) = b_project r"
  "b_sequence (transition_row wall e t r) = b_sequence r"
  by (simp_all add: transition_row_def release_admission_values_def Let_def)

lemma fail_fields:
  "b_id (fail_row wall code summary r) = b_id r" "b_project (fail_row wall code summary r) = b_project r"
  "b_sequence (fail_row wall code summary r) = b_sequence r"
  by (simp_all add: fail_row_def release_admission_values_def)

text \<open>C24: The owner of a build always makes progress while its lease is live and no cancellation is
  pending: the transition to the next stage succeeds in every stage before packaging, and after
  packaging whenever every result of the earlier stages is stored; and in every stage the owner can
  record a failure. No constraint of the table rejects any of these writes.\<close>

theorem pipeline_never_sticks:
  assumes "build_step\<^sup>*\<^sup>* empty_builds s" and "require_build_execution_owner (bs_db s) now i tok False = Inr r"
  shows "(\<forall>t. next_status (b_status r) = Inr t \<longrightarrow> (b_status r = PACKAGING \<longrightarrow> ready_complete r) \<longrightarrow>
      (\<exists>db. transition_build (bs_db s) now wall i (b_status r) t tok = Inr (transition_row wall (b_status r) t r, db)))
    \<and> (\<exists>t. next_status (b_status r) = Inr t)
    \<and> (\<exists>db. fail_build (bs_db s) now wall i code summary tok = Inr db \<and> get_build db i = Some (fail_row wall code summary r))"
proof -
  have inv: "build_inv (bs_db s)" by (rule reachable_build_inv [OF assms(1)])
  note w = owner_Inr [OF assms(2)]
  have id: "b_id r = i" and chk: "build_checks r"
    using get_build_Some [OF w(1)] build_inv_checks [OF inv] by auto
  have can: "cancellation_requested_at r = None" using w(5) by simp
  have "\<exists>db. transition_build (bs_db s) now wall i (b_status r) t tok = Inr (transition_row wall (b_status r) t r, db)"
    if nx: "next_status (b_status r) = Inr t" and rc: "b_status r = PACKAGING \<longrightarrow> ready_complete r" for t
  proof -
    have "build_checks (transition_row wall (b_status r) t r)"
    proof (cases "t = READY")
      case True
      then have "b_status r = PACKAGING" using nx by (cases "b_status r") (simp_all add: next_status_simps)
      with True ready_checks [OF chk] rc show ?thesis by simp
    qed (use transition_checks [OF chk nx] in blast)
    note f = transition_fields [of wall "b_status r" t r] this
    let ?P = "\<lambda>x. owned_open i tok x \<and> b_status x = b_status r"
    have "?P r" using id can w(2) by (simp add: owned_open_def)
    then obtain db where "update_builds (\<lambda>x. owned_open i tok x \<and> b_status x = b_status r) (transition_row wall (b_status r) t) (bs_db s) = Inr db"
      "get_build db i = Some (transition_row wall (b_status r) t r)"
      "length (filter (\<lambda>x. owned_open i tok x \<and> b_status x = b_status r) (builds (bs_db s))) = 1"
      using build_owner_row [OF inv assms(2), of "transition_row wall (b_status r) t" ?P] f id unfolding owned_open_def by blast
    then show ?thesis using assms(2) nx by (simp add: transition_build_def Let_def)
  qed
  moreover have "\<exists>t. next_status (b_status r) = Inr t"
    using w(4) by (cases "b_status r") (simp_all add: next_status_simps is_terminal_def TERMINAL_STATUSES_def)
  moreover have "\<exists>db. fail_build (bs_db s) now wall i code summary tok = Inr db \<and> get_build db i = Some (fail_row wall code summary r)"
  proof -
    let ?P = "\<lambda>x. owned_open i tok x \<and> \<not> is_terminal x"
    note f = fail_fields [of wall code summary r] fail_row_checks [OF chk w(4), of wall code summary]
    have "?P r" using id can w(2,4) by (simp add: owned_open_def)
    then obtain db where "update_builds (\<lambda>x. owned_open i tok x \<and> \<not> is_terminal x) (fail_row wall code summary) (bs_db s) = Inr db"
      "get_build db i = Some (fail_row wall code summary r)"
      using build_owner_row [OF inv assms(2), of "fail_row wall code summary" ?P] f id unfolding owned_open_def by blast
    then show ?thesis using assms(2) by (simp add: fail_build_def)
  qed
  ultimately show ?thesis by blast
qed

theorem pipeline_never_sticks_witness:
  "\<exists>db. transition_build (bs_db sample_build_sys) 1 9 1 QUEUED INGESTING 100 = Inr (transition_row 9 QUEUED INGESTING sample_admitted, db)"
proof -
  have o: "require_build_execution_owner (bs_db sample_build_sys) 1 1 100 False = Inr sample_admitted" by code_simp
  have "b_status sample_admitted = QUEUED" by code_simp
  then show ?thesis
    using pipeline_never_sticks [OF sample_build_reachable o, of 9] by (simp add: next_status_simps)
qed

text \<open>C27: The life of a build is finite: every change of its phase uses up part of a budget of 18, so no
  interleaving changes the phase of a build more often than that.\<close>

theorem build_life_is_finite:
  assumes "build_step\<^sup>*\<^sup>* empty_builds s" and "build_step s t" and "phase_at t i \<noteq> phase_at s i"
  shows "phase_budget (phase_at t i) < phase_budget (phase_at s i) \<and> phase_budget (phase_at s i) \<le> 18"
proof -
  have ps: "phase_step (phase_at s i) (phase_at t i)"
    using lifecycle.refines [of s t i] reachable_build_inv [OF assms(1)] assms(2,3) by (simp add: inv_step_def)
  have n: "n < 8" if "phase_at s i = InPipeline n c" for n c
  proof -
    from that obtain r where "n = stage_index (b_status r)" "\<not> is_terminal r"
      by (cases "get_build (bs_db s) i") (auto simp: phase_at_def split: if_splits)
    then show ?thesis by (cases "b_status r") (simp_all add: is_terminal_def TERMINAL_STATUSES_def)
  qed
  have "phase_budget (phase_at s i) \<le> 18" by (cases "phase_at s i") auto
  with phase_step_budget [OF ps] n show ?thesis by blast
qed

theorem build_life_is_finite_witness:
  "phase_budget (phase_at sample_failed 1) < phase_budget (phase_at sample_build_sys 1)"
proof -
  have "fail_build (sample_build_db sample_admitted) 1 9 1 ''x'' ''y'' 100 = Inr (sample_build_db (fail_row 9 ''x'' ''y'' sample_admitted))"
    by code_simp
  then have st: "build_step sample_build_sys sample_failed"
    using bs_fail [of sample_build_sys 1 9 1 "''x''" "''y''" 100] by (simp add: sample_failed_def sample_build_sys_def)
  have "phase_at sample_failed 1 \<noteq> phase_at sample_build_sys 1" by code_simp
  from build_life_is_finite [OF sample_build_reachable st this] show ?thesis by blast
qed

section \<open>The reported queue\<close>

lemma sort_key_order:
  assumes "\<And>x y. x \<in> set xs \<Longrightarrow> y \<in> set xs \<Longrightarrow> f x \<le> f y \<longleftrightarrow> g x \<le> g y"
  shows "sort_key f xs = sort_key g xs"
  using assms
proof (induction xs)
  case (Cons a xs)
  have "insort_key f a ys = insort_key g a ys" if "set ys \<subseteq> set (a # xs)" for ys
    using that Cons.prems by (induction ys) auto
  from this [of "sort_key g xs"] have "insort_key f a (sort_key g xs) = insort_key g a (sort_key g xs)" by auto
  then show ?case using Cons by simp
qed simp

lemma priority_order:
  assumes "cancellation_requested_at x = None" and "cancellation_requested_at y = None"
  shows "claim_priority x \<le> claim_priority y \<longleftrightarrow> waiting_priority x \<le> waiting_priority y"
  using assms by (simp add: claim_priority_def waiting_priority_def)

lemma released_holding: "build_inv db \<Longrightarrow> r \<in> set (builds db) \<Longrightarrow> expired_admission now r \<Longrightarrow> \<not> holding now r"
  by (auto simp: expired_admission_def holding_def live_lease_def split: option.splits)

definition released :: "time \<Rightarrow> build_row \<Rightarrow> build_row" where
  "released now r = (if expired_admission now r then release_admission_values now r else r)"

lemma released_fields [simp]:
  "b_id (released now r) = b_id r" "is_terminal (released now r) = is_terminal r"
  "waiting_priority (released now r) = waiting_priority r" "cancellation_requested_at (released now r) = cancellation_requested_at r"
  "holding now (released now r) = holding now r"
  by (auto simp: released_def release_admission_values_def is_terminal_def waiting_priority_def holding_def live_lease_def
      expired_admission_def split: option.splits)

lemma released_waiting:
  assumes "build_checks r"
  shows "\<not> is_terminal (released now r) \<and> admission_token (released now r) = None \<longleftrightarrow>
    \<not> is_terminal r \<and> (admission_token r = None \<or> (case admission_lease_expires_at r of None \<Rightarrow> False | Some t \<Rightarrow> t \<le> now))"
proof -
  have "admission_token r = None \<longleftrightarrow> admission_lease_expires_at r = None"
    using assms unfolding build_checks_def lease_checks_def by blast
  then show ?thesis
    by (cases "admission_lease_expires_at r") (auto simp: released_def expired_admission_def release_admission_values_def is_terminal_def)
qed

lemma released_builds:
  assumes "update_builds (expired_admission now) (release_admission_values now) db = Inr d"
  shows "builds d = map (released now) (builds db)" "active_count now d = active_count now db"
proof -
  show b: "builds d = map (released now) (builds db)"
    using assms unfolding update_builds_Inr update_where_def released_def by auto
  show "active_count now d = active_count now db" by (simp add: active_count_def b filter_map comp_def)
qed

text \<open>C25: The queue the administrator sees is the order of admission: when no row is locked and no waiting
  build has a pending cancellation, the next claim admits exactly the first waiting builds of the
  overview, in its order, as many as the configured concurrency leaves free.\<close>

theorem overview_predicts_admission:
  assumes inv: "build_inv db" and free: "\<forall>r\<in>set (waiting_builds db now). cancellation_requested_at r = None"
    and n: "n = nat (configured - int (ao_effective (admission_overview_of db now configured limit)))" and "n \<le> limit"
  shows "\<exists>cs db'. claim_available db now (\<lambda>_. False) fresh configured lease = Inr (cs, db')
    \<and> map cl_build cs = map qa_build (take n (filter (\<lambda>e. qa_state e = AdmissionWaiting)
        (ao_entries (admission_overview_of db now configured limit))))"
proof -
  obtain cs db' where c: "claim_available db now (\<lambda>_. False) fresh configured lease = Inr (cs, db')"
    using claim_succeeds [OF inv] by blast
  let ?W = "\<lambda>r. \<not> is_terminal r \<and> (admission_token r = None \<or> (case admission_lease_expires_at r of None \<Rightarrow> False | Some t \<Rightarrow> t \<le> now))"
  have rel: "builds d = map (released now) (builds db)" and cnt: "active_count now d = active_count now db"
    if "update_builds (expired_admission now) (release_admission_values now) db = Inr d" for d
    using that released_builds by blast+
  have eff: "ao_effective (admission_overview_of db now configured limit) = active_count now db"
    by (simp add: admission_overview_of_def Let_def active_count_def)
  have cand: "map b_id (claim_candidates d (\<lambda>_. False) k) = map b_id (take k (waiting_builds db now))"
    if "builds d = map (released now) (builds db)" for d k
  proof -
    have "filter (\<lambda>r. \<not> is_terminal r \<and> admission_token r = None) (builds d) = map (released now) (filter ?W (builds db))"
      unfolding that filter_map comp_def
      by (rule arg_cong [where f = "map (released now)"], rule filter_cong) (use released_waiting build_inv_checks [OF inv] in auto)
    then have "claim_candidates d (\<lambda>_. False) k = take k (sort_key claim_priority (map (released now) (filter ?W (builds db))))"
      by (simp add: claim_candidates_def)
    also have "sort_key claim_priority (map (released now) (filter ?W (builds db)))
        = sort_key waiting_priority (map (released now) (filter ?W (builds db)))"
      by (rule sort_key_order, rule priority_order) (use free in \<open>auto simp: waiting_builds_def\<close>)
    also have "\<dots> = map (released now) (waiting_builds db now)"
      by (simp add: sort_key_map_same waiting_builds_def)
    finally show ?thesis by (simp add: take_map comp_def)
  qed
  have shown: "filter (\<lambda>e. qa_state e = AdmissionWaiting) (ao_entries (admission_overview_of db now configured limit))
      = map2 waiting_entry [1..<Suc (length (take limit (waiting_builds db now)))] (take limit (waiting_builds db now))"
    by (auto simp: admission_overview_of_def Let_def filter_empty_conv active_entry_def filter_id_conv waiting_entry_def)
  have "map qa_build (map2 waiting_entry xs ys) = map b_id ys" if "length xs = length ys" for xs ys
    using that by (induction xs ys rule: list_induct2) (simp_all add: waiting_entry_def)
  then have "map qa_build (map2 waiting_entry [1..<Suc (length ys)] ys) = map b_id ys" for ys
    by (metis One_nat_def diff_Suc_1 length_upt)
  then have "take n (map qa_build (filter (\<lambda>e. qa_state e = AdmissionWaiting) (ao_entries (admission_overview_of db now configured limit))))
      = take n (map b_id (take limit (waiting_builds db now)))"
    unfolding shown by metis
  then have ids: "map qa_build (take n (filter (\<lambda>e. qa_state e = AdmissionWaiting) (ao_entries (admission_overview_of db now configured limit))))
      = map b_id (take n (waiting_builds db now))"
    using assms(4) by (simp add: take_map min_absorb1)
  from c have "map cl_build cs = map b_id (take n (waiting_builds db now))"
  proof (cases rule: claim_available_Inr)
    case idle
    then show ?thesis using cnt [OF idle(1)] n eff by simp
  next
    case (admit d k)
    then show ?thesis using cnt [OF admit(1)] n eff cand [OF rel [OF admit(1)]] by (simp add: claim_of_def comp_def)
  qed
  with c ids show ?thesis by auto
qed

theorem overview_predicts_admission_witness:
  "\<exists>cs db'. claim_available (sample_build_db sample_queued) 0 (\<lambda>_. False) (\<lambda>_. 100) 2 60 = Inr (cs, db') \<and> map cl_build cs = [1]"
proof -
  have reach: "build_step\<^sup>*\<^sup>* empty_builds (goto empty_builds 0 {} (sample_build_db sample_queued))"
  proof (rule r_into_rtranclp, rule bs_create)
    show "create_build (bs_db empty_builds) 0 sample_build = Inr (sample_queued, sample_build_db sample_queued)" by code_simp
  qed (simp add: empty_builds_def)
  have inv: "build_inv (sample_build_db sample_queued)" using reachable_build_inv [OF reach] by simp
  have "\<forall>r\<in>set (waiting_builds (sample_build_db sample_queued) 0). cancellation_requested_at r = None" by code_simp
  moreover have "nat (2 - int (ao_effective (admission_overview_of (sample_build_db sample_queued) 0 2 10))) = 2" by code_simp
  moreover have "map qa_build (take 2 (filter (\<lambda>e. qa_state e = AdmissionWaiting)
      (ao_entries (admission_overview_of (sample_build_db sample_queued) 0 2 10)))) = [1]" by code_simp
  ultimately show ?thesis
    using overview_predicts_admission [OF inv, of 0 2 2 10 "\<lambda>_. 100" 60] by simp
qed

end
