(* ===== verification/Canonical.thy ===== *)
theory Canonical
  imports Manifest PathTemplate Table
begin

text \<open>
  The canonical model of an API (\<^verbatim>\<open>mcp_contracts/canonical.py\<close>) with its validators, and the
  canonical text of a JSON value (\<^verbatim>\<open>backend/app/core/canonical_json.py\<close>). The bounds on lengths
  that Pydantic checks are part of the constructors; URLs are texts.
\<close>

section \<open>Data\<close>

datatype parameter_location = PathLoc | QueryLoc | HeaderLoc | CookieLoc

fun location_value :: "parameter_location \<Rightarrow> pystr" where
  "location_value PathLoc = ''path''"
| "location_value QueryLoc = ''query''"
| "location_value HeaderLoc = ''header''"
| "location_value CookieLoc = ''cookie''"

datatype scheme_type =
    HttpBearer | HttpBasic | ApiKeyScheme | OAuth2Client | StaticHeadersScheme | UnsupportedScheme

record source_ref =
  ref_version :: uuid
  ref_pointer :: pystr

record canonical_server =
  cs_key :: pystr
  cs_url :: pystr
  cs_description :: "pystr option"
  cs_ref :: source_ref

record canonical_scheme =
  sc_type :: scheme_type
  sc_scheme :: "pystr option"
  sc_location :: "pystr option"
  sc_name :: "pystr option"
  sc_token_url :: "pystr option"
  sc_scopes :: "pystr list"
  sc_ref :: source_ref

record canonical_schema =
  csch_key :: pystr
  csch_schema :: json_object
  csch_ref :: source_ref

record canonical_parameter =
  cp_name :: pystr
  cp_location :: parameter_location
  cp_required :: bool
  cp_schema :: json_object
  cp_description :: "pystr option"
  cp_style :: "pystr option"
  cp_explode :: "bool option"
  cp_allow_reserved :: bool
  cp_ref :: source_ref

record canonical_media =
  cm_type :: pystr
  cm_schema :: json_object
  cm_examples :: "json list"
  cm_ref :: source_ref

record canonical_body =
  cb_required :: bool
  cb_description :: "pystr option"
  cb_content :: "canonical_media list"
  cb_ref :: source_ref

record canonical_response =
  cr_status :: pystr
  cr_description :: "pystr option"
  cr_content :: "canonical_media list"
  cr_ref :: source_ref

record security_requirement =
  scheme_scopes :: "(pystr \<times> pystr list) list"
  sr_ref :: source_ref

record semantic_metadata =
  sem_title :: "pystr option"
  sem_description :: "pystr option"
  sem_category :: "pystr option"
  sem_keywords :: "pystr list"
  sem_chunks :: "pystr list"
  sem_hints :: "pystr list"

record canonical_operation =
  op_key :: pystr
  op_source_id :: "pystr option"
  tool_name_seed :: pystr
  op_method :: http_method
  path_template :: pystr
  op_server :: "pystr option"
  server_candidates :: "pystr list"
  op_summary :: "pystr option"
  op_description :: "pystr option"
  op_parameters :: "canonical_parameter list"
  op_body :: "canonical_body option"
  op_responses :: "canonical_response list"
  op_security :: "security_requirement list"
  op_tags :: "pystr list"
  op_semantic :: semantic_metadata
  op_ref :: source_ref

record documentation_ref =
  doc_version :: uuid
  doc_sha256 :: pystr
  doc_title :: "pystr option"

record canonical_api =
  api_project :: uuid
  api_title :: pystr
  api_servers :: "canonical_server list"
  active_server :: "pystr option"
  security_schemes :: "(pystr \<times> canonical_scheme) list"
  api_schemas :: "(pystr \<times> canonical_schema) list"
  operations :: "canonical_operation list"
  documentation_refs :: "documentation_ref list"
  source_versions :: "uuid list"
  source_fingerprint :: pystr

section \<open>Validators\<close>

definition validate_shape :: "canonical_scheme \<Rightarrow> value_error + canonical_scheme" where
  "validate_shape s =
     (if sc_type s = ApiKeyScheme \<and> (\<not> truthy (sc_location s) \<or> \<not> truthy (sc_name s))
      then Inl (ValueError ''API-key security schemes require location and name'')
      else if sc_type s = OAuth2Client \<and> sc_token_url s = None
      then Inl (ValueError ''OAuth client-credentials schemes require token_url'')
      else Inr s)"

definition make_parameter :: "canonical_parameter \<Rightarrow> value_error + canonical_parameter" where
  "make_parameter p =
     (if cp_name p = [] then Inl (ValueError ''name'')
      else if cp_location p = PathLoc \<and> \<not> cp_required p then Inl (ValueError ''path parameters must be required'')
      else Inr p)"

definition restore_legacy_server_candidates :: "json \<Rightarrow> value_error + json" where
  "restore_legacy_server_candidates value =
     (case value of
        JObj operation \<Rightarrow>
          if dget operation ''server_candidates'' \<noteq> None then Inr value
          else (case dget operation ''server_ref'' of
              Some (JStr s) \<Rightarrow> if s = [] then Inl (ValueError ''legacy canonical operations without server_candidates require server_ref'')
                else Inr (JObj (dset ''server_candidates'' (JArr [JStr s]) operation))
            | _ \<Rightarrow> Inl (ValueError ''legacy canonical operations without server_candidates require server_ref''))
      | _ \<Rightarrow> Inr value)"

definition path_names :: "canonical_operation \<Rightarrow> pystr list" where
  "path_names op = map cp_name (filter (\<lambda>p. cp_location p = PathLoc) (op_parameters op))"

definition validate_path_parameters :: "canonical_operation \<Rightarrow> value_error + canonical_operation" where
  "validate_path_parameters op =
     rbind (path_parameter_names (path_template op)) (\<lambda>placeholders.
       if set placeholders \<noteq> set (path_names op) then Inl (ValueError ''path parameter mismatch'') else Inr op)"

definition make_operation :: "canonical_operation \<Rightarrow> value_error + canonical_operation" where
  "make_operation op =
     (if op_key op = [] \<or> 160 < length (op_key op) then Inl (ValueError ''key'')
      else if tool_name_seed op = [] \<or> 128 < length (tool_name_seed op) then Inl (ValueError ''tool_name_seed'')
      else if \<not> startswith (path_template op) ''/'' then Inl (ValueError ''path_template'')
      else if server_candidates op = [] then Inl (ValueError ''server_candidates'')
      else rbind (rmap make_parameter (op_parameters op)) (\<lambda>_. validate_path_parameters op))"

definition check_operation_refs :: "pystr list \<Rightarrow> pystr list \<Rightarrow> canonical_operation \<Rightarrow> value_error + unit" where
  "check_operation_refs server_keys scheme_names op =
     (if \<not> set (server_candidates op) \<subseteq> set server_keys then Inl (ValueError ''operation has unknown server candidates'')
      else case op_server op of
        Some ref \<Rightarrow>
          if ref \<notin> set server_keys then Inl (ValueError ''operation references an unknown server'')
          else if ref \<notin> set (server_candidates op) then Inl (ValueError ''operation selected a server outside its candidate set'')
          else riter (\<lambda>r. if \<not> set (dkeys (scheme_scopes r)) \<subseteq> set scheme_names
             then Inl (ValueError ''operation references unknown security schemes'') else Inr ()) (op_security op)
      | None \<Rightarrow> riter (\<lambda>r. if \<not> set (dkeys (scheme_scopes r)) \<subseteq> set scheme_names
             then Inl (ValueError ''operation references unknown security schemes'') else Inr ()) (op_security op))"

definition validate_references_and_uniqueness :: "canonical_api \<Rightarrow> value_error + canonical_api" where
  "validate_references_and_uniqueness api =
     (let server_keys = map cs_key (api_servers api) in
      if \<not> distinct server_keys then Inl (ValueError ''canonical server keys must be unique'')
      else if (case active_server api of None \<Rightarrow> False | Some r \<Rightarrow> r \<notin> set server_keys)
      then Inl (ValueError ''active_server_ref references an unknown server'')
      else if \<not> distinct (map op_key (operations api)) then Inl (ValueError ''canonical operation keys must be unique'')
      else rbind (riter (check_operation_refs server_keys (dkeys (security_schemes api))) (operations api)) (\<lambda>_. Inr api))"

definition make_api :: "canonical_api \<Rightarrow> value_error + canonical_api" where
  "make_api api =
     (if api_servers api = [] \<or> operations api = [] \<or> source_versions api = [] then Inl (ValueError ''min_length'')
      else rbind (rmap validate_shape (map snd (security_schemes api))) (\<lambda>_.
           rbind (rmap make_operation (operations api)) (\<lambda>_. validate_references_and_uniqueness api)))"

section \<open>Canonical text\<close>

text \<open>\<^verbatim>\<open>json.dumps(value, ensure_ascii=False, sort_keys=True, separators=(",", ":"))\<close>\<close>

function canonical_text :: "json \<Rightarrow> pystr" where
  "canonical_text j = (case j of
      JNull \<Rightarrow> ''null''
    | JBool b \<Rightarrow> (if b then ''true'' else ''false'')
    | JInt i \<Rightarrow> str_int i
    | JFloat q t \<Rightarrow> t
    | JStr s \<Rightarrow> json_string s
    | JArr vs \<Rightarrow> ''['' @ join '','' (map canonical_text vs) @ '']''
    | JObj kvs \<Rightarrow> ''{'' @ join '','' (map (\<lambda>(k, t). json_string k @ '':'' @ t)
        (sort_key fst (map (\<lambda>(k, v). (k, canonical_text v)) kvs))) @ ''}'')"
  by pat_completeness auto
termination
  by (relation "measure size") (auto intro: size_json_elem size_json_member)

declare canonical_text.simps [simp del]

definition canonical_sha256 :: "(pystr \<Rightarrow> pystr) \<Rightarrow> json \<Rightarrow> pystr" where
  "canonical_sha256 sha value = sha (canonical_text value)"

lemma canonical_text_simps [simp]:
  "canonical_text JNull = ''null''" "canonical_text (JStr s) = json_string s"
  "canonical_text (JArr vs) = ''['' @ join '','' (map canonical_text vs) @ '']''"
  "canonical_text (JObj kvs) = ''{'' @ join '','' (map (\<lambda>(k, t). json_string k @ '':'' @ t)
     (sort_key fst (map (\<lambda>(k, v). (k, canonical_text v)) kvs))) @ ''}''"
  by (simp_all add: canonical_text.simps)

lemma make_api_Inr:
  assumes "make_api api = Inr a"
  shows "a = api" "distinct (map cs_key (api_servers api))" "distinct (map op_key (operations api))"
    "\<forall>op\<in>set (operations api). make_operation op = Inr op" "api_servers api \<noteq> []" "source_versions api \<noteq> []"
    "\<forall>op\<in>set (operations api). \<forall>ref. op_server op = Some ref \<longrightarrow> ref \<in> cs_key ` set (api_servers api)"
proof -
  from assms have v: "validate_references_and_uniqueness api = Inr a" "\<exists>ops. rmap make_operation (operations api) = Inr ops"
    and "api_servers api \<noteq> []" "source_versions api \<noteq> []"
    by (auto simp: make_api_def result_simps split: if_splits)
  then show "api_servers api \<noteq> []" "source_versions api \<noteq> []" by blast+
  from v(1) show "a = api" "distinct (map cs_key (api_servers api))" "distinct (map op_key (operations api))"
    by (auto simp: validate_references_and_uniqueness_def Let_def result_simps split: if_splits)
  have id: "make_operation op = Inr x \<Longrightarrow> x = op" for op x
    by (auto simp: make_operation_def validate_path_parameters_def result_simps split: if_splits)
  show "\<forall>op\<in>set (operations api). make_operation op = Inr op"
    using v(2) id rmap_set' [of make_operation "operations api"] by metis
  show "\<forall>op\<in>set (operations api). \<forall>ref. op_server op = Some ref \<longrightarrow> ref \<in> cs_key ` set (api_servers api)"
    using v(1) by (auto simp: validate_references_and_uniqueness_def Let_def result_simps check_operation_refs_def split: if_splits)
qed

lemma make_operation_Inr:
  assumes "make_operation op = Inr x"
  shows "startswith (path_template op) ''/''" "\<exists>names. path_parameter_names (path_template op) = Inr names \<and> set names = set (path_names op)"
    "\<forall>p\<in>set (op_parameters op). cp_location p = PathLoc \<longrightarrow> cp_required p"
proof -
  from assms show "startswith (path_template op) ''/''" "\<exists>names. path_parameter_names (path_template op) = Inr names \<and> set names = set (path_names op)"
    by (auto simp: make_operation_def validate_path_parameters_def result_simps split: if_splits)
  from assms obtain ps where "rmap make_parameter (op_parameters op) = Inr ps"
    by (auto simp: make_operation_def result_simps split: if_splits)
  then show "\<forall>p\<in>set (op_parameters op). cp_location p = PathLoc \<longrightarrow> cp_required p"
    using rmap_set' [of make_parameter "op_parameters op" ps] by (fastforce simp: make_parameter_def split: if_splits)
qed

end
