(* ===== verification/Compiler.thy ===== *)
theory Compiler
  imports Canonical ManifestContract UrlPolicy Deployments
begin

text \<open>
  The manifest compiler (\<^verbatim>\<open>backend/app/compilers/mcp/compiler.py\<close>): from the canonical model of
  an API and the frozen security selections of a build to the manifest a runtime executes. The
  SHA-256 hex digest, the IDNA encoder, the bracketed-host check of \<^verbatim>\<open>urlsplit\<close>, Pydantic's URL
  normalisation and its JSON dumps are parameters, collected in \<open>compile_env\<close>.
\<close>

record compile_env =
  ce_sha :: "pystr \<Rightarrow> pystr"
  ce_enc :: "pystr \<Rightarrow> value_error + pystr"
  ce_brk :: "pystr \<Rightarrow> bool"
  ce_url :: "pystr \<Rightarrow> value_error + pystr"
  dump_api :: "canonical_api \<Rightarrow> json"
  dump_server :: "server_definition \<Rightarrow> json"
  dump_profile :: "auth_profile \<Rightarrow> json"
  dump_tool :: "mcp_tool \<Rightarrow> json"
  dump_resource :: "mcp_resource \<Rightarrow> json"
  dump_security :: "runtime_security \<Rightarrow> json"
  dump_build :: "build_metadata \<Rightarrow> json"

record security_selection =
  sel_scheme :: pystr
  sel_credential :: pystr
  sel_scopes :: "pystr list"
  sel_method :: token_auth_method

section \<open>Errors\<close>

definition supported_media_types :: "pystr list" where
  "supported_media_types = [''application/json'', ''application/x-www-form-urlencoded'', ''multipart/form-data'']"

definition compiler_forbidden_headers :: "pystr list" where
  "compiler_forbidden_headers = [''authorization'', ''connection'', ''content-length'', ''cookie'', ''host'',
     ''keep-alive'', ''proxy-authenticate'', ''proxy-authorization'', ''set-cookie'', ''te'', ''trailer'',
     ''transfer-encoding'', ''upgrade'']"

definition compile_error :: "canonical_operation \<Rightarrow> pystr \<Rightarrow> backend_error" where
  "compile_error op message =
     Raised CompilationError (method_value (op_method op) @ '' '' @ path_template op @ '': '' @ message)"

text \<open>A model that Pydantic rejects raises its own exception class, which no compiler code catches.\<close>

fun pydantic :: "value_error + 'a \<Rightarrow> backend_error + 'a" where
  "pydantic (Inr x) = Inr x"
| "pydantic (Inl _) = Inl (Unexpected ''ValidationError'')"

lemma pydantic_Inr [result_simps]: "pydantic r = Inr x \<longleftrightarrow> r = Inr x"
  by (cases r) auto

section \<open>Authentication profiles\<close>

fun method_text :: "token_auth_method \<Rightarrow> pystr" where
  "method_text ClientSecretBasic = ''client_secret_basic''"
| "method_text ClientSecretPost = ''client_secret_post''"

definition profile_identity :: "pystr \<Rightarrow> security_selection \<Rightarrow> json" where
  "profile_identity name sel = JObj [(''scheme'', JStr name), (''credential_ref'', JStr (sel_credential sel)),
     (''scopes'', JArr (map JStr (sel_scopes sel))), (''token_auth_method'', JStr (method_text (sel_method sel)))]"

definition blank_profile :: "pystr \<Rightarrow> auth_type \<Rightarrow> security_selection \<Rightarrow> auth_profile" where
  "blank_profile pid ty sel = \<lparr>ap_id = pid, ap_type = ty, credential_ref = Some (sel_credential sel),
     token_url = None, ap_scopes = [], token_method = ClientSecretBasic, key_loc = None, ap_name = None, ap_prefix = None\<rparr>"

definition compile_profile :: "compile_env \<Rightarrow> pystr \<Rightarrow> canonical_scheme \<Rightarrow> security_selection \<Rightarrow> backend_error + auth_profile" where
  "compile_profile env name s sel =
     (let pid = ''auth_'' @ take 16 (ce_sha env (canonical_text (profile_identity name sel))) in
      case sc_type s of
        HttpBearer \<Rightarrow> pydantic (validate_auth_fields (blank_profile pid Bearer sel))
      | HttpBasic \<Rightarrow> pydantic (validate_auth_fields (blank_profile pid Basic sel))
      | ApiKeyScheme \<Rightarrow>
          if sc_location s \<notin> {Some ''header'', Some ''query''} \<or> \<not> truthy (sc_name s)
          then Inl (Raised CompilationError ''Security scheme is not executable'')
          else pydantic (validate_auth_fields ((blank_profile pid ApiKey sel)
            \<lparr>key_loc := Some (if sc_location s = Some ''header'' then InHeader else InQuery), ap_name := sc_name s\<rparr>))
      | OAuth2Client \<Rightarrow>
          (case sc_token_url s of
             None \<Rightarrow> Inl (Raised CompilationError ''Security scheme has no token URL'')
           | Some u \<Rightarrow> pydantic (validate_auth_fields ((blank_profile pid OAuth2ClientCredentials sel)
               \<lparr>token_url := Some u, ap_scopes := sel_scopes sel, token_method := sel_method sel\<rparr>)))
      | StaticHeadersScheme \<Rightarrow>
          if \<not> truthy (sc_name s) then Inl (Raised CompilationError ''Security scheme has no header name'')
          else pydantic (validate_auth_fields ((blank_profile pid StaticHeader sel)\<lparr>ap_name := sc_name s\<rparr>))
      | UnsupportedScheme \<Rightarrow> Inl (Raised CompilationError ''Security scheme is unsupported''))"

definition anonymous_allowed :: "canonical_operation \<Rightarrow> bool" where
  "anonymous_allowed op \<longleftrightarrow> op_security op = [] \<or> list_ex (\<lambda>r. scheme_scopes r = []) (op_security op)"

definition matching_requirements :: "canonical_operation \<Rightarrow> pystr \<Rightarrow> security_requirement list" where
  "matching_requirements op name =
     filter (\<lambda>r. length (scheme_scopes r) = 1 \<and> name \<in> set (dkeys (scheme_scopes r))) (op_security op)"

type_synonym profile_state = "(pystr \<times> auth_profile) list \<times> (pystr \<times> pystr) list"

definition add_profile ::
  "compile_env \<Rightarrow> canonical_api \<Rightarrow> (pystr \<times> security_selection) list \<Rightarrow> profile_state \<Rightarrow> canonical_operation \<Rightarrow>
   backend_error + profile_state" where
  "add_profile env api selections st op =
     (let (profiles_by_id, profile_refs) = st in
      case dget selections (op_key op) of
        None \<Rightarrow> if anonymous_allowed op then Inr st
                else Inl (compile_error op ''security alternative is unresolved'')
      | Some sel \<Rightarrow>
          if anonymous_allowed op then Inl (compile_error op ''anonymous operation has an unnecessary credential'')
          else (case matching_requirements op (sel_scheme sel) of
            [] \<Rightarrow> Inl (compile_error op ''security selection is not a declared alternative'')
          | r # _ \<Rightarrow>
            let required_scopes = the (dget (scheme_scopes r) (sel_scheme sel)) in
            if required_scopes \<noteq> [] \<and> sort (remdups required_scopes) \<noteq> sel_scopes sel
            then Inl (compile_error op ''OAuth security selection changed required scopes'')
            else (case dget (security_schemes api) (sel_scheme sel) of
                None \<Rightarrow> Inl (Raised CompilationError ''Security scheme is not defined'')
              | Some s \<Rightarrow> rbind (compile_profile env (sel_scheme sel) s sel) (\<lambda>p.
                  Inr (if ap_id p \<in> set (dkeys profiles_by_id) then profiles_by_id else profiles_by_id @ [(ap_id p, p)],
                       dset (op_key op) (ap_id p) profile_refs)))))"

definition auth_profiles_of ::
  "compile_env \<Rightarrow> canonical_api \<Rightarrow> (pystr \<times> security_selection) list \<Rightarrow> canonical_operation list \<Rightarrow>
   backend_error + (auth_profile list \<times> (pystr \<times> pystr) list)" where
  "auth_profiles_of env api selections ops =
     rbind (rfold (add_profile env api selections) ([], []) (sort_key op_key ops)) (\<lambda>(by_id, refs).
       Inr (map (\<lambda>k. the (dget by_id k)) (sort (dkeys by_id)), refs))"

section \<open>Input fields\<close>

definition suffixed :: "pystr \<Rightarrow> nat \<Rightarrow> pystr" where
  "suffixed base n = base @ ''_'' @ digits_nat n"

lemma suffixed_inj: "suffixed base m = suffixed base n \<longleftrightarrow> m = n"
  using digits_nat_facts by (metis same_append_eq suffixed_def)

lemma suffixed_finite: "finite {j. k \<le> j \<and> suffixed base j \<in> set used}"
proof -
  have "{j. k \<le> j \<and> suffixed base j \<in> set used} \<subseteq> suffixed base -` set used" by auto
  moreover have "finite (suffixed base -` set used)"
    by (rule finite_vimageI) (auto simp: inj_def suffixed_inj)
  ultimately show ?thesis by (rule finite_subset)
qed

text \<open>The loop that counts the suffix up to the first free name.\<close>

function next_free :: "pystr \<Rightarrow> nat \<Rightarrow> pystr list \<Rightarrow> pystr" where
  "next_free base suffix used =
     (if suffixed base suffix \<in> set used then next_free base (suffix + 1) used else suffixed base suffix)"
  by pat_completeness auto
termination
proof (relation "measure (\<lambda>(base, k, used). card {j. k \<le> j \<and> suffixed base j \<in> set used})", goal_cases)
  case (2 base k used)
  let ?taken = "\<lambda>k. {j. k \<le> j \<and> suffixed base j \<in> set used}"
  have "k \<in> ?taken k" "k \<notin> ?taken (k + 1)" "?taken (k + 1) \<subseteq> ?taken k" using 2 by auto
  then have "?taken (k + 1) \<subset> ?taken k" by blast
  then show ?case using psubset_card_mono [OF suffixed_finite] by simp
qed simp

declare next_free.simps [simp del]

definition unique_field_name :: "pystr \<Rightarrow> parameter_location \<Rightarrow> pystr list \<Rightarrow> pystr" where
  "unique_field_name name loc used =
     (let candidate = (if name \<in> set used then location_value loc @ ''_'' @ name else name) in
      if candidate \<in> set used then next_free candidate 2 used else candidate)"

definition is_binary_part :: "json \<Rightarrow> bool" where
  "is_binary_part raw \<longleftrightarrow> is_obj raw \<and> json_is_str (obj_get raw ''type'') ''string'' \<and> json_is_str (obj_get raw ''format'') ''binary''"

definition multipart_files_of :: "canonical_media \<Rightarrow> multipart_file_mapping list" where
  "multipart_files_of media =
     (case dget (cm_schema media) ''properties'' of
        Some (JObj properties) \<Rightarrow>
          let required_names = (case dget (cm_schema media) ''required'' of
              Some (JArr items) \<Rightarrow> List.map_filter (\<lambda>i. case i of JStr s \<Rightarrow> Some s | _ \<Rightarrow> None) items
            | _ \<Rightarrow> [])
          in map (\<lambda>(name, raw). \<lparr>part_name = name, content_field = name, filename_field = None, content_type_field = None,
                 default_filename = name @ ''.bin'', default_content_type = ''application/octet-stream'',
                 mf_required = name \<in> set required_names\<rparr>)
               (filter (\<lambda>(name, raw). is_binary_part raw) (sort_key fst properties))
      | _ \<Rightarrow> [])"

definition media_by_type :: "canonical_media list \<Rightarrow> (pystr \<times> canonical_media) list" where
  "media_by_type content = fold (\<lambda>m d. dset (py_lower (cm_type m)) m d) content []"

definition select_request_media :: "canonical_operation \<Rightarrow> backend_error + canonical_media option" where
  "select_request_media op =
     (case op_body op of
        None \<Rightarrow> Inr None
      | Some b \<Rightarrow>
          (case List.find (\<lambda>t. t \<in> set (dkeys (media_by_type (cb_content b)))) supported_media_types of
             Some t \<Rightarrow> Inr (dget (media_by_type (cb_content b)) t)
           | None \<Rightarrow> Inl (compile_error op ''unsupported request media types'')))"

definition hoist_definition ::
  "canonical_operation \<Rightarrow> json_object \<Rightarrow> pystr \<times> json \<Rightarrow> backend_error + json_object" where
  "hoist_definition op definitions nd =
     (case dget definitions (fst nd) of
        Some existing \<Rightarrow>
          if existing \<noteq> JNull \<and> \<not> json_eq existing (snd nd)
          then Inl (compile_error op ''conflicting JSON Schema definition'')
          else Inr (dset (fst nd) (snd nd) definitions)
      | None \<Rightarrow> Inr (dset (fst nd) (snd nd) definitions))"

definition hoist_definitions ::
  "canonical_operation \<Rightarrow> json_object \<Rightarrow> json_object \<Rightarrow> backend_error + (json_object \<times> json_object)" where
  "hoist_definitions op schema definitions =
     (case dget schema ''$defs'' of
        None \<Rightarrow> Inr (schema, definitions)
      | Some JNull \<Rightarrow> Inr (ddel ''$defs'' schema, definitions)
      | Some (JObj raw) \<Rightarrow> rbind (rfold (hoist_definition op) definitions raw) (\<lambda>d. Inr (ddel ''$defs'' schema, d))
      | Some _ \<Rightarrow> Inl (compile_error op ''JSON Schema $defs must be an object''))"

section \<open>Responses\<close>

definition response_can_be_success :: "pystr \<Rightarrow> bool" where
  "response_can_be_success status \<longleftrightarrow> py_upper status = ''DEFAULT'' \<or> startswith (py_upper status) ''2''"

definition supported_response_media :: "pystr \<Rightarrow> bool" where
  "supported_response_media m \<longleftrightarrow> m = ''application/json'' \<or> endswith m ''+json'' \<or> startswith m ''text/''"

definition unique_schemas :: "json_object list \<Rightarrow> json_object list" where
  "unique_schemas schemas = fold (\<lambda>s acc.
     if canonical_text (JObj s) \<in> set (map (\<lambda>u. canonical_text (JObj u)) acc) then acc else acc @ [s]) schemas []"

definition response_envelope_schema :: "json_object list \<Rightarrow> json_object \<Rightarrow> json_object option" where
  "response_envelope_schema body_schemas definitions =
     (if body_schemas = [] then None
      else
        let unique = unique_schemas body_schemas;
            body_schema = (case unique of [u] \<Rightarrow> JObj u | us \<Rightarrow> JObj [(''anyOf'', JArr (map JObj us))])
        in Some ([(''type'', JStr ''object''), (''additionalProperties'', JBool False),
             (''required'', JArr [JStr ''status'', JStr ''contentType'', JStr ''body'']),
             (''properties'', JObj [
                (''status'', JObj [(''type'', JStr ''integer''), (''minimum'', JInt 200), (''maximum'', JInt 299)]),
                (''contentType'', JObj [(''type'', JStr ''string'')]),
                (''body'', body_schema)])]
             @ (if definitions = [] then [] else [(''$defs'', JObj definitions)])))"

record response_acc =
  ra_definitions :: "response_definition list"
  ra_bodies :: "json_object list"
  ra_envelope :: json_object

definition add_media ::
  "canonical_operation \<Rightarrow> canonical_response \<Rightarrow> response_acc \<Rightarrow> canonical_media \<Rightarrow> backend_error + response_acc" where
  "add_media op response acc media =
     (let normalized = normalize_media_text (cm_type media);
          success = response_can_be_success (cr_status response)
      in if success \<and> \<not> supported_response_media normalized
         then Inl (compile_error op ''successful response media type is unsupported'')
         else rbind (pydantic (make_response_definition \<lparr>status_code = cr_status response,
                media_type = Some normalized, rd_schema = Some (cm_schema media), rd_description = cr_description response\<rparr>)) (\<lambda>d.
           let acc = acc\<lparr>ra_definitions := ra_definitions acc @ [d]\<rparr> in
           if \<not> success then Inr acc
           else rbind (hoist_definitions op
                  (if cm_schema media \<noteq> [] then cm_schema media
                   else if startswith normalized ''text/'' then [(''type'', JStr ''string'')] else [])
                  (ra_envelope acc)) (\<lambda>(schema, definitions).
             Inr (acc\<lparr>ra_envelope := definitions, ra_bodies := ra_bodies acc @ [schema]\<rparr>))))"

definition add_response :: "canonical_operation \<Rightarrow> response_acc \<Rightarrow> canonical_response \<Rightarrow> backend_error + response_acc" where
  "add_response op acc response =
     (if cr_content response = []
      then rbind (pydantic (make_response_definition \<lparr>status_code = cr_status response,
             media_type = None, rd_schema = None, rd_description = cr_description response\<rparr>)) (\<lambda>d.
           Inr (acc\<lparr>ra_definitions := ra_definitions acc @ [d],
                    ra_bodies := ra_bodies acc @ (if response_can_be_success (cr_status response)
                                                  then [[(''type'', JStr ''null'')]] else [])\<rparr>))
      else rfold (add_media op response) acc (sort_key cm_type (cr_content response)))"

definition responses_of :: "canonical_operation \<Rightarrow> backend_error + (response_definition list \<times> json_object option)" where
  "responses_of op =
     rbind (rfold (add_response op) \<lparr>ra_definitions = [], ra_bodies = [], ra_envelope = []\<rparr>
              (sort_key cr_status (op_responses op))) (\<lambda>acc.
       Inr (ra_definitions acc, response_envelope_schema (ra_bodies acc) (ra_envelope acc)))"

section \<open>Tools\<close>

text \<open>\<^verbatim>\<open>str.title\<close>: a letter is upper case after a character that is not a letter, lower case otherwise.\<close>

fun py_title :: "bool \<Rightarrow> pystr \<Rightarrow> pystr" where
  "py_title after_letter [] = []"
| "py_title after_letter (c # s) =
     (if is_alpha_char c then (if after_letter then lower_char c else upper_char c) # py_title True s
      else c # py_title False s)"

text \<open>\<^verbatim>\<open>a or b\<close> on texts that may be absent or empty\<close>

definition or_text :: "pystr option \<Rightarrow> pystr \<Rightarrow> pystr" where
  "or_text a b = (if truthy a then the a else b)"

fun target_of :: "parameter_location \<Rightarrow> value_error + parameter_target" where
  "target_of PathLoc = Inr PathTarget"
| "target_of QueryLoc = Inr QueryTarget"
| "target_of HeaderLoc = Inr HeaderTarget"
| "target_of CookieLoc = Inl (ValueError ''cookie'')"

definition media_literal :: "pystr \<Rightarrow> value_error + body_media" where
  "media_literal t = (if t = ''application/json'' then Inr ApplicationJson
     else if t = ''application/x-www-form-urlencoded'' then Inr FormUrlencoded
     else if t = ''multipart/form-data'' then Inr MultipartFormData else Inl (ValueError ''media_type''))"

record tool_acc =
  ta_properties :: json_object
  ta_definitions :: json_object
  ta_required :: "pystr list"
  ta_mappings :: "parameter_mapping list"
  ta_used :: "pystr list"

definition add_parameter ::
  "canonical_operation \<Rightarrow> pystr option \<Rightarrow> tool_acc \<Rightarrow> canonical_parameter \<Rightarrow> backend_error + tool_acc" where
  "add_parameter op auth_ref acc p =
     (if (case dget (cp_schema p) ''x-mcplica-unsupported'' of Some (JStr _) \<Rightarrow> True | _ \<Rightarrow> False)
      then Inl (compile_error op ''parameter uses unsupported construct'')
      else if cp_location p = CookieLoc then Inl (compile_error op ''cookie parameters are not supported'')
      else if cp_location p = HeaderLoc \<and> py_lower (cp_name p) \<in> set compiler_forbidden_headers
      then (if py_lower (cp_name p) = ''authorization'' \<and> auth_ref \<noteq> None then Inr acc
            else Inl (compile_error op ''caller-controlled header is forbidden''))
      else
        let field_name = unique_field_name (cp_name p) (cp_location p) (ta_used acc) in
        rbind (hoist_definitions op (cp_schema p) (ta_definitions acc)) (\<lambda>(field_schema, definitions).
        rbind (pydantic (target_of (cp_location p))) (\<lambda>tgt.
          let field_schema = (if truthy (cp_description p) \<and> dget field_schema ''description'' = None
                              then dset ''description'' (JStr (the (cp_description p))) field_schema else field_schema)
          in Inr (acc\<lparr>ta_used := ta_used acc @ [field_name], ta_definitions := definitions,
               ta_properties := dset field_name (JObj (if field_schema = [] then [(''type'', JStr ''string'')] else field_schema)) (ta_properties acc),
               ta_required := ta_required acc @ (if cp_required p then [field_name] else []),
               ta_mappings := ta_mappings acc @ [\<lparr>tool_field = field_name, source_name = cp_name p, target = tgt,
                 pm_required = cp_required p, style = cp_style p, explode = cp_explode p,
                 allow_reserved = cp_allow_reserved p\<rparr>]\<rparr>))))"

definition mark_binary_parts :: "json_object \<Rightarrow> json_object" where
  "mark_binary_parts schema =
     (case dget schema ''properties'' of
        Some (JObj properties) \<Rightarrow> dset ''properties'' (JObj (map (\<lambda>(n, raw).
          (n, case raw of JObj r \<Rightarrow> if is_binary_part raw then JObj (dset ''contentEncoding'' (JStr ''base64'') r) else raw
              | _ \<Rightarrow> raw)) properties)) schema
      | _ \<Rightarrow> schema)"

definition add_body :: "canonical_operation \<Rightarrow> tool_acc \<Rightarrow> backend_error + (tool_acc \<times> request_body_mapping option)" where
  "add_body op acc =
     rbind (select_request_media op) (\<lambda>media.
       case media of
         None \<Rightarrow> Inr (acc, None)
       | Some request_media \<Rightarrow>
           let field = unique_field_name ''body'' QueryLoc (ta_used acc);
               required = (case op_body op of Some b \<Rightarrow> cb_required b | None \<Rightarrow> False)
           in rbind (hoist_definitions op (cm_schema request_media) (ta_definitions acc)) (\<lambda>(schema, definitions).
              rbind (pydantic (media_literal (cm_type request_media))) (\<lambda>mt.
                Inr (acc\<lparr>ta_used := ta_used acc @ [field], ta_definitions := definitions,
                       ta_properties := dset field
                         (JObj (if cm_type request_media = ''multipart/form-data'' then mark_binary_parts schema else schema))
                         (ta_properties acc),
                       ta_required := ta_required acc @ (if required then [field] else [])\<rparr>,
                     Some \<lparr>body_field = field, body_media_type = mt, body_required = required,
                           multipart_files = multipart_files_of request_media\<rparr>))))"

definition input_schema_of :: "tool_acc \<Rightarrow> json_object" where
  "input_schema_of acc =
     [(''type'', JStr ''object''), (''properties'', JObj (ta_properties acc)), (''additionalProperties'', JBool False)]
     @ (if ta_required acc = [] then [] else [(''required'', JArr (map JStr (sort (remdups (ta_required acc)))))])
     @ (if ta_definitions acc = [] then [] else [(''$defs'', JObj (ta_definitions acc))])"

definition parameter_order :: "canonical_parameter \<Rightarrow> pystr \<times> pystr" where
  "parameter_order p = (location_value (cp_location p), py_lower (cp_name p))"

record tool_limits =
  tl_timeout_ms :: int
  tl_max_request_bytes :: int
  tl_max_response_bytes :: int

definition tool_of ::
  "tool_limits \<Rightarrow> pystr \<Rightarrow> canonical_operation \<Rightarrow> pystr \<Rightarrow> pystr option \<Rightarrow> tool_acc \<Rightarrow> request_body_mapping option \<Rightarrow>
   response_definition list \<Rightarrow> json_object option \<Rightarrow> mcp_tool" where
  "tool_of limits name op server auth_ref acc body_mapping rs out =
     \<lparr>tool_name = name,
       tool_title = or_text (sem_title (op_semantic op)) (or_text (op_summary op) (py_title False (replace ''_'' '' '' name))),
       tool_description = or_text (sem_description (op_semantic op)) (or_text (op_description op)
         (or_text (op_summary op) (method_value (op_method op) @ '' '' @ path_template op))),
       input_schema = input_schema_of acc, output_schema = out, responses = rs,
       operation_key = op_key op,
       request_mapping = \<lparr>server_ref = server, rm_method = op_method op, rm_path = path_template op,
         parameters = ta_mappings acc, body = body_mapping\<rparr>,
       security_profile_ref = auth_ref, timeout_ms = tl_timeout_ms limits,
       max_response_bytes = tl_max_response_bytes limits, enabled = True,
       max_request_bytes = tl_max_request_bytes limits,
       tool_provenance = [(''source_version_id'', JStr (uuid_str (ref_version (op_ref op)))),
         (''source_pointer'', JStr (ref_pointer (op_ref op)))]\<rparr>"

definition compile_tool ::
  "(pystr \<times> pystr) list \<Rightarrow> tool_limits \<Rightarrow> pystr \<Rightarrow> canonical_operation \<Rightarrow> backend_error + mcp_tool" where
  "compile_tool profile_refs limits name op =
     (case op_server op of
        None \<Rightarrow> Inl (compile_error op ''upstream server selection is unresolved; configure an applicable server mapping'')
      | Some server \<Rightarrow>
        let auth_ref = dget profile_refs (op_key op) in
        rbind (rfold (add_parameter op auth_ref)
                 \<lparr>ta_properties = [], ta_definitions = [], ta_required = [], ta_mappings = [], ta_used = []\<rparr>
                 (sort_key parameter_order (op_parameters op))) (\<lambda>acc.
        rbind (add_body op acc) (\<lambda>(acc, body_mapping).
        rbind (responses_of op) (\<lambda>(rs, out).
          pydantic (make_tool (tool_of limits name op server auth_ref acc body_mapping rs out))))))"

section \<open>Tool names\<close>

type_synonym name_state = "(pystr \<times> pystr) list \<times> pystr list"

definition add_tool_name ::
  "compile_env \<Rightarrow> nat \<Rightarrow> name_state \<Rightarrow> canonical_operation \<Rightarrow> backend_error + name_state" where
  "add_tool_name env matches st op =
     (let (result, used) = st; base_name = tool_name_seed op;
          candidate = (if 1 < matches \<or> base_name \<in> set used
                       then take 110 base_name @ ''_'' @ take 8 (ce_sha env (op_key op)) else base_name)
      in if candidate \<in> set used then Inl (compile_error op ''stable tool-name collision'')
         else Inr (dset (op_key op) candidate result, used @ [candidate]))"

definition seed_group :: "canonical_operation list \<Rightarrow> pystr \<Rightarrow> canonical_operation list" where
  "seed_group ops seed = filter (\<lambda>op. tool_name_seed op = seed) ops"

definition tool_names_of :: "compile_env \<Rightarrow> canonical_operation list \<Rightarrow> backend_error + (pystr \<times> pystr) list" where
  "tool_names_of env ops =
     rbind (rfold (\<lambda>st seed. rfold (add_tool_name env (length (seed_group ops seed))) st (sort_key op_key (seed_group ops seed)))
              ([], []) (sort (remdups (map tool_name_seed ops)))) (\<lambda>(result, used). Inr result)"

section \<open>The manifest\<close>

definition hex64 :: "pystr \<Rightarrow> bool" where
  \<comment> \<open>\<^verbatim>\<open>^[a-f0-9]{64}$\<close>\<close>
  "hex64 s \<longleftrightarrow> length s = 64 \<and> list_all (\<lambda>c. c \<in> set ''abcdef0123456789'') s"

definition make_server_definition :: "compile_env \<Rightarrow> canonical_server \<Rightarrow> value_error + server_definition" where
  "make_server_definition env s =
     rbind (ce_url env (rstrip_char (CHR ''/'') (cs_url s))) (\<lambda>u.
       Inr \<lparr>sd_id = cs_key s, sd_url = u, sd_description = cs_description s\<rparr>)"

definition make_runtime_security :: "runtime_security \<Rightarrow> value_error + runtime_security" where
  "make_runtime_security s =
     (if allowed_upstream_hosts s = [] then Inl (ValueError ''allowed_upstream_hosts'')
      else if \<not> (100 \<le> default_timeout_ms s \<and> default_timeout_ms s \<le> 300000) then Inl (ValueError ''default_timeout_ms'')
      else if \<not> (1024 \<le> default_max_response_bytes s \<and> default_max_response_bytes s \<le> 50000000)
      then Inl (ValueError ''default_max_response_bytes'')
      else Inr s)"

definition make_build_metadata :: "build_metadata \<Rightarrow> value_error + build_metadata" where
  "make_build_metadata b =
     (if bm_source_version_ids b = [] then Inl (ValueError ''source_version_ids'')
      else if \<not> hex64 (bm_source_digest b) then Inl (ValueError ''source_digest'')
      else if \<not> hex64 (bm_canonical_sha256 b) then Inl (ValueError ''canonical_sha256'')
      else Inr b)"

definition make_manifest :: "mcp_manifest \<Rightarrow> value_error + mcp_manifest" where
  "make_manifest m =
     (if \<not> hex64 (manifest_id m) then Inl (ValueError ''manifest_id'')
      else if servers m = [] then Inl (ValueError ''servers'')
      else validate_references m)"

definition add_host :: "compile_env \<Rightarrow> pystr list \<Rightarrow> server_definition \<Rightarrow> backend_error + pystr list" where
  "add_host env hosts s =
     (case urlsplit (ce_brk env) (sd_url s) of
        Inl _ \<Rightarrow> Inl (Unexpected ''ValueError'')
      | Inr parsed \<Rightarrow>
        (case url_hostname parsed of
           None \<Rightarrow> Inl (Raised CompilationError ''Server has an invalid URL'')
         | Some hostname \<Rightarrow>
           (case ce_enc env (rstrip_char (CHR ''.'') hostname) of
              Inl _ \<Rightarrow> Inl (Unexpected ''UnicodeError'')
            | Inr encoded \<Rightarrow> Inr (if py_lower encoded \<in> set hosts then hosts else hosts @ [py_lower encoded]))))"

record compile_input =
  ci_project_id :: pystr
  ci_project_name :: pystr
  ci_project_slug :: pystr
  ci_build_id :: pystr
  ci_created_at :: int
  ci_selections :: "(pystr \<times> security_selection) list"
  ci_excluded :: "pystr list"
  ci_resources :: "mcp_resource list"
  ci_source_digest :: "pystr option"
  ci_canonical_digest :: "pystr option"
  ci_compiler_version :: pystr
  ci_runtime_compatibility :: pystr
  ci_prompt_version :: "pystr option"
  ci_analysis_model :: "pystr option"
  ci_validation_model :: "pystr option"
  ci_embedding_model :: "pystr option"
  ci_limits :: tool_limits

definition executable_operations :: "canonical_api \<Rightarrow> pystr list \<Rightarrow> canonical_operation list" where
  "executable_operations api excluded = filter (\<lambda>op. op_key op \<notin> set excluded) (operations api)"

definition referenced_servers :: "canonical_operation list \<Rightarrow> pystr list" where
  "referenced_servers ops = List.map_filter op_server ops"

definition selected_servers :: "canonical_api \<Rightarrow> canonical_operation list \<Rightarrow> canonical_server list" where
  "selected_servers api ops =
     (if referenced_servers ops \<noteq> [] then filter (\<lambda>s. cs_key s \<in> set (referenced_servers ops)) (api_servers api)
      else api_servers api)"

definition isoformat_utc :: "int \<Rightarrow> pystr" where
  \<comment> \<open>\<^verbatim>\<open>isoformat()\<close> of a time in UTC: microseconds only when there are any\<close>
  "isoformat_utc us = (if us mod 1000000 = 0 then take 19 (iso_utc us) @ ''+00:00'' else iso_utc us)"

definition build_metadata_of :: "compile_env \<Rightarrow> canonical_api \<Rightarrow> compile_input \<Rightarrow> build_metadata" where
  "build_metadata_of env api i =
     \<lparr>bm_build_id = ci_build_id i, bm_source_version_ids = map uuid_str (source_versions api),
      bm_source_digest = or_text (ci_source_digest i) (source_fingerprint api),
      bm_canonical_sha256 = or_text (ci_canonical_digest i) (canonical_sha256 (ce_sha env) (dump_api env api)),
      bm_created_at = isoformat_utc (ci_created_at i), bm_compiler_version = ci_compiler_version i,
      bm_prompt_bundle_version = ci_prompt_version i, bm_analysis_model = ci_analysis_model i,
      bm_validation_model = ci_validation_model i, bm_embedding_model = ci_embedding_model i\<rparr>"

definition unsigned_manifest :: "compile_env \<Rightarrow> mcp_manifest \<Rightarrow> json" where
  "unsigned_manifest env m = JObj
     [(''schema_version'', JStr ''mcp-manifest/v1''),
      (''project'', JObj [(''id'', JStr (mp_id (project m))), (''name'', JStr (mp_name (project m))), (''slug'', JStr (mp_slug (project m)))]),
      (''runtime_compatibility'', JStr (runtime_compatibility m)),
      (''servers'', JArr (map (dump_server env) (servers m))),
      (''auth_profiles'', JArr (map (dump_profile env) (auth_profiles m))),
      (''tools'', JArr (map (dump_tool env) (tools m))),
      (''resources'', JArr (map (dump_resource env) (resources m))),
      (''security'', dump_security env (security m)),
      (''build'', dump_build env (build m))]"

definition signed_manifest ::
  "compile_env \<Rightarrow> compile_input \<Rightarrow> auth_profile list \<Rightarrow> mcp_tool list \<Rightarrow> server_definition list \<Rightarrow>
   runtime_security \<Rightarrow> build_metadata \<Rightarrow> mcp_manifest" where
  "signed_manifest env i profiles ts ss rs bm =
     (let m = \<lparr>manifest_id = [], project = \<lparr>mp_id = ci_project_id i, mp_name = ci_project_name i, mp_slug = ci_project_slug i\<rparr>,
               runtime_compatibility = ci_runtime_compatibility i, servers = ss, auth_profiles = profiles, tools = ts,
               resources = ci_resources i, security = rs, build = bm\<rparr>
      in m\<lparr>manifest_id := ce_sha env (canonical_text (unsigned_manifest env m))\<rparr>)"

definition compile_manifest :: "compile_env \<Rightarrow> canonical_api \<Rightarrow> compile_input \<Rightarrow> backend_error + mcp_manifest" where
  "compile_manifest env api i =
     (if uuid_str (api_project api) \<noteq> ci_project_id i
      then Inl (Raised CompilationError ''Canonical project identity does not match compiler input'')
      else if \<not> set (ci_excluded i) \<subseteq> set (map op_key (operations api))
      then Inl (Raised CompilationError ''Exclusions reference operations absent from the canonical snapshot'')
      else
        let ops = executable_operations api (ci_excluded i) in
        rbind (auth_profiles_of env api (ci_selections i) ops) (\<lambda>(profiles, profile_refs).
        rbind (tool_names_of env ops) (\<lambda>names.
        rbind (rmap (\<lambda>op. compile_tool profile_refs (ci_limits i) (the (dget names (op_key op))) op) (sort_key op_key ops)) (\<lambda>ts.
        if \<not> set (referenced_servers ops) \<subseteq> set (map cs_key (api_servers api))
        then Inl (Raised CompilationError ''Executable operations reference undefined servers'')
        else
          rbind (pydantic (rmap (make_server_definition env) (sort_key cs_key (selected_servers api ops)))) (\<lambda>ss.
          rbind (rfold (add_host env) [] ss) (\<lambda>hosts.
          rbind (pydantic (make_build_metadata (build_metadata_of env api i))) (\<lambda>bm.
          rbind (pydantic (make_runtime_security
              \<lparr>allowed_upstream_hosts = sort hosts, allow_insecure_none_only_in_development = True,
               default_timeout_ms = tl_timeout_ms (ci_limits i), default_max_response_bytes = tl_max_response_bytes (ci_limits i)\<rparr>)) (\<lambda>rs.
            pydantic (make_manifest (signed_manifest env i profiles ts ss rs bm))))))))))"

section \<open>An example\<close>

text \<open>\<^verbatim>\<open>GET /pets/{id}\<close> with a bearer scheme and \<^verbatim>\<open>POST /pets\<close> with a JSON body, on one server.\<close>

definition sample_ref :: source_ref where
  "sample_ref = \<lparr>ref_version = 7, ref_pointer = ''#/paths''\<rparr>"

definition sample_parameter :: "pystr \<Rightarrow> parameter_location \<Rightarrow> bool \<Rightarrow> canonical_parameter" where
  "sample_parameter n l r = \<lparr>cp_name = n, cp_location = l, cp_required = r, cp_schema = [(''type'', JStr ''string'')],
     cp_description = Some n, cp_style = None, cp_explode = None, cp_allow_reserved = False, cp_ref = sample_ref\<rparr>"

definition sample_operation :: "pystr \<Rightarrow> http_method \<Rightarrow> pystr \<Rightarrow> canonical_parameter list \<Rightarrow> canonical_body option \<Rightarrow> security_requirement list \<Rightarrow> canonical_operation" where
  "sample_operation seed mt path ps b sec = \<lparr>op_key = method_value mt @ '' '' @ path, op_source_id = None, tool_name_seed = seed,
     op_method = mt, path_template = path, op_server = Some ''s1'', server_candidates = [''s1''], op_summary = Some seed,
     op_description = None, op_parameters = ps, op_body = b,
     op_responses = [\<lparr>cr_status = ''200'', cr_description = None, cr_content = [\<lparr>cm_type = ''application/json'',
       cm_schema = [(''type'', JStr ''object'')], cm_examples = [], cm_ref = sample_ref\<rparr>], cr_ref = sample_ref\<rparr>],
     op_security = sec, op_tags = [],
     op_semantic = \<lparr>sem_title = None, sem_description = None, sem_category = None, sem_keywords = [], sem_chunks = [], sem_hints = []\<rparr>,
     op_ref = sample_ref\<rparr>"

definition sample_get :: canonical_operation where
  "sample_get = sample_operation ''pets'' GET ''/pets/{id}''
     [sample_parameter ''id'' PathLoc True, sample_parameter ''id'' QueryLoc False] None
     [\<lparr>scheme_scopes = [(''token'', [])], sr_ref = sample_ref\<rparr>]"

definition sample_post :: canonical_operation where
  "sample_post = sample_operation ''pets'' POST ''/pets'' []
     (Some \<lparr>cb_required = True, cb_description = None, cb_content = [\<lparr>cm_type = ''application/json'',
       cm_schema = [(''type'', JStr ''object'')], cm_examples = [], cm_ref = sample_ref\<rparr>], cb_ref = sample_ref\<rparr>) []"

definition sample_api :: canonical_api where
  "sample_api = \<lparr>api_project = 1, api_title = ''Pets'',
     api_servers = [\<lparr>cs_key = ''s1'', cs_url = ''https://api.io/v1/'', cs_description = None, cs_ref = sample_ref\<rparr>],
     active_server = None,
     security_schemes = [(''token'', \<lparr>sc_type = HttpBearer, sc_scheme = Some ''bearer'', sc_location = None, sc_name = None,
       sc_token_url = None, sc_scopes = [], sc_ref = sample_ref\<rparr>)],
     api_schemas = [], operations = [sample_get, sample_post], documentation_refs = [], source_versions = [7],
     source_fingerprint = replicate 64 (CHR ''a'')\<rparr>"

definition sample_compile_env :: compile_env where
  "sample_compile_env = \<lparr>ce_sha = (\<lambda>s. (if startswith s ''GET'' then CHR ''a'' else CHR ''b'') # replicate 63 (CHR ''c'')),
     ce_enc = idna_ascii, ce_brk = (\<lambda>_. False), ce_url = Inr, dump_api = (\<lambda>a. JStr (api_title a)),
     dump_server = (\<lambda>s. JStr (sd_url s)), dump_profile = (\<lambda>p. JStr (ap_id p)), dump_tool = (\<lambda>t. JStr (tool_name t)),
     dump_resource = (\<lambda>r. JStr (res_uri r)), dump_security = (\<lambda>s. JArr (map JStr (allowed_upstream_hosts s))),
     dump_build = (\<lambda>b. JStr (bm_build_id b))\<rparr>"

definition sample_compile_input :: compile_input where
  "sample_compile_input = \<lparr>ci_project_id = uuid_str 1, ci_project_name = ''Pets'', ci_project_slug = ''pets'', ci_build_id = ''b1'',
     ci_created_at = 0, ci_selections = [(''GET /pets/{id}'', \<lparr>sel_scheme = ''token'', sel_credential = ''c1'', sel_scopes = [], sel_method = ClientSecretBasic\<rparr>)],
     ci_excluded = [], ci_resources = [], ci_source_digest = None, ci_canonical_digest = None, ci_compiler_version = ''1'',
     ci_runtime_compatibility = ''>=1'', ci_prompt_version = None, ci_analysis_model = None, ci_validation_model = None,
     ci_embedding_model = None, ci_limits = \<lparr>tl_timeout_ms = 30000, tl_max_request_bytes = 10000000, tl_max_response_bytes = 2000000\<rparr>\<rparr>"

definition sample_compiled :: mcp_manifest where
  "sample_compiled = projr (compile_manifest sample_compile_env sample_api sample_compile_input)"

lemma sample_compiles: "compile_manifest sample_compile_env sample_api sample_compile_input = Inr sample_compiled"
proof -
  have "\<not> isl (compile_manifest sample_compile_env sample_api sample_compile_input)" by code_simp
  then show ?thesis unfolding sample_compiled_def by (simp add: sum.collapse)
qed

lemma sample_api_valid: "make_api sample_api = Inr sample_api"
  by code_simp

end
