(* ===== verification/BuildValidator.thy ===== *)
theory BuildValidator
  imports Compiler
begin

text \<open>
  The deterministic validation of a build (\<^verbatim>\<open>backend/app/validators/build.py\<close>): the findings the
  validator reports for a canonical model and a compiled manifest. The version range check and
  the meta-schema check of \<^verbatim>\<open>jsonschema\<close> are parameters. A percentage is exact where the code
  computes with floats.
\<close>

section \<open>Findings\<close>

datatype finding_severity = ErrorSeverity | WarningSeverity | InfoSeverity

record validation_finding =
  vf_code :: pystr
  vf_severity :: finding_severity
  vf_stage :: pystr
  vf_operation :: "pystr option"
  vf_source :: "source_ref option"
  vf_message :: pystr
  vf_details :: json_object

definition finding :: "pystr \<Rightarrow> finding_severity \<Rightarrow> pystr \<Rightarrow> pystr \<Rightarrow> pystr option \<Rightarrow> source_ref option \<Rightarrow> json_object \<Rightarrow> validation_finding" where
  "finding code severity stage message operation source details =
     \<lparr>vf_code = code, vf_severity = severity, vf_stage = stage, vf_operation = operation, vf_source = source,
      vf_message = message, vf_details = details\<rparr>"

definition mapping_finding :: "canonical_operation \<Rightarrow> pystr \<Rightarrow> pystr \<Rightarrow> json_object \<Rightarrow> validation_finding" where
  "mapping_finding op code message details =
     finding code ErrorSeverity ''compiler'' message (Some (op_key op)) (Some (op_ref op)) details"

lemma vf_code_finding [simp]: "vf_code (finding c sv st msg opn src d) = c" "vf_severity (finding c sv st msg opn src d) = sv"
  "vf_code (mapping_finding op c msg d) = c" "vf_severity (mapping_finding op c msg d) = ErrorSeverity"
  by (simp_all add: finding_def mapping_finding_def)

section \<open>Coverage and size\<close>

text \<open>\<^verbatim>\<open>round(x, 2)\<close>: to the nearest hundredth, ties to the even one.\<close>

definition round2 :: "rat \<Rightarrow> rat" where
  "round2 q = (let n = \<lfloor>q * 100\<rfloor>; r = q * 100 - of_int n in
     of_int (if r < 1 / 2 then n else if r > 1 / 2 then n + 1 else if even n then n else n + 1) / 100)"

definition coverage_percent :: "int \<Rightarrow> int \<Rightarrow> value_error + rat" where
  "coverage_percent expected generated =
     (if expected < 0 \<or> generated < 0 then Inl (ValueError ''Coverage counts cannot be negative'')
      else if expected = 0 then Inr (if generated = 0 then 100 else 0)
      else Inr (round2 (of_int generated / of_int expected * 100)))"

definition validate_runtime_manifest_size :: "pystr \<Rightarrow> int \<Rightarrow> value_error + validation_finding list" where
  "validate_runtime_manifest_size manifest_bytes maximum =
     (if maximum < 1024 then Inl (ValueError ''Runtime manifest limit must be at least 1024 bytes'')
      else
        let actual = int (length manifest_bytes) in
        if actual \<le> maximum then Inr []
        else Inr [finding ''MANIFEST_RUNTIME_SIZE_LIMIT_EXCEEDED'' ErrorSeverity ''artifact''
          ''Serialized manifest exceeds the Build's frozen runtime byte limit'' None None
          [(''actual_bytes'', JInt actual), (''maximum_bytes'', JInt maximum), (''excess_bytes'', JInt (actual - maximum))]])"

section \<open>The checks\<close>

definition server_hostname :: "(pystr \<Rightarrow> bool) \<Rightarrow> pystr \<Rightarrow> value_error + pystr" where
  "server_hostname brk url =
     rbind (urlsplit brk url) (\<lambda>parsed. case url_hostname parsed of
         None \<Rightarrow> Inl (ValueError ''Validated manifest server URL has no hostname'')
       | Some h \<Rightarrow> Inr (py_lower h))"

definition check_schema :: "(json_object \<Rightarrow> bool) \<Rightarrow> pystr \<Rightarrow> pystr \<Rightarrow> json_object \<Rightarrow> validation_finding list" where
  "check_schema meta_valid opk message schema =
     (if meta_valid schema then []
      else [finding ''INVALID_JSON_SCHEMA'' ErrorSeverity ''manifest'' message (Some opk) None []])"

definition source_required :: "canonical_operation \<Rightarrow> (pystr \<times> pystr) list" where
  "source_required op = map (\<lambda>p. (location_value (cp_location p), cp_name p))
     (filter (\<lambda>p. cp_required p \<and> cp_location p \<noteq> CookieLoc) (op_parameters op))"

fun target_value :: "parameter_target \<Rightarrow> pystr" where
  "target_value PathTarget = ''path''"
| "target_value QueryTarget = ''query''"
| "target_value HeaderTarget = ''header''"

definition mapped_required :: "mcp_tool \<Rightarrow> (pystr \<times> pystr) list" where
  "mapped_required t = map (\<lambda>p. (target_value (target p), source_name p))
     (filter pm_required (parameters (request_mapping t)))"

definition required_findings :: "canonical_operation \<Rightarrow> mcp_tool \<Rightarrow> validation_finding list" where
  "required_findings op t =
     (if set (source_required op) \<subseteq> set (mapped_required t) then []
      else [mapping_finding op ''REQUIRED_PARAMETER_DROPPED'' ''One or more required parameters were dropped''
        [(''missing'', JArr (map (\<lambda>(l, n). JStr (l @ '':'' @ n))
           (sort (remdups (filter (\<lambda>x. x \<notin> set (mapped_required t)) (source_required op))))))]])"

definition tool_findings ::
  "(json_object \<Rightarrow> bool) \<Rightarrow> mcp_manifest \<Rightarrow> canonical_operation \<Rightarrow> mcp_tool \<Rightarrow> validation_finding list" where
  "tool_findings meta_valid m op t =
     (let mapping = request_mapping t in
      (if rm_method mapping \<noteq> op_method op then [mapping_finding op ''METHOD_CHANGED'' ''HTTP method changed'' []] else [])
      @ (if rm_path mapping \<noteq> path_template op then [mapping_finding op ''PATH_CHANGED'' ''Path template changed'' []] else [])
      @ (if Some (server_ref mapping) \<noteq> op_server op
         then [mapping_finding op ''SERVER_CHANGED'' ''Upstream server mapping changed'' []] else [])
      @ (if server_ref mapping \<notin> set (map sd_id (servers m))
         then [mapping_finding op ''SERVER_UNKNOWN'' ''Tool references unknown server'' []] else [])
      @ (if truthy (security_profile_ref t) \<and> the (security_profile_ref t) \<notin> set (map ap_id (auth_profiles m))
         then [mapping_finding op ''AUTH_PROFILE_UNKNOWN'' ''Tool references unknown authentication profile'' []] else [])
      @ required_findings op t
      @ (case op_body op of
           Some b \<Rightarrow> if cb_required b \<and> (case body mapping of None \<Rightarrow> True | Some bm \<Rightarrow> \<not> body_required bm)
             then [mapping_finding op ''REQUIRED_BODY_DROPPED'' ''Required request body became optional or absent'' []] else []
         | None \<Rightarrow> [])
      @ check_schema meta_valid (operation_key t) ''Generated input JSON Schema is invalid'' (input_schema t)
      @ (case output_schema t of None \<Rightarrow> []
         | Some s \<Rightarrow> check_schema meta_valid (operation_key t) ''Generated output JSON Schema is invalid'' s)
      @ (if \<not> truthy (op_description op) \<and> \<not> truthy (op_summary op)
         then [finding ''SPARSE_SOURCE_DESCRIPTION'' WarningSeverity ''semantic''
           ''Source operation has no summary or description'' (Some (op_key op)) (Some (op_ref op)) []] else []))"

text \<open>\<^verbatim>\<open>operations.get(key)\<close>: in the dictionary by key the last operation of a key stays.\<close>

definition operation_by_key :: "canonical_api \<Rightarrow> pystr \<Rightarrow> canonical_operation option" where
  "operation_by_key api k = List.find (\<lambda>op. op_key op = k) (rev (operations api))"

definition coverage_findings :: "canonical_api \<Rightarrow> mcp_manifest \<Rightarrow> pystr list \<Rightarrow> validation_finding list" where
  "coverage_findings api m excluded =
     (let keys = map op_key (operations api);
          generated = map operation_key (filter enabled (tools m));
          expected = filter (\<lambda>k. k \<notin> set excluded) (remdups keys)
      in map (\<lambda>k. finding ''EXCLUSION_UNKNOWN_OPERATION'' ErrorSeverity ''coverage''
                ''Exclusion references unknown operation'' (Some k) None [])
           (sort (remdups (filter (\<lambda>k. k \<notin> set keys) excluded)))
         @ map (\<lambda>k. finding ''DUPLICATE_OPERATION_MAPPING'' ErrorSeverity ''coverage''
                ''Operation maps to several generated tools'' (Some k) None [])
           (filter (\<lambda>k. 1 < count_list generated k) (sort (remdups generated)))
         @ map (\<lambda>k. finding ''EXPECTED_OPERATION_MISSING'' ErrorSeverity ''coverage''
                ''Expected source operation has no generated MCP tool'' (Some k)
                (map_option op_ref (operation_by_key api k)) [])
           (filter (\<lambda>k. k \<notin> set generated) (sort expected))
         @ map (\<lambda>k. finding ''UNEXPECTED_TOOL_OPERATION'' ErrorSeverity ''coverage''
                ''Generated tool maps to an excluded or unknown operation'' (Some k) None [])
           (filter (\<lambda>k. k \<notin> set expected) (sort (remdups generated))))"

definition duplicate_name_findings :: "mcp_manifest \<Rightarrow> validation_finding list" where
  "duplicate_name_findings m =
     (let names = map tool_name (tools m);
          duplicates = filter (\<lambda>n. 1 < count_list names n) (remdups names)
      in if duplicates = [] then []
         else [finding ''DUPLICATE_TOOL_NAME'' ErrorSeverity ''manifest'' ''Manifest tool names are not unique'' None None
           [(''tool_names'', JArr (map JStr (sort duplicates)))]])"

definition build_binding_findings ::
  "(pystr \<Rightarrow> pystr \<Rightarrow> bool option) \<Rightarrow> canonical_api \<Rightarrow> mcp_manifest \<Rightarrow> pystr \<Rightarrow> pystr \<Rightarrow> validation_finding list" where
  "build_binding_findings in_range api m canonical_hash rt_version =
     (if bm_canonical_sha256 (build m) \<noteq> canonical_hash
      then [finding ''CANONICAL_HASH_MISMATCH'' ErrorSeverity ''manifest''
        ''Manifest canonical hash does not match the immutable snapshot'' None None []] else [])
     @ (if set (bm_source_version_ids (build m)) \<noteq> uuid_str ` set (source_versions api)
        then [finding ''SOURCE_BINDING_MISMATCH'' ErrorSeverity ''manifest''
          ''Manifest source versions do not match the canonical snapshot'' None None []] else [])
     @ (if in_range (runtime_compatibility m) rt_version \<noteq> Some True
        then [finding ''RUNTIME_INCOMPATIBLE'' ErrorSeverity ''protocol''
          ''Configured generic runtime version is outside manifest compatibility'' None None
          [(''runtime_version'', JStr rt_version)]] else [])"

definition validate_build ::
  "(pystr \<Rightarrow> pystr \<Rightarrow> bool option) \<Rightarrow> (json_object \<Rightarrow> bool) \<Rightarrow> compile_env \<Rightarrow> canonical_api \<Rightarrow> mcp_manifest \<Rightarrow>
   pystr list \<Rightarrow> pystr \<Rightarrow> pystr \<Rightarrow> value_error + validation_finding list" where
  "validate_build in_range meta_valid env api m excluded canonical_hash rt_version =
     (let contract = (case validate_manifest_contract in_range (ce_enc env) (ce_brk env) m rt_version of
            Inr _ \<Rightarrow> []
          | Inl (ValueError msg) \<Rightarrow> [finding ''RUNTIME_MANIFEST_INVALID'' ErrorSeverity ''manifest'' msg None None []]);
          keys = remdups (map op_key (operations api));
          expected = filter (\<lambda>k. k \<notin> set excluded) keys;
          generated = map operation_key (filter enabled (tools m));
          per_tool = concat (map (\<lambda>t. case operation_by_key api (operation_key t) of
              None \<Rightarrow> [] | Some op \<Rightarrow> tool_findings meta_valid m op t) (tools m))
      in rbind (rmap (\<lambda>s. server_hostname (ce_brk env) (sd_url s)) (servers m)) (\<lambda>hosts.
         rbind (coverage_percent (int (length expected)) (int (length generated))) (\<lambda>coverage.
           Inr (contract @ coverage_findings api m excluded @ duplicate_name_findings m @ per_tool
             @ (if set (allowed_upstream_hosts (security m)) \<noteq> set hosts
                then [finding ''UPSTREAM_ALLOWLIST_MISMATCH'' ErrorSeverity ''security''
                  ''Runtime upstream host allowlist does not exactly match manifest servers'' None None []] else [])
             @ build_binding_findings in_range api m canonical_hash rt_version
             @ (if coverage \<noteq> 100
                then [finding ''COVERAGE_INCOMPLETE'' ErrorSeverity ''coverage''
                  ''Expected operation coverage is not 100 percent'' None None
                  [(''expected_operations'', JInt (int (length expected))), (''generated_tools'', JInt (int (length generated)))]] else [])))))"

end
