(* ===== verification/CompilerFacts.thy ===== *)
theory CompilerFacts
  imports BuildValidator
begin

text \<open>
  What the compiler's loops keep: fresh input fields, one mapping per parameter that is kept,
  one name per operation, and what a manifest that was compiled consists of.
\<close>

section \<open>Input fields\<close>

lemma next_free_fresh: "next_free base k used \<notin> set used"
proof (induction base k used rule: next_free.induct)
  case (1 base k used)
  then show ?case by (subst next_free.simps) simp
qed

lemma next_free_suffix: "\<exists>n\<ge>k. next_free base k used = suffixed base n \<and> (\<forall>j. k \<le> j \<and> j < n \<longrightarrow> suffixed base j \<in> set used)"
proof (induction base k used rule: next_free.induct)
  case (1 base k used)
  show ?case
  proof (cases "suffixed base k \<in> set used")
    case True
    with 1 obtain n where n: "k + 1 \<le> n" "next_free base (k + 1) used = suffixed base n"
      "\<forall>j. k + 1 \<le> j \<and> j < n \<longrightarrow> suffixed base j \<in> set used" by blast
    have "next_free base k used = suffixed base n" using True n(2) by (subst next_free.simps) simp
    moreover have "\<forall>j. k \<le> j \<and> j < n \<longrightarrow> suffixed base j \<in> set used"
      using n(3) True by (metis Suc_eq_plus1 Suc_leI le_neq_implies_less)
    ultimately show ?thesis using n(1) by (intro exI [of _ n]) simp
  next
    case False
    then have "next_free base k used = suffixed base k" by (subst next_free.simps) simp
    then show ?thesis by (intro exI [of _ k]) auto
  qed
qed

lemma unique_field_name_fresh: "unique_field_name name loc used \<notin> set used"
  by (simp add: unique_field_name_def Let_def next_free_fresh)

section \<open>Parameters\<close>

text \<open>The parameters the compiler maps: all but an \<^verbatim>\<open>Authorization\<close> header the profile provides.\<close>

definition kept :: "pystr option \<Rightarrow> canonical_parameter \<Rightarrow> bool" where
  "kept auth_ref p \<longleftrightarrow> \<not> (cp_location p = HeaderLoc \<and> py_lower (cp_name p) = ''authorization'' \<and> auth_ref \<noteq> None)"

definition mapping_of :: "canonical_parameter \<Rightarrow> parameter_mapping \<Rightarrow> bool" where
  "mapping_of p m \<longleftrightarrow> target_of (cp_location p) = Inr (target m) \<and> source_name m = cp_name p \<and> pm_required m = cp_required p
     \<and> style m = cp_style p \<and> explode m = cp_explode p \<and> allow_reserved m = cp_allow_reserved p
     \<and> (cp_location p = HeaderLoc \<longrightarrow> py_lower (cp_name p) \<notin> set compiler_forbidden_headers)"

definition fields_ok :: "tool_acc \<Rightarrow> bool" where
  "fields_ok acc \<longleftrightarrow> distinct (ta_used acc) \<and> set (dkeys (ta_properties acc)) = set (ta_used acc)
     \<and> set (ta_required acc) \<subseteq> set (ta_used acc)"

lemma dset_keys: "fst ` set (dset k v d) = insert k (fst ` set d)"
  by (induction d) auto

lemma add_parameter_Inr:
  assumes "add_parameter op auth_ref acc p = Inr acc'"
  shows "if kept auth_ref p
    then \<exists>m. mapping_of p m \<and> tool_field m = unique_field_name (cp_name p) (cp_location p) (ta_used acc)
      \<and> ta_mappings acc' = ta_mappings acc @ [m] \<and> ta_used acc' = ta_used acc @ [tool_field m]
      \<and> set (dkeys (ta_properties acc')) = insert (tool_field m) (set (dkeys (ta_properties acc)))
      \<and> ta_required acc' = ta_required acc @ (if cp_required p then [tool_field m] else [])
    else acc' = acc"
proof (cases "cp_location p = HeaderLoc \<and> py_lower (cp_name p) \<in> set compiler_forbidden_headers")
  case True
  then show ?thesis using assms by (auto simp: add_parameter_def kept_def compiler_forbidden_headers_def split: if_splits)
next
  case False
  have k: "kept auth_ref p" using False by (auto simp: kept_def compiler_forbidden_headers_def)
  define f where "f = unique_field_name (cp_name p) (cp_location p) (ta_used acc)"
  have "\<exists>fs ds tgt. target_of (cp_location p) = Inr tgt \<and> acc' = acc\<lparr>ta_used := ta_used acc @ [f], ta_definitions := ds,
      ta_properties := dset f fs (ta_properties acc), ta_required := ta_required acc @ (if cp_required p then [f] else []),
      ta_mappings := ta_mappings acc @ [\<lparr>tool_field = f, source_name = cp_name p, target = tgt,
        pm_required = cp_required p, style = cp_style p, explode = cp_explode p, allow_reserved = cp_allow_reserved p\<rparr>]\<rparr>"
    using assms unfolding add_parameter_def if_not_P [OF False] f_def [symmetric] Let_def
    by (simp add: result_simps split: if_splits prod.splits) blast+
  then obtain fs ds tgt where t: "target_of (cp_location p) = Inr tgt" and acc': "acc' = acc\<lparr>ta_used := ta_used acc @ [f], ta_definitions := ds,
      ta_properties := dset f fs (ta_properties acc), ta_required := ta_required acc @ (if cp_required p then [f] else []),
      ta_mappings := ta_mappings acc @ [\<lparr>tool_field = f, source_name = cp_name p, target = tgt,
        pm_required = cp_required p, style = cp_style p, explode = cp_explode p, allow_reserved = cp_allow_reserved p\<rparr>]\<rparr>"
    by blast
  show ?thesis
    unfolding if_P [OF k] acc' f_def [symmetric] 
    by (rule exI [of _ "\<lparr>tool_field = f, source_name = cp_name p, target = tgt,
        pm_required = cp_required p, style = cp_style p, explode = cp_explode p, allow_reserved = cp_allow_reserved p\<rparr>"])
      (use t False in \<open>auto simp: mapping_of_def dset_keys\<close>)
qed

lemma add_parameters_Inr:
  assumes "rfold (add_parameter op auth_ref) acc ps = Inr acc'" and "fields_ok acc" and "map tool_field (ta_mappings acc) = ta_used acc"
  shows "fields_ok acc' \<and> map tool_field (ta_mappings acc') = ta_used acc' \<and>
    (\<exists>ms. ta_mappings acc' = ta_mappings acc @ ms \<and> list_all2 mapping_of (filter (kept auth_ref) ps) ms)"
  using assms
proof (induction ps arbitrary: acc)
  case (Cons p ps)
  from Cons.prems(1) obtain acc1 where a: "add_parameter op auth_ref acc p = Inr acc1" and r: "rfold (add_parameter op auth_ref) acc1 ps = Inr acc'"
    by (auto simp: result_simps)
  show ?case
  proof (cases "kept auth_ref p")
    case True
    with add_parameter_Inr [OF a] obtain m where m: "mapping_of p m" "tool_field m = unique_field_name (cp_name p) (cp_location p) (ta_used acc)"
      "ta_mappings acc1 = ta_mappings acc @ [m]" "ta_used acc1 = ta_used acc @ [tool_field m]"
      "set (dkeys (ta_properties acc1)) = insert (tool_field m) (set (dkeys (ta_properties acc)))"
      "ta_required acc1 = ta_required acc @ (if cp_required p then [tool_field m] else [])"
      unfolding if_P [OF True] by blast
    have "tool_field m \<notin> set (ta_used acc)" unfolding m(2) by (rule unique_field_name_fresh)
    then have ok1: "fields_ok acc1" and f1: "map tool_field (ta_mappings acc1) = ta_used acc1"
      using Cons.prems(2,3) m by (auto simp: fields_ok_def)
    from Cons.IH [OF r ok1 f1] obtain ms where ms: "fields_ok acc'" "map tool_field (ta_mappings acc') = ta_used acc'"
      "ta_mappings acc' = ta_mappings acc1 @ ms" "list_all2 mapping_of (filter (kept auth_ref) ps) ms" by blast
    from ms(3) m(3) have "ta_mappings acc' = ta_mappings acc @ m # ms" by simp
    moreover have "list_all2 mapping_of (filter (kept auth_ref) (p # ps)) (m # ms)" using True m(1) ms(4) by simp
    ultimately show ?thesis using ms(1,2) by blast
  next
    case False
    with add_parameter_Inr [OF a] have "acc1 = acc" by simp
    then show ?thesis using Cons.IH [of acc] r Cons.prems(2,3) False by simp
  qed
qed simp

section \<open>The body\<close>

lemma request_media_of:
  assumes "select_request_media op = Inr (Some media)"
  shows "\<exists>b. op_body op = Some b \<and> media \<in> set (cb_content b)"
proof -
  have in_fold: "map_of (fold (\<lambda>m d. dset (py_lower (cm_type m)) m d) ms d) k = Some x \<Longrightarrow> x \<in> set ms \<or> map_of d k = Some x" for ms d k x
  proof (induction ms arbitrary: d)
    case (Cons m ms)
    from Cons.IH [of "dset (py_lower (cm_type m)) m d"] Cons.prems show ?case by (auto simp: update_conv split: if_splits)
  qed simp
  from assms obtain b t where "op_body op = Some b" "dget (media_by_type (cb_content b)) t = Some media"
    by (auto simp: select_request_media_def split: option.splits)
  then show ?thesis using in_fold [of "cb_content b" "[]" t media] by (simp add: media_by_type_def)
qed

lemma add_body_Inr:
  assumes "add_body op acc = Inr (acc', bm)" and "fields_ok acc" and "map tool_field (ta_mappings acc) = ta_used acc"
  shows "fields_ok acc'" and "ta_mappings acc' = ta_mappings acc"
    and "map tool_field (ta_mappings acc') @ (case bm of None \<Rightarrow> [] | Some b \<Rightarrow> [body_field b]) = ta_used acc'"
    and "op_body op = None \<longleftrightarrow> bm = None"
    and "\<And>b. bm = Some b \<Longrightarrow> body_required b = cb_required (the (op_body op))
      \<and> (\<exists>media\<in>set (cb_content (the (op_body op))). multipart_files b = multipart_files_of media)"
proof -
  define f where "f = unique_field_name ''body'' QueryLoc (ta_used acc)"
  have f: "f \<notin> set (ta_used acc)" unfolding f_def by (rule unique_field_name_fresh)
  consider (none) "op_body op = None" "bm = None" "acc' = acc"
    | (some) b media fs ds mt where "op_body op = Some b" "media \<in> set (cb_content b)"
      "acc' = acc\<lparr>ta_used := ta_used acc @ [f], ta_definitions := ds, ta_properties := dset f fs (ta_properties acc),
         ta_required := ta_required acc @ (if cb_required b then [f] else [])\<rparr>"
      "bm = Some \<lparr>body_field = f, body_media_type = mt, body_required = cb_required b, multipart_files = multipart_files_of media\<rparr>"
  proof (cases "op_body op")
    case None
    then show ?thesis using assms(1) none by (simp add: add_body_def select_request_media_def)
  next
    case (Some b)
    from assms(1) obtain mo where mo: "select_request_media op = Inr mo" by (auto simp: add_body_def result_simps)
    then obtain t where t: "t \<in> set (dkeys (media_by_type (cb_content b)))" "mo = dget (media_by_type (cb_content b)) t"
      by (auto simp: select_request_media_def Some find_Some_iff split: option.splits)
    then obtain media where media: "mo = Some media" by (metis map_of_eq_None_iff not_None_eq set_map)
    then have "media \<in> set (cb_content b)" using request_media_of [of op media] mo Some by simp
    then show ?thesis
      using assms(1) some [OF Some] by (auto simp: add_body_def mo media Some f_def [symmetric] Let_def result_simps)
  qed
  note cases = this
  show "fields_ok acc'" using assms(2) f by (cases rule: cases) (auto simp: fields_ok_def dset_keys split: if_splits)
  show "ta_mappings acc' = ta_mappings acc" by (cases rule: cases) simp_all
  show "map tool_field (ta_mappings acc') @ (case bm of None \<Rightarrow> [] | Some b \<Rightarrow> [body_field b]) = ta_used acc'"
    using assms(3) by (cases rule: cases) simp_all
  show "op_body op = None \<longleftrightarrow> bm = None" by (cases rule: cases) simp_all
  show "body_required b = cb_required (the (op_body op))
      \<and> (\<exists>media\<in>set (cb_content (the (op_body op))). multipart_files b = multipart_files_of media)" if "bm = Some b" for b
    using that by (cases rule: cases) auto
qed

section \<open>Tools\<close>

lemma compile_tool_Inr:
  assumes "compile_tool refs limits name op = Inr t"
  obtains acc0 acc where "op_server op = Some (server_ref (request_mapping t))"
    and "rm_method (request_mapping t) = op_method op" and "rm_path (request_mapping t) = path_template op"
    and "operation_key t = op_key op" and "tool_name t = name" and "enabled t"
    and "security_profile_ref t = dget refs (op_key op)"
    and "rfold (add_parameter op (dget refs (op_key op)))
           \<lparr>ta_properties = [], ta_definitions = [], ta_required = [], ta_mappings = [], ta_used = []\<rparr>
           (sort_key parameter_order (op_parameters op)) = Inr acc0"
    and "add_body op acc0 = Inr (acc, body (request_mapping t))"
    and "parameters (request_mapping t) = ta_mappings acc"
    and "input_schema t = input_schema_of acc"
    and "\<exists>rs. responses_of op = Inr (rs, output_schema t)"
    and "tool_name_ok name"
proof -
  obtain server where s: "op_server op = Some server" using assms by (auto simp: compile_tool_def split: option.splits)
  from assms obtain acc0 acc bm rs out where
    r: "rfold (add_parameter op (dget refs (op_key op)))
           \<lparr>ta_properties = [], ta_definitions = [], ta_required = [], ta_mappings = [], ta_used = []\<rparr>
           (sort_key parameter_order (op_parameters op)) = Inr acc0"
    and b: "add_body op acc0 = Inr (acc, bm)" and rs: "responses_of op = Inr (rs, out)"
    and m: "make_tool (tool_of limits name op server (dget refs (op_key op)) acc bm rs out) = Inr t"
    unfolding compile_tool_def s option.case Let_def rbind_Inr_iff split_paired_Ex prod.case pydantic_Inr by blast
  have id: "make_tool u = Inr t \<Longrightarrow> t = u \<and> tool_name_ok (tool_name u)" for u by (auto simp: make_tool_def split: if_splits)
  note t = id [OF m, unfolded tool_of_def]
  show ?thesis
    by (rule that [OF _ _ _ _ _ _ _ r]) (use t b rs s in simp_all)
qed

text \<open>The parameters of a compiled tool, in the terms of the operation.\<close>

lemma compiled_parameters:
  assumes "compile_tool refs limits name op = Inr t"
  shows "list_all2 mapping_of (filter (kept (security_profile_ref t)) (sort_key parameter_order (op_parameters op)))
      (parameters (request_mapping t))"
    and "distinct (mapped_fields (request_mapping t))"
    and "\<exists>props. map_of (input_schema t) ''properties'' = Some (JObj props) \<and> set (dkeys props) = set (mapped_fields (request_mapping t))"
    and "op_body op = None \<longleftrightarrow> body (request_mapping t) = None"
    and "\<And>b. body (request_mapping t) = Some b \<Longrightarrow> body_required b = cb_required (the (op_body op))
      \<and> (\<exists>media\<in>set (cb_content (the (op_body op))). multipart_files b = multipart_files_of media)"
proof -
  let ?init = "\<lparr>ta_properties = [], ta_definitions = [], ta_required = [], ta_mappings = [], ta_used = []\<rparr>"
  obtain acc0 acc where t: "security_profile_ref t = dget refs (op_key op)"
    "rfold (add_parameter op (dget refs (op_key op))) ?init (sort_key parameter_order (op_parameters op)) = Inr acc0"
    "add_body op acc0 = Inr (acc, body (request_mapping t))" "parameters (request_mapping t) = ta_mappings acc"
    "input_schema t = input_schema_of acc"
    by (rule compile_tool_Inr [OF assms])
  have acc0: "fields_ok acc0" "map tool_field (ta_mappings acc0) = ta_used acc0"
    "list_all2 mapping_of (filter (kept (dget refs (op_key op))) (sort_key parameter_order (op_parameters op))) (ta_mappings acc0)"
    using add_parameters_Inr [OF t(2)] by (auto simp: fields_ok_def)
  note b = add_body_Inr [OF t(3) acc0(1,2)]
  show "list_all2 mapping_of (filter (kept (security_profile_ref t)) (sort_key parameter_order (op_parameters op)))
      (parameters (request_mapping t))"
    using acc0(3) b(2) t by simp
  have used: "mapped_fields (request_mapping t) = ta_used acc" using b(3) t(4) by (simp add: mapped_fields_def)
  then show "distinct (mapped_fields (request_mapping t))" using b(1) by (simp add: fields_ok_def)
  have "map_of (input_schema t) ''properties'' = Some (JObj (ta_properties acc))" by (simp add: t(5) input_schema_of_def)
  then show "\<exists>props. map_of (input_schema t) ''properties'' = Some (JObj props) \<and> set (dkeys props) = set (mapped_fields (request_mapping t))"
    using b(1) unfolding used fields_ok_def by blast
  show "op_body op = None \<longleftrightarrow> body (request_mapping t) = None" by (rule b(4))
  show "body_required bm = cb_required (the (op_body op))
      \<and> (\<exists>media\<in>set (cb_content (the (op_body op))). multipart_files bm = multipart_files_of media)"
    if "body (request_mapping t) = Some bm" for bm using b(5) [OF that] .
qed

section \<open>Tool names\<close>

definition names_ok :: "name_state \<Rightarrow> bool" where
  "names_ok st \<longleftrightarrow> ran (map_of (fst st)) \<subseteq> set (snd st) \<and> inj_on (map_of (fst st)) (dom (map_of (fst st)))"

lemma add_tool_name_Inr:
  assumes "add_tool_name env n st op = Inr st'"
  shows "names_ok st \<Longrightarrow> names_ok st'" and "dom (map_of (fst st')) = insert (op_key op) (dom (map_of (fst st)))"
proof -
  obtain result used where st: "st = (result, used)" by (cases st)
  from assms obtain c where c: "c \<notin> set used" "st' = (dset (op_key op) c result, used @ [c])"
    by (auto simp: add_tool_name_def st Let_def split: if_splits)
  show "dom (map_of (fst st')) = insert (op_key op) (dom (map_of (fst st)))" by (simp add: c st update_conv')
  assume ok: "names_ok st"
  then have "map_of result k \<noteq> Some c" for k using c(1) by (auto simp: names_ok_def st ran_def)
  then show "names_ok st'"
    using ok by (auto simp: names_ok_def st c(2) update_conv' ran_def inj_on_def dom_def split: if_splits)
qed

lemma add_tool_names_Inr:
  "rfold (add_tool_name env n) st ops = Inr st' \<Longrightarrow> names_ok st \<Longrightarrow>
   names_ok st' \<and> dom (map_of (fst st')) = dom (map_of (fst st)) \<union> op_key ` set ops"
proof (induction ops arbitrary: st)
  case (Cons op ops)
  from Cons.prems(1) obtain st1 where s: "add_tool_name env n st op = Inr st1" "rfold (add_tool_name env n) st1 ops = Inr st'"
    by (auto simp: result_simps)
  note a = add_tool_name_Inr [OF s(1)]
  from Cons.IH [OF s(2) a(1) [OF Cons.prems(2)]] a(2) show ?case by simp
qed simp

lemma tool_names_of_Inr:
  assumes "tool_names_of env ops = Inr names"
  shows "dom (map_of names) = op_key ` set ops" and "inj_on (map_of names) (dom (map_of names))"
proof -
  let ?step = "\<lambda>st seed. rfold (add_tool_name env (length (seed_group ops seed))) st (sort_key op_key (seed_group ops seed))"
  have groups: "rfold ?step st seeds = Inr st' \<Longrightarrow> names_ok st \<Longrightarrow>
      names_ok st' \<and> dom (map_of (fst st')) = dom (map_of (fst st)) \<union> op_key ` {op\<in>set ops. tool_name_seed op \<in> set seeds}"
    for st st' seeds
  proof (induction seeds arbitrary: st)
    case (Cons seed seeds)
    from Cons.prems(1) obtain st1 where s: "?step st seed = Inr st1" "rfold ?step st1 seeds = Inr st'" by (auto simp: result_simps)
    note a = add_tool_names_Inr [OF s(1) Cons.prems(2)]
    show ?case using Cons.IH [OF s(2)] a by (auto simp: seed_group_def)
  qed simp
  from assms obtain used where "rfold ?step ([], []) (sort (remdups (map tool_name_seed ops))) = Inr (names, used)"
    by (auto simp: tool_names_of_def result_simps)
  from groups [OF this] show "dom (map_of names) = op_key ` set ops" "inj_on (map_of names) (dom (map_of names))"
    by (auto simp: names_ok_def)
qed

section \<open>The manifest\<close>

lemma compile_manifest_Inr:
  assumes "compile_manifest env api i = Inr m"
  obtains refs names hosts where "set (ci_excluded i) \<subseteq> op_key ` set (operations api)"
    and "auth_profiles_of env api (ci_selections i) (executable_operations api (ci_excluded i)) = Inr (auth_profiles m, refs)"
    and "tool_names_of env (executable_operations api (ci_excluded i)) = Inr names"
    and "rmap (\<lambda>op. compile_tool refs (ci_limits i) (the (dget names (op_key op))) op)
           (sort_key op_key (executable_operations api (ci_excluded i))) = Inr (tools m)"
    and "rfold (add_host env) [] (servers m) = Inr hosts" and "allowed_upstream_hosts (security m) = sort hosts"
    and "build m = build_metadata_of env api i" and "runtime_compatibility m = ci_runtime_compatibility i"
    and "resources m = ci_resources i" and "validate_references m = Inr m"
    and "rmap (make_server_definition env) (sort_key cs_key (selected_servers api (executable_operations api (ci_excluded i)))) = Inr (servers m)"
proof -
  let ?ops = "executable_operations api (ci_excluded i)"
  have ex: "set (ci_excluded i) \<subseteq> op_key ` set (operations api)" and pid: "uuid_str (api_project api) = ci_project_id i"
    using assms by (auto simp: compile_manifest_def split: if_splits)
  then have guards: "\<not> uuid_str (api_project api) \<noteq> ci_project_id i" "\<not> \<not> set (ci_excluded i) \<subseteq> set (map op_key (operations api))"
    by auto
  have srv: "(if \<not> A then Inl e else r) = Inr x \<longleftrightarrow> A \<and> r = Inr x" for A and e :: backend_error and r and x :: mcp_manifest by simp
  obtain profiles refs names ts ss hosts bm rs where
    p: "auth_profiles_of env api (ci_selections i) ?ops = Inr (profiles, refs)" "tool_names_of env ?ops = Inr names"
    "rmap (\<lambda>op. compile_tool refs (ci_limits i) (the (dget names (op_key op))) op) (sort_key op_key ?ops) = Inr ts"
    "rmap (make_server_definition env) (sort_key cs_key (selected_servers api ?ops)) = Inr ss"
    "rfold (add_host env) [] ss = Inr hosts" "make_build_metadata (build_metadata_of env api i) = Inr bm"
    "make_runtime_security \<lparr>allowed_upstream_hosts = sort hosts, allow_insecure_none_only_in_development = True,
       default_timeout_ms = tl_timeout_ms (ci_limits i), default_max_response_bytes = tl_max_response_bytes (ci_limits i)\<rparr> = Inr rs"
    and m: "make_manifest (signed_manifest env i profiles ts ss rs bm) = Inr m"
    using assms unfolding compile_manifest_def if_not_P [OF guards(1)] if_not_P [OF guards(2)] Let_def rbind_Inr_iff
      split_paired_Ex prod.case pydantic_Inr srv by blast
  have rs: "allowed_upstream_hosts rs = sort hosts" using p(7) by (auto simp: make_runtime_security_def split: if_splits)
  have bm: "bm = build_metadata_of env api i" using p(6) by (auto simp: make_build_metadata_def split: if_splits)
  from m have u: "validate_references (signed_manifest env i profiles ts ss rs bm) = Inr m"
    by (auto simp: make_manifest_def split: if_splits)
  have id: "validate_references u = Inr m \<Longrightarrow> u = m" for u
    by (auto simp: validate_references_def Let_def result_simps split: if_splits)
  have "validate_references m = Inr m" using u id [OF u] by simp
  then show ?thesis
    by (intro that [of refs names hosts, OF ex]) (use p rs bm in \<open>simp_all add: id [OF u, symmetric] signed_manifest_def Let_def\<close>)
qed

end
