(* ===== verification/CompilerProperties.thy ===== *)
theory CompilerProperties
  imports CompilerFacts "HOL-Library.Multiset"
begin

text \<open>
  The compiler against its two judges: the contract the runtime checks when it loads a manifest
  (\<^verbatim>\<open>mcp_contracts/validation.py\<close>) and the validator of the build pipeline
  (\<^verbatim>\<open>validators/build.py\<close>).
\<close>

section \<open>The runtime contract\<close>

definition clean_url :: "(pystr \<Rightarrow> bool) \<Rightarrow> pystr \<Rightarrow> bool" where
  "clean_url brk u \<longleftrightarrow> (case urlsplit brk u of Inl _ \<Rightarrow> False
     | Inr r \<Rightarrow> scheme r \<in> {''http'', ''https''} \<and> \<not> truthy (url_username r) \<and> \<not> truthy (url_password r)
         \<and> query r = [] \<and> fragment r = [])"

definition distinct_parts :: "canonical_media \<Rightarrow> bool" where
  \<comment> \<open>a Python dictionary has each key once\<close>
  "distinct_parts media \<longleftrightarrow> (case dget (cm_schema media) ''properties'' of Some (JObj ps) \<Rightarrow> distinct (dkeys ps) | _ \<Rightarrow> True)"

definition portable_parameter :: "canonical_parameter \<Rightarrow> bool" where
  "portable_parameter p \<longleftrightarrow>
     (cp_location p \<noteq> QueryLoc \<longrightarrow> cp_style p \<in> {None, Some ''simple''} \<and> \<not> cp_allow_reserved p)
     \<and> (cp_location p = HeaderLoc \<longrightarrow> py_lower (cp_name p) \<noteq> ''content-type'')"

definition portable_operation :: "canonical_operation \<Rightarrow> bool" where
  "portable_operation op \<longleftrightarrow> validate_operation_path (path_template op) = Inr ()
     \<and> distinct (map parameter_order (op_parameters op))
     \<and> list_all portable_parameter (op_parameters op)
     \<and> (case op_body op of None \<Rightarrow> True | Some b \<Rightarrow> list_all distinct_parts (cb_content b))"

lemma multipart_files_distinct: "distinct_parts media \<Longrightarrow> distinct (map content_field (multipart_files_of media))"
proof -
  assume d: "distinct_parts media"
  have "distinct (map fst (filter P (sort_key fst ps)))" if "distinct (dkeys ps)" for P and ps :: json_object
    using that by (intro distinct_map_filter) (simp add: distinct_map)
  then show ?thesis
    using d by (auto simp: multipart_files_of_def distinct_parts_def Let_def comp_def case_prod_beta split: option.splits json.splits)
qed

lemma mapping_order: "mapping_of p m \<Longrightarrow> (target_value (target m), py_lower (source_name m)) = parameter_order p"
  by (cases "cp_location p") (auto simp: mapping_of_def parameter_order_def)

lemma list_all2_map_eq: "list_all2 R xs ys \<Longrightarrow> (\<And>x y. R x y \<Longrightarrow> g y = f x) \<Longrightarrow> map g ys = map f xs"
  by (induction rule: list_all2_induct) auto

lemma list_all2_member: "list_all2 R xs ys \<Longrightarrow> y \<in> set ys \<Longrightarrow> \<exists>x\<in>set xs. R x y"
  by (induction rule: list_all2_induct) auto

lemma distinct_map_comp: "distinct (map (\<lambda>x. h (f x)) xs) \<Longrightarrow> distinct (map f xs)"
  by (auto simp: distinct_map inj_on_def)

lemma compiled_destinations_distinct:
  assumes "list_all2 mapping_of (filter (kept a) (sort_key parameter_order ps)) ms" and "distinct (map parameter_order ps)"
  shows "distinct (map (\<lambda>m. (target m, py_lower (source_name m))) ms)"
proof -
  have "map (\<lambda>m. (target_value (target m), py_lower (source_name m))) ms
      = map parameter_order (filter (kept a) (sort_key parameter_order ps))"
    by (rule list_all2_map_eq [OF assms(1) mapping_order])
  moreover have "distinct (map parameter_order (filter (kept a) (sort_key parameter_order ps)))"
    using assms(2) by (intro distinct_map_filter) (simp add: distinct_map)
  ultimately have "distinct (map (\<lambda>m. (\<lambda>(t, n). (target_value t, n)) (target m, py_lower (source_name m))) ms)" by simp
  then show ?thesis by (rule distinct_map_comp)
qed

lemma compiled_path_sources:
  assumes "list_all2 mapping_of (filter (kept a) (sort_key parameter_order ps)) ms"
  shows "set (map source_name (filter (\<lambda>m. target m = PathTarget) ms)) = set (map cp_name (filter (\<lambda>p. cp_location p = PathLoc) ps))"
proof -
  have path: "mapping_of p m \<Longrightarrow> target m = PathTarget \<longleftrightarrow> cp_location p = PathLoc" for p m
    by (cases "cp_location p") (auto simp: mapping_of_def)
  have src: "mapping_of p m \<Longrightarrow> source_name m = cp_name p" for p m by (simp add: mapping_of_def)
  have "map source_name (filter (\<lambda>m. target m = PathTarget) ms) = map cp_name (filter (\<lambda>p. cp_location p = PathLoc) qs)"
    if "list_all2 mapping_of qs ms" for qs
    using that by (induction rule: list_all2_induct) (simp_all add: path src)
  from this [OF assms] have "set (map source_name (filter (\<lambda>m. target m = PathTarget) ms))
      = cp_name ` {p\<in>set ps. kept a p \<and> cp_location p = PathLoc}" by (simp add: conj_commute)
  also have "\<dots> = cp_name ` {p\<in>set ps. cp_location p = PathLoc}" by (rule arg_cong [of _ _ "\<lambda>s. cp_name ` s"]) (auto simp: kept_def)
  finally show ?thesis by simp
qed

lemma forbidden_headers_cover: "h \<notin> set compiler_forbidden_headers \<Longrightarrow> h \<noteq> ''content-type'' \<Longrightarrow> h \<notin> set forbidden_caller_headers"
  by (auto simp: compiler_forbidden_headers_def forbidden_caller_headers_def forbidden_auth_headers_def)

lemma compiled_parameter_valid:
  assumes "mapping_of p m" and "portable_parameter p" and "tool_field m \<in> set props"
    and "cp_location p = PathLoc \<Longrightarrow> contains path (placeholder (cp_name p))"
  shows "validate_parameter path props m = Inr ()"
  using assms forbidden_headers_cover [of "py_lower (cp_name p)"]
  by (cases "cp_location p") (auto simp: mapping_of_def portable_parameter_def validate_parameter_def)

lemma compiled_tool_mapping:
  assumes c: "compile_tool refs limits name op = Inr t" and op: "make_operation op = Inr op" and port: "portable_operation op"
  shows "validate_tool_mapping t = Inr ()"
proof -
  note cp = compiled_parameters [OF c]
  obtain props where props: "map_of (input_schema t) ''properties'' = Some (JObj props)"
    "set (dkeys props) = set (mapped_fields (request_mapping t))" using cp(3) by blast
  have path: "rm_path (request_mapping t) = path_template op" using compile_tool_Inr [OF c] by metis
  obtain names where names: "path_parameter_names (path_template op) = Inr names" "set names = set (path_names op)"
    using make_operation_Inr(2) [OF op] by blast
  have dest: "distinct (map (\<lambda>m. (target m, py_lower (source_name m))) (parameters (request_mapping t)))"
    using compiled_destinations_distinct [OF cp(1)] port by (simp add: portable_operation_def)
  have sources: "set (path_sources (request_mapping t)) = set names"
    using compiled_path_sources [OF cp(1)] names(2) by (simp add: path_sources_def path_names_def)
  have valid: "validate_parameter (path_template op) (dkeys props) m = Inr ()" if m: "m \<in> set (parameters (request_mapping t))" for m
  proof -
    obtain p where p: "p \<in> set (op_parameters op)" "mapping_of p m"
      using list_all2_member [OF cp(1) m] by auto
    have "contains (path_template op) (placeholder (cp_name p))" if "cp_location p = PathLoc"
    proof -
      have n: "cp_name p \<in> set names" using names(2) p(1) that by (auto simp: path_names_def)
      obtain ps where "wf_template ps" "render ps = path_template op" "params ps = names" using parse_complete [OF names(1)] by blast
      then show ?thesis using placeholder_in_render [of ps "cp_name p"] names_wf [OF names(1) n] n by simp
    qed
    then show ?thesis
      using compiled_parameter_valid [OF p(2)] port p(1) m props(2)
      by (auto simp: portable_operation_def list_all_iff mapped_fields_def)
  qed
  have files: "distinct (map content_field (multipart_files b))" if b: "body (request_mapping t) = Some b" for b
  proof -
    have some: "op_body op \<noteq> None" using cp(4) b by simp
    then obtain media where media: "media \<in> set (cb_content (the (op_body op)))" "multipart_files b = multipart_files_of media"
      using cp(5) [OF b] by blast
    have "distinct_parts media" using port media(1) some by (auto simp: portable_operation_def list_all_iff)
    then show ?thesis unfolding media(2) by (rule multipart_files_distinct)
  qed
  have bf: "body_field b \<in> set (dkeys props)" if "body (request_mapping t) = Some b" for b
    unfolding props(2) using that by (simp add: mapped_fields_def)
  have riter: "riter (validate_parameter (path_template op) (dkeys props)) (parameters (request_mapping t)) = Inr ()"
    using valid by (simp add: riter_Inr_iff)
  show ?thesis
    unfolding validate_tool_mapping_def Let_def props(1) option.case json.case path riter names(1) rbind.simps
    using cp(2) dest props(2) sources files bf by (auto split: option.split)
qed

lemma compiled_hosts:
  assumes "rfold (add_host env) hosts0 ss = Inr hosts" and "\<forall>s\<in>set ss. clean_url (ce_brk env) (sd_url s)"
  shows "\<exists>hs. rmap (server_host (ce_enc env) (ce_brk env)) ss = Inr hs \<and> set hosts = set hosts0 \<union> set hs"
  using assms
proof (induction ss arbitrary: hosts0)
  case (Cons s ss)
  from Cons.prems(1) obtain hosts1 where h: "add_host env hosts0 s = Inr hosts1" "rfold (add_host env) hosts1 ss = Inr hosts"
    by (auto simp: result_simps)
  from h(1) obtain r h e where r: "urlsplit (ce_brk env) (sd_url s) = Inr r" "url_hostname r = Some h"
    "ce_enc env (rstrip_char (CHR ''.'') h) = Inr e" "set hosts1 = insert (py_lower e) (set hosts0)"
    by (auto simp: add_host_def split: sum.splits option.splits if_splits)
  have "server_host (ce_enc env) (ce_brk env) s = Inr (py_lower e)"
    using Cons.prems(2) r by (simp add: server_host_def clean_url_def)
  moreover obtain hs where "rmap (server_host (ce_enc env) (ce_brk env)) ss = Inr hs" "set hosts = set hosts1 \<union> set hs"
    using Cons.IH [OF h(2)] Cons.prems(2) by auto
  ultimately show ?case using r(4) by auto
qed simp

lemma rmap_identity: "(\<And>x. x \<in> set xs \<Longrightarrow> f x = Inr x) \<Longrightarrow> rmap f xs = Inr xs"
  by (induction xs) auto

lemma compiled_tool_of:
  assumes "compile_manifest env api i = Inr m" and "t \<in> set (tools m)"
  obtains refs name op where "op \<in> set (operations api)" and "op_key op \<notin> set (ci_excluded i)"
    and "compile_tool refs (ci_limits i) name op = Inr t"
proof -
  obtain refs names where "rmap (\<lambda>op. compile_tool refs (ci_limits i) (the (dget names (op_key op))) op)
      (sort_key op_key (executable_operations api (ci_excluded i))) = Inr (tools m)"
    by (rule compile_manifest_Inr [OF assms(1)])
  from rmap_set [OF this assms(2)] show ?thesis using that by (auto simp: executable_operations_def)
qed

lemma input_is_object:
  assumes "compile_tool refs limits name op = Inr t"
  shows "schema_type_is_object (input_schema t)"
proof -
  obtain acc where "input_schema t = input_schema_of acc" by (rule compile_tool_Inr [OF assms])
  then show ?thesis by (simp add: input_schema_of_def schema_type_is_object_def json_is_str_def)
qed

lemma output_is_object: "responses_of op = Inr (rs, Some s) \<Longrightarrow> schema_type_is_object s"
  by (auto simp: responses_of_def result_simps response_envelope_schema_def schema_type_is_object_def json_is_str_def Let_def
      split: if_splits)

text \<open>A manifest the compiler produces is one every runtime accepts: for a valid canonical model
  whose operations only use what the runtime can serialise (an origin-relative path, no two
  parameters of a location that differ only in case, simple path and header parameters), plain HTTP
  server URLs and schemas whose references resolve, the compiled manifest passes the whole manifest
  contract. The encoder of host names is idempotent and the version range check accepts the version.\<close>

lemma compiled_contract:
  assumes api: "make_api api = Inr api" and c: "compile_manifest env api i = Inr m"
    and range: "in_range (ci_runtime_compatibility i) v = Some True"
    and uris: "distinct (map res_uri (ci_resources i))"
    and ops: "\<forall>op\<in>set (operations api). op_key op \<notin> set (ci_excluded i) \<longrightarrow> portable_operation op"
    and urls: "\<forall>s\<in>set (servers m). clean_url (ce_brk env) (sd_url s)"
    and idem: "\<forall>s\<in>set (servers m). \<forall>h. server_host (ce_enc env) (ce_brk env) s = Inr h \<longrightarrow>
      normalize_allowed_host (ce_enc env) (ce_brk env) h = Inr h"
    and refs: "\<forall>t\<in>set (tools m). validate_tool_schemas t = Inr ()"
  shows "validate_manifest_contract in_range (ce_enc env) (ce_brk env) m v = Inr ()"
proof -
  obtain hosts where cm: "rfold (add_host env) [] (servers m) = Inr hosts" "allowed_upstream_hosts (security m) = sort hosts"
    "runtime_compatibility m = ci_runtime_compatibility i" "resources m = ci_resources i" "validate_references m = Inr m"
    by (rule compile_manifest_Inr [OF c])
  obtain hs where hs: "rmap (server_host (ce_enc env) (ce_brk env)) (servers m) = Inr hs" "set hosts = set hs"
    using compiled_hosts [OF cm(1) urls] by auto
  have norm: "rmap (normalize_allowed_host (ce_enc env) (ce_brk env)) (sort hosts) = Inr (sort hosts)"
    using rmap_set [OF hs(1)] idem hs(2) by (intro rmap_identity) auto
  have tool: "validate_contract_tool m t = Inr ()" if t: "t \<in> set (tools m)" for t
  proof -
    obtain prefs name op where op: "op \<in> set (operations api)" "op_key op \<notin> set (ci_excluded i)"
      "compile_tool prefs (ci_limits i) name op = Inr t" by (rule compiled_tool_of [OF c t])
    have "validate_operation_path (rm_path (request_mapping t)) = Inr ()"
      using compile_tool_Inr [OF op(3)] ops op(1,2) unfolding portable_operation_def by metis
    moreover have "validate_tool_mapping t = Inr ()"
      using compiled_tool_mapping [OF op(3)] make_api_Inr(4) [OF api] op ops by blast
    moreover have "schema_type_is_object (input_schema t)"
      by (rule input_is_object [OF op(3)])
    moreover have "output_schema t = Some s \<Longrightarrow> schema_type_is_object s" for s
      using compile_tool_Inr [OF op(3)] output_is_object by metis
    moreover have "server_ref (request_mapping t) \<in> set (map sd_id (servers m))"
      "truthy (security_profile_ref t) \<Longrightarrow> the (security_profile_ref t) \<in> set (map ap_id (auth_profiles m))"
      using cm(5) t by (auto simp: validate_references_def Let_def result_simps split: if_splits)
    ultimately show ?thesis using refs t by (auto simp: validate_contract_tool_def split: option.split)
  qed
  have "distinct (map sd_id (servers m))" "distinct (map ap_id (auth_profiles m))" "distinct (map tool_name (tools m))"
    using cm(5) by (auto simp: validate_references_def Let_def split: if_splits)
  moreover have "riter (validate_contract_tool m) (tools m) = Inr ()" using tool by (simp add: riter_Inr_iff)
  ultimately show ?thesis
    using range uris hs norm cm by (simp add: validate_manifest_contract_def validate_runtime_compatibility_def)
qed

section \<open>The build validator\<close>

lemma compiled_keys:
  assumes "compile_manifest env api i = Inr m"
  shows "map operation_key (filter enabled (tools m)) = map op_key (sort_key op_key (executable_operations api (ci_excluded i)))"
proof -
  obtain refs names where r: "rmap (\<lambda>op. compile_tool refs (ci_limits i) (the (dget names (op_key op))) op)
      (sort_key op_key (executable_operations api (ci_excluded i))) = Inr (tools m)"
    by (rule compile_manifest_Inr [OF assms])
  have tool: "operation_key t = op_key op \<and> enabled t" if "compile_tool refs limits name op = Inr t" for limits name op t
    by (rule compile_tool_Inr [OF that]) blast
  have "filter enabled (tools m) = tools m"
    unfolding filter_id_conv using rmap_set [OF r] tool by blast
  then show ?thesis using rmap_map_proj [OF r, of operation_key op_key] tool by simp
qed

lemma operation_by_key_distinct:
  assumes "distinct (map op_key (operations api))" and "op \<in> set (operations api)"
  shows "operation_by_key api (op_key op) = Some op"
proof -
  have inj: "inj_on op_key (set (operations api))" using assms(1) by (simp add: distinct_map)
  have "operation_by_key api (op_key op) \<noteq> None"
    using assms(2) by (auto simp: operation_by_key_def find_None_iff)
  then obtain x where x: "operation_by_key api (op_key op) = Some x" by blast
  then have "x \<in> set (operations api)" "op_key x = op_key op"
    using nth_mem [of _ "rev (operations api)"] by (auto simp: operation_by_key_def find_Some_iff)
  then show ?thesis using x inj assms(2) by (simp add: inj_on_def)
qed

lemma count_list_distinct: "distinct xs \<Longrightarrow> count_list xs x \<le> 1"
  by (induction xs) auto

lemma coverage_equal: "coverage_percent (int n) (int n) = Inr 100"
  by (simp add: coverage_percent_def round2_def)

lemma compiled_coverage:
  assumes api: "make_api api = Inr api" and c: "compile_manifest env api i = Inr m"
  shows "coverage_findings api m (ci_excluded i) = []" and "duplicate_name_findings m = []"
    and "length (filter (\<lambda>k. k \<notin> set (ci_excluded i)) (remdups (map op_key (operations api))))
      = length (map operation_key (filter enabled (tools m)))"
proof -
  have d: "distinct (map op_key (operations api))" using make_api_Inr(3) [OF api] .
  let ?gen = "map op_key (sort_key op_key (executable_operations api (ci_excluded i)))"
  note gen = compiled_keys [OF c]
  have exec: "map op_key (executable_operations api (ci_excluded i)) = filter (\<lambda>k. k \<notin> set (ci_excluded i)) (map op_key (operations api))"
    by (simp add: executable_operations_def filter_map comp_def)
  have dg: "distinct ?gen" using d by (simp add: distinct_map executable_operations_def inj_on_def)
  have sg: "set ?gen = set (map op_key (operations api)) - set (ci_excluded i)" by (auto simp: executable_operations_def)
  have rd: "remdups (map op_key (operations api)) = map op_key (operations api)" using d by (rule distinct_remdups_id)
  show "length (filter (\<lambda>k. k \<notin> set (ci_excluded i)) (remdups (map op_key (operations api))))
      = length (map operation_key (filter enabled (tools m)))"
    unfolding gen rd exec [symmetric] by simp
  have ex: "set (ci_excluded i) \<subseteq> set (map op_key (operations api))" by (rule compile_manifest_Inr [OF c]) simp
  have e: "filter (\<lambda>k. k \<notin> set (map op_key (operations api))) (ci_excluded i) = []"
    "filter (\<lambda>k. 1 < count_list ?gen k) (sort (remdups ?gen)) = []"
    "filter (\<lambda>k. k \<notin> set ?gen) (sort (filter (\<lambda>k. k \<notin> set (ci_excluded i)) (remdups (map op_key (operations api))))) = []"
    "filter (\<lambda>k. k \<notin> set (filter (\<lambda>k. k \<notin> set (ci_excluded i)) (remdups (map op_key (operations api))))) (sort (remdups ?gen)) = []"
    unfolding filter_empty_conv using ex sg count_list_distinct [OF dg] by (auto simp: not_less simp del: set_map)
  show "coverage_findings api m (ci_excluded i) = []"
    unfolding coverage_findings_def Let_def gen e by simp
  have "distinct (map tool_name (tools m))"
    by (rule compile_manifest_Inr [OF c]) (auto simp: validate_references_def Let_def split: if_splits)
  then have "filter (\<lambda>n. 1 < count_list (map tool_name (tools m)) n) (remdups (map tool_name (tools m))) = []"
    unfolding filter_empty_conv using count_list_distinct by (auto simp: not_less)
  then show "duplicate_name_findings m = []" unfolding duplicate_name_findings_def Let_def by simp
qed

definition hidden_header :: "canonical_operation \<Rightarrow> bool" where
  "hidden_header op \<longleftrightarrow> list_ex (\<lambda>p. cp_required p \<and> cp_location p = HeaderLoc \<and> py_lower (cp_name p) = ''authorization'') (op_parameters op)"

lemma compiled_required:
  assumes "compile_tool refs limits name op = Inr t" and "\<not> hidden_header op"
  shows "required_findings op t = []"
proof -
  note cp = compiled_parameters(1) [OF assms(1)]
  have "(location_value (cp_location p), cp_name p) \<in> set (mapped_required t)"
    if p: "p \<in> set (op_parameters op)" "cp_required p" for p
  proof -
    have "kept (security_profile_ref t) p" using assms(2) p by (auto simp: kept_def hidden_header_def list_ex_iff)
    then have "p \<in> set (filter (kept (security_profile_ref t)) (sort_key parameter_order (op_parameters op)))" using p(1) by simp
    then obtain m where m: "m \<in> set (parameters (request_mapping t))" "mapping_of p m"
      using list_all2_member [of "\<lambda>y x. mapping_of x y", OF list_all2_conv_all_nth [THEN iffD2]] cp
      by (metis (no_types, lifting) in_set_conv_nth list_all2_conv_all_nth)
    have "(location_value (cp_location p), cp_name p) = (target_value (target m), source_name m)"
      using m(2) by (cases "cp_location p") (auto simp: mapping_of_def)
    then show ?thesis using m p(2) by (auto simp: mapped_required_def mapping_of_def)
  qed
  then show ?thesis by (auto simp: required_findings_def source_required_def)
qed

lemma compiled_tool_findings:
  assumes c: "compile_manifest env api i = Inr m" and t: "t \<in> set (tools m)"
    and op: "compile_tool refs limits name op = Inr t" and f: "f \<in> set (tool_findings meta_valid m op t)"
  shows "vf_code f \<in> {''INVALID_JSON_SCHEMA'', ''SPARSE_SOURCE_DESCRIPTION''}
    \<or> vf_code f = ''REQUIRED_PARAMETER_DROPPED'' \<and> hidden_header op"
proof -
  have tool: "Some (server_ref (request_mapping t)) = op_server op" "rm_method (request_mapping t) = op_method op"
    "rm_path (request_mapping t) = path_template op"
    by (rule compile_tool_Inr [OF op], simp)+
  have refs: "server_ref (request_mapping t) \<in> set (map sd_id (servers m))"
    "truthy (security_profile_ref t) \<Longrightarrow> the (security_profile_ref t) \<in> set (map ap_id (auth_profiles m))"
    by (rule compile_manifest_Inr [OF c], use t in \<open>auto simp: validate_references_def Let_def result_simps split: if_splits\<close>)+
  have body: "op_body op = Some b \<Longrightarrow> cb_required b \<Longrightarrow> \<exists>bm. body (request_mapping t) = Some bm \<and> body_required bm" for b
    using compiled_parameters(4,5) [OF op] by (metis option.exhaust option.sel option.distinct(1))
  have req: "g \<in> set (required_findings op t) \<Longrightarrow> vf_code g = ''REQUIRED_PARAMETER_DROPPED'' \<and> hidden_header op" for g
    using compiled_required [OF op] by (auto simp: required_findings_def split: if_splits)
  have schema: "g \<in> set (check_schema meta_valid k msg s) \<Longrightarrow> vf_code g = ''INVALID_JSON_SCHEMA''" for g k msg s
    by (auto simp: check_schema_def split: if_splits)
  show ?thesis
    using f tool refs body req schema unfolding tool_findings_def Let_def
    by (fastforce split: if_splits option.splits)
qed


definition sample_findings :: "validation_finding list" where
  "sample_findings = projr (validate_build (\<lambda>_ _. Some False) (\<lambda>_. True) sample_compile_env sample_api sample_compiled
     (ci_excluded sample_compile_input) (bm_canonical_sha256 (build sample_compiled)) ''1'')"

lemma sample_validates: "validate_build (\<lambda>_ _. Some False) (\<lambda>_. True) sample_compile_env sample_api sample_compiled
     (ci_excluded sample_compile_input) (bm_canonical_sha256 (build sample_compiled)) ''1'' = Inr sample_findings"
proof -
  have "\<not> isl (validate_build (\<lambda>_ _. Some False) (\<lambda>_. True) sample_compile_env sample_api sample_compiled
     (ci_excluded sample_compile_input) (bm_canonical_sha256 (build sample_compiled)) ''1'')" by code_simp
  then show ?thesis unfolding sample_findings_def by (simp add: sum.collapse)
qed


section \<open>What a validator without errors guarantees\<close>

lemma count_list_one: "(\<And>x. count_list xs x \<le> 1) \<Longrightarrow> distinct xs"
proof (induction xs)
  case (Cons a xs)
  have "count_list xs x \<le> 1" for x using Cons.prems [of x] by (auto split: if_splits)
  moreover have "a \<notin> set xs" using Cons.prems [of a] by (auto simp: count_list_0_iff)
  ultimately show ?case using Cons.IH by simp
qed simp

lemma no_error_coverage:
  assumes "list_all (\<lambda>f. vf_severity f \<noteq> ErrorSeverity) (coverage_findings api m excluded)"
  shows "distinct (map operation_key (filter enabled (tools m)))
    \<and> set (map operation_key (filter enabled (tools m))) = op_key ` set (operations api) - set excluded"
proof -
  define gen where "gen = map operation_key (filter enabled (tools m))"
  have all_error: "list_all (\<lambda>f. vf_severity f \<noteq> ErrorSeverity) (map (\<lambda>k. finding c ErrorSeverity st msg (opn k) (src k) d) ks) \<longleftrightarrow> ks = []"
    for c st msg opn src d and ks :: "pystr list" by (cases ks) auto
  from assms have e: "filter (\<lambda>k. 1 < count_list gen k) (sort (remdups gen)) = []"
    "filter (\<lambda>k. k \<notin> set gen) (sort (filter (\<lambda>k. k \<notin> set excluded) (remdups (map op_key (operations api))))) = []"
    "filter (\<lambda>k. k \<notin> set (filter (\<lambda>k. k \<notin> set excluded) (remdups (map op_key (operations api))))) (sort (remdups gen)) = []"
    unfolding coverage_findings_def Let_def gen_def [symmetric] list_all_append all_error by blast+
  have "count_list gen k \<le> 1" for k
  proof (cases "k \<in> set gen")
    case True
    then show ?thesis using e(1) by (auto simp: filter_empty_conv not_less)
  next
    case False
    then show ?thesis by (simp add: count_list_0_iff)
  qed
  then have "distinct gen" by (rule count_list_one)
  moreover have "set gen = op_key ` set (operations api) - set excluded"
    using e(2,3) by (auto simp: filter_empty_conv)
  ultimately show ?thesis by (simp add: gen_def)
qed

definition tool_keeps :: "mcp_manifest \<Rightarrow> canonical_operation \<Rightarrow> mcp_tool \<Rightarrow> bool" where
  "tool_keeps m op t \<longleftrightarrow>
     rm_method (request_mapping t) = op_method op \<and> rm_path (request_mapping t) = path_template op
     \<and> op_server op = Some (server_ref (request_mapping t)) \<and> server_ref (request_mapping t) \<in> set (map sd_id (servers m))
     \<and> set (source_required op) \<subseteq> set (mapped_required t)
     \<and> (case op_body op of None \<Rightarrow> True
         | Some b \<Rightarrow> cb_required b \<longrightarrow> (case body (request_mapping t) of None \<Rightarrow> False | Some bm \<Rightarrow> body_required bm))"

lemma no_error_tool:
  assumes "list_all (\<lambda>f. vf_severity f \<noteq> ErrorSeverity) (tool_findings meta_valid m op t)"
  shows "tool_keeps m op t"
  using assms unfolding tool_findings_def Let_def list_all_append tool_keeps_def required_findings_def
  by (auto split: if_splits option.splits)

text \<open>C29: What the validator lets through is right, whatever produced the manifest: without a finding of error
  severity the enabled tools are exactly the operations that were not excluded, each once, and every
  tool of an operation has its method, path and server, its required parameters and its required
  body, and refers to a server of the manifest.\<close>

theorem validated_build_is_faithful:
  assumes api: "make_api api = Inr api"
    and v: "validate_build in_range meta_valid env api m excluded hash version = Inr fs"
    and ok: "list_all (\<lambda>f. vf_severity f \<noteq> ErrorSeverity) fs"
  shows "distinct (map operation_key (filter enabled (tools m)))
    \<and> set (map operation_key (filter enabled (tools m))) = op_key ` set (operations api) - set excluded
    \<and> (\<forall>t\<in>set (tools m). \<forall>op\<in>set (operations api). operation_key t = op_key op \<longrightarrow> tool_keeps m op t)"
proof -
  define contract where "contract = (case validate_manifest_contract in_range (ce_enc env) (ce_brk env) m version of Inr _ \<Rightarrow> []
    | Inl (ValueError msg) \<Rightarrow> [finding ''RUNTIME_MANIFEST_INVALID'' ErrorSeverity ''manifest'' msg None None []])"
  define per_tool where "per_tool = concat (map (\<lambda>t. case operation_by_key api (operation_key t) of
      None \<Rightarrow> [] | Some op \<Rightarrow> tool_findings meta_valid m op t) (tools m))"
  from v ok have parts: "list_all (\<lambda>f. vf_severity f \<noteq> ErrorSeverity) (coverage_findings api m excluded)"
    "list_all (\<lambda>f. vf_severity f \<noteq> ErrorSeverity) per_tool"
    unfolding validate_build_def Let_def contract_def [symmetric] per_tool_def [symmetric] by (auto simp: result_simps)
  have "tool_keeps m op t" if "t \<in> set (tools m)" "op \<in> set (operations api)" "operation_key t = op_key op" for t op
  proof (rule no_error_tool)
    have "operation_by_key api (operation_key t) = Some op"
      using operation_by_key_distinct [OF make_api_Inr(3) [OF api] that(2)] that(3) by simp
    then have "set (tool_findings meta_valid m op t) \<subseteq> set per_tool" using that(1) by (force simp: per_tool_def)
    then show "list_all (\<lambda>f. vf_severity f \<noteq> ErrorSeverity) (tool_findings meta_valid m op t)"
      using parts(2) by (auto simp: list_all_iff)
  qed
  then show ?thesis using no_error_coverage [OF parts(1)] by blast
qed

theorem validated_build_is_faithful_witness:
  "distinct (map operation_key (filter enabled (tools sample_compiled)))
    \<and> set (map operation_key (filter enabled (tools sample_compiled))) = op_key ` set (operations sample_api) - set []
    \<and> tool_keeps sample_compiled sample_get (hd (tools sample_compiled))"
proof -
  have v: "validate_build (\<lambda>_ _. Some True) (\<lambda>_. True) sample_compile_env sample_api sample_compiled [] (bm_canonical_sha256 (build sample_compiled)) ''1'' = Inr []"
    by code_simp
  have "hd (tools sample_compiled) \<in> set (tools sample_compiled)" "sample_get \<in> set (operations sample_api)"
    "operation_key (hd (tools sample_compiled)) = op_key sample_get" by code_simp+
  then show ?thesis using validated_build_is_faithful [OF sample_api_valid v] by simp
qed

section \<open>Order\<close>

lemma sort_key_mset:
  assumes "mset xs = mset ys" and "inj_on f (set ys)"
  shows "sort_key f xs = sort_key f ys"
  using assms sort_key_inj_key_eq [of xs "sort_key f ys" f] mset_eq_setD [OF assms(1)] by simp

lemma tool_names_mset:
  assumes "mset ops = mset ops'" and "inj_on op_key (set ops')"
  shows "tool_names_of env ops = tool_names_of env ops'"
proof -
  have seeds: "sort (remdups (map tool_name_seed ops)) = sort (remdups (map tool_name_seed ops'))"
    using mset_eq_setD [OF assms(1)] by (metis image_set sorted_list_of_set_sort_remdups)
  have group: "mset (seed_group ops seed) = mset (seed_group ops' seed)" for seed
    using assms(1) by (simp add: seed_group_def)
  have "inj_on op_key (set (seed_group ops' seed))" for seed
    using assms(2) by (auto simp: seed_group_def inj_on_def)
  then have "sort_key op_key (seed_group ops seed) = sort_key op_key (seed_group ops' seed)" for seed
    by (rule sort_key_mset [OF group])
  moreover have "length (seed_group ops seed) = length (seed_group ops' seed)" for seed using group mset_eq_length by blast
  ultimately show ?thesis by (simp add: tool_names_of_def seeds)
qed

text \<open>C30: Compilation is reproducible: the manifest, or the error, does not depend on the order in which the
  canonical model lists its operations, given the digest of the model that the build has frozen.\<close>

theorem compile_ignores_operation_order:
  assumes api: "make_api api = Inr api" and ops: "mset ops = mset (operations api)"
    and digest: "truthy (ci_canonical_digest i)"
  shows "compile_manifest env (api\<lparr>operations := ops\<rparr>) i = compile_manifest env api i"
proof -
  let ?api = "api\<lparr>operations := ops\<rparr>"
  let ?e = "executable_operations api (ci_excluded i)"
  let ?e' = "executable_operations ?api (ci_excluded i)"
  have inj: "inj_on op_key (set (operations api))" using make_api_Inr(3) [OF api] by (simp add: distinct_map)
  have e: "mset ?e' = mset ?e" using ops by (simp add: executable_operations_def)
  have inje: "inj_on op_key (set ?e)" using inj by (auto simp: executable_operations_def inj_on_def)
  have sorted: "sort_key op_key ?e' = sort_key op_key ?e" by (rule sort_key_mset [OF e inje])
  have sete: "set ?e' = set ?e" using e by (rule mset_eq_setD)
  have refs: "set (referenced_servers ?e') = set (referenced_servers ?e)"
    using sete by (simp add: referenced_servers_def List.map_filter_def)
  then have ne: "referenced_servers ?e' = [] \<longleftrightarrow> referenced_servers ?e = []" by (metis set_empty)
  have sel: "selected_servers ?api ?e' = selected_servers api ?e" using refs ne by (simp add: selected_servers_def)
  have schemes: "security_schemes ?api = security_schemes api" by simp
  have "add_profile env ?api = add_profile env api" unfolding add_profile_def schemes ..
  then have prof: "auth_profiles_of env ?api (ci_selections i) ?e' = auth_profiles_of env api (ci_selections i) ?e"
    by (simp add: auth_profiles_of_def sorted)
  have meta: "build_metadata_of env ?api i = build_metadata_of env api i"
    using digest by (simp add: build_metadata_of_def or_text_def)
  have keys: "set (map op_key (operations ?api)) = set (map op_key (operations api))"
    using mset_eq_setD [OF ops] by simp
  have rest: "api_project ?api = api_project api" "api_servers ?api = api_servers api" by simp_all
  show ?thesis
    unfolding compile_manifest_def Let_def keys prof sorted sel meta refs tool_names_mset [OF e inje] rest ..
qed

definition sample_frozen_input :: compile_input where
  "sample_frozen_input = sample_compile_input\<lparr>ci_canonical_digest := Some (replicate 64 (CHR ''a''))\<rparr>"

theorem compile_ignores_operation_order_witness:
  "compile_manifest sample_compile_env (sample_api\<lparr>operations := [sample_post, sample_get]\<rparr>) sample_frozen_input
    = compile_manifest sample_compile_env sample_api sample_frozen_input"
  by (rule compile_ignores_operation_order [OF sample_api_valid])
    (simp_all add: sample_api_def sample_frozen_input_def truthy_def)

section \<open>Tool names\<close>



end
