(* ===== verification/Credentials.thy ===== *)
theory Credentials
  imports Manifest
begin

text \<open>
  The upstream credentials of a project (\<^verbatim>\<open>backend/app/domain/credentials.py\<close>): the schemes, and the
  validation of a secret with its public metadata when a credential is stored or rotated. Both are
  decoded JSON objects.
\<close>

datatype credential_scheme = BearerCred | ApiKeyHeaderCred | ApiKeyQueryCred | BasicCred | OAuthCred | StaticHeadersCred

definition forbidden_static_headers :: "pystr list" where
  "forbidden_static_headers = [''connection'', ''content-length'', ''content-type'', ''cookie'', ''host'', ''keep-alive'',
     ''proxy-authenticate'', ''proxy-authorization'', ''set-cookie'', ''te'', ''trailer'', ''transfer-encoding'', ''upgrade'']"

fun json_text :: "json option \<Rightarrow> pystr option" where
  \<comment> \<open>the value of \<^verbatim>\<open>d.get(k)\<close> when it is a text\<close>
  "json_text (Some (JStr s)) = Some s"
| "json_text _ = None"

text \<open>\<^verbatim>\<open>s.split()\<close>: the words between runs of white space\<close>

definition py_split :: "pystr \<Rightarrow> pystr list" where
  "py_split s = filter (\<lambda>w. w \<noteq> []) (split_on (CHR '' '') (map (\<lambda>c. if is_space c then CHR '' '' else c) s))"

definition allowed_metadata :: "credential_scheme \<Rightarrow> pystr list" where
  "allowed_metadata scheme = [''security_scheme'']
     @ (if scheme \<in> {ApiKeyHeaderCred, ApiKeyQueryCred} then [''name''] else [])
     @ (if scheme = OAuthCred then [''scope'', ''token_auth_method''] else [])"

definition safe_metadata :: "json \<Rightarrow> bool" where
  "safe_metadata raw \<longleftrightarrow> (case raw of JStr s \<Rightarrow> strip s \<noteq> [] \<and> length s \<le> 200 \<and> \<not> has_any ctl_chars s | _ \<Rightarrow> False)"

fun secret_fields :: "credential_scheme \<Rightarrow> pystr list" where
  "secret_fields BearerCred = [''token'']"
| "secret_fields ApiKeyHeaderCred = [''value'']"
| "secret_fields ApiKeyQueryCred = [''value'']"
| "secret_fields BasicCred = [''username'', ''password'']"
| "secret_fields OAuthCred = [''client_id'', ''client_secret'']"
| "secret_fields StaticHeadersCred = [''headers'']"

definition secret_text_ok :: "json \<Rightarrow> bool" where
  "secret_text_ok v \<longleftrightarrow> (case v of JStr s \<Rightarrow> s \<noteq> [] \<and> length s \<le> 10000 | _ \<Rightarrow> False)"

text \<open>One header of a \<^verbatim>\<open>static_headers\<close> credential; the state is the names seen, without case, and the total size.\<close>

definition check_static_header :: "pystr list \<times> nat \<Rightarrow> pystr \<times> json \<Rightarrow> value_error + pystr list \<times> nat" where
  "check_static_header st h =
     (let (names, total) = st; name = fst h in
      if \<not> header_name_ok name then Inl (ValueError ''static credential header name is invalid'')
      else if py_lower name \<in> set names then Inl (ValueError ''static credential header names must be unique ignoring case'')
      else if py_lower name \<in> set forbidden_static_headers then Inl (ValueError ''static credential header is forbidden'')
      else case snd h of
          JStr v \<Rightarrow> if v = [] \<or> 10000 < length v \<or> has_any ctl_chars v
            then Inl (ValueError ''static credential header values must be non-empty text'')
            else Inr (names @ [py_lower name], total + length v)
        | _ \<Rightarrow> Inl (ValueError ''static credential header values must be non-empty text''))"

definition check_credential_headers :: "json option \<Rightarrow> value_error + unit" where
  "check_credential_headers raw =
     (case raw of
        Some (JObj headers) \<Rightarrow>
          if headers = [] then Inl (ValueError ''static_headers credentials require at least one header'')
          else if 64 < length headers then Inl (ValueError ''static_headers credentials exceed the header-count limit'')
          else rbind (rfold check_static_header ([], 0) headers) (\<lambda>(names, total).
            if 100000 < total then Inl (ValueError ''static_headers credentials exceed the total value-size limit'') else Inr ())
      | _ \<Rightarrow> Inl (ValueError ''static_headers credentials require at least one header''))"

definition check_api_key_name :: "credential_scheme \<Rightarrow> json_object \<Rightarrow> value_error + unit" where
  "check_api_key_name scheme metadata =
     (case json_text (dget metadata ''name'') of
        None \<Rightarrow> Inl (ValueError ''API key credentials require non-secret metadata.name'')
      | Some name \<Rightarrow>
          if strip name = [] then Inl (ValueError ''API key credentials require non-secret metadata.name'')
          else if scheme = ApiKeyHeaderCred \<and> (\<not> header_name_ok name \<or> py_lower name \<in> set forbidden_static_headers)
          then Inl (ValueError ''API key header name is invalid or forbidden'')
          else Inr ())"

definition check_oauth_metadata :: "json_object \<Rightarrow> value_error + unit" where
  "check_oauth_metadata metadata =
     (if (case dget metadata ''token_auth_method'' of None \<Rightarrow> False
          | Some v \<Rightarrow> v \<notin> {JStr ''client_secret_basic'', JStr ''client_secret_post''})
      then Inl (ValueError ''OAuth token_auth_method is invalid'')
      else case dget metadata ''scope'' of
          None \<Rightarrow> Inr ()
        | Some JNull \<Rightarrow> Inr ()
        | Some (JStr s) \<Rightarrow>
            let scopes = py_split s in
            if scopes = [] \<or> \<not> distinct scopes \<or> 100 < length scopes
            then Inl (ValueError ''OAuth scope metadata must contain unique scope tokens'')
            else if list_ex (\<lambda>w. 200 < length w) scopes
            then Inl (ValueError ''OAuth scope metadata contains an invalid scope token'')
            else Inr ()
        | Some _ \<Rightarrow> Inl (ValueError ''OAuth scope metadata must be text''))"

definition check_secret_fields :: "credential_scheme \<Rightarrow> json_object \<Rightarrow> value_error + unit" where
  "check_secret_fields scheme secret =
     (if \<not> set (secret_fields scheme) \<subseteq> set (dkeys secret) then Inl (ValueError ''credential requires other fields'')
      else if \<not> set (dkeys secret) \<subseteq> set (secret_fields scheme) then Inl (ValueError ''unexpected secret fields'')
      else if list_ex (\<lambda>(n, v). n \<noteq> ''headers'' \<and> \<not> secret_text_ok v) secret
      then Inl (ValueError ''credential field must be non-empty text'')
      else if scheme = BasicCred \<and> (case json_text (dget secret ''username'') of Some u \<Rightarrow> CHR '':'' \<in> set u | None \<Rightarrow> False)
      then Inl (ValueError ''Basic-auth usernames cannot contain a colon'')
      else if scheme \<in> {BearerCred, ApiKeyHeaderCred}
           \<and> (case json_text (dget secret (if scheme = BearerCred then ''token'' else ''value'')) of
                Some v \<Rightarrow> has_any ctl_chars v | None \<Rightarrow> False)
      then Inl (ValueError ''credential field contains unsafe characters'')
      else Inr ())"

definition validate_credential_secret :: "credential_scheme \<Rightarrow> json_object \<Rightarrow> json_object \<Rightarrow> value_error + unit" where
  "validate_credential_secret scheme secret metadata =
     (if \<not> set (dkeys metadata) \<subseteq> set (allowed_metadata scheme)
      then Inl (ValueError ''unexpected public credential metadata'')
      else if list_ex (\<lambda>(n, v). \<not> safe_metadata v) metadata
      then Inl (ValueError ''credential metadata must be non-empty safe text'')
      else rbind (check_secret_fields scheme secret) (\<lambda>_.
           rbind (if scheme \<in> {ApiKeyHeaderCred, ApiKeyQueryCred} then check_api_key_name scheme metadata else Inr ()) (\<lambda>_.
           rbind (if scheme = OAuthCred then check_oauth_metadata metadata else Inr ()) (\<lambda>_.
           if scheme = StaticHeadersCred then check_credential_headers (dget secret ''headers'') else Inr ()))))"

section \<open>What a stored credential satisfies\<close>

lemma validated_metadata:
  assumes "validate_credential_secret scheme secret metadata = Inr ()" and "(n, v) \<in> set metadata"
  shows "\<exists>s. v = JStr s \<and> strip s \<noteq> [] \<and> length s \<le> 200 \<and> \<not> has_any ctl_chars s"
  using assms by (fastforce simp: validate_credential_secret_def list_ex_iff safe_metadata_def split: if_splits json.splits)

lemma validated_api_key:
  assumes "validate_credential_secret scheme secret metadata = Inr ()" and "scheme \<in> {ApiKeyHeaderCred, ApiKeyQueryCred}"
  shows "\<exists>n. dget metadata ''name'' = Some (JStr n) \<and> strip n \<noteq> [] \<and> \<not> has_any ctl_chars n
    \<and> (scheme = ApiKeyHeaderCred \<longrightarrow> header_name_ok n \<and> py_lower n \<notin> set forbidden_static_headers)"
proof -
  have c: "check_api_key_name scheme metadata = Inr ()"
    using assms by (auto simp: validate_credential_secret_def result_simps split: if_splits)
  then obtain n where n: "json_text (dget metadata ''name'') = Some n" "strip n \<noteq> []"
    "scheme = ApiKeyHeaderCred \<Longrightarrow> header_name_ok n \<and> py_lower n \<notin> set forbidden_static_headers"
    by (auto simp: check_api_key_name_def split: option.splits if_splits)
  from n(1) have m: "dget metadata ''name'' = Some (JStr n)" by (cases "dget metadata ''name''" rule: json_text.cases) auto
  then show ?thesis using n validated_metadata [OF assms(1) map_of_SomeD] by blast
qed

lemma strip_nonempty: "strip s \<noteq> [] \<Longrightarrow> s \<noteq> []"
  by (auto simp: strip_def)

end
