(* ===== verification/AuthSelection.thy ===== *)
theory AuthSelection
  imports Credentials Compiler
begin

text \<open>
  The choice of one credential per operation: \<^verbatim>\<open>services/builds/auth_selection.py\<close>, its use when a build is
  compiled (\<^verbatim>\<open>credential_mapping.py\<close>) and when the readiness of a project is shown
  (\<^verbatim>\<open>readiness.py\<close>, on the security part of the discovery of \<^verbatim>\<open>services/sources.py\<close>). Asking whether
  an unhashable JSON value is in a set raises \<^verbatim>\<open>TypeError\<close>.
\<close>

section \<open>Data\<close>

record auth_scheme_spec =
  as_name :: pystr
  expected_credential :: "credential_scheme option"
  as_parameter :: "pystr option"
  advertised_scopes :: "pystr list"
  as_oauth :: bool

record credential_candidate =
  cc_id :: uuid
  cc_scheme :: credential_scheme
  cc_metadata :: json_object

record auth_selection_plan =
  plan_scheme :: pystr
  plan_credential :: uuid
  plan_scopes :: "pystr list"
  plan_method :: token_auth_method

datatype rejection_reason = CombinedUnsupported | UndefinedScheme | MissingCredential | AmbiguousCredential

record alternative_rejection =
  rj_reason :: rejection_reason
  rj_scheme :: "pystr option"
  rj_compatible :: "uuid list"

section \<open>Selection\<close>

fun rfilter :: "('a \<Rightarrow> 'e + bool) \<Rightarrow> 'a list \<Rightarrow> 'e + 'a list" where
  "rfilter P [] = Inr []"
| "rfilter P (x # xs) = rbind (P x) (\<lambda>b. rbind (rfilter P xs) (\<lambda>ys. Inr (if b then x # ys else ys)))"

definition explicit_scheme_name :: "json_object \<Rightarrow> pystr option" where
  "explicit_scheme_name metadata =
     (case json_text (dget metadata ''security_scheme'') of
        None \<Rightarrow> None
      | Some v \<Rightarrow> if strip v = [] then None else Some (py_lower (strip v)))"

definition default_scopes :: "json_object \<Rightarrow> pystr list" where
  "default_scopes metadata = (case json_text (dget metadata ''scope'') of None \<Rightarrow> [] | Some s \<Rightarrow> py_split s)"

definition token_method_known :: "json_object \<Rightarrow> backend_error + bool" where
  "token_method_known metadata =
     (case dget metadata ''token_auth_method'' of
        None \<Rightarrow> Inr True
      | Some (JStr s) \<Rightarrow> Inr (s \<in> {''client_secret_basic'', ''client_secret_post''})
      | Some (JArr _) \<Rightarrow> Inl (Unexpected ''TypeError'')
      | Some (JObj _) \<Rightarrow> Inl (Unexpected ''TypeError'')
      | Some _ \<Rightarrow> Inr False)"

definition credential_is_compatible :: "credential_candidate \<Rightarrow> auth_scheme_spec \<Rightarrow> pystr list \<Rightarrow> backend_error + bool" where
  "credential_is_compatible c s required_scopes =
     (if expected_credential s = None \<or> Some (cc_scheme c) \<noteq> expected_credential s then Inr False
      else if (case explicit_scheme_name (cc_metadata c) of None \<Rightarrow> False | Some n \<Rightarrow> n \<noteq> py_lower (as_name s)) then Inr False
      else if (case as_parameter s of None \<Rightarrow> False
           | Some p \<Rightarrow> (case json_text (dget (cc_metadata c) ''name'') of
               None \<Rightarrow> True | Some n \<Rightarrow> py_lower n \<noteq> py_lower p)) then Inr False
      else if \<not> as_oauth s then Inr (required_scopes = [])
      else if \<not> set required_scopes \<subseteq> set (advertised_scopes s) then Inr False
      else if \<not> set (default_scopes (cc_metadata c)) \<subseteq> set (advertised_scopes s) then Inr False
      else token_method_known (cc_metadata c))"

definition plan_of :: "auth_scheme_spec \<Rightarrow> pystr \<Rightarrow> pystr list \<Rightarrow> credential_candidate \<Rightarrow> auth_selection_plan" where
  "plan_of s scheme_name required_scopes c =
     \<lparr>plan_scheme = scheme_name, plan_credential = cc_id c,
      plan_scopes = (if as_oauth s
        then sort (remdups (if required_scopes \<noteq> [] then required_scopes else default_scopes (cc_metadata c))) else []),
      plan_method = (if dget (cc_metadata c) ''token_auth_method'' = Some (JStr ''client_secret_post'')
        then ClientSecretPost else ClientSecretBasic)\<rparr>"

fun select_auth_alternative ::
  "(pystr \<times> auth_scheme_spec) list \<Rightarrow> credential_candidate list \<Rightarrow> (pystr \<times> pystr list) list list \<Rightarrow>
   backend_error + auth_selection_plan option \<times> alternative_rejection list" where
  "select_auth_alternative schemes credentials [] = Inr (None, [])"
| "select_auth_alternative schemes credentials (alternative # alternatives) =
     (let reject = (\<lambda>r. rbind (select_auth_alternative schemes credentials alternatives) (\<lambda>(plan, rs). Inr (plan, r # rs))) in
      case alternative of
        [(scheme_name, required_scopes)] \<Rightarrow>
          (case dget schemes scheme_name of
             None \<Rightarrow> reject \<lparr>rj_reason = UndefinedScheme, rj_scheme = Some scheme_name, rj_compatible = []\<rparr>
           | Some s \<Rightarrow>
             rbind (rfilter (\<lambda>c. credential_is_compatible c s required_scopes) credentials) (\<lambda>compatible.
               let bound = filter (\<lambda>c. explicit_scheme_name (cc_metadata c) = Some (py_lower scheme_name)) compatible;
                   candidates = (if bound \<noteq> [] then bound else compatible)
               in case candidates of
                    [c] \<Rightarrow> Inr (Some (plan_of s scheme_name required_scopes c), [])
                  | _ \<Rightarrow> reject \<lparr>rj_reason = (if candidates = [] then MissingCredential else AmbiguousCredential),
                           rj_scheme = Some scheme_name, rj_compatible = sort_key uuid_str (map cc_id candidates)\<rparr>))
      | _ \<Rightarrow> reject \<lparr>rj_reason = CombinedUnsupported, rj_scheme = None, rj_compatible = []\<rparr>)"

section \<open>The mapping of a build\<close>

definition scheme_spec :: "pystr \<Rightarrow> canonical_scheme \<Rightarrow> auth_scheme_spec" where
  "scheme_spec name s =
     \<lparr>as_name = name,
      expected_credential = (case sc_type s of
          HttpBearer \<Rightarrow> Some BearerCred
        | HttpBasic \<Rightarrow> Some BasicCred
        | OAuth2Client \<Rightarrow> Some OAuthCred
        | StaticHeadersScheme \<Rightarrow> Some StaticHeadersCred
        | ApiKeyScheme \<Rightarrow> (if sc_location s = Some ''header'' then Some ApiKeyHeaderCred
            else if sc_location s = Some ''query'' then Some ApiKeyQueryCred else None)
        | UnsupportedScheme \<Rightarrow> None),
      as_parameter = (if sc_type s = ApiKeyScheme then sc_name s else None),
      advertised_scopes = sc_scopes s, as_oauth = (sc_type s = OAuth2Client)\<rparr>"

definition scheme_specs :: "canonical_api \<Rightarrow> (pystr \<times> auth_scheme_spec) list" where
  "scheme_specs api = map (\<lambda>(name, s). (name, scheme_spec name s)) (security_schemes api)"

definition selection_of :: "auth_selection_plan \<Rightarrow> security_selection" where
  "selection_of plan = \<lparr>sel_scheme = plan_scheme plan, sel_credential = uuid_str (plan_credential plan),
     sel_scopes = plan_scopes plan, sel_method = plan_method plan\<rparr>"

definition add_selection ::
  "canonical_api \<Rightarrow> credential_candidate list \<Rightarrow> pystr list \<Rightarrow> (pystr \<times> security_selection) list \<Rightarrow> canonical_operation \<Rightarrow>
   backend_error + (pystr \<times> security_selection) list" where
  "add_selection api credentials excluded result op =
     (if op_key op \<in> set excluded \<or> anonymous_allowed op then Inr result
      else rbind (select_auth_alternative (scheme_specs api) credentials (map scheme_scopes (op_security op))) (\<lambda>(plan, rejections).
        case plan of
          Some p \<Rightarrow> Inr (dset (op_key op) (selection_of p) result)
        | None \<Rightarrow> Inl (Raised CompilationError
            (if AmbiguousCredential \<in> set (map rj_reason rejections)
             then ''Operation has no executable credential mapping (ambiguous)''
             else ''Operation has no executable credential mapping (missing)''))))"

definition map_credentials ::
  "canonical_api \<Rightarrow> credential_candidate list \<Rightarrow> pystr list \<Rightarrow> backend_error + (pystr \<times> security_selection) list" where
  "map_credentials api credentials excluded = rfold (add_selection api credentials excluded) [] (operations api)"

section \<open>Readiness\<close>

record scheme_discovery =
  dc_name :: pystr
  dc_type :: pystr
  dc_location :: "pystr option"
  dc_parameter :: "pystr option"
  dc_token_url :: "pystr option"
  dc_scopes :: "pystr list"
  dc_operations :: "pystr list"
  dc_optional :: bool
  dc_pointer :: pystr

record requirement_discovery =
  rq_operation :: pystr
  rq_alternatives :: "(pystr \<times> pystr list) list list"
  rq_anonymous :: bool

fun scheme_type_value :: "scheme_type \<Rightarrow> pystr" where
  "scheme_type_value HttpBearer = ''http_bearer''"
| "scheme_type_value HttpBasic = ''http_basic''"
| "scheme_type_value ApiKeyScheme = ''api_key''"
| "scheme_type_value OAuth2Client = ''oauth2_client_credentials''"
| "scheme_type_value StaticHeadersScheme = ''static_headers''"
| "scheme_type_value UnsupportedScheme = ''unsupported''"

definition allows_empty :: "canonical_operation \<Rightarrow> bool" where
  "allows_empty op \<longleftrightarrow> list_ex (\<lambda>r. scheme_scopes r = []) (op_security op)"

definition discover_scheme :: "canonical_api \<Rightarrow> pystr \<times> canonical_scheme \<Rightarrow> scheme_discovery" where
  "discover_scheme api ns =
     (let ops = filter (\<lambda>op. list_ex (\<lambda>r. fst ns \<in> set (dkeys (scheme_scopes r))) (op_security op)) (operations api); s = snd ns in
      \<lparr>dc_name = fst ns, dc_type = scheme_type_value (sc_type s), dc_location = sc_location s, dc_parameter = sc_name s,
       dc_token_url = sc_token_url s, dc_scopes = sc_scopes s, dc_operations = sort (map op_key ops),
       dc_optional = (ops \<noteq> [] \<and> list_all allows_empty ops), dc_pointer = ref_pointer (sc_ref s)\<rparr>)"

definition discover_schemes :: "canonical_api \<Rightarrow> scheme_discovery list" where
  "discover_schemes api = map (discover_scheme api) (sort_key fst (security_schemes api))"

definition discover_requirement :: "canonical_operation \<Rightarrow> requirement_discovery" where
  "discover_requirement op = \<lparr>rq_operation = op_key op,
     rq_alternatives = map (\<lambda>r. sort_key fst (scheme_scopes r)) (op_security op), rq_anonymous = allows_empty op\<rparr>"

definition discover_requirements :: "canonical_api \<Rightarrow> requirement_discovery list" where
  "discover_requirements api = map discover_requirement (filter (\<lambda>op. op_security op \<noteq> []) (operations api))"

definition discovery_spec :: "scheme_discovery \<Rightarrow> auth_scheme_spec" where
  "discovery_spec s =
     \<lparr>as_name = dc_name s,
      expected_credential =
        (if dc_type s = ''api_key''
         then (if dc_location s = Some ''header'' then Some ApiKeyHeaderCred
               else if dc_location s = Some ''query'' then Some ApiKeyQueryCred else None)
         else if dc_type s = ''http_bearer'' then Some BearerCred
         else if dc_type s = ''http_basic'' then Some BasicCred
         else if dc_type s = ''oauth2_client_credentials'' then Some OAuthCred
         else if dc_type s = ''static_headers'' then Some StaticHeadersCred else None),
      as_parameter = (if dc_type s = ''api_key'' then dc_parameter s else None),
      advertised_scopes = dc_scopes s, as_oauth = (dc_type s = ''oauth2_client_credentials'')\<rparr>"

record mapping_readiness =
  mr_required :: bool
  mr_complete :: bool
  mr_bound :: "pystr list"
  mr_unresolved :: "pystr list"

definition add_readiness ::
  "(pystr \<times> auth_scheme_spec) list \<Rightarrow> credential_candidate list \<Rightarrow> bool \<times> pystr list \<times> pystr list \<Rightarrow> requirement_discovery \<Rightarrow>
   backend_error + bool \<times> pystr list \<times> pystr list" where
  "add_readiness schemes active st op =
     (let (required, bound, unresolved) = st in
      if rq_anonymous op then Inr st
      else rbind (select_auth_alternative schemes active (rq_alternatives op)) (\<lambda>(plan, rejections).
        Inr (case plan of
            None \<Rightarrow> (True, bound, unresolved @ [rq_operation op])
          | Some p \<Rightarrow> (True, bound @ [plan_scheme p], unresolved))))"

definition credential_mapping_readiness ::
  "scheme_discovery list \<Rightarrow> requirement_discovery list \<Rightarrow> credential_candidate list \<Rightarrow> backend_error + mapping_readiness" where
  "credential_mapping_readiness schemes requirements active =
     rbind (rfold (add_readiness (map (\<lambda>s. (dc_name s, discovery_spec s)) schemes) active) (False, [], []) requirements)
       (\<lambda>(required, bound, unresolved).
         Inr \<lparr>mr_required = required, mr_complete = (unresolved = []), mr_bound = sort (remdups bound), mr_unresolved = sort unresolved\<rparr>)"

text \<open>The binding of a new credential: the first discovered scheme of that name; no scopes are required.\<close>

definition validate_credential_binding ::
  "scheme_discovery list \<Rightarrow> credential_scheme \<Rightarrow> json_object \<Rightarrow> backend_error + unit" where
  "validate_credential_binding schemes kind metadata =
     (case json_text (dget metadata ''security_scheme'') of
        None \<Rightarrow> Inl (Unexpected ''ValueError'')
      | Some raw \<Rightarrow>
        if strip raw = [] then Inl (Unexpected ''ValueError'')
        else (case List.find (\<lambda>s. dc_name s = strip raw) schemes of
            None \<Rightarrow> Inl (Unexpected ''ValueError'')
          | Some s \<Rightarrow>
            rbind (credential_is_compatible \<lparr>cc_id = 0, cc_scheme = kind, cc_metadata = metadata\<rparr> (discovery_spec s) []) (\<lambda>ok.
              if ok then Inr () else Inl (Unexpected ''ValueError''))))"

end
