(* ===== verification/AuthProperties.thy ===== *)
theory AuthProperties
  imports AuthSelection CompilerFacts
begin

text \<open>
  What the selection of credentials guarantees: the readiness shown to the user predicts the build,
  and what the build selects compiles.
\<close>

section \<open>Loops\<close>

lemma rfold_total:
  assumes "\<And>s x. x \<in> set xs \<Longrightarrow> (\<exists>t. f s x = Inr t) \<longleftrightarrow> Q x"
  shows "(\<exists>t. rfold f s xs = Inr t) \<longleftrightarrow> (\<forall>x\<in>set xs. Q x)"
  using assms
proof (induction xs arbitrary: s)
  case (Cons x xs)
  have "(\<exists>t. rfold f s (x # xs) = Inr t) \<longleftrightarrow> (\<exists>s'. f s x = Inr s' \<and> (\<exists>t. rfold f s' xs = Inr t))"
    by (auto simp: result_simps)
  also have "\<dots> \<longleftrightarrow> (\<exists>s'. f s x = Inr s') \<and> (\<forall>x\<in>set xs. Q x)" using Cons by auto
  finally show ?case using Cons.prems [of x s] by simp
qed simp

lemma rfilter_Inr: "rfilter P xs = Inr ys \<Longrightarrow> y \<in> set ys \<Longrightarrow> y \<in> set xs \<and> P y = Inr True"
  by (induction xs arbitrary: ys) (auto simp: result_simps split: if_splits)

section \<open>Selection\<close>

definition resolvable :: "canonical_api \<Rightarrow> credential_candidate list \<Rightarrow> canonical_operation \<Rightarrow> bool" where
  "resolvable api credentials op \<longleftrightarrow>
     (case select_auth_alternative (scheme_specs api) credentials (map scheme_scopes (op_security op)) of
        Inr (Some p, _) \<Rightarrow> True | _ \<Rightarrow> False)"

lemma select_Some:
  assumes "select_auth_alternative schemes credentials alts = Inr (Some p, rs)"
  shows "\<exists>n req s c. [(n, req)] \<in> set alts \<and> dget schemes n = Some s \<and> c \<in> set credentials
    \<and> credential_is_compatible c s req = Inr True \<and> p = plan_of s n req c"
  using assms
proof (induction schemes credentials alts arbitrary: rs rule: select_auth_alternative.induct)
  case (2 schemes credentials alt alts)
  have later: "select_auth_alternative schemes credentials alts = Inr (Some p, rs') \<Longrightarrow> ?case" for rs'
    using "2.IH" by fastforce
  show ?case
  proof (cases "\<exists>n req. alt = [(n, req)]")
    case False
    then show ?thesis using "2.prems" later by (auto simp: Let_def result_simps split: list.splits prod.splits)
  next
    case True
    then obtain n req where alt: "alt = [(n, req)]" by blast
    show ?thesis
    proof (cases "dget schemes n")
      case None
      then show ?thesis using "2.prems" later by (auto simp: alt Let_def result_simps)
    next
      case (Some s)
      obtain cs where cs: "rfilter (\<lambda>c. credential_is_compatible c s req) credentials = Inr cs"
        using "2.prems" by (auto simp: alt Some Let_def result_simps)
      define cand where "cand = (let bound = filter (\<lambda>c. explicit_scheme_name (cc_metadata c) = Some (py_lower n)) cs
        in if bound \<noteq> [] then bound else cs)"
      have sub: "set cand \<subseteq> set cs" by (auto simp: cand_def Let_def)
      show ?thesis
      proof (cases "\<exists>c. cand = [c]")
        case True
        then obtain c where c: "cand = [c]" by blast
        then have "c \<in> set credentials \<and> credential_is_compatible c s req = Inr True"
          using sub rfilter_Inr [OF cs] by auto
        moreover have "p = plan_of s n req c"
          using "2.prems" c by (simp add: alt Some cs cand_def [unfolded Let_def, symmetric] Let_def)
        ultimately show ?thesis using alt Some by auto
      next
        case False
        then show ?thesis
          using "2.prems" later
          by (auto simp: alt Some cs cand_def [unfolded Let_def, symmetric] Let_def result_simps split: list.splits)
      qed
    qed
  qed
qed simp

lemma select_cong: "dget s1 = dget s2 \<Longrightarrow> select_auth_alternative s1 creds alts = select_auth_alternative s2 creds alts"
proof (induction alts)
  case (Cons alt alts)
  show ?case unfolding select_auth_alternative.simps Cons.IH [OF Cons.prems] Cons.prems ..
qed simp

lemma select_sorted: "select_auth_alternative s creds (map (sort_key fst) alts) = select_auth_alternative s creds alts"
proof (induction alts)
  case (Cons alt alts)
  show ?case
  proof (cases alt)
    case Nil
    then show ?thesis using Cons by simp
  next
    case (Cons a as)
    note alt = this
    show ?thesis
    proof (cases as)
      case Nil
      then show ?thesis using Cons.IH alt by simp
    next
      case (Cons b bs)
      then obtain c d ds where "sort_key fst alt = c # d # ds"
        using alt length_sort [of fst alt] by (metis length_Cons length_Suc_conv)
      then show ?thesis using Cons.IH alt Cons by (simp add: Let_def)
    qed
  qed
qed simp

section \<open>Readiness and mapping\<close>

lemma discovery_spec_scheme: "discovery_spec (discover_scheme api (n, s)) = scheme_spec n s"
  by (cases "sc_type s") (simp_all add: discovery_spec_def discover_scheme_def scheme_spec_def Let_def)

lemma discovered_specs:
  assumes "distinct (dkeys (security_schemes api))"
  shows "dget (map (\<lambda>s. (dc_name s, discovery_spec s)) (discover_schemes api)) = dget (scheme_specs api)"
proof -
  have name: "dc_name (discover_scheme api ns) = fst ns" for ns by (simp add: discover_scheme_def Let_def)
  have "map (\<lambda>s. (dc_name s, discovery_spec s)) (discover_schemes api)
      = map (\<lambda>(n, s). (n, scheme_spec n s)) (sort_key fst (security_schemes api))"
    using discovery_spec_scheme [of api] name by (auto simp: discover_schemes_def)
  moreover have "dget (map (\<lambda>(n, s). (n, scheme_spec n s)) (sort_key fst (security_schemes api))) = dget (scheme_specs api)"
    unfolding scheme_specs_def using assms
    by (intro map_of_inject_set [THEN iffD2]) (auto simp: comp_def case_prod_beta distinct_map)
  ultimately show ?thesis by simp
qed

lemma map_credentials_ok:
  "(\<exists>sels. map_credentials api creds excluded = Inr sels) \<longleftrightarrow>
     (\<forall>op\<in>set (operations api). op_key op \<in> set excluded \<or> anonymous_allowed op \<or> resolvable api creds op)"
  unfolding map_credentials_def
proof (rule rfold_total)
  fix st op
  show "(\<exists>t. add_selection api creds excluded st op = Inr t) \<longleftrightarrow> op_key op \<in> set excluded \<or> anonymous_allowed op \<or> resolvable api creds op"
  proof (cases "select_auth_alternative (scheme_specs api) creds (map scheme_scopes (op_security op))")
    case (Inr pr)
    then show ?thesis by (cases pr; cases "fst pr") (auto simp: add_selection_def resolvable_def)
  qed (simp add: add_selection_def resolvable_def)
qed

lemma discovered_requirement_select:
  assumes "distinct (dkeys (security_schemes api))"
  shows "select_auth_alternative (map (\<lambda>s. (dc_name s, discovery_spec s)) (discover_schemes api)) creds (rq_alternatives (discover_requirement op))
    = select_auth_alternative (scheme_specs api) creds (map scheme_scopes (op_security op))"
proof -
  have "rq_alternatives (discover_requirement op) = map (sort_key fst) (map scheme_scopes (op_security op))"
    by (simp add: discover_requirement_def)
  then show ?thesis by (simp only: select_sorted select_cong [OF discovered_specs [OF assms]])
qed

lemma readiness_fold:
  assumes "distinct (dkeys (security_schemes api))"
    and "rfold (add_readiness (map (\<lambda>s. (dc_name s, discovery_spec s)) (discover_schemes api)) creds) (req, bound, unresolved)
      (map discover_requirement ops) = Inr (req', bound', unresolved')"
  shows "unresolved' = unresolved @ map op_key (filter (\<lambda>op. \<not> allows_empty op \<and> \<not> resolvable api creds op) ops)"
  using assms(2)
proof (induction ops arbitrary: req bound unresolved)
  case (Cons op ops)
  let ?step = "add_readiness (map (\<lambda>s. (dc_name s, discovery_spec s)) (discover_schemes api)) creds"
  from Cons.prems obtain r b u where s: "?step (req, bound, unresolved) (discover_requirement op) = Inr (r, b, u)"
    "rfold ?step (r, b, u) (map discover_requirement ops) = Inr (req', bound', unresolved')"
    by (auto simp: result_simps)
  have "u = unresolved @ (if \<not> allows_empty op \<and> \<not> resolvable api creds op then [op_key op] else [])"
  proof (cases "allows_empty op")
    case True
    then show ?thesis using s(1) by (simp add: add_readiness_def discover_requirement_def)
  next
    case False
    then have "\<not> rq_anonymous (discover_requirement op)" by (simp add: discover_requirement_def)
    then obtain plan rj where sel: "select_auth_alternative (scheme_specs api) creds (map scheme_scopes (op_security op)) = Inr (plan, rj)"
      and st: "(r, b, u) = (case plan of None \<Rightarrow> (True, bound, unresolved @ [op_key op]) | Some p \<Rightarrow> (True, bound @ [plan_scheme p], unresolved))"
      using s(1) unfolding add_readiness_def discovered_requirement_select [OF assms(1)]
      by (auto simp: result_simps) (auto simp: discover_requirement_def split: option.splits)
    then show ?thesis using False by (cases plan) (auto simp: resolvable_def)
  qed
  then show ?case using Cons.IH [OF s(2)] by simp
qed simp


definition sample_credentials :: "credential_candidate list" where
  "sample_credentials = [\<lparr>cc_id = 5, cc_scheme = BearerCred, cc_metadata = [(''security_scheme'', JStr ''token'')]\<rparr>]"


section \<open>From stored credentials to compiled profiles\<close>

lemma hex_pad_chars: "set (hex_pad k n) \<subseteq> set ''0123456789abcdef''"
proof -
  have "''0123456789abcdef'' ! (m mod 16) \<in> set ''0123456789abcdef''" for m :: nat by (rule nth_mem) simp
  then show ?thesis unfolding hex_pad_def by fastforce
qed

lemma uuid_str_facts: "uuid_str n \<noteq> []" "length (uuid_str n) = 36" "\<not> has_any ctl_chars (uuid_str n)"
proof -
  have "length (hex_pad 32 n) = 32" by (simp add: hex_pad_def)
  then show len: "length (uuid_str n) = 36" by (simp add: uuid_str_def Let_def)
  then show "uuid_str n \<noteq> []" by auto
  have "set (uuid_str n) \<subseteq> insert (CHR ''-'') (set (hex_pad 32 n))"
    by (auto simp: uuid_str_def Let_def dest: in_set_takeD in_set_dropD)
  then have "set (uuid_str n) \<subseteq> insert (CHR ''-'') (set ''0123456789abcdef'')" using hex_pad_chars by blast
  then show "\<not> has_any ctl_chars (uuid_str n)" by (auto simp: has_any_iff ctl_chars_def)
qed

lemma upper_code: "CHR ''A'' \<le> c \<and> c \<le> CHR ''Z'' \<Longrightarrow> of_char c \<in> set [65..<91::nat]"
  unfolding set_upt atLeastLessThan_iff by (simp add: less_eq_char_def)

lemma header_chars_case: "c \<in> set header_name_chars \<longleftrightarrow> lower_char c \<in> set header_name_chars"
proof (cases "CHR ''A'' \<le> c \<and> c \<le> CHR ''Z''")
  case True
  have "\<forall>n\<in>set [65..<91]. (char_of n :: char) \<in> set header_name_chars \<and> lower_char (char_of n) \<in> set header_name_chars" by code_simp
  moreover have "of_char c \<in> set [65..<91::nat]" using True by (rule upper_code)
  ultimately show ?thesis by (metis char_of_char)
next
  case False
  then show ?thesis by (auto simp: lower_char_def)
qed

lemma header_name_ok_case: "py_lower a = py_lower b \<Longrightarrow> header_name_ok a \<longleftrightarrow> header_name_ok b"
proof -
  have "header_name_ok s \<longleftrightarrow> s \<noteq> [] \<and> set (py_lower s) \<subseteq> set header_name_chars" for s
    using header_chars_case by (auto simp: header_name_ok_def list_all_iff py_lower_def)
  moreover have "py_lower a = py_lower b \<Longrightarrow> a = [] \<longleftrightarrow> b = []" by (auto simp: py_lower_def)
  ultimately show "py_lower a = py_lower b \<Longrightarrow> header_name_ok a \<longleftrightarrow> header_name_ok b" by metis
qed

lemma ctl_chars_case: "py_lower a = py_lower b \<Longrightarrow> has_any ctl_chars a \<longleftrightarrow> has_any ctl_chars b"
proof -
  have "c \<in> set ctl_chars \<longleftrightarrow> lower_char c \<in> set ctl_chars" for c
  proof (cases "CHR ''A'' \<le> c \<and> c \<le> CHR ''Z''")
    case True
    have "\<forall>n\<in>set [65..<91]. (char_of n :: char) \<notin> set ctl_chars \<and> lower_char (char_of n) \<notin> set ctl_chars" by code_simp
    moreover have "of_char c \<in> set [65..<91::nat]" using True by (rule upper_code)
    ultimately show ?thesis by (metis char_of_char)
  qed (auto simp: lower_char_def)
  then have "has_any ctl_chars s \<longleftrightarrow> set (py_lower s) \<inter> set ctl_chars \<noteq> {}" for s
    by (auto simp: has_any_iff py_lower_def)
  then show "py_lower a = py_lower b \<Longrightarrow> has_any ctl_chars a \<longleftrightarrow> has_any ctl_chars b" by simp
qed

definition static_scheme_ok :: "canonical_scheme \<Rightarrow> bool" where
  "static_scheme_ok s \<longleftrightarrow> sc_type s = StaticHeadersScheme \<longrightarrow>
     (case sc_name s of None \<Rightarrow> False
      | Some h \<Rightarrow> header_name_ok h \<and> py_lower h \<notin> set forbidden_auth_headers \<and> \<not> has_any ctl_chars h)"

definition stored_credential :: "credential_candidate \<Rightarrow> bool" where
  "stored_credential c \<longleftrightarrow> (\<exists>secret. validate_credential_secret (cc_scheme c) secret (cc_metadata c) = Inr ())"

lemma forbidden_same: "set forbidden_static_headers = set forbidden_auth_headers"
  by (simp add: forbidden_static_headers_def forbidden_auth_headers_def)

lemma compatible_name:
  assumes "credential_is_compatible c (scheme_spec n s) req = Inr True" and "sc_type s = ApiKeyScheme"
    and "stored_credential c" and "sc_name s = Some p"
  shows "p \<noteq> [] \<and> \<not> has_any ctl_chars p \<and> (sc_location s = Some ''header'' \<or> sc_location s = Some ''query'')
    \<and> (sc_location s = Some ''header'' \<longrightarrow> header_name_ok p \<and> py_lower p \<notin> set forbidden_auth_headers)"
proof -
  have loc: "cc_scheme c = ApiKeyHeaderCred \<and> sc_location s = Some ''header'' \<or> cc_scheme c = ApiKeyQueryCred \<and> sc_location s = Some ''query''"
    using assms(1,2) by (auto simp: credential_is_compatible_def scheme_spec_def split: if_splits)
  obtain secret where "validate_credential_secret (cc_scheme c) secret (cc_metadata c) = Inr ()"
    using assms(3) by (auto simp: stored_credential_def)
  from validated_api_key [OF this] loc obtain m where m: "dget (cc_metadata c) ''name'' = Some (JStr m)" "strip m \<noteq> []" "\<not> has_any ctl_chars m"
    "cc_scheme c = ApiKeyHeaderCred \<longrightarrow> header_name_ok m \<and> py_lower m \<notin> set forbidden_static_headers" by auto
  have same: "py_lower m = py_lower p"
    using assms(1,2,4) m(1) by (auto simp: credential_is_compatible_def scheme_spec_def split: if_splits)
  have "p \<noteq> []" using same strip_nonempty [OF m(2)] by (auto simp: py_lower_def)
  then show ?thesis
    using loc m(3,4) same header_name_ok_case [OF same] ctl_chars_case [OF same] forbidden_same by auto
qed

lemma selected_profile_compiles:
  assumes compat: "credential_is_compatible c (scheme_spec n s) req = Inr True" and shape: "validate_shape s = Inr s"
    and static: "static_scheme_ok s" and stored: "stored_credential c"
    and sel: "sel_credential sel = uuid_str i" and sc: "sel_scopes sel = [] \<or> sc_type s = OAuth2Client"
  shows "\<exists>p. compile_profile env n s sel = Inr p"
proof (cases "sc_type s")
  case ApiKeyScheme
  then obtain p where p: "sc_name s = Some p" "p \<noteq> []"
    using shape by (auto simp: validate_shape_def truthy_def split: if_splits option.splits)
  then show ?thesis
    using compatible_name [OF compat ApiKeyScheme stored p(1)] uuid_str_facts [of i] ApiKeyScheme
    by (auto simp: compile_profile_def blank_profile_def validate_auth_fields_def missing_auth_fields_def sel truthy_def Let_def)
next
  case StaticHeadersScheme
  then obtain h where "sc_name s = Some h" "header_name_ok h" "py_lower h \<notin> set forbidden_auth_headers" "\<not> has_any ctl_chars h"
    using static by (auto simp: static_scheme_ok_def split: option.splits)
  moreover have "h \<noteq> []" using calculation(2) by (simp add: header_name_ok_def)
  ultimately show ?thesis
    using uuid_str_facts [of i] StaticHeadersScheme
    by (simp add: compile_profile_def blank_profile_def validate_auth_fields_def missing_auth_fields_def sel truthy_def Let_def)
next
  case OAuth2Client
  then obtain u where "sc_token_url s = Some u" using shape by (auto simp: validate_shape_def split: if_splits)
  then show ?thesis
    using uuid_str_facts [of i] OAuth2Client
    by (simp add: compile_profile_def blank_profile_def validate_auth_fields_def missing_auth_fields_def sel truthy_def Let_def)
next
  case UnsupportedScheme
  then show ?thesis using compat by (simp add: credential_is_compatible_def scheme_spec_def)
qed (use uuid_str_facts [of i] sc in \<open>simp_all add: compile_profile_def blank_profile_def validate_auth_fields_def
  missing_auth_fields_def sel truthy_def Let_def\<close>)

definition selected_as :: "canonical_api \<Rightarrow> credential_candidate list \<Rightarrow> (pystr \<times> security_selection) list \<Rightarrow> canonical_operation \<Rightarrow> bool" where
  "selected_as api creds sels op \<longleftrightarrow>
     (\<exists>p rs. select_auth_alternative (scheme_specs api) creds (map scheme_scopes (op_security op)) = Inr (Some p, rs)
        \<and> dget sels (op_key op) = Some (selection_of p))"

lemma mapped_selections:
  assumes "rfold (add_selection api creds excluded) r0 ops = Inr sels" and "distinct (map op_key ops)"
  shows "(\<forall>op\<in>set ops. if op_key op \<in> set excluded \<or> anonymous_allowed op then dget sels (op_key op) = dget r0 (op_key op)
      else selected_as api creds sels op)
    \<and> (\<forall>k. k \<notin> op_key ` set ops \<longrightarrow> dget sels k = dget r0 k)"
  using assms
proof (induction ops arbitrary: r0)
  case (Cons op ops)
  from Cons.prems(1) obtain r1 where r: "add_selection api creds excluded r0 op = Inr r1" "rfold (add_selection api creds excluded) r1 ops = Inr sels"
    by (auto simp: result_simps)
  have fresh: "op_key op \<notin> op_key ` set ops" and d: "distinct (map op_key ops)" using Cons.prems(2) by auto
  note IH = Cons.IH [OF r(2) d]
  then have own: "dget sels (op_key op) = dget r1 (op_key op)" using fresh by blast
  show ?case
  proof (cases "op_key op \<in> set excluded \<or> anonymous_allowed op")
    case True
    then have "r1 = r0" using r(1) by (auto simp: add_selection_def)
    then show ?thesis using IH own True by simp
  next
    case False
    then obtain p rs where sel: "select_auth_alternative (scheme_specs api) creds (map scheme_scopes (op_security op)) = Inr (Some p, rs)"
      and r1: "r1 = dset (op_key op) (selection_of p) r0"
      using r(1) by (auto simp: add_selection_def result_simps split: option.splits)
    have "dget sels k = dget r0 k" if "k \<noteq> op_key op" "k \<notin> op_key ` set ops" for k
      using IH that by (simp add: r1 update_conv')
    moreover have "dget r1 (op_key o1) = dget r0 (op_key o1)" if "o1 \<in> set ops" for o1
      using that fresh by (simp add: r1 update_conv' image_iff) metis
    moreover have "dget sels (op_key op) = Some (selection_of p)" using own by (simp add: r1 update_conv')
    ultimately show ?thesis using IH False sel by (auto simp: selected_as_def [of _ _ _ op])
  qed
qed simp

definition distinct_alternatives :: "canonical_operation \<Rightarrow> bool" where
  "distinct_alternatives op \<longleftrightarrow> distinct (map (\<lambda>r. dkeys (scheme_scopes r)) (op_security op))"

lemma matching_first:
  assumes "distinct_alternatives op" and "r \<in> set (op_security op)" and "scheme_scopes r = [(n, req)]"
  shows "\<exists>rs. matching_requirements op n = r # rs"
proof -
  have inj: "inj_on (\<lambda>r. dkeys (scheme_scopes r)) (set (op_security op))"
    using assms(1) by (simp add: distinct_alternatives_def distinct_map)
  have only: "r' = r" if "r' \<in> set (matching_requirements op n)" for r'
  proof -
    have r': "r' \<in> set (op_security op)" "length (scheme_scopes r') = 1" "n \<in> set (dkeys (scheme_scopes r'))"
      using that by (auto simp: matching_requirements_def)
    then have "dkeys (scheme_scopes r') = [n]" by (cases "scheme_scopes r'") auto
    then show ?thesis using inj_onD [OF inj _ r'(1) assms(2)] assms(3) by simp
  qed
  have "r \<in> set (matching_requirements op n)" using assms(2,3) by (simp add: matching_requirements_def)
  then obtain r1 rest where "matching_requirements op n = r1 # rest" by (meson list.set_cases)
  then show ?thesis using only [of r1] by (metis list.set_intros(1))
qed

lemma scheme_specs_dget: "dget (scheme_specs api) n = map_option (scheme_spec n) (dget (security_schemes api) n)"
proof -
  have "dget (map (\<lambda>(name, s). (name, scheme_spec name s)) ss) n = map_option (scheme_spec n) (dget ss n)" for ss by (induction ss) auto
  then show ?thesis by (simp add: scheme_specs_def)
qed

lemma selected_operation_compiles:
  assumes sel: "select_auth_alternative (scheme_specs api) creds (map scheme_scopes (op_security op)) = Inr (Some p, rs)"
    and non: "\<not> anonymous_allowed op" and sels: "dget sels (op_key op) = Some (selection_of p)"
    and alts: "distinct_alternatives op" and creds: "\<forall>c\<in>set creds. stored_credential c"
    and shapes: "\<forall>s\<in>snd ` set (security_schemes api). validate_shape s = Inr s \<and> static_scheme_ok s"
  shows "\<exists>q. add_profile env api sels st op = Inr q \<and> dom (dget (snd q)) = insert (op_key op) (dom (dget (snd st)))"
proof -
  obtain n req sp c where c: "[(n, req)] \<in> set (map scheme_scopes (op_security op))" "dget (scheme_specs api) n = Some sp"
    "c \<in> set creds" "credential_is_compatible c sp req = Inr True" "p = plan_of sp n req c"
    using select_Some [OF sel] by blast
  obtain s where s: "dget (security_schemes api) n = Some s" "sp = scheme_spec n s" using c(2) by (auto simp: scheme_specs_dget)
  have shape: "validate_shape s = Inr s" "static_scheme_ok s" using shapes map_of_SomeD [OF s(1)] by force+
  obtain r where r: "r \<in> set (op_security op)" "scheme_scopes r = [(n, req)]" using c(1) by (auto simp: image_iff)
  obtain rest where m: "matching_requirements op n = r # rest" using matching_first [OF alts r] by blast
  have fields: "sel_scheme (selection_of p) = n" "sel_credential (selection_of p) = uuid_str (cc_id c)"
    "sel_scopes (selection_of p) = plan_scopes p" by (simp_all add: selection_of_def c(5) plan_of_def)
  have scopes: "req \<noteq> [] \<Longrightarrow> sort (remdups req) = plan_scopes p"
    using c(4) by (auto simp: c(5) plan_of_def s(2) scheme_spec_def credential_is_compatible_def split: if_splits)
  have "plan_scopes p = [] \<or> sc_type s = OAuth2Client" by (simp add: c(5) plan_of_def s(2) scheme_spec_def)
  then obtain prof where prof: "compile_profile env n s (selection_of p) = Inr prof"
    using selected_profile_compiles [OF c(4) [unfolded s(2)] shape _ fields(2)] creds c(3) fields(3) by metis
  have guard: "\<not> (req \<noteq> [] \<and> sort (remdups req) \<noteq> sel_scopes (selection_of p))" using scopes fields(3) by auto
  obtain by_id refs where st: "st = (by_id, refs)" by (cases st)
  show ?thesis
    by (simp add: st add_profile_def sels non fields(1) m r(2) s(1) prof guard [simplified] update_conv' del: remdups.simps)
qed

lemma make_api_shapes: "make_api api = Inr a \<Longrightarrow> \<forall>s\<in>snd ` set (security_schemes api). validate_shape s = Inr s"
proof -
  assume "make_api api = Inr a"
  then obtain ss where "rmap validate_shape (map snd (security_schemes api)) = Inr ss"
    by (auto simp: make_api_def result_simps split: if_splits)
  then have "\<forall>s\<in>set (map snd (security_schemes api)). \<exists>t. validate_shape s = Inr t" using rmap_set' by metis
  moreover have "validate_shape s = Inr t \<Longrightarrow> t = s" for s t by (auto simp: validate_shape_def split: if_splits)
  ultimately show ?thesis by force
qed

lemma profiles_fold:
  assumes "\<And>op. op \<in> set ops \<Longrightarrow> if anonymous_allowed op then dget sels (op_key op) = None
      else \<forall>st. \<exists>q. add_profile env api sels st op = Inr q \<and> dom (dget (snd q)) = insert (op_key op) (dom (dget (snd st)))"
  shows "\<exists>q. rfold (add_profile env api sels) st ops = Inr q
    \<and> dom (dget (snd q)) = dom (dget (snd st)) \<union> op_key ` {op \<in> set ops. \<not> anonymous_allowed op}"
  using assms
proof (induction ops arbitrary: st)
  case (Cons op ops)
  have IH: "\<exists>q. rfold (add_profile env api sels) st ops = Inr q
      \<and> dom (dget (snd q)) = dom (dget (snd st)) \<union> op_key ` {op \<in> set ops. \<not> anonymous_allowed op}" for st
    using Cons.IH Cons.prems by (meson list.set_intros(2))
  show ?case
  proof (cases "anonymous_allowed op")
    case True
    then have "add_profile env api sels st op = Inr st" using Cons.prems [of op] by (simp add: add_profile_def split: prod.split)
    moreover have "{o1 \<in> set (op # ops). \<not> anonymous_allowed o1} = {o1 \<in> set ops. \<not> anonymous_allowed o1}" using True by auto
    ultimately show ?thesis using IH [of st] by simp
  next
    case False
    then obtain q where q: "add_profile env api sels st op = Inr q" "dom (dget (snd q)) = insert (op_key op) (dom (dget (snd st)))"
      using Cons.prems [of op, OF list.set_intros(1), unfolded if_not_P [OF False]] by blast
    have "{o1 \<in> set (op # ops). \<not> anonymous_allowed o1} = insert op {o1 \<in> set ops. \<not> anonymous_allowed o1}" using False by auto
    then show ?thesis using IH [of q] q by simp
  qed
qed simp

text \<open>C33: What the build selects always compiles: when every stored credential passed validation and the
  mapping of credentials succeeds, the compiler accepts every selection, and exactly the operations
  that need authentication refer to a profile. The alternatives of an operation name different schemes,
  and a scheme for a static header names a header the runtime allows.\<close>

theorem selected_credentials_compile:
  assumes api: "make_api api = Inr api"
    and stored: "\<forall>c\<in>set creds. stored_credential c"
    and static: "\<forall>s\<in>snd ` set (security_schemes api). static_scheme_ok s"
    and alts: "\<forall>op\<in>set (operations api). distinct_alternatives op"
    and m: "map_credentials api creds excluded = Inr sels"
  shows "\<exists>profiles refs. auth_profiles_of env api sels (executable_operations api excluded) = Inr (profiles, refs)
    \<and> dom (dget refs) = op_key ` {op \<in> set (executable_operations api excluded). \<not> anonymous_allowed op}"
proof -
  let ?ops = "sort_key op_key (executable_operations api excluded)"
  have shapes: "\<forall>s\<in>snd ` set (security_schemes api). validate_shape s = Inr s \<and> static_scheme_ok s"
    using make_api_shapes [OF api] static by blast
  have ops: "set ?ops = {op \<in> set (operations api). op_key op \<notin> set excluded}" by (auto simp: executable_operations_def)
  have sel: "if op_key op \<in> set excluded \<or> anonymous_allowed op then dget sels (op_key op) = None else selected_as api creds sels op"
    if "op \<in> set (operations api)" for op
    using mapped_selections [OF m [unfolded map_credentials_def] make_api_Inr(3) [OF api]] that by simp
  have step: "if anonymous_allowed op then dget sels (op_key op) = None
      else \<forall>st. \<exists>q. add_profile env api sels st op = Inr q \<and> dom (dget (snd q)) = insert (op_key op) (dom (dget (snd st)))"
    if "op \<in> set ?ops" for op
  proof (cases "anonymous_allowed op")
    case True
    then show ?thesis using sel [of op] that ops by auto
  next
    case False
    then have "selected_as api creds sels op" using sel [of op] that ops by auto
    then obtain p rs where "select_auth_alternative (scheme_specs api) creds (map scheme_scopes (op_security op)) = Inr (Some p, rs)"
      "dget sels (op_key op) = Some (selection_of p)" unfolding selected_as_def by blast
    then show ?thesis using selected_operation_compiles [OF _ False _ _ stored shapes] alts that ops False by auto
  qed
  obtain q where q: "rfold (add_profile env api sels) ([], []) ?ops = Inr q"
    "dom (dget (snd q)) = dom (dget ([] :: (pystr \<times> pystr) list)) \<union> op_key ` {op \<in> set ?ops. \<not> anonymous_allowed op}"
    using profiles_fold [of ?ops sels env api "([], [])", OF step] by auto
  then show ?thesis by (cases q) (simp add: auth_profiles_of_def)
qed

theorem selected_credentials_compile_witness:
  "\<exists>profiles refs. auth_profiles_of sample_compile_env sample_api
      [(''GET /pets/{id}'', \<lparr>sel_scheme = ''token'', sel_credential = uuid_str 5, sel_scopes = [], sel_method = ClientSecretBasic\<rparr>)]
      (executable_operations sample_api []) = Inr (profiles, refs)
    \<and> dom (dget refs) = op_key ` {op \<in> set (executable_operations sample_api []). \<not> anonymous_allowed op}"
proof (rule selected_credentials_compile [OF sample_api_valid, of sample_credentials])
  have "validate_credential_secret BearerCred [(''token'', JStr ''t'')] [(''security_scheme'', JStr ''token'')] = Inr ()" by code_simp
  then show "\<forall>c\<in>set sample_credentials. stored_credential c" by (auto simp: sample_credentials_def stored_credential_def)
  show "\<forall>s\<in>snd ` set (security_schemes sample_api). static_scheme_ok s" by code_simp
  show "\<forall>op\<in>set (operations sample_api). distinct_alternatives op" by code_simp
  show "map_credentials sample_api sample_credentials [] = Inr [(''GET /pets/{id}'', \<lparr>sel_scheme = ''token'',
      sel_credential = uuid_str 5, sel_scopes = [], sel_method = ClientSecretBasic\<rparr>)]" by code_simp
qed

end
