(* ===== verification/Cleanup.thy ===== *)
theory Cleanup
  imports Deployments
begin

text \<open>
  The queue of deferred deletions: the domain types (\<^verbatim>\<open>backend/app/domain/cleanup.py\<close>), the tables
  \<^verbatim>\<open>cleanup_jobs\<close> and \<^verbatim>\<open>cleanup_targets\<close> with their constraints (\<^verbatim>\<open>backend/app/models/cleanup.py\<close>) and
  the operations of \<^verbatim>\<open>backend/app/repositories/cleanup.py\<close> on them. An operation runs in one
  transaction: \<open>clk_txn\<close> is the database's transaction time (the defaults of \<^verbatim>\<open>created_at\<close> and
  \<^verbatim>\<open>updated_at\<close>), \<open>clk_wall\<close> the reading of the process clock. Where a query leaves the order of
  equal rows open, the model takes the order of insertion. \<open>sha\<close> is the hexadecimal SHA-256
  digest, \<open>fresh\<close> a new UUID.
\<close>

section \<open>Rows\<close>

datatype cleanup_job_kind = ProjectDelete | SourceDelete | Retention | OrphanGuard

datatype cleanup_job_status = JobPending | JobRunning | JobRetrying | JobCompleted | JobFailed

datatype cleanup_target_type = ObjectTarget | VectorTarget

datatype cleanup_target_status =
  TargetPending | TargetRunning | TargetRetrying | TargetCompleted | TargetSkipped | TargetFailed

record clocks =
  clk_wall :: time
  clk_txn :: time

record cleanup_target =
  ct_id :: uuid
  ct_job :: uuid
  ct_key :: pystr
  ct_type :: cleanup_target_type
  ct_status :: cleanup_target_status
  ct_storage_key :: "pystr option"
  ct_collection :: "pystr option"
  ct_project :: "uuid option"
  ct_generation :: "uuid option"
  ct_attempts :: int
  ct_next_attempt :: time
  ct_lease :: "time option"
  ct_token :: "uuid option"
  ct_error_code :: "pystr option"
  ct_error_summary :: "pystr option"
  ct_created :: time
  ct_updated :: time

record cleanup_job =
  cj_id :: uuid
  cj_kind :: cleanup_job_kind
  cj_status :: cleanup_job_status
  cj_project :: "uuid option"
  cj_requested_by :: "uuid option"
  cj_request :: "pystr option"
  cj_key :: pystr
  cj_total :: nat
  cj_completed :: nat
  cj_skipped :: nat
  cj_failed :: nat
  cj_error_code :: "pystr option"
  cj_error_summary :: "pystr option"
  cj_created :: time
  cj_updated :: time
  cj_completed_at :: "time option"

record cleanup_db =
  jobs :: "cleanup_job list"
  targets :: "cleanup_target list"

definition TERMINAL_TARGETS :: "cleanup_target_status set" where
  "TERMINAL_TARGETS = {TargetCompleted, TargetSkipped, TargetFailed}"

section \<open>Constraints of the tables\<close>

definition job_progress :: "cleanup_job \<Rightarrow> bool" where
  "job_progress j \<longleftrightarrow> cj_completed j + cj_skipped j + cj_failed j \<le> cj_total j"

definition owner_shape :: "cleanup_target \<Rightarrow> bool" where
  "owner_shape t \<longleftrightarrow>
     (ct_status t = TargetRunning \<and> ct_token t \<noteq> None \<and> ct_lease t \<noteq> None)
     \<or> (ct_status t \<noteq> TargetRunning \<and> ct_token t = None \<and> ct_lease t = None)"

definition target_shape :: "cleanup_target \<Rightarrow> bool" where
  "target_shape t \<longleftrightarrow>
     (ct_type t = ObjectTarget \<and> ct_storage_key t \<noteq> None \<and> ct_collection t = None
       \<and> ct_project t = None \<and> ct_generation t = None)
     \<or> (ct_type t = VectorTarget \<and> ct_storage_key t = None \<and> ct_collection t \<noteq> None
       \<and> ct_project t \<noteq> None \<and> ct_generation t \<noteq> None)"

definition target_checks :: "cleanup_target \<Rightarrow> bool" where
  "target_checks t \<longleftrightarrow> 0 \<le> ct_attempts t \<and> owner_shape t \<and> target_shape t"

section \<open>Jobs and targets\<close>

definition target_key :: "(pystr \<Rightarrow> pystr) \<Rightarrow> pystr list \<Rightarrow> pystr" where
  "target_key sha parts = sha (join [CHR 0x00] parts)"

definition get_job :: "cleanup_db \<Rightarrow> uuid \<Rightarrow> cleanup_job option" where
  "get_job db i = find_by cj_id i (jobs db)"

definition get_target :: "cleanup_db \<Rightarrow> uuid \<Rightarrow> cleanup_target option" where
  "get_target db i = find_by ct_id i (targets db)"

definition job_targets :: "cleanup_db \<Rightarrow> uuid \<Rightarrow> cleanup_target list" where
  "job_targets db j = filter (\<lambda>t. ct_job t = j) (targets db)"

definition list_jobs :: "cleanup_db \<Rightarrow> uuid option \<Rightarrow> nat \<Rightarrow> cleanup_job list" where
  "list_jobs db project limit =
     take limit (sort_key (\<lambda>j. - cj_created j)
       (filter (\<lambda>j. case project of None \<Rightarrow> True | Some p \<Rightarrow> cj_project j = Some p) (jobs db)))"

text \<open>\<^verbatim>\<open>UPDATE cleanup_jobs\<close> also sets \<^verbatim>\<open>updated_at\<close> to the transaction time.\<close>

definition update_job :: "clocks \<Rightarrow> (cleanup_job \<Rightarrow> bool) \<Rightarrow> (cleanup_job \<Rightarrow> cleanup_job) \<Rightarrow> cleanup_db \<Rightarrow> cleanup_db" where
  "update_job clk P f db = db\<lparr>jobs := update_where P (\<lambda>j. (f j)\<lparr>cj_updated := clk_txn clk\<rparr>) (jobs db)\<rparr>"

definition update_targets :: "clocks \<Rightarrow> (cleanup_target \<Rightarrow> bool) \<Rightarrow> (cleanup_target \<Rightarrow> cleanup_target) \<Rightarrow> cleanup_db \<Rightarrow> cleanup_db" where
  "update_targets clk P f db = db\<lparr>targets := update_where P (\<lambda>t. (f t)\<lparr>ct_updated := clk_txn clk\<rparr>) (targets db)\<rparr>"

definition create_job ::
  "clocks \<Rightarrow> uuid \<Rightarrow> cleanup_job_kind \<Rightarrow> pystr \<Rightarrow> uuid option \<Rightarrow> uuid option \<Rightarrow> pystr option \<Rightarrow> cleanup_db
   \<Rightarrow> cleanup_job \<times> cleanup_db" where
  "create_job clk fresh kind idem project requested_by request db =
     (case List.find (\<lambda>j. cj_key j = idem) (jobs db) of
        Some j \<Rightarrow> (j, db)
      | None \<Rightarrow>
        let j = \<lparr>cj_id = fresh, cj_kind = kind, cj_status = JobPending, cj_project = project,
          cj_requested_by = requested_by, cj_request = request, cj_key = idem, cj_total = 0, cj_completed = 0,
          cj_skipped = 0, cj_failed = 0, cj_error_code = None, cj_error_summary = None,
          cj_created = clk_txn clk, cj_updated = clk_txn clk, cj_completed_at = None\<rparr>
        in (j, db\<lparr>jobs := jobs db @ [j]\<rparr>))"

text \<open>\<^verbatim>\<open>INSERT ... ON CONFLICT DO NOTHING\<close> on the pair of job and key; the counter grows only
  when the row was inserted. \<open>fresh\<close> gives the new row a UUID no row has.\<close>

definition insert_target :: "clocks \<Rightarrow> cleanup_target \<Rightarrow> cleanup_db \<Rightarrow> cleanup_db" where
  "insert_target clk t db =
     (if \<exists>x\<in>set (targets db). ct_job x = ct_job t \<and> ct_key x = ct_key t then db
      else update_job clk (\<lambda>j. cj_id j = ct_job t) (\<lambda>j. j\<lparr>cj_total := cj_total j + 1\<rparr>)
        (db\<lparr>targets := targets db @ [t]\<rparr>))"

definition new_target :: "clocks \<Rightarrow> uuid \<Rightarrow> uuid \<Rightarrow> pystr \<Rightarrow> time \<Rightarrow> cleanup_target" where
  "new_target clk i job key due =
     \<lparr>ct_id = i, ct_job = job, ct_key = key, ct_type = ObjectTarget, ct_status = TargetPending,
      ct_storage_key = None, ct_collection = None, ct_project = None, ct_generation = None,
      ct_attempts = 0, ct_next_attempt = due, ct_lease = None, ct_token = None, ct_error_code = None,
      ct_error_summary = None, ct_created = clk_txn clk, ct_updated = clk_txn clk\<rparr>"

record target_source =
  ts_sha :: "pystr \<Rightarrow> pystr"
  ts_fresh :: "cleanup_target list \<Rightarrow> uuid"

definition add_object_target ::
  "target_source \<Rightarrow> clocks \<Rightarrow> uuid \<Rightarrow> pystr \<Rightarrow> time option \<Rightarrow> cleanup_db \<Rightarrow> cleanup_db" where
  "add_object_target src clk job storage_key not_before db =
     insert_target clk
       ((new_target clk (ts_fresh src (targets db)) job (target_key (ts_sha src) [''object'', storage_key])
          (case not_before of None \<Rightarrow> clk_wall clk | Some d \<Rightarrow> d))
        \<lparr>ct_storage_key := Some storage_key\<rparr>) db"

definition add_vector_target ::
  "target_source \<Rightarrow> clocks \<Rightarrow> uuid \<Rightarrow> pystr \<Rightarrow> uuid \<Rightarrow> uuid \<Rightarrow> cleanup_db \<Rightarrow> cleanup_db" where
  "add_vector_target src clk job collection project generation db =
     insert_target clk
       ((new_target clk (ts_fresh src (targets db)) job
          (target_key (ts_sha src) [''vector_generation'', collection, uuid_str project, uuid_str generation])
          (clk_wall clk))
        \<lparr>ct_type := VectorTarget, ct_collection := Some collection, ct_project := Some project,
          ct_generation := Some generation\<rparr>) db"

definition finalize_empty_job :: "clocks \<Rightarrow> uuid \<Rightarrow> cleanup_db \<Rightarrow> cleanup_db" where
  "finalize_empty_job clk i db =
     update_job clk (\<lambda>j. cj_id j = i \<and> cj_total j = 0)
       (\<lambda>j. j\<lparr>cj_status := JobCompleted, cj_completed_at := Some (clk_wall clk)\<rparr>) db"

section \<open>Claims\<close>

definition target_due :: "time \<Rightarrow> cleanup_target \<Rightarrow> bool" where
  "target_due cutoff t \<longleftrightarrow> ct_status t \<in> {TargetPending, TargetRunning, TargetRetrying}
     \<and> ct_next_attempt t \<le> cutoff \<and> (case ct_lease t of None \<Rightarrow> True | Some l \<Rightarrow> l \<le> cutoff)"

definition due_targets :: "time \<Rightarrow> cleanup_target list \<Rightarrow> cleanup_target list" where
  "due_targets cutoff ts = sort_key (\<lambda>t. (ct_next_attempt t, ct_created t)) (filter (target_due cutoff) ts)"

definition claim_target :: "time \<Rightarrow> uuid \<Rightarrow> cleanup_target \<Rightarrow> cleanup_target" where
  "claim_target lease tok t =
     t\<lparr>ct_status := TargetRunning, ct_attempts := ct_attempts t + 1, ct_token := Some tok, ct_lease := Some lease,
       ct_next_attempt := lease, ct_error_code := None, ct_error_summary := None\<rparr>"

text \<open>
  The loop of \<^verbatim>\<open>claim_due_targets\<close>: it locks the job of the first due target whose job row is
  free (\<open>locked\<close> are the jobs locked by other transactions), then the first due target of that job.
  Targets of a job are locked only under the lock of the job, so the second query returns a row.
  \<open>tok\<close> gives the new token of a claimed target.
\<close>

fun claim_loop ::
  "nat \<Rightarrow> clocks \<Rightarrow> time \<Rightarrow> time \<Rightarrow> (uuid \<Rightarrow> bool) \<Rightarrow> (uuid \<Rightarrow> uuid) \<Rightarrow> cleanup_db \<Rightarrow> cleanup_target list \<times> cleanup_db" where
  "claim_loop 0 clk cutoff lease locked tok db = ([], db)"
| "claim_loop (Suc n) clk cutoff lease locked tok db =
     (case due_targets cutoff (filter (\<lambda>t. \<not> locked (ct_job t) \<and> get_job db (ct_job t) \<noteq> None) (targets db)) of
        [] \<Rightarrow> ([], db)
      | first # _ \<Rightarrow>
        (case due_targets cutoff (job_targets db (ct_job first)) of
           [] \<Rightarrow> ([], db)
         | t # _ \<Rightarrow>
           let db1 = update_targets clk (\<lambda>x. ct_id x = ct_id t) (claim_target lease (tok (ct_id t))) db;
               db2 = update_job clk (\<lambda>j. cj_id j = ct_job first)
                 (\<lambda>j. j\<lparr>cj_status := JobRunning, cj_completed_at := None\<rparr>) db1;
               (rest, db3) = claim_loop n clk cutoff lease locked tok db2
           in (claim_target lease (tok (ct_id t)) t # rest, db3)))"

definition claim_due_targets ::
  "clocks \<Rightarrow> nat \<Rightarrow> time \<Rightarrow> time option \<Rightarrow> (uuid \<Rightarrow> bool) \<Rightarrow> (uuid \<Rightarrow> uuid) \<Rightarrow> cleanup_db \<Rightarrow> cleanup_target list \<times> cleanup_db" where
  "claim_due_targets clk limit lease_seconds eligible_at locked tok db =
     claim_loop limit clk (case eligible_at of None \<Rightarrow> clk_wall clk | Some e \<Rightarrow> e)
       (clk_wall clk + lease_seconds) locked tok db"

definition lock_claimed_target :: "clocks \<Rightarrow> uuid \<Rightarrow> uuid \<Rightarrow> int \<Rightarrow> cleanup_db \<Rightarrow> cleanup_target option" where
  "lock_claimed_target clk i tok attempt db =
     (case get_target db i of
        None \<Rightarrow> None
      | Some t \<Rightarrow>
        if ct_status t \<noteq> TargetRunning \<or> ct_token t \<noteq> Some tok \<or> ct_attempts t \<noteq> attempt
           \<or> (case ct_lease t of None \<Rightarrow> True | Some l \<Rightarrow> l \<le> clk_wall clk)
        then None else Some t)"

section \<open>Outcomes\<close>

definition count_status :: "cleanup_target_status \<Rightarrow> cleanup_target list \<Rightarrow> nat" where
  "count_status s ts = length (filter (\<lambda>t. ct_status t = s) ts)"

definition error_target :: "cleanup_target list \<Rightarrow> cleanup_target option" where
  "error_target ts = (case sort_key (\<lambda>t. - ct_updated t) (filter (\<lambda>t. ct_error_code t \<noteq> None) ts) of [] \<Rightarrow> None | t # _ \<Rightarrow> Some t)"

definition refreshed_job :: "clocks \<Rightarrow> cleanup_target list \<Rightarrow> cleanup_job \<Rightarrow> cleanup_job" where
  "refreshed_job clk ts j =
     (let n = length ts; c = count_status TargetCompleted ts; k = count_status TargetSkipped ts;
          f = count_status TargetFailed ts; e = error_target ts;
          (st, done_at) =
            (if n = c + k + f then (if f \<noteq> 0 then JobFailed else JobCompleted, Some (clk_wall clk))
             else if count_status TargetRetrying ts \<noteq> 0 then (JobRetrying, None)
             else if count_status TargetRunning ts \<noteq> 0 then (JobRunning, None)
             else (JobPending, None))
      in j\<lparr>cj_status := st, cj_total := n, cj_completed := c, cj_skipped := k, cj_failed := f,
           cj_error_code := Option.bind e ct_error_code, cj_error_summary := Option.bind e ct_error_summary,
           cj_completed_at := done_at\<rparr>)"

definition refresh_job :: "clocks \<Rightarrow> uuid \<Rightarrow> cleanup_db \<Rightarrow> cleanup_db" where
  "refresh_job clk i db = update_job clk (\<lambda>j. cj_id j = i) (refreshed_job clk (job_targets db i)) db"

definition completed_target :: "bool \<Rightarrow> cleanup_target \<Rightarrow> cleanup_target" where
  "completed_target skipped t =
     t\<lparr>ct_status := if skipped then TargetSkipped else TargetCompleted, ct_lease := None, ct_token := None,
       ct_error_code := None, ct_error_summary := None\<rparr>"

definition mark_target_completed ::
  "clocks \<Rightarrow> uuid \<Rightarrow> bool \<Rightarrow> uuid option \<Rightarrow> int option \<Rightarrow> cleanup_db \<Rightarrow> bool \<times> cleanup_db" where
  "mark_target_completed clk i skipped tok attempt db =
     (case get_target db i of
        None \<Rightarrow> (False, db)
      | Some t \<Rightarrow>
        if ct_status t \<in> TERMINAL_TARGETS then (False, db)
        else if ct_status t = TargetRunning \<and> (tok = None \<or> attempt = None \<or> ct_token t \<noteq> tok \<or> Some (ct_attempts t) \<noteq> attempt)
        then (False, db)
        else (True, refresh_job clk (ct_job t) (update_targets clk (\<lambda>x. ct_id x = i) (completed_target skipped) db)))"

definition failed_target :: "clocks \<Rightarrow> pystr \<Rightarrow> pystr \<Rightarrow> int \<Rightarrow> time \<Rightarrow> cleanup_target \<Rightarrow> cleanup_target" where
  "failed_target clk code summary max_attempts delay t =
     t\<lparr>ct_status := if max_attempts \<le> ct_attempts t then TargetFailed else TargetRetrying, ct_lease := None, ct_token := None,
       ct_next_attempt := clk_wall clk + delay, ct_error_code := Some (take 128 code), ct_error_summary := Some (take 2000 summary)\<rparr>"

definition mark_target_failed ::
  "clocks \<Rightarrow> uuid \<Rightarrow> pystr \<Rightarrow> pystr \<Rightarrow> int \<Rightarrow> time \<Rightarrow> uuid \<Rightarrow> int \<Rightarrow> cleanup_db \<Rightarrow> bool \<times> cleanup_db" where
  "mark_target_failed clk i code summary max_attempts delay tok attempt db =
     (case get_target db i of
        None \<Rightarrow> (False, db)
      | Some t \<Rightarrow>
        if ct_status t \<noteq> TargetRunning \<or> ct_token t \<noteq> Some tok \<or> ct_attempts t \<noteq> attempt then (False, db)
        else (True, refresh_job clk (ct_job t)
          (update_targets clk (\<lambda>x. ct_id x = i) (failed_target clk code summary max_attempts delay) db)))"

definition make_job_due :: "clocks \<Rightarrow> uuid \<Rightarrow> cleanup_db \<Rightarrow> cleanup_db" where
  "make_job_due clk i db =
     update_targets clk (\<lambda>t. ct_job t = i \<and> ct_status t \<in> {TargetPending, TargetRetrying})
       (\<lambda>t. t\<lparr>ct_next_attempt := clk_wall clk\<rparr>) db"

end
