(* ===== verification/CleanupFacts.thy ===== *)
theory CleanupFacts
  imports Cleanup
begin

text \<open>
  The invariant of the cleanup tables and the clean-up queue as a system of interleaved
  transactions: every operation keeps the constraints of the tables and the counters of the jobs,
  and claims are fenced by their tokens.
\<close>

section \<open>The invariant\<close>

definition accounted :: "cleanup_db \<Rightarrow> cleanup_job \<Rightarrow> bool" where
  "accounted db j \<longleftrightarrow>
     (let ts = job_targets db (cj_id j) in
        cj_total j = length ts \<and> cj_completed j = count_status TargetCompleted ts
        \<and> cj_skipped j = count_status TargetSkipped ts \<and> cj_failed j = count_status TargetFailed ts)
     \<and> (cj_status j \<in> {JobCompleted, JobFailed} \<longleftrightarrow> cj_completed_at j \<noteq> None)"

definition wf_rows :: "cleanup_db \<Rightarrow> bool" where
  "wf_rows db \<longleftrightarrow> distinct (map cj_id (jobs db)) \<and> distinct (map cj_key (jobs db))
     \<and> distinct (map ct_id (targets db)) \<and> distinct (map (\<lambda>t. (ct_job t, ct_key t)) (targets db))
     \<and> (\<forall>t\<in>set (targets db). ct_job t \<in> cj_id ` set (jobs db) \<and> target_checks t)"

definition wf_cleanup :: "cleanup_db \<Rightarrow> bool" where
  "wf_cleanup db \<longleftrightarrow> wf_rows db \<and> (\<forall>j\<in>set (jobs db). accounted db j)"

definition same_target :: "cleanup_target \<Rightarrow> cleanup_target \<Rightarrow> bool" where
  "same_target t t' \<longleftrightarrow> ct_id t' = ct_id t \<and> ct_job t' = ct_job t \<and> ct_key t' = ct_key t \<and> ct_type t' = ct_type t
     \<and> ct_storage_key t' = ct_storage_key t \<and> ct_collection t' = ct_collection t \<and> ct_project t' = ct_project t
     \<and> ct_generation t' = ct_generation t"

lemma same_target_updates [simp]:
  "same_target t (claim_target lease tok t)" "same_target t (completed_target skipped t)"
  "same_target t (failed_target clk code summary m d t)" "same_target t (t\<lparr>ct_next_attempt := x\<rparr>)"
  "same_target t t" "same_target t (t'\<lparr>ct_updated := x\<rparr>) \<longleftrightarrow> same_target t t'"
  by (auto simp: same_target_def claim_target_def completed_target_def failed_target_def)

lemma status_of_updates [simp]:
  "ct_status (claim_target lease tok t) = TargetRunning"
  "ct_status (completed_target skipped t) = (if skipped then TargetSkipped else TargetCompleted)"
  "ct_status (failed_target clk code summary m d t) = (if m \<le> ct_attempts t then TargetFailed else TargetRetrying)"
  by (simp_all add: claim_target_def completed_target_def failed_target_def)

lemma target_checks_updates:
  "target_checks t \<Longrightarrow> target_checks (claim_target lease tok t)"
  "target_checks t \<Longrightarrow> target_checks (completed_target skipped t)"
  "target_checks t \<Longrightarrow> target_checks (failed_target clk code summary m d t)"
  "target_checks t \<Longrightarrow> target_checks (t\<lparr>ct_next_attempt := x\<rparr>)"
  by (auto simp: target_checks_def owner_shape_def target_shape_def claim_target_def completed_target_def failed_target_def)

section \<open>Updates of rows\<close>

lemma update_simps [simp]:
  "jobs (update_targets clk P f db) = jobs db" "targets (update_job clk Q g db) = targets db"
  "job_targets (update_job clk Q g db) i = job_targets db i"
  "targets (refresh_job clk i db) = targets db"
  by (simp_all add: update_targets_def update_job_def job_targets_def refresh_job_def)

lemma target_row_update:
  assumes "\<And>t. P t \<Longrightarrow> t \<in> set (targets db) \<Longrightarrow> same_target t (f t)" "\<And>t t'. same_target t t' \<Longrightarrow> g t' = g t"
  shows "map g (targets (update_targets clk P f db)) = map g (targets db)"
  using assms by (auto simp: update_targets_def update_where_def)

lemma wf_rows_update_targets:
  assumes "wf_rows db" "\<And>t. P t \<Longrightarrow> t \<in> set (targets db) \<Longrightarrow> same_target t (f t) \<and> (target_checks t \<longrightarrow> target_checks (f t))"
  shows "wf_rows (update_targets clk P f db)"
proof -
  have keys: "map ct_id (targets (update_targets clk P f db)) = map ct_id (targets db)"
    "map (\<lambda>t. (ct_job t, ct_key t)) (targets (update_targets clk P f db)) = map (\<lambda>t. (ct_job t, ct_key t)) (targets db)"
    by (rule target_row_update; use assms(2) in \<open>auto simp: same_target_def\<close>)+
  have "ct_job t \<in> cj_id ` set (jobs db) \<and> target_checks t" if "t \<in> set (targets (update_targets clk P f db))" for t
  proof -
    have upd: "target_checks (x\<lparr>ct_updated := y\<rparr>) = target_checks x" for x y
      by (simp add: target_checks_def owner_shape_def target_shape_def)
    from that obtain u where u: "u \<in> set (targets db)" and t: "t = (if P u then (f u)\<lparr>ct_updated := clk_txn clk\<rparr> else u)"
      by (auto simp: update_targets_def update_where_def)
    have "ct_job u \<in> cj_id ` set (jobs db)" "target_checks u" using assms(1) u by (auto simp: wf_rows_def)
    then show ?thesis using assms(2) [OF _ u] t by (auto simp: upd same_target_def)
  qed
  with keys assms(1) show ?thesis by (simp add: wf_rows_def)
qed

lemma wf_rows_update_job:
  assumes "wf_rows db" "\<And>j. cj_id (g j) = cj_id j \<and> cj_key (g j) = cj_key j"
  shows "wf_rows (update_job clk Q g db)"
proof -
  have "map cj_id (jobs (update_job clk Q g db)) = map cj_id (jobs db)" "map cj_key (jobs (update_job clk Q g db)) = map cj_key (jobs db)"
    using assms(2) by (auto simp: update_job_def intro: update_where_map)
  moreover from this(1) have "cj_id ` set (jobs (update_job clk Q g db)) = cj_id ` set (jobs db)"
    by (metis set_map)
  ultimately show ?thesis using assms(1) by (simp add: wf_rows_def)
qed

lemma accounted_cong:
  "job_targets db' (cj_id j) = job_targets db (cj_id j) \<Longrightarrow> accounted db' j \<longleftrightarrow> accounted db j"
  by (simp add: accounted_def)

lemma accounted_updated [simp]: "accounted db (j\<lparr>cj_updated := x\<rparr>) \<longleftrightarrow> accounted db j"
  by (simp add: accounted_def)

lemma job_targets_updated:
  assumes "\<And>t. P t \<Longrightarrow> t \<in> set (targets db) \<Longrightarrow> same_target t (f t)"
  shows "job_targets (update_targets clk P f db) i
    = map (\<lambda>t. if P t then (f t)\<lparr>ct_updated := clk_txn clk\<rparr> else t) (job_targets db i)"
  unfolding job_targets_def update_targets_def update_where_def
  using assms by (auto simp: filter_map o_def same_target_def intro!: arg_cong [where f = "map _"] filter_cong)

lemma count_status_map:
  "(\<And>t. t \<in> set ts \<Longrightarrow> ct_status (h t) = s \<longleftrightarrow> ct_status t = s) \<Longrightarrow> count_status s (map h ts) = count_status s ts"
  by (induction ts) (auto simp: count_status_def)

text \<open>An update that touches only open targets and leaves them open keeps every count.\<close>

lemma wf_cleanup_open_update:
  assumes "wf_cleanup db"
    and "\<And>t. P t \<Longrightarrow> t \<in> set (targets db) \<Longrightarrow> same_target t (f t) \<and> (target_checks t \<longrightarrow> target_checks (f t))
      \<and> ct_status t \<notin> TERMINAL_TARGETS \<and> ct_status (f t) \<notin> TERMINAL_TARGETS"
  shows "wf_cleanup (update_targets clk P f db)"
proof -
  have same: "\<And>t. P t \<Longrightarrow> t \<in> set (targets db) \<Longrightarrow> same_target t (f t)" using assms(2) by blast
  have counts: "count_status s (job_targets (update_targets clk P f db) i) = count_status s (job_targets db i)"
    if "s \<in> TERMINAL_TARGETS" for s i
  proof -
    have "ct_status (if P t then (f t)\<lparr>ct_updated := clk_txn clk\<rparr> else t) = s \<longleftrightarrow> ct_status t = s"
      if "t \<in> set (job_targets db i)" for t
      using assms(2) [of t] \<open>s \<in> TERMINAL_TARGETS\<close> that by (auto simp: job_targets_def)
    then show ?thesis by (simp add: job_targets_updated [OF same] count_status_map)
  qed
  have len: "length (job_targets (update_targets clk P f db) i) = length (job_targets db i)" for i
    by (simp add: job_targets_updated [OF same])
  have "accounted (update_targets clk P f db) j" if "accounted db j" for j
    using that by (simp add: accounted_def counts len Let_def TERMINAL_TARGETS_def)
  with assms show ?thesis by (auto simp: wf_cleanup_def intro!: wf_rows_update_targets)
qed

text \<open>A job row recomputed from its targets is accounted whatever the targets are.\<close>

lemma refreshed_accounted: "accounted db (refreshed_job clk (job_targets db (cj_id j)) j)"
  by (simp add: accounted_def refreshed_job_def Let_def split: prod.split)

lemma refreshed_identity: "cj_id (refreshed_job clk ts j) = cj_id j \<and> cj_key (refreshed_job clk ts j) = cj_key j"
  by (simp add: refreshed_job_def Let_def split: prod.split)

lemma wf_cleanup_refresh:
  assumes "wf_cleanup db" "get_target db i = Some t"
    and "\<And>t. t \<in> set (targets db) \<Longrightarrow> same_target t (f t) \<and> (target_checks t \<longrightarrow> target_checks (f t))"
  shows "wf_cleanup (refresh_job clk (ct_job t) (update_targets clk (\<lambda>x. ct_id x = i) f db))"
proof -
  let ?db1 = "update_targets clk (\<lambda>x. ct_id x = i) f db"
  let ?db2 = "refresh_job clk (ct_job t) ?db1"
  have rows: "wf_rows db" and acc: "\<forall>j\<in>set (jobs db). accounted db j" using assms(1) by (simp_all add: wf_cleanup_def)
  have t: "t \<in> set (targets db)" "ct_id t = i" using assms(2) find_by_Some by (force simp: get_target_def)+
  have wf2: "wf_rows ?db2" unfolding refresh_job_def
    using rows assms(3) by (intro wf_rows_update_job wf_rows_update_targets refreshed_identity) auto
  have other: "job_targets ?db2 k = job_targets db k" if "k \<noteq> ct_job t" for k
  proof -
    have "job_targets ?db2 k = map (\<lambda>x. if ct_id x = i then (f x)\<lparr>ct_updated := clk_txn clk\<rparr> else x) (job_targets db k)"
      using assms(3) by (simp add: refresh_job_def job_targets_updated)
    also have "\<dots> = job_targets db k"
    proof (rule map_idI)
      fix x assume "x \<in> set (job_targets db k)"
      then have x: "x \<in> set (targets db)" "ct_job x = k" by (auto simp: job_targets_def)
      have "ct_id x \<noteq> i" using x t that rows distinct_map [of ct_id "targets db"]
        by (auto simp: wf_rows_def inj_on_def)
      then show "(if ct_id x = i then (f x)\<lparr>ct_updated := clk_txn clk\<rparr> else x) = x" by simp
    qed
    finally show ?thesis .
  qed
  have "accounted ?db2 j" if "j \<in> set (jobs ?db2)" for j
  proof -
    from that obtain j0 where j0: "j0 \<in> set (jobs db)"
      and j: "j = (if cj_id j0 = ct_job t then (refreshed_job clk (job_targets ?db1 (ct_job t)) j0)\<lparr>cj_updated := clk_txn clk\<rparr> else j0)"
      by (auto simp: refresh_job_def update_job_def update_where_def)
    show ?thesis
    proof (cases "cj_id j0 = ct_job t")
      case True
      have "accounted ?db1 (refreshed_job clk (job_targets ?db1 (cj_id j0)) j0)" by (rule refreshed_accounted)
      then have "accounted ?db2 (refreshed_job clk (job_targets ?db1 (cj_id j0)) j0)"
        by (subst accounted_cong [where db = ?db1]) (simp_all add: refresh_job_def)
      with True j show ?thesis by simp
    next
      case False
      then have "accounted ?db2 j0" using accounted_cong [OF other [OF False]] acc j0 by blast
      with False j show ?thesis by simp
    qed
  qed
  with wf2 show ?thesis by (simp add: wf_cleanup_def)
qed

section \<open>Every operation keeps the invariant\<close>

lemma wf_create_job:
  assumes "wf_cleanup db" "fresh \<notin> cj_id ` set (jobs db)"
  shows "wf_cleanup (snd (create_job clk fresh kind idem project req rid db))"
proof (cases "List.find (\<lambda>j. cj_key j = idem) (jobs db)")
  case None
  then have key: "idem \<notin> cj_key ` set (jobs db)" by (auto simp: find_None_iff)
  have jt: "job_targets (db\<lparr>jobs := js\<rparr>) i = job_targets db i" for js i by (simp add: job_targets_def)
  have "job_targets db fresh = []"
    using assms by (force simp: job_targets_def filter_empty_conv wf_cleanup_def wf_rows_def)
  with None key assms show ?thesis
    by (auto simp: create_job_def wf_cleanup_def wf_rows_def accounted_def jt count_status_def Let_def)
qed (use assms in \<open>simp add: create_job_def\<close>)

lemma wf_insert_target:
  assumes wf: "wf_cleanup db" and t: "target_checks t" "ct_status t = TargetPending" "ct_id t \<notin> ct_id ` set (targets db)"
    and job: "get_job db (ct_job t) \<noteq> None"
  shows "wf_cleanup (insert_target clk t db)"
proof (cases "\<exists>x\<in>set (targets db). ct_job x = ct_job t \<and> ct_key x = ct_key t")
  case False
  let ?db1 = "db\<lparr>targets := targets db @ [t]\<rparr>" and ?f = "\<lambda>j::cleanup_job. j\<lparr>cj_total := cj_total j + 1\<rparr>"
  have jobt: "ct_job t \<in> cj_id ` set (jobs db)" using job unfolding get_job_def by (metis find_by_None imageI)
  have "wf_rows ?db1" using wf t False jobt by (auto simp: wf_cleanup_def wf_rows_def)
  then have rows: "wf_rows (insert_target clk t db)"
    unfolding insert_target_def if_not_P [OF False] by (rule wf_rows_update_job) simp
  have jt: "job_targets (insert_target clk t db) i = job_targets db i @ (if ct_job t = i then [t] else [])" for i
    unfolding insert_target_def if_not_P [OF False] by (simp add: job_targets_def)
  have "accounted (insert_target clk t db) j" if "j \<in> set (jobs (insert_target clk t db))" for j
  proof -
    from that obtain j0 where "j0 \<in> set (jobs db)"
      and j: "j = (if cj_id j0 = ct_job t then (?f j0)\<lparr>cj_updated := clk_txn clk\<rparr> else j0)"
      unfolding insert_target_def if_not_P [OF False] by (auto simp: update_job_def update_where_def)
    then have acc: "accounted db j0" using wf by (simp add: wf_cleanup_def)
    show ?thesis
    proof (cases "cj_id j0 = ct_job t")
      case True
      with j have "j = (?f j0)\<lparr>cj_updated := clk_txn clk\<rparr>" by simp
      with acc True show ?thesis by (simp add: accounted_def jt count_status_def t(2) Let_def)
    next
      case False
      with j have "j = j0" by simp
      with acc False show ?thesis by (simp add: accounted_def jt Let_def)
    qed
  qed
  with rows show ?thesis by (simp add: wf_cleanup_def)
next
  case True
  with wf show ?thesis unfolding insert_target_def by simp
qed

lemma wf_add_object:
  assumes "wf_cleanup db" "ts_fresh src (targets db) \<notin> ct_id ` set (targets db)" "get_job db job \<noteq> None"
  shows "wf_cleanup (add_object_target src clk job key nb db)"
  using assms unfolding add_object_target_def
  by (intro wf_insert_target) (simp_all add: new_target_def target_checks_def owner_shape_def target_shape_def)

lemma wf_add_vector:
  assumes "wf_cleanup db" "ts_fresh src (targets db) \<notin> ct_id ` set (targets db)" "get_job db job \<noteq> None"
  shows "wf_cleanup (add_vector_target src clk job c p g db)"
  using assms unfolding add_vector_target_def
  by (intro wf_insert_target) (simp_all add: new_target_def target_checks_def owner_shape_def target_shape_def)

text \<open>Setting the status and the completion time of a job together keeps the counters.\<close>

lemma wf_update_job_status:
  assumes "wf_cleanup db" "\<And>j. cj_id (f j) = cj_id j \<and> cj_key (f j) = cj_key j \<and> cj_total (f j) = cj_total j
    \<and> cj_completed (f j) = cj_completed j \<and> cj_skipped (f j) = cj_skipped j \<and> cj_failed (f j) = cj_failed j
    \<and> (cj_status (f j) \<in> {JobCompleted, JobFailed} \<longleftrightarrow> cj_completed_at (f j) \<noteq> None)"
  shows "wf_cleanup (update_job clk Q f db)"
proof -
  have rows: "wf_rows (update_job clk Q f db)" using assms by (intro wf_rows_update_job) (auto simp: wf_cleanup_def)
  have "accounted (update_job clk Q f db) j" if "j \<in> set (jobs (update_job clk Q f db))" for j
  proof -
    from that obtain j0 where j0: "j0 \<in> set (jobs db)" and j: "j = (if Q j0 then (f j0)\<lparr>cj_updated := clk_txn clk\<rparr> else j0)"
      by (auto simp: update_job_def update_where_def)
    then have "accounted db j0" using assms(1) by (simp add: wf_cleanup_def)
    then show ?thesis unfolding j accounted_def using assms(2) [of j0] by (simp add: Let_def)
  qed
  with rows show ?thesis by (simp add: wf_cleanup_def)
qed

lemma wf_finalize: "wf_cleanup db \<Longrightarrow> wf_cleanup (finalize_empty_job clk i db)"
  unfolding finalize_empty_job_def by (rule wf_update_job_status) simp_all

lemma due_targets_head: "due_targets cutoff ts = t # rest \<Longrightarrow> t \<in> set ts \<and> target_due cutoff t"
proof -
  assume "due_targets cutoff ts = t # rest"
  then have "t \<in> set (due_targets cutoff ts)" by simp
  then show ?thesis by (simp add: due_targets_def)
qed

text \<open>One iteration of the claiming loop.\<close>

definition claim_one :: "clocks \<Rightarrow> time \<Rightarrow> (uuid \<Rightarrow> uuid) \<Rightarrow> cleanup_target \<Rightarrow> cleanup_db \<Rightarrow> cleanup_db" where
  "claim_one clk lease tok t db =
     update_job clk (\<lambda>j. cj_id j = ct_job t) (\<lambda>j. j\<lparr>cj_status := JobRunning, cj_completed_at := None\<rparr>)
       (update_targets clk (\<lambda>x. ct_id x = ct_id t) (claim_target lease (tok (ct_id t))) db)"

lemma claim_loop_induct [consumes 1, case_names Stop Claim]:
  assumes "claim_loop n clk cutoff lease locked tok db = (ts, db')"
    and "\<And>db. Q db [] db"
    and "\<And>db t ts db'. t \<in> set (targets db) \<Longrightarrow> target_due cutoff t \<Longrightarrow> \<not> locked (ct_job t) \<Longrightarrow>
      Q (claim_one clk lease tok t db) ts db' \<Longrightarrow> Q db (claim_target lease (tok (ct_id t)) t # ts) db'"
  shows "Q db ts db'"
  using assms(1)
proof (induction n arbitrary: db ts db')
  case 0
  then show ?case by (simp add: assms(2))
next
  case (Suc n)
  let ?due = "due_targets cutoff (filter (\<lambda>t. \<not> locked (ct_job t) \<and> get_job db (ct_job t) \<noteq> None) (targets db))"
  show ?case
  proof (cases ?due)
    case Nil
    with Suc.prems assms(2) show ?thesis by simp
  next
    case (Cons first r)
    note first = due_targets_head [OF Cons]
    show ?thesis
    proof (cases "due_targets cutoff (job_targets db (ct_job first))")
      case Nil
      with Cons Suc.prems assms(2) show ?thesis by simp
    next
      case c2: (Cons t r')
      have t: "t \<in> set (targets db)" "ct_job t = ct_job first" "target_due cutoff t" "\<not> locked (ct_job t)"
        using due_targets_head [OF c2] first by (auto simp: job_targets_def)
      obtain rest db3 where rest: "claim_loop n clk cutoff lease locked tok (claim_one clk lease tok t db) = (rest, db3)"
        by fastforce
      from Suc.prems Cons c2 rest t(2) have "ts = claim_target lease (tok (ct_id t)) t # rest" "db' = db3"
        by (simp_all add: claim_one_def Let_def)
      with assms(3) [OF t(1,3,4) Suc.IH [OF rest]] show ?thesis by simp
    qed
  qed
qed

lemma wf_claim_one:
  assumes "wf_cleanup db" "t \<in> set (targets db)" "target_due cutoff t"
  shows "wf_cleanup (claim_one clk lease tok t db)"
proof -
  have "x = t" if "x \<in> set (targets db)" "ct_id x = ct_id t" for x
    using assms(1,2) that distinct_map [of ct_id "targets db"] by (auto simp: wf_cleanup_def wf_rows_def inj_on_def)
  moreover have "ct_status t \<notin> TERMINAL_TARGETS" using assms(3) by (auto simp: target_due_def TERMINAL_TARGETS_def)
  ultimately show ?thesis unfolding claim_one_def using assms(1)
    by (intro wf_update_job_status wf_cleanup_open_update) (auto simp: TERMINAL_TARGETS_def target_checks_updates)
qed

lemma wf_claim:
  assumes "claim_due_targets clk limit lease elig locked tok db = (ts, db')" "wf_cleanup db"
  shows "wf_cleanup db'"
proof -
  have "wf_cleanup db \<longrightarrow> wf_cleanup db'" using assms(1) unfolding claim_due_targets_def
    by (induction rule: claim_loop_induct) (auto intro: wf_claim_one)
  with assms(2) show ?thesis by simp
qed

lemma wf_completed:
  "wf_cleanup db \<Longrightarrow> mark_target_completed clk i skipped tok attempt db = (ok, db') \<Longrightarrow> wf_cleanup db'"
  unfolding mark_target_completed_def
  by (auto split: option.splits if_splits intro!: wf_cleanup_refresh target_checks_updates)

lemma wf_failed:
  "wf_cleanup db \<Longrightarrow> mark_target_failed clk i code summary m d tok attempt db = (ok, db') \<Longrightarrow> wf_cleanup db'"
  unfolding mark_target_failed_def
  by (auto split: option.splits if_splits intro!: wf_cleanup_refresh target_checks_updates)

lemma wf_due: "wf_cleanup db \<Longrightarrow> wf_cleanup (make_job_due clk i db)"
  unfolding make_job_due_def
  by (rule wf_cleanup_open_update) (auto simp: TERMINAL_TARGETS_def target_checks_updates)

section \<open>The queue as a system\<close>

text \<open>Any number of API processes and workers interleave their transactions. \<open>cs_issued\<close> are
  the execution tokens given so far: a UUID is never given twice.\<close>

record cleanup_sys =
  cs_db :: cleanup_db
  cs_issued :: "uuid set"

definition empty_cleanup :: cleanup_sys where
  "empty_cleanup = \<lparr>cs_db = \<lparr>jobs = [], targets = []\<rparr>, cs_issued = {}\<rparr>"

inductive cleanup_step :: "cleanup_sys \<Rightarrow> cleanup_sys \<Rightarrow> bool" where
  cs_create: "fresh \<notin> cj_id ` set (jobs (cs_db s)) \<Longrightarrow> create_job clk fresh kind idem project req rid (cs_db s) = (j, db)
    \<Longrightarrow> cleanup_step s (s\<lparr>cs_db := db\<rparr>)"
| cs_add_object: "ts_fresh src (targets (cs_db s)) \<notin> ct_id ` set (targets (cs_db s)) \<Longrightarrow> get_job (cs_db s) job \<noteq> None
    \<Longrightarrow> cleanup_step s (s\<lparr>cs_db := add_object_target src clk job key nb (cs_db s)\<rparr>)"
| cs_add_vector: "ts_fresh src (targets (cs_db s)) \<notin> ct_id ` set (targets (cs_db s)) \<Longrightarrow> get_job (cs_db s) job \<noteq> None
    \<Longrightarrow> cleanup_step s (s\<lparr>cs_db := add_vector_target src clk job c p g (cs_db s)\<rparr>)"
| cs_finalize: "cleanup_step s (s\<lparr>cs_db := finalize_empty_job clk i (cs_db s)\<rparr>)"
| cs_claim: "claim_due_targets clk limit lease elig locked tok (cs_db s) = (ts, db) \<Longrightarrow> tok ` ct_id ` set ts \<inter> cs_issued s = {}
    \<Longrightarrow> cleanup_step s (s\<lparr>cs_db := db, cs_issued := cs_issued s \<union> tok ` ct_id ` set ts\<rparr>)"
| cs_complete: "mark_target_completed clk i skipped tk attempt (cs_db s) = (ok, db) \<Longrightarrow> cleanup_step s (s\<lparr>cs_db := db\<rparr>)"
| cs_fail: "mark_target_failed clk i code summary m d tk attempt' (cs_db s) = (ok, db) \<Longrightarrow> cleanup_step s (s\<lparr>cs_db := db\<rparr>)"
| cs_due: "cleanup_step s (s\<lparr>cs_db := make_job_due clk i (cs_db s)\<rparr>)"

inductive_cases cleanup_stepE: "cleanup_step s t"

lemma cleanup_step_wf: "cleanup_step s t \<Longrightarrow> wf_cleanup (cs_db s) \<Longrightarrow> wf_cleanup (cs_db t)"
proof (induction rule: cleanup_step.induct)
  case (cs_create fresh s clk kind idem project req rid j db)
  with wf_create_job [of "cs_db s" fresh clk kind idem project req rid] show ?case by simp
qed (auto intro: wf_add_object wf_add_vector wf_finalize wf_claim wf_completed wf_failed wf_due)

lemma cleanup_reachable_wf: "cleanup_step\<^sup>*\<^sup>* empty_cleanup s \<Longrightarrow> wf_cleanup (cs_db s)"
proof (induction rule: rtranclp_induct)
  case base
  show ?case by (simp add: empty_cleanup_def wf_cleanup_def wf_rows_def)
qed (rule cleanup_step_wf)

section \<open>Claims are fenced\<close>

definition target_token :: "cleanup_sys \<Rightarrow> uuid \<Rightarrow> uuid option" where
  "target_token s i = Option.bind (get_target (cs_db s) i) ct_token"

lemma get_target_update:
  assumes "\<And>t. same_target t (f t)"
  shows "get_target (update_targets clk P f db) i
    = map_option (\<lambda>t. if P t then (f t)\<lparr>ct_updated := clk_txn clk\<rparr> else t) (get_target db i)"
  unfolding get_target_def update_targets_def using assms
  by (simp add: find_by_update same_target_def)

lemma get_target_update_job [simp]: "get_target (update_job clk Q f db) i = get_target db i"
  by (simp add: get_target_def)

lemma get_target_refresh [simp]: "get_target (refresh_job clk j db) i = get_target db i"
  by (simp add: get_target_def)

text \<open>What a step may do to the token of a target: keep it, clear it or set one of \<open>new\<close>.\<close>

definition token_moves :: "uuid set \<Rightarrow> cleanup_db \<Rightarrow> cleanup_db \<Rightarrow> bool" where
  "token_moves new db db' \<longleftrightarrow> (\<forall>i. let a = Option.bind (get_target db i) ct_token; b = Option.bind (get_target db' i) ct_token
     in b = a \<or> b = None \<or> b \<in> Some ` new)"

lemma token_moves_refl [simp]: "token_moves new db db"
  by (simp add: token_moves_def)

lemma token_moves_trans: "token_moves n1 a b \<Longrightarrow> token_moves n2 b c \<Longrightarrow> token_moves (n1 \<union> n2) a c"
  unfolding token_moves_def Let_def by (metis UnCI image_Un)

lemma token_moves_update:
  assumes "\<And>t. same_target t (f t)" "\<And>t. P t \<Longrightarrow> ct_token (f t) = ct_token t \<or> ct_token (f t) = None \<or> ct_token (f t) \<in> Some ` new"
  shows "token_moves new db (update_targets clk P f db)"
proof -
  have "let a = Option.bind (get_target db i) ct_token;
      b = Option.bind (get_target (update_targets clk P f db) i) ct_token in b = a \<or> b = None \<or> b \<in> Some ` new" for i
    using assms(2) by (cases "get_target db i") (auto simp: get_target_update [OF assms(1)])
  then show ?thesis by (simp add: token_moves_def)
qed

lemma token_moves_same: "\<lbrakk>\<And>i. get_target db' i = get_target db i\<rbrakk> \<Longrightarrow> token_moves new db db'"
  by (simp add: token_moves_def)

lemma token_moves_insert: "ct_token t = None \<Longrightarrow> token_moves new db (insert_target clk t db)"
proof -
  assume "ct_token t = None"
  have "get_target (db\<lparr>targets := targets db @ [t]\<rparr>) i = (case get_target db i of Some x \<Rightarrow> Some x | None \<Rightarrow> if ct_id t = i then Some t else None)" for i
    by (simp add: get_target_def find_by_snoc)
  with \<open>ct_token t = None\<close> show ?thesis
    by (auto simp: insert_target_def token_moves_def Let_def split: option.split)
qed

lemma token_moves_claim:
  assumes "claim_due_targets clk limit lease elig locked tok db = (ts, db')"
  shows "token_moves (tok ` ct_id ` set ts) db db'"
  using assms unfolding claim_due_targets_def
proof (induction rule: claim_loop_induct)
  case (Claim db t ts db')
  have "token_moves {tok (ct_id t)} db (claim_one clk (clk_wall clk + lease) tok t db)"
  proof -
    have "token_moves {tok (ct_id t)} db (update_targets clk (\<lambda>x. ct_id x = ct_id t) (claim_target (clk_wall clk + lease) (tok (ct_id t))) db)"
      by (rule token_moves_update) (simp_all, simp add: claim_target_def)
    then show ?thesis by (simp add: claim_one_def token_moves_def)
  qed
  from token_moves_trans [OF this Claim(4)] show ?case by (simp add: claim_target_def)
qed simp

lemma token_moves_outcome:
  "(\<And>t. same_target t (f t)) \<Longrightarrow> (\<And>t. ct_token (f t) = None) \<Longrightarrow> token_moves {} db (refresh_job clk j (update_targets clk P f db))"
  using token_moves_update [of f P "{}" db clk] by (simp add: token_moves_def)

lemma token_moves_completed:
  "mark_target_completed clk i skipped tk attempt db = (ok, db') \<Longrightarrow> token_moves {} db db'"
  unfolding mark_target_completed_def
  by (auto split: option.splits if_splits intro!: token_moves_outcome) (simp_all add: completed_target_def)

lemma token_moves_failed:
  "mark_target_failed clk i code summary m d tk attempt db = (ok, db') \<Longrightarrow> token_moves {} db db'"
  unfolding mark_target_failed_def
  by (auto split: option.splits if_splits intro!: token_moves_outcome) (simp_all add: failed_target_def)

lemma cleanup_step_tokens: "cleanup_step s t \<Longrightarrow> cs_issued s \<subseteq> cs_issued t
    \<and> (\<exists>new. new \<inter> cs_issued s = {} \<and> new \<subseteq> cs_issued t \<and> token_moves new (cs_db s) (cs_db t))"
proof (induction rule: cleanup_step.induct)
  case (cs_create fresh s clk kind idem project req rid j db)
  then have "targets db = targets (cs_db s)" by (auto simp: create_job_def Let_def split: option.splits)
  then have "token_moves {} (cs_db s) db" by (auto intro!: token_moves_same simp: get_target_def)
  then show ?case by auto
next
  case (cs_add_object src s job clk key nb)
  have "token_moves {} (cs_db s) (add_object_target src clk job key nb (cs_db s))"
    unfolding add_object_target_def by (rule token_moves_insert) (simp add: new_target_def)
  then show ?case by auto
next
  case (cs_add_vector src s job clk c p g)
  have "token_moves {} (cs_db s) (add_vector_target src clk job c p g (cs_db s))"
    unfolding add_vector_target_def by (rule token_moves_insert) (simp add: new_target_def)
  then show ?case by auto
next
  case (cs_finalize s clk i)
  have "token_moves {} (cs_db s) (finalize_empty_job clk i (cs_db s))"
    by (rule token_moves_same) (simp add: finalize_empty_job_def)
  then show ?case by auto
next
  case (cs_claim clk limit lease elig locked tok s ts db)
  with token_moves_claim [OF cs_claim(1)] show ?case by auto
next
  case (cs_due s clk i)
  have "token_moves {} (cs_db s) (make_job_due clk i (cs_db s))"
    unfolding make_job_due_def by (rule token_moves_update) simp_all
  then show ?case by auto
qed (auto dest: token_moves_completed token_moves_failed)

interpretation cq: token_fence target_token cs_issued cleanup_step
proof
  fix s t i assume "cleanup_step s t"
  note step = cleanup_step_tokens [OF this]
  then show "cs_issued s \<subseteq> cs_issued t" by blast
  from step obtain new where new: "new \<inter> cs_issued s = {}" "new \<subseteq> cs_issued t" "token_moves new (cs_db s) (cs_db t)" by blast
  then have "target_token t i = target_token s i \<or> target_token t i = None \<or> target_token t i \<in> Some ` new"
    unfolding token_moves_def Let_def target_token_def by blast
  with new(1,2) show "target_token t i = target_token s i \<or> target_token t i = None \<or>
      (\<exists>x. target_token t i = Some x \<and> x \<notin> cs_issued s \<and> x \<in> cs_issued t)" by blast
qed

end
