(* ===== verification/SourceStore.thy ===== *)
theory SourceStore
  imports Builds Cleanup Url
begin

text \<open>
  Sources of a project and the versions of their content: the domain types
  (\<^verbatim>\<open>backend/app/domain/sources.py\<close>), the tables \<^verbatim>\<open>project_sources\<close>, \<^verbatim>\<open>source_versions\<close> and
  \<^verbatim>\<open>source_findings\<close> with their constraints (\<^verbatim>\<open>backend/app/models/source.py\<close>) and the operations of
  \<^verbatim>\<open>backend/app/repositories/sources.py\<close>. A write that violates a constraint raises
  \<open>IntegrityError\<close>. The record \<open>store\<close> is the part of the database these operations and the
  cleanup service share, with the objects and vectors kept outside the database.
\<close>

section \<open>Rows\<close>

datatype source_kind = OpenapiSource | ApiInventorySource | DocumentationSource

datatype source_origin = UploadOrigin | UrlOrigin

definition executable_kind :: "source_kind \<Rightarrow> bool" where
  "executable_kind k \<longleftrightarrow> k \<in> {OpenapiSource, ApiInventorySource}"

record project_source =
  ps_id :: uuid
  ps_project :: uuid
  ps_kind :: source_kind
  ps_name :: pystr
  ps_origin :: source_origin
  ps_url :: "pystr option"
  ps_primary :: bool
  ps_created :: time
  ps_current :: "uuid option"
  ps_selected_at :: "time option"
  ps_observed_at :: "time option"
  ps_etag :: "pystr option"
  ps_last_modified :: "pystr option"

record source_version =
  sv_id :: uuid
  sv_source :: uuid
  sv_sha256 :: pystr
  sv_media_type :: pystr
  sv_storage_key :: pystr
  sv_size :: int
  sv_format :: pystr
  sv_etag :: "pystr option"
  sv_last_modified :: "pystr option"
  sv_created_by :: uuid
  sv_created :: time

record source_finding =
  sf_id :: uuid
  sf_build :: uuid
  sf_version :: uuid
  sf_key :: pystr
  sf_stage :: pystr
  sf_code :: pystr
  sf_severity :: pystr
  sf_message :: pystr
  sf_pointer :: "pystr option"
  sf_line :: "int option"
  sf_column :: "int option"
  sf_details :: json_object
  sf_created :: time

text \<open>The columns of \<^verbatim>\<open>document_index_generations\<close> that the clean-up reads.\<close>

record index_generation =
  ig_id :: uuid
  ig_project :: uuid
  ig_build :: uuid
  ig_chunk_key :: "pystr option"
  ig_collection :: "pystr option"

text \<open>An event appended by \<^verbatim>\<open>repositories/audit.py\<close>; its metadata is not kept.\<close>

record audit_entry =
  au_actor :: "uuid option"
  au_type :: pystr
  au_entity_type :: pystr
  au_entity :: uuid
  au_project :: "uuid option"
  au_request :: "pystr option"

record store =
  st_projects :: "project_row list"
  st_sources :: "project_source list"
  st_versions :: "source_version list"
  st_findings :: "source_finding list"
  st_builds :: "build_row list"
  st_bindings :: "(uuid \<times> source_binding) list"
  st_deployments :: "deployment list"
  st_generations :: "index_generation list"
  st_snapshots :: "uuid list"
  st_cleanup :: cleanup_db
  st_audit :: "audit_entry list"
  st_objects :: "pystr set"                    \<comment> \<open>keys held by the object storage\<close>
  st_vectors :: "(pystr \<times> uuid \<times> uuid) set"  \<comment> \<open>collection, project and generation held by the vector store\<close>

definition append_audit :: "uuid option \<Rightarrow> pystr \<Rightarrow> pystr \<Rightarrow> uuid \<Rightarrow> uuid option \<Rightarrow> pystr option \<Rightarrow> store \<Rightarrow> store" where
  "append_audit actor kind entity_type entity project request st =
     st\<lparr>st_audit := st_audit st @ [\<lparr>au_actor = actor, au_type = kind, au_entity_type = entity_type, au_entity = entity,
       au_project = project, au_request = request\<rparr>]\<rparr>"

definition build_view :: "store \<Rightarrow> build_db" where
  "build_view st = \<lparr>builds = st_builds st, bindings = st_bindings st, index_generations = map ig_build (st_generations st)\<rparr>"

section \<open>Constraints\<close>

definition source_row_checks :: "project_source \<Rightarrow> bool" where
  "source_row_checks s \<longleftrightarrow>
     (ps_origin s = UrlOrigin \<longleftrightarrow> ps_url s \<noteq> None)
     \<and> (if ps_current s = None
        then ps_selected_at s = None \<and> ps_observed_at s = None \<and> ps_etag s = None \<and> ps_last_modified s = None
        else ps_selected_at s \<noteq> None \<and> ps_observed_at s \<noteq> None)"

text \<open>The partial unique index \<^verbatim>\<open>uq_project_sources_primary_executable\<close>.\<close>

definition one_primary :: "project_source list \<Rightarrow> bool" where
  "one_primary rows = distinct (map ps_project (filter (\<lambda>s. ps_primary s \<and> executable_kind (ps_kind s)) rows))"

definition sources_ok :: "project_source list \<Rightarrow> bool" where
  "sources_ok rows \<longleftrightarrow> distinct (map ps_id rows) \<and> one_primary rows \<and> list_all source_row_checks rows"

definition version_checks :: "source_version \<Rightarrow> bool" where
  "version_checks v \<longleftrightarrow> 0 < sv_size v \<and> is_sha256_text (sv_sha256 v)"

definition versions_ok :: "source_version list \<Rightarrow> bool" where
  "versions_ok rows \<longleftrightarrow> distinct (map sv_id rows) \<and> distinct (map (\<lambda>v. (sv_source v, sv_sha256 v)) rows)
     \<and> list_all version_checks rows"

definition finding_checks :: "source_finding \<Rightarrow> bool" where
  "finding_checks f \<longleftrightarrow> sf_severity f \<in> {''error'', ''warning'', ''info''}
     \<and> nonblank (sf_stage f) \<and> nonblank (sf_code f) \<and> nonblank (sf_message f) \<and> is_sha256_text (sf_key f)
     \<and> (case sf_line f of None \<Rightarrow> True | Some n \<Rightarrow> 1 \<le> n) \<and> (case sf_column f of None \<Rightarrow> True | Some n \<Rightarrow> 1 \<le> n)"

text \<open>The deferred foreign key \<^verbatim>\<open>fk_project_sources_current_version_same_source\<close>, checked when the
  transaction commits.\<close>

definition current_versions_exist :: "store \<Rightarrow> bool" where
  "current_versions_exist st \<longleftrightarrow> list_all (\<lambda>s. case ps_current s of None \<Rightarrow> True
     | Some v \<Rightarrow> list_ex (\<lambda>x. sv_id x = v \<and> sv_source x = ps_id s) (st_versions st)) (st_sources st)"

definition commit :: "store \<Rightarrow> backend_error + store" where
  "commit st = (if current_versions_exist st then Inr st else Inl integrity_error)"

section \<open>Queries\<close>

definition posix_name :: "pystr \<Rightarrow> pystr" where
  \<comment> \<open>\<^verbatim>\<open>PurePosixPath(path).name\<close>\<close>
  "posix_name p = (case rev (filter (\<lambda>c. c \<noteq> [] \<and> c \<noteq> ''.'') (split_on CHR ''/'' p)) of [] \<Rightarrow> [] | c # _ \<Rightarrow> c)"

definition source_dependency_aliases :: "(pystr \<Rightarrow> bool) \<Rightarrow> project_source \<Rightarrow> value_error + pystr list" where
  "source_dependency_aliases bracket_ok s =
     (if truthy (ps_url s)
      then rbind (urlsplit bracket_ok (the (ps_url s))) (\<lambda>u.
        let n = posix_name (url_path u)
        in Inr (sort (remdups ([ps_name s, the (ps_url s)] @ (if n \<noteq> [] then [n] else [])))))
      else Inr [ps_name s])"

definition get_source :: "store \<Rightarrow> uuid \<Rightarrow> project_source option" where
  "get_source st i = find_by ps_id i (st_sources st)"

definition get_version :: "store \<Rightarrow> uuid \<Rightarrow> source_version option" where
  "get_version st i = find_by sv_id i (st_versions st)"

definition list_sources :: "store \<Rightarrow> uuid \<Rightarrow> project_source list" where
  "list_sources st p = sort_key ps_created (filter (\<lambda>s. ps_project s = p) (st_sources st))"

definition list_bound_versions :: "store \<Rightarrow> uuid \<Rightarrow> uuid list \<Rightarrow> (project_source \<times> source_version) list" where
  "list_bound_versions st p ids =
     [(s, v). s \<leftarrow> filter (\<lambda>s. ps_project s = p) (st_sources st),
              v \<leftarrow> filter (\<lambda>v. sv_source v = ps_id s \<and> sv_id v \<in> set ids) (st_versions st)]"

definition latest_bound_versions :: "store \<Rightarrow> uuid \<Rightarrow> (project_source \<times> source_version) list" where
  "latest_bound_versions st p =
     [(s, v). s \<leftarrow> list_sources st p, v \<leftarrow> filter (\<lambda>v. ps_current s = Some (sv_id v)) (st_versions st)]"

definition primary_executables :: "store \<Rightarrow> uuid \<Rightarrow> project_source list" where
  "primary_executables st p = filter (\<lambda>s. ps_project s = p \<and> executable_kind (ps_kind s) \<and> ps_primary s) (st_sources st)"

definition first_row :: "'a list \<Rightarrow> 'a option" where
  "first_row xs = (case xs of [] \<Rightarrow> None | x # _ \<Rightarrow> Some x)"

definition get_primary_for_kind :: "store \<Rightarrow> uuid \<Rightarrow> source_kind \<Rightarrow> project_source option" where
  "get_primary_for_kind st p k = first_row (filter (\<lambda>s. ps_project s = p \<and> ps_kind s = k \<and> ps_primary s) (st_sources st))"

definition get_primary_executable :: "store \<Rightarrow> uuid \<Rightarrow> project_source option" where
  "get_primary_executable st p = first_row (primary_executables st p)"

definition get_versioned_primary_executable :: "store \<Rightarrow> uuid \<Rightarrow> project_source option" where
  "get_versioned_primary_executable st p = first_row (filter (\<lambda>s. ps_current s \<noteq> None) (primary_executables st p))"

definition newest_first :: "('a \<Rightarrow> time) \<Rightarrow> ('a \<Rightarrow> uuid) \<Rightarrow> 'a list \<Rightarrow> 'a list" where
  \<comment> \<open>\<^verbatim>\<open>ORDER BY created_at DESC, id DESC\<close>\<close>
  "newest_first created key rows = sort_key (\<lambda>r. (- created r, - int (key r))) rows"

definition oldest_first :: "('a \<Rightarrow> time) \<Rightarrow> ('a \<Rightarrow> uuid) \<Rightarrow> 'a list \<Rightarrow> 'a list" where
  "oldest_first created key rows = sort_key (\<lambda>r. (created r, key r)) rows"

definition latest_in_group :: "store \<Rightarrow> uuid \<Rightarrow> pystr \<Rightarrow> source_kind \<Rightarrow> uuid option \<Rightarrow> project_source option" where
  "latest_in_group st p name kind excluded =
     first_row (newest_first ps_created ps_id
       (filter (\<lambda>s. ps_project s = p \<and> ps_name s = name \<and> ps_kind s = kind \<and> excluded \<noteq> Some (ps_id s)) (st_sources st)))"

definition first_versioned_executable :: "store \<Rightarrow> uuid \<Rightarrow> uuid option \<Rightarrow> project_source option" where
  "first_versioned_executable st p excluded =
     first_row (oldest_first ps_created ps_id
       (filter (\<lambda>s. ps_project s = p \<and> executable_kind (ps_kind s) \<and> ps_current s \<noteq> None \<and> excluded \<noteq> Some (ps_id s)) (st_sources st)))"

definition source_versions_of :: "store \<Rightarrow> uuid \<Rightarrow> source_version list" where
  "source_versions_of st i = newest_first sv_created sv_id (filter (\<lambda>v. sv_source v = i) (st_versions st))"

definition list_versions :: "store \<Rightarrow> uuid \<Rightarrow> nat option \<Rightarrow> nat \<Rightarrow> source_version list" where
  "list_versions st i limit offset =
     (let rows = drop offset (source_versions_of st i) in case limit of None \<Rightarrow> rows | Some n \<Rightarrow> take n rows)"

definition count_versions :: "store \<Rightarrow> uuid \<Rightarrow> nat" where
  "count_versions st i = length (filter (\<lambda>v. sv_source v = i) (st_versions st))"

definition latest_version :: "store \<Rightarrow> uuid \<Rightarrow> source_version option" where
  "latest_version st i = Option.bind (get_source st i) (\<lambda>s. Option.bind (ps_current s) (get_version st))"

definition get_version_by_hash :: "store \<Rightarrow> uuid \<Rightarrow> pystr \<Rightarrow> source_version option" where
  "get_version_by_hash st i sha256 = List.find (\<lambda>v. sv_source v = i \<and> sv_sha256 v = sha256) (st_versions st)"

definition has_build_references :: "store \<Rightarrow> uuid \<Rightarrow> bool" where
  "has_build_references st i \<longleftrightarrow>
     (\<exists>(b, s)\<in>set (st_bindings st). \<exists>v\<in>set (st_versions st). sv_id v = sb_version s \<and> sv_source v = i)"

section \<open>Findings\<close>

definition opt_text :: "pystr option \<Rightarrow> pystr" where
  "opt_text v = (case v of None \<Rightarrow> [] | Some s \<Rightarrow> s)"

definition opt_number :: "int option \<Rightarrow> pystr" where
  \<comment> \<open>\<^verbatim>\<open>str(value or "")\<close>\<close>
  "opt_number v = (case v of None \<Rightarrow> [] | Some n \<Rightarrow> if n = 0 then [] else str_int n)"

definition finding_key :: "(pystr \<Rightarrow> pystr) \<Rightarrow> pystr \<Rightarrow> pystr \<Rightarrow> pystr option \<Rightarrow> int option \<Rightarrow> int option \<Rightarrow> pystr" where
  "finding_key sha stage code pointer line col =
     sha (join [CHR 0x00] [stage, code, opt_text pointer, opt_number line, opt_number col])"

definition upsert_finding ::
  "store \<Rightarrow> time \<Rightarrow> time \<Rightarrow> (pystr \<Rightarrow> pystr) \<Rightarrow> uuid \<Rightarrow> source_finding \<Rightarrow> uuid \<Rightarrow> backend_error + source_finding \<times> store" where
  "upsert_finding st now txn_time sha fresh f tok =
     rbind (require_build_execution_owner (build_view st) now (sf_build f) tok False) (\<lambda>_.
       let key = finding_key sha (sf_stage f) (sf_code f) (sf_pointer f) (sf_line f) (sf_column f);
           same = (\<lambda>x. sf_build x = sf_build f \<and> sf_version x = sf_version f \<and> sf_key x = key);
           new = f\<lparr>sf_id := fresh, sf_key := key, sf_created := txn_time\<rparr>;
           overwrite = (\<lambda>x. x\<lparr>sf_severity := sf_severity f, sf_message := sf_message f, sf_pointer := sf_pointer f,
             sf_line := sf_line f, sf_column := sf_column f, sf_details := sf_details f\<rparr>)
       in case List.find same (st_findings st) of
            Some x \<Rightarrow> if finding_checks (overwrite x)
              then Inr (overwrite x, st\<lparr>st_findings := update_where same overwrite (st_findings st)\<rparr>)
              else Inl integrity_error
          | None \<Rightarrow> if finding_checks new \<and> get_version st (sf_version f) \<noteq> None
              then Inr (new, st\<lparr>st_findings := st_findings st @ [new]\<rparr>)
              else Inl integrity_error)"

definition list_findings_for_version :: "store \<Rightarrow> uuid \<Rightarrow> uuid option \<Rightarrow> source_finding list" where
  "list_findings_for_version st v build =
     oldest_first sf_created sf_id
       (filter (\<lambda>f. sf_version f = v \<and> (case build of None \<Rightarrow> True | Some b \<Rightarrow> sf_build f = b)) (st_findings st))"

section \<open>Summaries of the sources of a project\<close>

datatype source_health = HealthMissing | HealthPending | HealthValid | HealthInvalid

record source_summary =
  ss_source :: project_source
  ss_is_latest :: bool
  ss_latest_version :: "source_version option"
  ss_version_count :: nat
  ss_health :: source_health
  ss_metadata_build :: "uuid option"

definition is_superseded :: "store \<Rightarrow> project_source \<Rightarrow> bool" where
  "is_superseded st s \<longleftrightarrow> (\<exists>x\<in>set (st_sources st). ps_project x = ps_project s \<and> ps_name x = ps_name s \<and> ps_kind x = ps_kind s
     \<and> (ps_created s < ps_created x \<or> ps_created x = ps_created s \<and> ps_id s < ps_id x))"

definition latest_build_of :: "store \<Rightarrow> uuid \<Rightarrow> build_row option" where
  "latest_build_of st v =
     first_row (newest_first b_created_at b_id
       [r. (b, s) \<leftarrow> st_bindings st, sb_version s = v, r \<leftarrow> st_builds st, b_id r = b])"

definition source_health_of :: "store \<Rightarrow> uuid \<Rightarrow> source_health" where
  "source_health_of st v =
     (case latest_build_of st v of
        None \<Rightarrow> HealthPending
      | Some b \<Rightarrow>
        if \<exists>f\<in>set (st_findings st). sf_version f = v \<and> sf_build f = b_id b \<and> sf_severity f = ''error'' then HealthInvalid
        else if b_status b = READY then HealthValid else HealthPending)"

definition source_summary_of :: "store \<Rightarrow> project_source \<Rightarrow> source_summary" where
  "source_summary_of st s =
     (let version = Option.bind (ps_current s) (get_version st)
      in \<lparr>ss_source = s, ss_is_latest = \<not> is_superseded st s, ss_latest_version = version,
          ss_version_count = count_versions st (ps_id s),
          ss_health = (case version of None \<Rightarrow> HealthMissing | Some v \<Rightarrow> source_health_of st (sv_id v)),
          ss_metadata_build = Option.bind version (\<lambda>v. map_option b_id (latest_build_of st (sv_id v)))\<rparr>)"

definition latest_sources :: "store \<Rightarrow> uuid \<Rightarrow> project_source list" where
  "latest_sources st p =
     oldest_first ps_created ps_id (filter (\<lambda>s. ps_project s = p \<and> \<not> is_superseded st s) (st_sources st))"

definition list_source_summaries :: "store \<Rightarrow> uuid \<Rightarrow> nat \<Rightarrow> nat \<Rightarrow> bool \<Rightarrow> source_summary list \<times> nat" where
  "list_source_summaries st p limit offset include_superseded =
     (let page = take limit (drop offset (latest_sources st p));
          groups = (\<lambda>s. (ps_name s, ps_kind s)) ` set page;
          rows = (if include_superseded
            then oldest_first ps_created ps_id (filter (\<lambda>s. ps_project s = p \<and> (ps_name s, ps_kind s) \<in> groups) (st_sources st))
            else page)
      in (map (source_summary_of st) rows, length (latest_sources st p)))"

section \<open>Writes\<close>

definition write_sources :: "store \<Rightarrow> project_source list \<Rightarrow> backend_error + store" where
  "write_sources st rows = (if sources_ok rows then Inr (st\<lparr>st_sources := rows\<rparr>) else Inl integrity_error)"

definition update_sources :: "(project_source \<Rightarrow> bool) \<Rightarrow> (project_source \<Rightarrow> project_source) \<Rightarrow> store \<Rightarrow> backend_error + store" where
  "update_sources P f st = write_sources st (update_where P f (st_sources st))"

record new_source =
  ns_id :: uuid
  ns_project :: uuid
  ns_kind :: source_kind
  ns_name :: pystr
  ns_origin :: source_origin
  ns_url :: "pystr option"
  ns_primary :: bool

definition create_source :: "store \<Rightarrow> time \<Rightarrow> new_source \<Rightarrow> backend_error + project_source \<times> store" where
  "create_source st txn_time n =
     (let s = \<lparr>ps_id = ns_id n, ps_project = ns_project n, ps_kind = ns_kind n, ps_name = ns_name n, ps_origin = ns_origin n,
        ps_url = ns_url n, ps_primary = ns_primary n, ps_created = txn_time, ps_current = None, ps_selected_at = None,
        ps_observed_at = None, ps_etag = None, ps_last_modified = None\<rparr>
      in if find_by pr_id (ns_project n) (st_projects st) = None then Inl integrity_error
         else rbind (write_sources st (st_sources st @ [s])) (\<lambda>st'. Inr (s, st')))"

definition update_name :: "store \<Rightarrow> uuid \<Rightarrow> pystr \<Rightarrow> backend_error + project_source option \<times> store" where
  "update_name st i name =
     (if get_source st i = None then Inr (None, st)
      else rbind (update_sources (\<lambda>s. ps_id s = i) (\<lambda>s. s\<lparr>ps_name := name\<rparr>) st) (\<lambda>st'. Inr (get_source st' i, st')))"

definition promote_executable :: "store \<Rightarrow> uuid \<Rightarrow> uuid \<Rightarrow> backend_error + project_source option \<times> store" where
  "promote_executable st p i =
     (case get_source st i of
        None \<Rightarrow> Inr (None, st)
      | Some target \<Rightarrow>
        if ps_project target \<noteq> p \<or> \<not> executable_kind (ps_kind target) \<or> ps_current target = None then Inr (None, st)
        else rbind (update_sources (\<lambda>s. ps_project s = p \<and> executable_kind (ps_kind s) \<and> ps_id s \<noteq> i \<and> ps_primary s)
                      (\<lambda>s. s\<lparr>ps_primary := False\<rparr>) st) (\<lambda>st1.
             rbind (update_sources (\<lambda>s. ps_id s = i) (\<lambda>s. s\<lparr>ps_primary := True\<rparr>) st1) (\<lambda>st2.
               Inr (get_source st2 i, st2))))"

text \<open>Deleting a source deletes its versions; bindings of builds and findings of builds that
  mention it restrict the deletion.\<close>

definition source_is_restricted :: "store \<Rightarrow> uuid \<Rightarrow> bool" where
  "source_is_restricted st i \<longleftrightarrow>
     (\<exists>(b, s)\<in>set (st_bindings st). sb_source s = i \<or> (\<exists>v\<in>set (st_versions st). sv_source v = i \<and> sv_id v = sb_version s))
     \<or> (\<exists>f\<in>set (st_findings st). \<exists>v\<in>set (st_versions st). sv_source v = i \<and> sv_id v = sf_version f)"

definition delete_source :: "store \<Rightarrow> uuid \<Rightarrow> backend_error + bool \<times> store" where
  "delete_source st i =
     rbind (update_sources (\<lambda>s. ps_id s = i)
       (\<lambda>s. s\<lparr>ps_current := None, ps_selected_at := None, ps_observed_at := None, ps_etag := None, ps_last_modified := None\<rparr>) st)
       (\<lambda>st1. if get_source st1 i = None then Inr (False, st1)
         else if source_is_restricted st1 i then Inl integrity_error
         else Inr (True, st1\<lparr>st_sources := filter (\<lambda>s. ps_id s \<noteq> i) (st_sources st1),
                            st_versions := filter (\<lambda>v. sv_source v \<noteq> i) (st_versions st1)\<rparr>))"

definition select_current_version ::
  "store \<Rightarrow> time \<Rightarrow> uuid \<Rightarrow> uuid \<Rightarrow> pystr option \<Rightarrow> pystr option \<Rightarrow> backend_error + project_source \<times> store" where
  "select_current_version st now i v etag last_modified =
     (if get_source st i = None then Inl (Raised InvalidStateError ''Source is unavailable for version selection'')
      else rbind (update_sources (\<lambda>s. ps_id s = i)
        (\<lambda>s. s\<lparr>ps_current := Some v, ps_selected_at := Some now, ps_observed_at := Some now, ps_etag := etag,
          ps_last_modified := last_modified\<rparr>) st)
        (\<lambda>st'. case get_source st' i of None \<Rightarrow> Inl (Unexpected ''AssertionError'') | Some s \<Rightarrow> Inr (s, st')))"

definition no_selected_version :: backend_error where
  "no_selected_version = Raised InvalidStateError ''Remote source has no selected version''"

definition observe_not_modified ::
  "store \<Rightarrow> time \<Rightarrow> uuid \<Rightarrow> uuid \<Rightarrow> pystr option \<Rightarrow> pystr option \<Rightarrow> backend_error + source_version \<times> store" where
  "observe_not_modified st now i expected etag last_modified =
     (case get_source st i of
        None \<Rightarrow> Inl no_selected_version
      | Some s \<Rightarrow>
        if ps_current s = None then Inl no_selected_version
        else rbind
          (if ps_current s = Some expected
           then update_sources (\<lambda>x. ps_id x = i \<and> ps_current x = Some expected)
             (\<lambda>x. x\<lparr>ps_observed_at := Some now, ps_etag := etag, ps_last_modified := last_modified\<rparr>) st
           else Inr st)
          (\<lambda>st'. case latest_version st' i of None \<Rightarrow> Inl no_selected_version | Some v \<Rightarrow> Inr (v, st')))"

definition create_version :: "store \<Rightarrow> time \<Rightarrow> uuid \<Rightarrow> source_version \<Rightarrow> backend_error + source_version \<times> store" where
  "create_version st txn_time fresh v0 =
     (let v = v0\<lparr>sv_id := fresh, sv_created := txn_time\<rparr>
      in if get_source st (sv_source v) = None \<or> \<not> versions_ok (st_versions st @ [v]) then Inl integrity_error
         else Inr (v, st\<lparr>st_versions := st_versions st @ [v]\<rparr>))"

end
