(* ===== verification/CleanupWorker.thy ===== *)
theory CleanupWorker
  imports SourceStore
begin

text \<open>
  The clean-up service and its worker (\<^verbatim>\<open>backend/app/services/cleanup.py\<close>) with the operations of
  \<^verbatim>\<open>backend/app/repositories/cleanup.py\<close> that read other tables: capturing what a deletion leaves
  behind, the check for remaining references, the retention of builds and source versions, and the
  processing of claimed targets. What the object storage and the vector store do on a deletion is
  given by the environment.
\<close>

section \<open>Capturing targets\<close>

datatype target_spec = ObjectSpec pystr | VectorSpec pystr uuid uuid

fun add_target :: "target_source \<Rightarrow> clocks \<Rightarrow> uuid \<Rightarrow> target_spec \<Rightarrow> cleanup_db \<Rightarrow> cleanup_db" where
  "add_target src clk job (ObjectSpec key) db = add_object_target src clk job key None db"
| "add_target src clk job (VectorSpec c p g) db = add_vector_target src clk job c p g db"

definition add_targets :: "target_source \<Rightarrow> clocks \<Rightarrow> uuid \<Rightarrow> target_spec list \<Rightarrow> store \<Rightarrow> store" where
  "add_targets src clk job specs st = st\<lparr>st_cleanup := fold (add_target src clk job) specs (st_cleanup st)\<rparr>"

definition opt_object :: "pystr option \<Rightarrow> target_spec list" where
  "opt_object k = (case k of None \<Rightarrow> [] | Some x \<Rightarrow> [ObjectSpec x])"

definition build_objects :: "build_row \<Rightarrow> target_spec list" where
  "build_objects b = opt_object (manifest_storage_key b) @ opt_object (artifact_storage_key b)"

definition generation_targets :: "index_generation \<Rightarrow> target_spec list" where
  "generation_targets g = opt_object (ig_chunk_key g)
     @ (case ig_collection g of None \<Rightarrow> [] | Some c \<Rightarrow> [VectorSpec c (ig_project g) (ig_id g)])"

definition source_targets :: "store \<Rightarrow> uuid \<Rightarrow> target_spec list" where
  "source_targets st i = map (\<lambda>v. ObjectSpec (sv_storage_key v)) (filter (\<lambda>v. sv_source v = i) (st_versions st))"

definition project_targets :: "store \<Rightarrow> uuid \<Rightarrow> target_spec list" where
  "project_targets st p =
     [ObjectSpec (sv_storage_key v). v \<leftarrow> st_versions st,
        list_ex (\<lambda>s. ps_id s = sv_source v \<and> ps_project s = p) (st_sources st)]
     @ concat (map build_objects (filter (\<lambda>b. b_project b = p) (st_builds st)))
     @ concat (map generation_targets (filter (\<lambda>g. ig_project g = p) (st_generations st)))"

definition build_targets :: "store \<Rightarrow> build_row list \<Rightarrow> target_spec list" where
  "build_targets st bs = concat (map (\<lambda>b. build_objects b @
     (case List.find (\<lambda>g. ig_build g = b_id b) (st_generations st) of None \<Rightarrow> [] | Some g \<Rightarrow> generation_targets g)) bs)"

definition capture_project_targets :: "target_source \<Rightarrow> clocks \<Rightarrow> uuid \<Rightarrow> uuid \<Rightarrow> store \<Rightarrow> store" where
  "capture_project_targets src clk job p st = add_targets src clk job (project_targets st p) st"

definition capture_source_targets :: "target_source \<Rightarrow> clocks \<Rightarrow> uuid \<Rightarrow> uuid \<Rightarrow> store \<Rightarrow> store" where
  "capture_source_targets src clk job i st = add_targets src clk job (source_targets st i) st"

definition capture_build_targets :: "target_source \<Rightarrow> clocks \<Rightarrow> uuid \<Rightarrow> build_row list \<Rightarrow> store \<Rightarrow> store" where
  "capture_build_targets src clk job bs st = add_targets src clk job (build_targets st bs) st"

definition capture_build_target :: "target_source \<Rightarrow> clocks \<Rightarrow> uuid \<Rightarrow> uuid \<Rightarrow> store \<Rightarrow> store" where
  "capture_build_target src clk job b st =
     (case find_by b_id b (st_builds st) of None \<Rightarrow> st | Some r \<Rightarrow> capture_build_targets src clk job [r] st)"

section \<open>Jobs of the service\<close>

definition open_job ::
  "clocks \<Rightarrow> uuid \<Rightarrow> cleanup_job_kind \<Rightarrow> pystr \<Rightarrow> uuid option \<Rightarrow> uuid option \<Rightarrow> pystr option \<Rightarrow> store \<Rightarrow> uuid \<times> store" where
  "open_job clk fresh kind idem project requested_by request st =
     (let (j, db) = create_job clk fresh kind idem project requested_by request (st_cleanup st)
      in (cj_id j, st\<lparr>st_cleanup := db\<rparr>))"

definition close_job :: "clocks \<Rightarrow> uuid \<Rightarrow> store \<Rightarrow> backend_error + cleanup_job \<times> store" where
  "close_job clk job st =
     (let st' = st\<lparr>st_cleanup := finalize_empty_job clk job (st_cleanup st)\<rparr>
      in case get_job (st_cleanup st') job of None \<Rightarrow> Inl (Unexpected ''AssertionError'') | Some j \<Rightarrow> Inr (j, st'))"

definition capture_project_delete ::
  "target_source \<Rightarrow> clocks \<Rightarrow> uuid \<Rightarrow> uuid \<Rightarrow> uuid \<Rightarrow> pystr option \<Rightarrow> store \<Rightarrow> backend_error + cleanup_job \<times> store" where
  "capture_project_delete src clk fresh p actor request st =
     (let (job, st1) = open_job clk fresh ProjectDelete (''project-delete:'' @ uuid_str p) (Some p) (Some actor) request st
      in close_job clk job (capture_project_targets src clk job p st1))"

definition capture_source_delete ::
  "target_source \<Rightarrow> clocks \<Rightarrow> uuid \<Rightarrow> uuid \<Rightarrow> uuid \<Rightarrow> uuid \<Rightarrow> pystr option \<Rightarrow> store \<Rightarrow> backend_error + cleanup_job \<times> store" where
  "capture_source_delete src clk fresh p i actor request st =
     (let (job, st1) = open_job clk fresh SourceDelete (''source-delete:'' @ uuid_str i) (Some p) (Some actor) request st
      in close_job clk job (capture_source_targets src clk job i st1))"

definition capture_build_cancellation ::
  "target_source \<Rightarrow> clocks \<Rightarrow> uuid \<Rightarrow> uuid \<Rightarrow> uuid \<Rightarrow> uuid option \<Rightarrow> pystr option \<Rightarrow> store \<Rightarrow> backend_error + cleanup_job \<times> store" where
  "capture_build_cancellation src clk fresh p b actor request st =
     (let (job, st1) = open_job clk fresh OrphanGuard (''build-cancellation:'' @ uuid_str b) (Some p) actor request st
      in close_job clk job (capture_build_target src clk job b st1))"

definition arm_orphan_guard ::
  "target_source \<Rightarrow> clocks \<Rightarrow> uuid \<Rightarrow> uuid \<Rightarrow> time \<Rightarrow> uuid \<Rightarrow> pystr \<Rightarrow> uuid option \<Rightarrow> pystr option \<Rightarrow> store \<Rightarrow> uuid \<times> store" where
  "arm_orphan_guard src clk fresh nonce guard_delay p key actor request st =
     (let (job, st1) = open_job clk fresh OrphanGuard (''orphan-guard:'' @ uuid_str nonce) (Some p) actor request st
      in (job, st1\<lparr>st_cleanup := add_object_target src clk job key (Some (clk_wall clk + guard_delay)) (st_cleanup st1)\<rparr>))"

section \<open>References\<close>

definition object_is_referenced :: "store \<Rightarrow> pystr \<Rightarrow> bool" where
  "object_is_referenced st key \<longleftrightarrow>
     list_ex (\<lambda>v. sv_storage_key v = key) (st_versions st)
     \<or> list_ex (\<lambda>b. manifest_storage_key b = Some key \<or> artifact_storage_key b = Some key) (st_builds st)
     \<or> list_ex (\<lambda>g. ig_chunk_key g = Some key) (st_generations st)"

definition vector_is_referenced :: "store \<Rightarrow> pystr \<Rightarrow> uuid \<Rightarrow> uuid \<Rightarrow> bool" where
  "vector_is_referenced st c p g \<longleftrightarrow> list_ex (\<lambda>x. ig_id x = g \<and> ig_project x = p \<and> ig_collection x = Some c) (st_generations st)"

definition resolve_target :: "clocks \<Rightarrow> cleanup_target \<Rightarrow> store \<Rightarrow> store" where
  "resolve_target clk t st =
     (case ct_storage_key t of
        None \<Rightarrow> st
      | Some key \<Rightarrow> if object_is_referenced st key
          then st\<lparr>st_cleanup := snd (mark_target_completed clk (ct_id t) True None None (st_cleanup st))\<rparr> else st)"

definition resolve_orphan_guard :: "clocks \<Rightarrow> uuid \<Rightarrow> store \<Rightarrow> store" where
  "resolve_orphan_guard clk job st = fold (resolve_target clk) (job_targets (st_cleanup st) job) st"

definition release_orphan_guard :: "clocks \<Rightarrow> uuid \<Rightarrow> store \<Rightarrow> store" where
  "release_orphan_guard clk job st = st\<lparr>st_cleanup := make_job_due clk job (st_cleanup st)\<rparr>"

section \<open>Retention\<close>

definition all_builds :: "store \<Rightarrow> uuid \<Rightarrow> build_row list" where
  "all_builds st p = sort_key (\<lambda>b. - b_sequence b) (filter (\<lambda>b. b_project b = p) (st_builds st))"

definition protected_builds :: "store \<Rightarrow> project_row \<Rightarrow> nat option \<Rightarrow> uuid set" where
  "protected_builds st project keep =
     (let rows = all_builds st (pr_id project);
          n = (case keep of None \<Rightarrow> length rows | Some k \<Rightarrow> if k = 0 then length rows else k)
      in b_id ` set (take n rows) \<union> b_id ` set (filter (\<lambda>b. \<not> is_terminal b) rows)
         \<union> set_option (active_build project)
         \<union> d_build ` set (filter (\<lambda>d. d_project d = pr_id project) (st_deployments st)))"

definition build_candidates :: "store \<Rightarrow> project_row \<Rightarrow> nat option \<Rightarrow> build_row list" where
  "build_candidates st project keep =
     filter (\<lambda>b. keep \<noteq> None \<and> is_terminal b \<and> b_id b \<notin> protected_builds st project keep) (all_builds st (pr_id project))"

definition version_candidates :: "store \<Rightarrow> uuid \<Rightarrow> uuid set \<Rightarrow> time \<Rightarrow> source_version list" where
  "version_candidates st p removed cutoff =
     concat (map (\<lambda>s. filter (\<lambda>v. sv_created v < cutoff
         \<and> list_all (\<lambda>(b, x). sb_version x = sv_id v \<longrightarrow> b \<in> removed) (st_bindings st))
       (drop 1 (source_versions_of st (ps_id s)))) (filter (\<lambda>s. ps_project s = p) (st_sources st)))"

text \<open>The foreign keys to a build: bindings, findings and index generations go with it, a later
  build forgets its predecessor, a project its active build; a deployment restricts the deletion.\<close>

definition delete_builds :: "store \<Rightarrow> uuid set \<Rightarrow> backend_error + store" where
  "delete_builds st ids =
     (if list_ex (\<lambda>d. d_build d \<in> ids) (st_deployments st) then Inl integrity_error
      else Inr (st\<lparr>st_builds := map (\<lambda>b. case previous_build_id b of
             Some x \<Rightarrow> if x \<in> ids then b\<lparr>previous_build_id := None\<rparr> else b | None \<Rightarrow> b) (filter (\<lambda>b. b_id b \<notin> ids) (st_builds st)),
           st_bindings := filter (\<lambda>(b, x). b \<notin> ids) (st_bindings st),
           st_findings := filter (\<lambda>f. sf_build f \<notin> ids) (st_findings st),
           st_generations := filter (\<lambda>g. ig_build g \<notin> ids) (st_generations st),
           st_projects := map (\<lambda>p. case active_build p of
             Some x \<Rightarrow> if x \<in> ids then p\<lparr>active_build := None\<rparr> else p | None \<Rightarrow> p) (st_projects st)\<rparr>))"

definition delete_versions :: "store \<Rightarrow> uuid set \<Rightarrow> backend_error + store" where
  "delete_versions st ids =
     (if list_ex (\<lambda>(b, x). sb_version x \<in> ids) (st_bindings st) \<or> list_ex (\<lambda>f. sf_version f \<in> ids) (st_findings st)
      then Inl integrity_error
      else Inr (st\<lparr>st_versions := filter (\<lambda>v. sv_id v \<notin> ids) (st_versions st)\<rparr>))"

definition delete_snapshots :: "store \<Rightarrow> uuid set \<Rightarrow> store" where
  "delete_snapshots st ids =
     st\<lparr>st_snapshots := filter (\<lambda>s. \<not> (s \<in> ids \<and> \<not> list_ex (\<lambda>b. canonical_snapshot_id b = Some s) (st_builds st))) (st_snapshots st)\<rparr>"

fun uuid_texts :: "uuid list \<Rightarrow> pystr list" where
  "uuid_texts [] = []"
| "uuid_texts (i # is) = uuid_str i # uuid_texts is"

definition retention_key :: "(pystr \<Rightarrow> pystr) \<Rightarrow> uuid \<Rightarrow> build_row list \<Rightarrow> source_version list \<Rightarrow> pystr" where
  "retention_key sha p bs vs = ''retention:'' @ uuid_str p @ '':''
     @ target_key sha (uuid_str p # sort (uuid_texts (map b_id bs)) @ sort (uuid_texts (map sv_id vs)))"

definition seconds_per_day :: time where
  "seconds_per_day = 86400"

definition prepare_retention_job ::
  "target_source \<Rightarrow> clocks \<Rightarrow> uuid \<Rightarrow> (uuid \<Rightarrow> bool) \<Rightarrow> uuid \<Rightarrow> nat option \<Rightarrow> nat option \<Rightarrow> store
   \<Rightarrow> backend_error + cleanup_job option \<times> store" where
  "prepare_retention_job src clk fresh locked p keep days st =
     (case find_by pr_id p (st_projects st) of
        None \<Rightarrow> Inr (None, st)
      | Some project \<Rightarrow>
        if locked p then Inr (None, st)
        else
          let bs = build_candidates st project keep; ids = b_id ` set bs;
              vs = (case days of None \<Rightarrow> []
                    | Some d \<Rightarrow> version_candidates st p ids (clk_wall clk - of_nat d * seconds_per_day))
          in if bs = [] \<and> vs = [] then Inr (None, st)
             else
               let (job, st1) = open_job clk fresh Retention (retention_key (ts_sha src) p bs vs) (Some p) None None st;
                   st2 = capture_build_targets src clk job bs st1;
                   st3 = add_targets src clk job (map (\<lambda>v. ObjectSpec (sv_storage_key v)) vs) st2
               in rbind (delete_builds st3 ids) (\<lambda>st4.
                  rbind (delete_versions st4 (sv_id ` set vs)) (\<lambda>st5.
                  rbind (close_job clk job (delete_snapshots st5 (\<Union> (set_option ` canonical_snapshot_id ` set bs)))) (\<lambda>(j, st6).
                    Inr (Some j, st6)))))"

section \<open>The worker\<close>

record worker_config =
  wc_interval :: time
  wc_lease :: time
  wc_max_attempts :: int
  wc_retention_interval :: time
  wc_batch_size :: nat

text \<open>What the external store did: it deleted, or it raised, possibly after the deletion.\<close>

datatype delete_outcome = DeleteDone | DeleteRaised bool backend_error

fun delete_removed :: "delete_outcome \<Rightarrow> bool" where
  "delete_removed DeleteDone = True"
| "delete_removed (DeleteRaised removed e) = removed"

definition append_terminal_audit :: "uuid \<Rightarrow> store \<Rightarrow> store" where
  "append_terminal_audit job st =
     (case get_job (st_cleanup st) job of
        None \<Rightarrow> st
      | Some j \<Rightarrow> if cj_completed_at j = None then st
          else append_audit (cj_requested_by j) (if cj_failed j \<noteq> 0 then ''cleanup.failed'' else ''cleanup.completed'')
            ''cleanup_job'' (cj_id j) (cj_project j) (cj_request j) st)"

text \<open>The deletion of a locked target: the external effect, and whether the transaction goes on
  (with the answer whether the target is still referenced) or raises.\<close>

definition delete_external :: "delete_outcome \<Rightarrow> cleanup_target \<Rightarrow> store \<Rightarrow> store \<times> (backend_error + bool)" where
  "delete_external out t st =
     (case ct_type t of
        ObjectTarget \<Rightarrow>
          (case ct_storage_key t of
             None \<Rightarrow> (st, Inl (Unexpected ''AssertionError''))
           | Some key \<Rightarrow>
             if object_is_referenced st key then (st, Inr True)
             else (if delete_removed out then st\<lparr>st_objects := st_objects st - {key}\<rparr> else st,
                   case out of DeleteDone \<Rightarrow> Inr False | DeleteRaised r e \<Rightarrow> Inl e))
      | VectorTarget \<Rightarrow>
          (case (ct_collection t, ct_project t, ct_generation t) of
             (Some c, Some p, Some g) \<Rightarrow>
               if vector_is_referenced st c p g then (st, Inr True)
               else (if delete_removed out then st\<lparr>st_vectors := st_vectors st - {(c, p, g)}\<rparr> else st,
                     case out of DeleteDone \<Rightarrow> Inr False | DeleteRaised r e \<Rightarrow> Inl e)
           | _ \<Rightarrow> (st, Inl (Unexpected ''AssertionError''))))"

fun failure_code :: "backend_error \<Rightarrow> pystr" where
  "failure_code (Raised c msg) = py_lower (class_code c)"
| "failure_code (Unexpected name) = ''cleanup_target_failed''"

fun failure_summary :: "backend_error \<Rightarrow> pystr" where
  "failure_summary (Raised c msg) = msg"
| "failure_summary (Unexpected name) = name"

definition cleanup_retry_delay :: "time \<Rightarrow> int \<Rightarrow> time" where
  "cleanup_retry_delay interval attempts = min 3600 (interval * 2 ^ nat (max 0 (attempts - 1)))"

definition fail_target :: "worker_config \<Rightarrow> clocks \<Rightarrow> uuid \<Rightarrow> cleanup_target \<Rightarrow> backend_error \<Rightarrow> store \<Rightarrow> store" where
  "fail_target cfg clk tok t e st =
     (let (failed, db) = mark_target_failed clk (ct_id t) (failure_code e) (failure_summary e) (wc_max_attempts cfg)
            (cleanup_retry_delay (wc_interval cfg) (ct_attempts t)) tok (ct_attempts t) (st_cleanup st);
          st' = st\<lparr>st_cleanup := db\<rparr>
      in if failed then append_terminal_audit (ct_job t) st' else st')"

text \<open>\<open>clk\<close> are the clocks of the transaction of the deletion, \<open>clk2\<close> those of the transaction
  that records a failure.\<close>

definition process_target :: "worker_config \<Rightarrow> clocks \<Rightarrow> clocks \<Rightarrow> delete_outcome \<Rightarrow> cleanup_target \<Rightarrow> store \<Rightarrow> store" where
  "process_target cfg clk clk2 out target st =
     (case ct_token target of
        None \<Rightarrow> st
      | Some tok \<Rightarrow>
        (case lock_claimed_target clk (ct_id target) tok (ct_attempts target) (st_cleanup st) of
           None \<Rightarrow> st
         | Some t \<Rightarrow>
           (case delete_external out t st of
              (st1, Inr referenced) \<Rightarrow>
                let (ok, db) = mark_target_completed clk (ct_id t) referenced (Some tok) (Some (ct_attempts t)) (st_cleanup st1);
                    st2 = st1\<lparr>st_cleanup := db\<rparr>
                in if ok then append_terminal_audit (ct_job t) st2 else st2
            | (st1, Inl e) \<Rightarrow> fail_target cfg clk2 tok t e st1)))"

record worker_env =
  we_claim_clocks :: "nat \<Rightarrow> clocks"     \<comment> \<open>clocks of the n-th claim\<close>
  we_process_clocks :: "nat \<Rightarrow> clocks"
  we_failure_clocks :: "nat \<Rightarrow> clocks"
  we_locked :: "nat \<Rightarrow> uuid \<Rightarrow> bool"
  we_tokens :: "nat \<Rightarrow> uuid \<Rightarrow> uuid"
  we_outcome :: "nat \<Rightarrow> delete_outcome"

fun process_loop :: "nat \<Rightarrow> nat \<Rightarrow> worker_config \<Rightarrow> worker_env \<Rightarrow> time \<Rightarrow> store \<Rightarrow> nat \<times> store" where
  "process_loop 0 n cfg env cutoff st = (0, st)"
| "process_loop (Suc k) n cfg env cutoff st =
     (let (ts, db) = claim_due_targets (we_claim_clocks env n) 1 (wc_lease cfg) (Some cutoff) (we_locked env n) (we_tokens env n) (st_cleanup st);
          st1 = st\<lparr>st_cleanup := db\<rparr>
      in case ts of
           [] \<Rightarrow> (0, st1)
         | t # _ \<Rightarrow>
           let (processed, st2) = process_loop k (Suc n) cfg env cutoff
             (process_target cfg (we_process_clocks env n) (we_failure_clocks env n) (we_outcome env n) t st1)
           in (Suc processed, st2))"

definition process_due_targets_once :: "worker_config \<Rightarrow> worker_env \<Rightarrow> time \<Rightarrow> store \<Rightarrow> nat \<times> store" where
  "process_due_targets_once cfg env now st = process_loop (wc_batch_size cfg) 0 cfg env now st"

section \<open>The retention schedule\<close>

record retention_env =
  re_source :: target_source
  re_clocks :: "uuid \<Rightarrow> clocks"
  re_fresh :: "uuid \<Rightarrow> uuid"
  re_locked :: "uuid \<Rightarrow> bool"

text \<open>One project in a transaction of its own: a failure leaves the store as it was.\<close>

definition retain_project :: "retention_env \<Rightarrow> nat option \<Rightarrow> nat option \<Rightarrow> uuid \<Rightarrow> nat \<times> bool \<times> store \<Rightarrow> nat \<times> bool \<times> store" where
  "retain_project env keep days p acc =
     (case acc of (created, failures, st) \<Rightarrow>
        (case rbind (prepare_retention_job (re_source env) (re_clocks env p) (re_fresh env p) (re_locked env) p keep days st)
                (\<lambda>(j, st1). rbind (commit (case j of None \<Rightarrow> st1
                   | Some job \<Rightarrow> append_audit None ''cleanup.retention_scheduled'' ''cleanup_job'' (cj_id job) (Some p) None st1))
                   (\<lambda>st2. Inr (j \<noteq> None, st2))) of
           Inl e \<Rightarrow> (created, True, st)
         | Inr (made, st2) \<Rightarrow> (if made then Suc created else created, failures, st2)))"

definition prepare_retention_once :: "retention_env \<Rightarrow> nat option \<Rightarrow> nat option \<Rightarrow> store \<Rightarrow> nat \<times> bool \<times> store" where
  "prepare_retention_once env keep days st =
     (if keep = None \<and> days = None then (0, False, st)
      else fold (retain_project env keep days) (sort (map pr_id (st_projects st))) (0, False, st))"

record retention_state =
  rs_next :: time
  rs_streak :: nat

definition next_retention :: "worker_config \<Rightarrow> time \<Rightarrow> bool \<Rightarrow> retention_state \<Rightarrow> retention_state" where
  "next_retention cfg now failures ws =
     (if failures
      then let streak = Suc (rs_streak ws)
        in \<lparr>rs_next = now + min (wc_retention_interval cfg) (max 5 (wc_interval cfg) * 2 ^ min (streak - 1) 10), rs_streak = streak\<rparr>
      else \<lparr>rs_next = now + wc_retention_interval cfg, rs_streak = 0\<rparr>)"

text \<open>\<open>settings\<close> is the answer of the operational settings provider.\<close>

definition dispatch_cleanup_once ::
  "worker_config \<Rightarrow> worker_env \<Rightarrow> retention_env \<Rightarrow> backend_error + nat option \<times> nat option \<Rightarrow> time \<Rightarrow> time
   \<Rightarrow> retention_state \<times> store \<Rightarrow> nat \<times> retention_state \<times> store" where
  "dispatch_cleanup_once cfg env renv settings now now2 s =
     (case s of (ws, st) \<Rightarrow>
        let (ws', st') =
          (if rs_next ws \<le> now
           then case settings of
               Inl e \<Rightarrow> (next_retention cfg now True ws, st)
             | Inr (keep, days) \<Rightarrow> case prepare_retention_once renv keep days st of
                 (created, failures, st1) \<Rightarrow> (next_retention cfg now failures ws, st1)
           else (ws, st));
          (processed, st2) = process_due_targets_once cfg env now2 st'
        in (processed, ws', st2))"

end
