(* ===== verification/NetworkPolicy.thy ===== *)
theory NetworkPolicy
  imports UrlPolicy BackendErrors
begin

text \<open>
  The policy of the backend for URLs it fetches sources from
  (\<^verbatim>\<open>backend/app/core/network_policy.py\<close>): syntax and normal form of the URL, and the addresses its
  host may resolve to. IDNA, the parser of address literals and the resolver are those of
  \<open>netenv\<close>; the configured networks are given parsed.
\<close>

record validated_url =
  vu_url :: pystr
  vu_hostname :: pystr
  vu_port :: nat
  vu_addresses :: "ip list"

record source_policy =
  sp_allow_http :: bool
  sp_hosts :: "pystr list"
  sp_networks4 :: "net4 list"
  sp_networks6 :: "net6 list"
  sp_special_use :: bool

definition normalize_hostname :: "netenv \<Rightarrow> pystr \<Rightarrow> value_error + pystr" where
  "normalize_hostname env v =
     (let h = py_lower (rstrip_char (CHR ''.'') (strip v))
      in if h = [] then Inl (ValueError ''hostname cannot be empty'')
         else case idna env h of Inl _ \<Rightarrow> Inl (ValueError ''hostname is not valid IDNA'') | Inr a \<Rightarrow> Inr a)"

definition source_policy_init ::
  "netenv \<Rightarrow> bool \<Rightarrow> pystr list \<Rightarrow> net4 list \<Rightarrow> net6 list \<Rightarrow> bool \<Rightarrow> value_error + source_policy" where
  "source_policy_init env http hosts n4 n6 special =
     rbind (rmap (normalize_hostname env) hosts) (\<lambda>hs.
       Inr \<lparr>sp_allow_http = http, sp_hosts = hs, sp_networks4 = n4, sp_networks6 = n6, sp_special_use = special\<rparr>)"

text \<open>\<^verbatim>\<open>urlunsplit((scheme, netloc, path, query, ""))\<close> for a non-empty scheme and network location\<close>

definition unsplit_query :: "pystr \<Rightarrow> pystr \<Rightarrow> pystr \<Rightarrow> pystr \<Rightarrow> pystr" where
  "unsplit_query sch auth path q = urlunsplit sch auth path @ (if q = [] then [] else ''?'' @ q)"

definition validate_syntax :: "netenv \<Rightarrow> source_policy \<Rightarrow> pystr \<Rightarrow> backend_error + pystr \<times> pystr \<times> nat" where
  "validate_syntax env p url =
     (case rbind (urlsplit (bracketed_ok env) url) (\<lambda>u. rbind (url_port u) (\<lambda>port. Inr (u, port))) of
        Inl _ \<Rightarrow> Inl (Raised ValidationError ''Source URL is malformed'')
      | Inr (u, port) \<Rightarrow>
        if \<not> (scheme u = ''https'' \<or> sp_allow_http p \<and> scheme u = ''http'')
        then Inl (Raised SecurityPolicyError ''Source URL must use HTTPS'')
        else if url_username u \<noteq> None \<or> url_password u \<noteq> None
        then Inl (Raised SecurityPolicyError ''Source URL must not contain credentials'')
        else case url_hostname u of
          None \<Rightarrow> Inl (Raised ValidationError ''Source URL must contain a hostname'')
        | Some raw \<Rightarrow>
          if raw = [] then Inl (Raised ValidationError ''Source URL must contain a hostname'')
          else case normalize_hostname env raw of
            Inl _ \<Rightarrow> Inl (Unexpected ''ValueError'')
          | Inr host \<Rightarrow>
            let default_port = (if scheme u = ''https'' then 443 else 80);
                eff = (case port of None \<Rightarrow> default_port | Some n \<Rightarrow> if n = 0 then default_port else n);
                loc = (if CHR '':'' \<in> set host \<and> \<not> startswith host ''['' then ''['' @ host @ '']'' else host);
                netl = (case port of None \<Rightarrow> loc | Some n \<Rightarrow> loc @ '':'' @ digits_nat n)
            in if eff < 1 \<or> 65535 < eff then Inl (Raised ValidationError ''Source URL port is invalid'')
               else Inr (unsplit_query (scheme u) netl (if url_path u = [] then ''/'' else url_path u) (query u), host, eff))"

definition host_explicitly_allowed :: "source_policy \<Rightarrow> pystr \<Rightarrow> bool" where
  "host_explicitly_allowed p host = list_ex (\<lambda>a. if startswith a ''*.''
     then endswith host (tl a) \<and> host \<noteq> tl (tl a) else host = a) (sp_hosts p)"

definition in_allowed_network :: "source_policy \<Rightarrow> ip \<Rightarrow> bool" where
  "in_allowed_network p a = (case a of V4 w \<Rightarrow> list_ex (in_net4 w) (sp_networks4 p) | V6 w \<Rightarrow> list_ex (in_net6 w) (sp_networks6 p))"

definition special_use :: "ip \<Rightarrow> bool" where
  "special_use a \<longleftrightarrow> is_link_local a \<or> is_loopback a \<or> is_multicast a \<or> is_reserved a \<or> is_unspecified a"

definition source_address_allowed :: "source_policy \<Rightarrow> pystr \<Rightarrow> ip \<Rightarrow> bool" where
  "source_address_allowed p host a =
     (if is_global a then True
      else if special_use a then sp_special_use p \<and> host_explicitly_allowed p host
      else if host_explicitly_allowed p host then True
      else in_allowed_network p a)"

definition resolve_addresses :: "netenv \<Rightarrow> pystr \<Rightarrow> nat \<Rightarrow> backend_error + pystr list" where
  "resolve_addresses env host port =
     (case resolver env host (int port) of
        Resolved xs \<Rightarrow> Inr (sort (remdups xs))
      | ResolverPolicyError m \<Rightarrow> Inl (Raised SecurityPolicyError m)
      | ResolverOSError \<Rightarrow> Inl (Raised SecurityPolicyError ''Source hostname could not be resolved''))"

definition parse_address :: "netenv \<Rightarrow> pystr \<Rightarrow> backend_error + ip" where
  "parse_address env raw = (case parse_ip env raw of
     None \<Rightarrow> Inl (Raised SecurityPolicyError ''Source DNS returned an invalid address'') | Some a \<Rightarrow> Inr a)"

definition validate_source_url :: "netenv \<Rightarrow> source_policy \<Rightarrow> pystr \<Rightarrow> backend_error + validated_url" where
  "validate_source_url env p url =
     rbind (validate_syntax env p url) (\<lambda>(normalized, host, port).
     rbind (case parse_ip env host of
              Some a \<Rightarrow> Inr [a]
            | None \<Rightarrow> rbind (resolve_addresses env host port) (rmap (parse_address env))) (\<lambda>addresses.
       if addresses = [] then Inl (Raised SecurityPolicyError ''Source hostname resolved to no addresses'')
       else if \<not> list_all (source_address_allowed p host) addresses
       then Inl (Raised SecurityPolicyError ''Source destination resolves to a blocked private or special-use address'')
       else Inr \<lparr>vu_url = normalized, vu_hostname = host, vu_port = port, vu_addresses = addresses\<rparr>))"

section \<open>What an accepted URL guarantees\<close>

lemma special_use_not_global: "is_link_local a \<or> is_loopback a \<or> is_unspecified a \<Longrightarrow> \<not> is_global a"
  using special_not_global [of a] by blast

lemma accepted_address:
  assumes "source_address_allowed p host a" "\<not> is_global a"
  shows "host_explicitly_allowed p host \<and> (special_use a \<longrightarrow> sp_special_use p) \<or> \<not> special_use a \<and> in_allowed_network p a"
  using assms by (auto simp: source_address_allowed_def split: if_splits)

lemma validate_syntax_ok:
  assumes "validate_syntax env p url = Inr (n, host, port)"
  shows "1 \<le> port \<and> port \<le> 65535 \<and> (startswith n ''https://'' \<or> sp_allow_http p \<and> startswith n ''http://'')"
  using assms startswith_append [of "''https://''"] startswith_append [of "''http://''"]
  by (auto simp: validate_syntax_def Let_def unsplit_query_def urlunsplit_def split: sum.splits if_splits option.splits prod.splits)


definition sample_source_policy :: source_policy where
  "sample_source_policy = \<lparr>sp_allow_http = False, sp_hosts = [], sp_networks4 = [], sp_networks6 = [], sp_special_use = False\<rparr>"

definition sample_validated :: validated_url where
  "sample_validated = \<lparr>vu_url = ''https://api.io/openapi.json?v=2'', vu_hostname = ''api.io'', vu_port = 443,
     vu_addresses = [V4 0x08080808]\<rparr>"

lemma sample_validated_ok:
  "validate_source_url sample_env sample_source_policy ''https://api.io/openapi.json?v=2'' = Inr sample_validated"
proof -
  have syn: "validate_syntax sample_env sample_source_policy ''https://api.io/openapi.json?v=2''
      = Inr (''https://api.io/openapi.json?v=2'', ''api.io'', 443)"
  proof -
    let ?u = "\<lparr>scheme = ''https'', netloc = ''api.io'', url_path = ''/openapi.json'', query = ''v=2'', fragment = []\<rparr>"
    have "urlsplit (bracketed_ok sample_env) ''https://api.io/openapi.json?v=2'' = Inr ?u" by code_simp
    moreover have "url_port ?u = Inr None" "url_username ?u = None" "url_password ?u = None" "url_hostname ?u = Some ''api.io''"
      by code_simp+
    moreover have "normalize_hostname sample_env ''api.io'' = Inr ''api.io''" by code_simp
    ultimately show ?thesis by (simp add: validate_syntax_def unsplit_query_def urlunsplit_def)
  qed
  have res: "resolve_addresses sample_env ''api.io'' 443 = Inr [''8.8.8.8'']" by code_simp
  have ip: "parse_ip sample_env ''8.8.8.8'' = Some (V4 0x08080808)" "parse_ip sample_env ''api.io'' = None"
    by (simp_all add: sample_env_def)
  have "is_global (V4 0x08080808)"
    by (simp add: is_global4_def is_private4_def private4_def private4_exceptions_def in_net4_def ipv4_def)
  then show ?thesis
    by (simp add: validate_source_url_def syn res ip parse_address_def source_address_allowed_def sample_validated_def)
qed


end
