(* ===== verification/SourceService.thy ===== *)
theory SourceService
  imports CleanupWorker NetworkPolicy
begin

text \<open>
  The transactions of the source service (\<^verbatim>\<open>backend/app/services/sources.py\<close>): defining a source,
  storing a version of its content, renaming and promoting, and deleting it; with them the
  acknowledgement of a cancelled build (\<^verbatim>\<open>services/builds/cancellation.py\<close>), which hands objects over
  to the clean-up in the same way. A transaction ends with \<open>commit\<close>. \<open>now\<close> is the database clock, \<open>clk\<close> the clocks of the clean-up.
\<close>

definition lock_project :: "store \<Rightarrow> uuid \<Rightarrow> backend_error + project_row" where
  "lock_project st p = (case find_by pr_id p (st_projects st) of
     None \<Rightarrow> Inl (Raised NotFoundError ''Project was not found'') | Some r \<Rightarrow> Inr r)"

definition source_not_found :: backend_error where
  "source_not_found = Raised NotFoundError ''Source was not found''"

definition require_source :: "store \<Rightarrow> uuid \<Rightarrow> uuid \<Rightarrow> backend_error + project_source" where
  "require_source st p i = (case get_source st i of
     None \<Rightarrow> Inl source_not_found | Some s \<Rightarrow> if ps_project s \<noteq> p then Inl source_not_found else Inr s)"

definition normalize_source_definition ::
  "netenv \<Rightarrow> source_policy \<Rightarrow> source_kind \<Rightarrow> pystr \<Rightarrow> source_origin \<Rightarrow> pystr option \<Rightarrow> bool \<Rightarrow> backend_error + pystr \<times> pystr option" where
  "normalize_source_definition env pol kind name origin url primary =
     (if strip name = [] then Inl (Raised SourceParseError ''Source name cannot be empty'')
      else rbind (case origin of
          UrlOrigin \<Rightarrow> (case url of
            None \<Rightarrow> Inl (Raised SourceParseError ''URL source requires a source URL'')
          | Some u \<Rightarrow> rbind (validate_syntax env pol u) (\<lambda>(n, _). Inr (Some n)))
        | UploadOrigin \<Rightarrow> if url \<noteq> None then Inl (Raised SourceParseError ''Uploaded source cannot define a source URL'') else Inr None)
        (\<lambda>normalized. if kind = DocumentationSource \<and> primary
          then Inl (Raised SourceParseError ''Documentation sources cannot be executable primary sources'')
          else Inr (strip name, normalized)))"

definition create_plain_source ::
  "netenv \<Rightarrow> source_policy \<Rightarrow> store \<Rightarrow> time \<Rightarrow> uuid \<Rightarrow> uuid \<Rightarrow> source_kind \<Rightarrow> pystr \<Rightarrow> source_origin \<Rightarrow> pystr option \<Rightarrow> bool
   \<Rightarrow> uuid \<Rightarrow> pystr option \<Rightarrow> backend_error + project_source \<times> store" where
  "create_plain_source env pol st txn_time fresh p kind name origin url primary actor request =
     rbind (normalize_source_definition env pol kind name origin url primary) (\<lambda>(name', url').
     if primary then Inl (Raised InvalidStateError ''Primary designation requires an atomic source-with-first-version request'')
     else rbind (lock_project st p) (\<lambda>_.
       rbind (create_source st txn_time \<lparr>ns_id = fresh, ns_project = p, ns_kind = kind, ns_name = name', ns_origin = origin,
         ns_url = url', ns_primary = False\<rparr>) (\<lambda>(s, st1).
       rbind (commit (append_audit (Some actor) ''source.created'' ''project_source'' (ps_id s) (Some p) request st1)) (\<lambda>st2.
         Inr (s, st2)))))"

definition update_source ::
  "store \<Rightarrow> uuid \<Rightarrow> uuid \<Rightarrow> pystr option \<Rightarrow> bool option \<Rightarrow> uuid \<Rightarrow> pystr option \<Rightarrow> backend_error + project_source \<times> store" where
  "update_source st p i name primary actor request =
     rbind (lock_project st p) (\<lambda>_.
     rbind (require_source st p i) (\<lambda>source.
     rbind (case name of
         None \<Rightarrow> Inr (source, st)
       | Some n \<Rightarrow> if strip n = [] then Inl (Raised SourceParseError ''Source name cannot be empty'')
           else rbind (update_name st i (strip n)) (\<lambda>(r, st').
             case r of None \<Rightarrow> Inl (Unexpected ''AssertionError'') | Some s \<Rightarrow> Inr (s, st'))) (\<lambda>(updated, st1).
     if primary = Some False \<and> ps_primary updated
     then Inl (Raised InvalidStateError ''Promote another executable source instead of clearing the primary'')
     else rbind (if primary = Some True
         then rbind (promote_executable st1 p i) (\<lambda>(r, st').
           case r of None \<Rightarrow> Inl (Raised InvalidStateError ''Only a versioned executable source can be promoted to primary'')
           | Some s \<Rightarrow> Inr (s, st'))
         else Inr (updated, st1)) (\<lambda>(final, st2).
       rbind (commit (append_audit (Some actor) ''source.updated'' ''project_source'' i (Some p) request st2)) (\<lambda>st3.
         Inr (final, st3))))))"

definition replacement_primary :: "store \<Rightarrow> uuid \<Rightarrow> project_source \<Rightarrow> project_source option" where
  "replacement_primary st p s =
     (if ps_primary s
      then case latest_in_group st p (ps_name s) (ps_kind s) (Some (ps_id s)) of
          Some x \<Rightarrow> if ps_current x \<noteq> None then Some x else first_versioned_executable st p (Some (ps_id s))
        | None \<Rightarrow> first_versioned_executable st p (Some (ps_id s))
      else None)"

definition remove_source ::
  "target_source \<Rightarrow> clocks \<Rightarrow> uuid \<Rightarrow> store \<Rightarrow> uuid \<Rightarrow> uuid \<Rightarrow> uuid \<Rightarrow> pystr option \<Rightarrow> backend_error + cleanup_job \<times> store" where
  "remove_source src clk fresh st p i actor request =
     rbind (lock_project st p) (\<lambda>_.
     rbind (require_source st p i) (\<lambda>source.
     if has_build_references st i then Inl (Raised ConflictError ''A source referenced by an immutable Build cannot be deleted'')
     else rbind (capture_source_delete src clk fresh p i actor request st) (\<lambda>(job, st1).
     rbind (delete_source st1 i) (\<lambda>(deleted, st2).
     if \<not> deleted then Inl source_not_found
     else rbind (case replacement_primary st1 p source of
         None \<Rightarrow> Inr st2
       | Some x \<Rightarrow> rbind (promote_executable st2 p (ps_id x)) (\<lambda>(r, st').
           if r = None then Inl (Raised InvalidStateError ''Replacement primary source became unavailable'') else Inr st')) (\<lambda>st3.
       rbind (commit (append_audit (Some actor) ''source.deleted'' ''project_source'' i (Some p) request st3)) (\<lambda>st4.
         Inr (job, st4)))))))"

section \<open>Storing a version\<close>

record stored_content =
  sc_sha256 :: pystr
  sc_media_type :: pystr
  sc_storage_key :: pystr
  sc_size :: int
  sc_format :: pystr
  sc_etag :: "pystr option"
  sc_last_modified :: "pystr option"

definition version_row :: "uuid \<Rightarrow> uuid \<Rightarrow> stored_content \<Rightarrow> source_version" where
  "version_row i actor c =
     \<lparr>sv_id = 0, sv_source = i, sv_sha256 = sc_sha256 c, sv_media_type = take 200 (sc_media_type c), sv_storage_key = sc_storage_key c,
      sv_size = sc_size c, sv_format = sc_format c, sv_etag = sc_etag c, sv_last_modified = sc_last_modified c,
      sv_created_by = actor, sv_created = 0\<rparr>"

text \<open>Both ways of storing a version share this part: the version with the same content is reused,
  otherwise created, and becomes the current one.\<close>

definition select_content ::
  "store \<Rightarrow> time \<Rightarrow> time \<Rightarrow> uuid \<Rightarrow> project_source \<Rightarrow> stored_content \<Rightarrow> uuid \<Rightarrow> pystr option
   \<Rightarrow> backend_error + (source_version \<times> bool) \<times> project_source \<times> store" where
  "select_content st now txn_time fresh source c actor request =
     rbind (case get_version_by_hash st (ps_id source) (sc_sha256 c) of
         Some v \<Rightarrow> Inr ((v, True), st)
       | None \<Rightarrow> rbind (create_version st txn_time fresh (version_row (ps_id source) actor c)) (\<lambda>(v, st').
           Inr ((v, False), append_audit (Some actor) ''source.version_created'' ''source_version'' (sv_id v)
             (Some (ps_project source)) request st'))) (\<lambda>((v, dedup), st1).
     rbind (select_current_version st1 now (ps_id source) (sv_id v) (sc_etag c) (sc_last_modified c)) (\<lambda>(s, st2).
       Inr ((v, dedup), s, if ps_current source \<noteq> Some (sv_id v)
         then append_audit (Some actor) ''source.version_selected'' ''project_source'' (ps_id source) (Some (ps_project source)) request st2
         else st2)))"

definition not_promoted :: backend_error where
  "not_promoted = Raised InvalidStateError ''Executable source could not become primary''"

definition persist_version ::
  "store \<Rightarrow> time \<Rightarrow> time \<Rightarrow> uuid \<Rightarrow> project_source \<Rightarrow> stored_content \<Rightarrow> uuid \<Rightarrow> pystr option
   \<Rightarrow> backend_error + (source_version \<times> bool) \<times> store" where
  "persist_version st now txn_time fresh source c actor request =
     rbind (lock_project st (ps_project source)) (\<lambda>_.
     rbind (require_source st (ps_project source) (ps_id source)) (\<lambda>locked.
     rbind (select_content st now txn_time fresh locked c actor request) (\<lambda>(result, _, st1).
     rbind (if executable_kind (ps_kind source) \<and> get_versioned_primary_executable st1 (ps_project source) = None
         then rbind (promote_executable st1 (ps_project source) (ps_id source)) (\<lambda>(r, st').
           if r = None then Inl not_promoted else Inr st')
         else Inr st1) (\<lambda>st2.
       rbind (commit st2) (\<lambda>st3. Inr (result, st3))))))"

definition creation_identity :: "new_source \<Rightarrow> project_source \<Rightarrow> bool" where
  "creation_identity n s \<longleftrightarrow> ps_project s = ns_project n \<and> ps_kind s = ns_kind n \<and> ps_name s = ns_name n
     \<and> ps_origin s = ns_origin n \<and> ps_url s = ns_url n"

definition creation_key_conflict :: backend_error where
  "creation_key_conflict = Raised ConflictError ''Source creation key was already used for different input''"

definition existing_creation :: "store \<Rightarrow> new_source \<Rightarrow> backend_error + (project_source \<times> source_version) option" where
  "existing_creation st n =
     (case get_source st (ns_id n) of
        None \<Rightarrow> Inr None
      | Some s \<Rightarrow> if \<not> creation_identity n s then Inl creation_key_conflict
          else Inr (map_option (\<lambda>v. (s, v)) (latest_version st (ns_id n))))"

definition persist_created_source ::
  "store \<Rightarrow> time \<Rightarrow> time \<Rightarrow> uuid \<Rightarrow> new_source \<Rightarrow> stored_content \<Rightarrow> uuid \<Rightarrow> pystr option
   \<Rightarrow> backend_error + (project_source \<times> source_version \<times> bool) \<times> store" where
  "persist_created_source st now txn_time fresh n c actor request =
     rbind (lock_project st (ns_project n)) (\<lambda>_.
     rbind (case get_source st (ns_id n) of
         None \<Rightarrow>
           let inherits = (case latest_in_group st (ns_project n) (ns_name n) (ns_kind n) None of None \<Rightarrow> False | Some x \<Rightarrow> ps_primary x)
           in rbind (create_source st txn_time (n\<lparr>ns_primary := False\<rparr>)) (\<lambda>(s, st').
             Inr (s, inherits, append_audit (Some actor) ''source.created'' ''project_source'' (ps_id s) (Some (ns_project n)) request st'))
       | Some s \<Rightarrow> if creation_identity n s then Inr (s, False, st) else Inl creation_key_conflict) (\<lambda>(source, inherits, st1).
     rbind (select_content st1 now txn_time fresh source c actor request) (\<lambda>((v, dedup), s, st2).
     rbind (if executable_kind (ns_kind n)
         then let primary = get_versioned_primary_executable st2 (ns_project n)
           in if ns_primary n \<or> primary = None \<or> inherits
              then rbind (promote_executable st2 (ns_project n) (ps_id s)) (\<lambda>(r, st').
                case r of None \<Rightarrow> Inl not_promoted
                | Some s' \<Rightarrow> Inr (s', if map_option ps_id primary = Some (ps_id s') then st'
                    else append_audit (Some actor) ''source.primary_promoted'' ''project_source'' (ps_id s') (Some (ns_project n)) request st'))
              else Inr (s, st2)
         else Inr (s, st2)) (\<lambda>(final, st3).
       rbind (commit st3) (\<lambda>st4. Inr ((final, v, dedup), st4))))))"

section \<open>Cancelled builds\<close>

definition with_builds :: "build_db \<Rightarrow> store \<Rightarrow> store" where
  "with_builds db st = st\<lparr>st_builds := builds db, st_bindings := bindings db,
     st_generations := filter (\<lambda>g. ig_build g \<in> set (index_generations db)) (st_generations st)\<rparr>"

definition acknowledge_build_cancellation ::
  "target_source \<Rightarrow> clocks \<Rightarrow> uuid \<Rightarrow> store \<Rightarrow> time \<Rightarrow> uuid \<Rightarrow> uuid \<Rightarrow> uuid option \<Rightarrow> pystr option
   \<Rightarrow> backend_error + (build_row \<times> cleanup_job option \<times> bool) \<times> store" where
  "acknowledge_build_cancellation src clk fresh st now b tok actor request =
     (case find_by b_id b (st_builds st) of
        None \<Rightarrow> Inl (Raised NotFoundError ''Build was not found'')
      | Some current \<Rightarrow>
        if b_status current = CANCELLED then Inr ((current, None, False), st)
        else rbind (require_build_execution_owner (build_view st) now b tok True) (\<lambda>owned.
          rbind (capture_build_cancellation src clk fresh (b_project owned) b (cancellation_requested_by owned) request st) (\<lambda>(job, st1).
          rbind (acknowledge_cancellation (build_view st1) now (clk_wall clk) b tok) (\<lambda>(r, db).
          rbind (commit (append_audit (case actor of None \<Rightarrow> cancellation_requested_by r | Some a \<Rightarrow> Some a)
             ''build.cancelled'' ''build'' b (Some (b_project r)) request (with_builds db st1))) (\<lambda>st2.
            Inr ((r, Some job, True), st2))))))"

end
