(* ===== verification/ObjectTracking.thy ===== *)
theory ObjectTracking
  imports CleanupFacts SourceService
begin

text \<open>
  Stored objects are never forgotten: every object of the storage is referenced by a row or has a
  target that still stands for it. The lemmas say what each operation does to the references and to
  the targets; the store as a system of interleaved transactions is at the end.
\<close>

section \<open>Tracked objects\<close>

text \<open>A target stands for its object until it is completed or found referenced; a target that failed
  for good still records it.\<close>

definition tracks :: "pystr \<Rightarrow> cleanup_target \<Rightarrow> bool" where
  "tracks key t \<longleftrightarrow> ct_type t = ObjectTarget \<and> ct_storage_key t = Some key \<and> ct_status t \<notin> {TargetCompleted, TargetSkipped}"

definition tracked :: "cleanup_db \<Rightarrow> pystr \<Rightarrow> bool" where
  "tracked db key \<longleftrightarrow> list_ex (tracks key) (targets db)"

definition no_orphans :: "store \<Rightarrow> bool" where
  "no_orphans st \<longleftrightarrow> (\<forall>key\<in>st_objects st. object_is_referenced st key \<or> tracked (st_cleanup st) key)"

definition keeps_tracked :: "cleanup_db \<Rightarrow> cleanup_db \<Rightarrow> bool" where
  "keeps_tracked db db' \<longleftrightarrow> (\<forall>key. tracked db key \<longrightarrow> tracked db' key)"

lemma keeps_tracked_refl [simp]: "keeps_tracked db db"
  by (simp add: keeps_tracked_def)

lemma keeps_tracked_trans: "keeps_tracked a b \<Longrightarrow> keeps_tracked b c \<Longrightarrow> keeps_tracked a c"
  by (simp add: keeps_tracked_def)

lemma keeps_tracked_same: "targets db' = targets db \<Longrightarrow> keeps_tracked db db'"
  by (simp add: keeps_tracked_def tracked_def)

lemma keeps_tracked_update_job [simp]: "keeps_tracked db (update_job clk P f db)"
  by (rule keeps_tracked_same) simp

lemma keeps_tracked_update:
  assumes "\<And>t. P t \<Longrightarrow> t \<in> set (targets db) \<Longrightarrow> ct_status t \<notin> {TargetCompleted, TargetSkipped} \<Longrightarrow>
    same_target t (f t) \<and> ct_status (f t) \<notin> {TargetCompleted, TargetSkipped}"
  shows "keeps_tracked db (update_targets clk P f db)"
  unfolding keeps_tracked_def
proof (intro allI impI)
  fix key assume "tracked db key"
  then obtain t where t: "t \<in> set (targets db)" "tracks key t" by (auto simp: tracked_def list_ex_iff)
  let ?t = "if P t then (f t)\<lparr>ct_updated := clk_txn clk\<rparr> else t"
  have "?t \<in> set (targets (update_targets clk P f db))" using t(1) by (simp add: update_targets_def update_where_def)
  moreover have "tracks key ?t" using t assms [of t] by (auto simp: tracks_def same_target_def)
  ultimately show "tracked (update_targets clk P f db) key" by (auto simp: tracked_def list_ex_iff)
qed

lemma keeps_tracked_create: "keeps_tracked db (snd (create_job clk fresh kind idem p r q db))"
  by (rule keeps_tracked_same) (simp add: create_job_def Let_def split: option.split)

lemma keeps_tracked_insert: "keeps_tracked db (insert_target clk t db)"
  by (auto simp: insert_target_def keeps_tracked_def tracked_def)

lemma keeps_tracked_add: "keeps_tracked db (add_target src clk job spec db)"
  by (cases spec) (simp_all add: add_object_target_def add_vector_target_def keeps_tracked_insert)

lemma keeps_tracked_finalize: "keeps_tracked db (finalize_empty_job clk i db)"
  by (simp add: finalize_empty_job_def)

lemma keeps_tracked_due: "keeps_tracked db (make_job_due clk i db)"
  unfolding make_job_due_def by (rule keeps_tracked_update) simp

lemma keeps_tracked_claim:
  assumes "claim_due_targets clk limit lease elig locked tok db = (ts, db')"
  shows "keeps_tracked db db'"
  using assms unfolding claim_due_targets_def
proof (induction rule: claim_loop_induct)
  case (Claim db t ts db')
  have "keeps_tracked db (claim_one clk (clk_wall clk + lease) tok t db)" unfolding claim_one_def
    by (rule keeps_tracked_trans [OF keeps_tracked_update keeps_tracked_update_job]) auto
  with Claim(4) show ?case by (rule keeps_tracked_trans [rotated])
qed simp

lemma keeps_tracked_failed:
  "mark_target_failed clk i code summary m d tok attempt db = (ok, db') \<Longrightarrow> keeps_tracked db db'"
  unfolding mark_target_failed_def refresh_job_def
  by (auto split: option.splits if_splits intro!: keeps_tracked_trans [OF keeps_tracked_update keeps_tracked_update_job])

text \<open>Completing a target gives up at most the object of that target.\<close>

lemma completed_tracks_others:
  assumes "mark_target_completed clk i skipped tok attempt db = (ok, db')" "wf_cleanup db" "get_target db i = Some t"
    and "tracked db key" "ct_storage_key t \<noteq> Some key"
  shows "tracked db' key"
proof -
  have t: "t \<in> set (targets db)" "ct_id t = i" using assms(3) find_by_Some by (force simp: get_target_def)+
  from assms(4) obtain x where x: "x \<in> set (targets db)" "tracks key x" by (auto simp: tracked_def list_ex_iff)
  have "ct_id x \<noteq> i"
  proof
    assume "ct_id x = i"
    with t x(1) assms(2) have "x = t" using distinct_map [of ct_id "targets db"]
      by (auto simp: wf_cleanup_def wf_rows_def inj_on_def)
    with x(2) assms(5) show False by (simp add: tracks_def)
  qed
  then have "x \<in> set (targets (update_targets clk (\<lambda>y. ct_id y = i) f db))" for f
    using x(1) by (auto simp: update_targets_def update_where_in)
  with x show ?thesis using assms(1)
    by (auto simp: mark_target_completed_def refresh_job_def tracked_def list_ex_iff split: option.splits if_splits)
qed

section \<open>Captured objects\<close>

text \<open>A job opened by a transaction has only pending targets, each for the object its key names.\<close>

definition own_targets :: "(pystr \<Rightarrow> pystr) \<Rightarrow> cleanup_db \<Rightarrow> uuid \<Rightarrow> bool" where
  "own_targets sha db job \<longleftrightarrow> (\<forall>t\<in>set (targets db). ct_job t = job \<longrightarrow> ct_status t = TargetPending \<and>
     (\<forall>key. ct_key t = target_key sha [''object'', key] \<longrightarrow> ct_type t = ObjectTarget \<and> ct_storage_key t = Some key))"

lemma object_key_inj: "inj sha \<Longrightarrow> target_key sha [''object'', a] = target_key sha [''object'', b] \<longleftrightarrow> a = b"
  by (auto simp: target_key_def inj_eq)

lemma vector_key_differs: "inj sha \<Longrightarrow> target_key sha (''vector_generation'' # xs) \<noteq> target_key sha [''object'', b]"
  by (cases xs) (auto simp: target_key_def inj_eq)

lemma own_targets_add:
  assumes "inj (ts_sha src)" "own_targets (ts_sha src) db job"
  shows "own_targets (ts_sha src) (add_target src clk job spec db) job"
  using assms object_key_inj [OF assms(1)] vector_key_differs [OF assms(1)]
  by (cases spec) (auto simp: own_targets_def add_object_target_def add_vector_target_def insert_target_def new_target_def)

lemma add_object_tracks:
  assumes "inj (ts_sha src)" "own_targets (ts_sha src) db job"
  shows "tracked (add_target src clk job (ObjectSpec key) db) key"
proof (cases "\<exists>x\<in>set (targets db). ct_job x = job \<and> ct_key x = target_key (ts_sha src) [''object'', key]")
  case True
  then obtain x where "x \<in> set (targets db)" "ct_job x = job" "ct_key x = target_key (ts_sha src) [''object'', key]" by blast
  with assms(2) have "x \<in> set (targets db)" "tracks key x" by (auto simp: own_targets_def tracks_def)
  then have "tracked db key" by (auto simp: tracked_def list_ex_iff)
  with keeps_tracked_add [of db src clk job "ObjectSpec key"] show ?thesis by (simp add: keeps_tracked_def)
next
  case False
  then show ?thesis
    by (auto simp: add_object_target_def insert_target_def new_target_def tracked_def tracks_def)
qed

lemma add_targets_track:
  assumes "inj (ts_sha src)" "own_targets (ts_sha src) db job"
  shows "own_targets (ts_sha src) (fold (add_target src clk job) specs db) job
    \<and> keeps_tracked db (fold (add_target src clk job) specs db)
    \<and> (\<forall>key. ObjectSpec key \<in> set specs \<longrightarrow> tracked (fold (add_target src clk job) specs db) key)"
  using assms(2)
proof (induction specs arbitrary: db)
  case (Cons spec specs)
  note own = own_targets_add [OF assms(1) Cons.prems, of clk spec]
  note IH = Cons.IH [OF own]
  have "tracked (fold (add_target src clk job) specs (add_target src clk job spec db)) key" if "spec = ObjectSpec key" for key
    using add_object_tracks [OF assms(1) Cons.prems, of clk key] IH that by (auto simp: keeps_tracked_def)
  with IH keeps_tracked_trans [OF keeps_tracked_add] show ?case by auto
qed simp

section \<open>Jobs opened by a transaction\<close>

text \<open>What the operations take from outside: a digest without collisions and new row identifiers.\<close>

definition fresh_source :: "target_source \<Rightarrow> bool" where
  "fresh_source src \<longleftrightarrow> inj (ts_sha src) \<and> (\<forall>ts. ts_fresh src ts \<notin> ct_id ` set ts)"

definition fresh_job :: "cleanup_db \<Rightarrow> uuid \<Rightarrow> pystr \<Rightarrow> bool" where
  "fresh_job db i idem \<longleftrightarrow> i \<notin> cj_id ` set (jobs db) \<and> idem \<notin> cj_key ` set (jobs db)"

lemma fresh_job_created:
  assumes "fresh_job db i idem" "wf_cleanup db"
  shows "create_job clk i kind idem p r q db = (j, db') \<Longrightarrow>
    cj_id j = i \<and> targets db' = targets db \<and> get_job db' i \<noteq> None \<and> wf_cleanup db' \<and> own_targets sha db' i \<and> jobs db' = jobs db @ [j]"
proof -
  assume eq: "create_job clk i kind idem p r q db = (j, db')"
  have none: "List.find (\<lambda>j. cj_key j = idem) (jobs db) = None"
    using assms(1) by (auto simp: fresh_job_def find_None_iff)
  with eq have db': "cj_id j = i" "targets db' = targets db" "jobs db' = jobs db @ [j]"
    by (auto simp: create_job_def Let_def)
  moreover have "get_job db' i \<noteq> None" using db' by (auto simp: get_job_def find_by_None)
  moreover have "wf_cleanup db'" using wf_create_job [of db i clk kind idem p r q] assms eq by (simp add: fresh_job_def)
  moreover have "own_targets sha db' i"
  proof -
    have "ct_job t \<noteq> i" if "t \<in> set (targets db)" for t
      using assms that by (auto simp: wf_cleanup_def wf_rows_def fresh_job_def)
    then show ?thesis by (auto simp: own_targets_def db'(2))
  qed
  ultimately show ?thesis by simp
qed

lemma get_job_add: "get_job (add_target src clk job spec db) i = None \<longleftrightarrow> get_job db i = None"
proof -
  have "get_job (insert_target clk t db) i = None \<longleftrightarrow> get_job db i = None" for t
    by (simp add: insert_target_def get_job_def update_job_def find_by_update)
  then show ?thesis by (cases spec) (simp_all add: add_object_target_def add_vector_target_def)
qed

lemma wf_add_targets:
  assumes "fresh_source src" "wf_cleanup db" "get_job db job \<noteq> None"
  shows "wf_cleanup (fold (add_target src clk job) specs db) \<and> get_job (fold (add_target src clk job) specs db) job \<noteq> None"
  using assms(2,3)
proof (induction specs arbitrary: db)
  case (Cons spec specs)
  have "ts_fresh src (targets db) \<notin> ct_id ` set (targets db)" using assms(1) by (simp add: fresh_source_def)
  then have "wf_cleanup (add_target src clk job spec db)"
    using Cons.prems by (cases spec) (simp_all add: wf_add_object wf_add_vector)
  moreover have "get_job (add_target src clk job spec db) job \<noteq> None" using Cons.prems(2) by (simp add: get_job_add)
  ultimately show ?case using Cons.IH by simp
qed simp

text \<open>Opening a job, capturing \<open>specs\<close> and closing it: only the clean-up tables change, nothing
  tracked is lost and every captured object is tracked.\<close>

definition capture_effect :: "target_spec list \<Rightarrow> store \<Rightarrow> store \<Rightarrow> bool" where
  "capture_effect specs st st' \<longleftrightarrow> (\<exists>db. st' = st\<lparr>st_cleanup := db\<rparr> \<and> wf_cleanup db \<and> keeps_tracked (st_cleanup st) db
     \<and> (\<forall>key. ObjectSpec key \<in> set specs \<longrightarrow> tracked db key))"

lemma opened_capture:
  assumes src: "fresh_source src" and wf: "wf_cleanup (st_cleanup st)" and new: "fresh_job (st_cleanup st) i idem"
    and opened: "open_job clk i kind idem p r q st = (job, st1)"
  shows "job = i \<and> capture_effect specs st (add_targets src clk job specs st1)
    \<and> get_job (st_cleanup (add_targets src clk job specs st1)) job \<noteq> None
    \<and> own_targets (ts_sha src) (st_cleanup (add_targets src clk job specs st1)) job"
proof -
  from opened obtain j db where created: "create_job clk i kind idem p r q (st_cleanup st) = (j, db)" and st1: "job = cj_id j" "st1 = st\<lparr>st_cleanup := db\<rparr>"
    by (auto simp: open_job_def split: prod.splits)
  note facts = fresh_job_created [OF new wf created, of "ts_sha src"]
  let ?db = "fold (add_target src clk i) specs db"
  have inj: "inj (ts_sha src)" using src by (simp add: fresh_source_def)
  have track: "own_targets (ts_sha src) ?db i \<and> keeps_tracked db ?db \<and> (\<forall>key. ObjectSpec key \<in> set specs \<longrightarrow> tracked ?db key)"
    using facts add_targets_track [OF inj, of db i clk specs] by blast
  have wf': "wf_cleanup ?db \<and> get_job ?db i \<noteq> None" using facts wf_add_targets [OF src, of db i clk specs] by blast
  have "keeps_tracked (st_cleanup st) db" using facts keeps_tracked_same by blast
  with track wf' facts st1 keeps_tracked_trans show ?thesis
    unfolding capture_effect_def add_targets_def by auto
qed

lemma capture_more:
  assumes src: "fresh_source src" and eff: "capture_effect specs st st1"
    and own: "own_targets (ts_sha src) (st_cleanup st1) job" "get_job (st_cleanup st1) job \<noteq> None"
  shows "capture_effect (specs @ extra) st (add_targets src clk job extra st1)"
proof -
  from eff obtain db where db: "st1 = st\<lparr>st_cleanup := db\<rparr>" "wf_cleanup db" "keeps_tracked (st_cleanup st) db"
    "\<forall>key. ObjectSpec key \<in> set specs \<longrightarrow> tracked db key" by (auto simp: capture_effect_def)
  have inj: "inj (ts_sha src)" using src by (simp add: fresh_source_def)
  have track: "keeps_tracked db (fold (add_target src clk job) extra db) \<and> (\<forall>key. ObjectSpec key \<in> set extra \<longrightarrow> tracked (fold (add_target src clk job) extra db) key)"
    using add_targets_track [OF inj, of db job clk extra] own db(1) by simp
  have "wf_cleanup (fold (add_target src clk job) extra db)" using wf_add_targets [OF src db(2)] own(2) db(1) by simp
  with track db keeps_tracked_trans [OF db(3)] show ?thesis
    unfolding capture_effect_def add_targets_def by (auto simp: keeps_tracked_def)
qed

lemma capture_closed:
  assumes "close_job clk job st1 = Inr (j, st')" "capture_effect specs st st1"
  shows "capture_effect specs st st'"
proof -
  from assms(2) obtain db where db: "st1 = st\<lparr>st_cleanup := db\<rparr>" "wf_cleanup db" "keeps_tracked (st_cleanup st) db"
    "\<forall>key. ObjectSpec key \<in> set specs \<longrightarrow> tracked db key" by (auto simp: capture_effect_def)
  have "st' = st\<lparr>st_cleanup := finalize_empty_job clk job db\<rparr>"
    using assms(1) db(1) by (auto simp: close_job_def Let_def split: option.splits)
  with db keeps_tracked_finalize [of db clk job] wf_finalize [OF db(2)] show ?thesis
    unfolding capture_effect_def by (auto simp: keeps_tracked_def)
qed

text \<open>The job is new when its identifier is the one generated for it: the idempotency key was not
  used before.\<close>

lemma new_job_fresh:
  assumes "open_job clk i kind idem p r q st = (job, st1)" "close_job clk job st2 = Inr (j, st')"
    and "i \<notin> cj_id ` set (jobs (st_cleanup st))" "cj_id j = i"
  shows "fresh_job (st_cleanup st) i idem"
proof -
  have "cj_id j = job" using assms(2)
    by (auto simp: close_job_def Let_def get_job_def split: option.splits dest!: find_by_Some)
  with assms(4) have "job = i" by simp
  with assms(1,3) show ?thesis
    by (auto simp: open_job_def create_job_def fresh_job_def Let_def find_Some_iff find_None_iff split: prod.splits option.splits)
qed

lemma capture_source_delete_effect:
  assumes "capture_source_delete src clk i p sid actor request st = Inr (j, st')" "fresh_source src"
    and "wf_cleanup (st_cleanup st)" "i \<notin> cj_id ` set (jobs (st_cleanup st))" "cj_id j = i"
  shows "capture_effect (source_targets st sid) st st'"
proof -
  obtain job st1 where opened: "open_job clk i SourceDelete (''source-delete:'' @ uuid_str sid) (Some p) (Some actor) request st = (job, st1)"
    by fastforce
  have "source_targets st1 sid = source_targets st sid"
    using opened by (auto simp: open_job_def source_targets_def split: prod.splits)
  then have closed: "close_job clk job (add_targets src clk job (source_targets st sid) st1) = Inr (j, st')"
    using assms(1) opened by (simp add: capture_source_delete_def capture_source_targets_def)
  note fresh = new_job_fresh [OF opened closed assms(4,5)]
  have "capture_effect (source_targets st sid) st (add_targets src clk job (source_targets st sid) st1)"
    using opened_capture [OF assms(2,3) fresh opened] by blast
  with closed show ?thesis by (rule capture_closed)
qed

lemma capture_cancellation_effect:
  assumes "capture_build_cancellation src clk i p b actor request st = Inr (j, st')" "fresh_source src"
    and "wf_cleanup (st_cleanup st)" "i \<notin> cj_id ` set (jobs (st_cleanup st))" "cj_id j = i"
    and "find_by b_id b (st_builds st) = Some r"
  shows "capture_effect (build_targets st [r]) st st'"
proof -
  obtain job st1 where opened: "open_job clk i OrphanGuard (''build-cancellation:'' @ uuid_str b) (Some p) actor request st = (job, st1)"
    by fastforce
  have "build_targets st1 [r] = build_targets st [r]" "st_builds st1 = st_builds st"
    using opened by (auto simp: open_job_def build_targets_def split: prod.splits)
  then have closed: "close_job clk job (add_targets src clk job (build_targets st [r]) st1) = Inr (j, st')"
    using assms(1,6) opened by (simp add: capture_build_cancellation_def capture_build_target_def capture_build_targets_def)
  note fresh = new_job_fresh [OF opened closed assms(4,5)]
  have "capture_effect (build_targets st [r]) st (add_targets src clk job (build_targets st [r]) st1)"
    using opened_capture [OF assms(2,3) fresh opened] by blast
  with closed show ?thesis by (rule capture_closed)
qed

section \<open>Transactions hand their objects over\<close>

definition wf_store :: "store \<Rightarrow> bool" where
  "wf_store st \<longleftrightarrow> wf_cleanup (st_cleanup st) \<and> distinct (map b_id (st_builds st)) \<and> distinct (map ig_build (st_generations st))
     \<and> distinct (map sv_id (st_versions st))"

definition hands_over :: "store \<Rightarrow> store \<Rightarrow> bool" where
  "hands_over st st' \<longleftrightarrow> st_objects st' = st_objects st \<and> wf_store st' \<and> keeps_tracked (st_cleanup st) (st_cleanup st')
     \<and> (\<forall>key. object_is_referenced st key \<longrightarrow> object_is_referenced st' key \<or> tracked (st_cleanup st') key)"

lemma hands_over_no_orphans: "hands_over st st' \<Longrightarrow> no_orphans st \<Longrightarrow> wf_store st' \<and> no_orphans st'"
  by (auto simp: hands_over_def no_orphans_def keeps_tracked_def)

lemma build_specs: "b \<in> set bs \<Longrightarrow> manifest_storage_key b = Some key \<or> artifact_storage_key b = Some key \<Longrightarrow>
    ObjectSpec key \<in> set (build_targets st bs)"
  by (force simp: build_targets_def build_objects_def opt_object_def)

lemma generation_specs:
  assumes "distinct (map ig_build (st_generations st))" "g \<in> set (st_generations st)" "ig_chunk_key g = Some key"
    and "b \<in> set bs" "b_id b = ig_build g"
  shows "ObjectSpec key \<in> set (build_targets st bs)"
proof -
  have "List.find (\<lambda>x. ig_build x = b_id b) (st_generations st) = Some g"
    using find_by_distinct [OF assms(1,2)] assms(5) by (simp add: find_by_def)
  then have "ObjectSpec key \<in> set (build_objects b @ (case List.find (\<lambda>g. ig_build g = b_id b) (st_generations st) of
      None \<Rightarrow> [] | Some g \<Rightarrow> generation_targets g))"
    using assms(3) by (simp add: generation_targets_def opt_object_def)
  with assms(4) show ?thesis unfolding build_targets_def by (auto simp del: append_assoc)
qed

lemma distinct_map_the: "distinct (map f xs) \<Longrightarrow> x \<in> set xs \<Longrightarrow> y \<in> set xs \<Longrightarrow> f x = f y \<Longrightarrow> x = y"
  by (auto simp: distinct_map inj_on_def)

lemma build_candidates_rows: "b \<in> set (build_candidates st project keep) \<Longrightarrow> b \<in> set (st_builds st)"
  by (auto simp: build_candidates_def all_builds_def)

lemma version_candidates_rows: "v \<in> set (version_candidates st p removed cutoff) \<Longrightarrow> v \<in> set (st_versions st)"
  by (auto simp: version_candidates_def source_versions_of_def newest_first_def dest!: in_set_dropD)

text \<open>What a transaction takes away: the references of some builds and of some versions.\<close>

definition removes :: "store \<Rightarrow> uuid set \<Rightarrow> uuid set \<Rightarrow> store \<Rightarrow> bool" where
  "removes st bids vids st' \<longleftrightarrow>
     st_objects st' = st_objects st \<and> st_cleanup st' = st_cleanup st
     \<and> (distinct (map b_id (st_builds st)) \<longrightarrow> distinct (map b_id (st_builds st')))
     \<and> (\<forall>b\<in>set (st_builds st). b_id b \<notin> bids \<longrightarrow> (\<exists>b'\<in>set (st_builds st'). b_id b' = b_id b
          \<and> manifest_storage_key b' = manifest_storage_key b \<and> artifact_storage_key b' = artifact_storage_key b))
     \<and> st_versions st' = filter (\<lambda>v. sv_id v \<notin> vids) (st_versions st)
     \<and> (\<exists>Q. st_generations st' = filter Q (st_generations st) \<and> (\<forall>g\<in>set (st_generations st). ig_build g \<notin> bids \<longrightarrow> Q g))"

lemma removed_references:
  assumes "removes st bids vids st'" "object_is_referenced st key" "\<not> object_is_referenced st' key"
  shows "(\<exists>v\<in>set (st_versions st). sv_id v \<in> vids \<and> sv_storage_key v = key)
    \<or> (\<exists>b\<in>set (st_builds st). b_id b \<in> bids \<and> (manifest_storage_key b = Some key \<or> artifact_storage_key b = Some key))
    \<or> (\<exists>g\<in>set (st_generations st). ig_build g \<in> bids \<and> ig_chunk_key g = Some key)"
  using assms unfolding object_is_referenced_def list_ex_iff removes_def by (auto 0 4)

lemma wf_store_removes: "removes st bids vids st' \<Longrightarrow> wf_store st \<Longrightarrow> wf_store st'"
  unfolding wf_store_def removes_def by (auto simp: distinct_map_filter)

lemma delete_removes:
  assumes "delete_builds st bids = Inr st1" "delete_versions st1 vids = Inr st2"
  shows "removes st bids vids (delete_snapshots st2 sids)"
proof -
  let ?f = "\<lambda>b. case previous_build_id b of Some x \<Rightarrow> if x \<in> bids then b\<lparr>previous_build_id := None\<rparr> else b | None \<Rightarrow> b"
  have keep: "b_id (?f b) = b_id b" "manifest_storage_key (?f b) = manifest_storage_key b"
    "artifact_storage_key (?f b) = artifact_storage_key b" for b by (simp_all split: option.split)
  have rows: "st_builds st2 = map ?f (filter (\<lambda>b. b_id b \<notin> bids) (st_builds st))"
    and other: "st_objects st2 = st_objects st" "st_cleanup st2 = st_cleanup st"
      "st_versions st2 = filter (\<lambda>v. sv_id v \<notin> vids) (st_versions st)"
      "st_generations st2 = filter (\<lambda>g. ig_build g \<notin> bids) (st_generations st)"
    using assms by (auto simp: delete_builds_def delete_versions_def split: if_splits)
  have "\<exists>b'\<in>set (st_builds st2). b_id b' = b_id b \<and> manifest_storage_key b' = manifest_storage_key b
      \<and> artifact_storage_key b' = artifact_storage_key b" if "b \<in> set (st_builds st)" "b_id b \<notin> bids" for b
    unfolding rows using that keep [of b] by (intro bexI [of _ "?f b"]) simp_all
  moreover have "map b_id (st_builds st2) = map b_id (filter (\<lambda>b. b_id b \<notin> bids) (st_builds st))"
    unfolding rows by (simp add: keep)
  then have "distinct (map b_id (st_builds st)) \<longrightarrow> distinct (map b_id (st_builds st2))"
    by (simp add: distinct_map_filter)
  moreover have "\<exists>Q. st_generations st2 = filter Q (st_generations st) \<and> (\<forall>g\<in>set (st_generations st). ig_build g \<notin> bids \<longrightarrow> Q g)"
    using other(4) by blast
  ultimately show ?thesis unfolding removes_def delete_snapshots_def using other(1-3) by simp
qed

text \<open>The removal of captured rows hands their objects over.\<close>

lemma removal_hands_over:
  assumes wf: "wf_store st" and eff: "capture_effect specs st st1" and rem: "removes st1 bids vids st2"
    and st': "st' = st2\<lparr>st_cleanup := db\<rparr>" "wf_cleanup db" "keeps_tracked (st_cleanup st2) db"
    and vs: "\<And>v. v \<in> set (st_versions st) \<Longrightarrow> sv_id v \<in> vids \<Longrightarrow> ObjectSpec (sv_storage_key v) \<in> set specs"
    and bs: "\<And>b key. b \<in> set (st_builds st) \<Longrightarrow> b_id b \<in> bids \<Longrightarrow>
      manifest_storage_key b = Some key \<or> artifact_storage_key b = Some key \<Longrightarrow> ObjectSpec key \<in> set specs"
    and gs: "\<And>g key. g \<in> set (st_generations st) \<Longrightarrow> ig_build g \<in> bids \<Longrightarrow> ig_chunk_key g = Some key \<Longrightarrow> ObjectSpec key \<in> set specs"
  shows "hands_over st st'"
proof -
  from eff obtain db1 where st1: "st1 = st\<lparr>st_cleanup := db1\<rparr>" "wf_cleanup db1" "keeps_tracked (st_cleanup st) db1"
    "\<forall>key. ObjectSpec key \<in> set specs \<longrightarrow> tracked db1 key" by (auto simp: capture_effect_def)
  have cl: "st_cleanup st2 = db1" "st_objects st2 = st_objects st" using rem st1(1) by (auto simp: removes_def)
  have "wf_store st1" using wf st1 by (simp add: wf_store_def)
  from wf_store_removes [OF rem this] have "wf_store st'" using st' by (simp add: wf_store_def)
  moreover have kept: "keeps_tracked (st_cleanup st) (st_cleanup st')"
    using st1(3) st'(3) keeps_tracked_trans cl st'(1) by simp
  moreover have "object_is_referenced st' key \<or> tracked (st_cleanup st') key" if ref: "object_is_referenced st key" for key
  proof (rule disjCI)
    assume not_tracked: "\<not> tracked (st_cleanup st') key"
    show "object_is_referenced st' key"
    proof (rule ccontr)
      assume "\<not> object_is_referenced st' key"
      then have "\<not> object_is_referenced st2 key" "object_is_referenced st1 key"
        using ref st1(1) st'(1) by (simp_all add: object_is_referenced_def)
      from removed_references [OF rem this(2,1)] have "ObjectSpec key \<in> set specs"
        using vs bs gs st1(1) by auto
      with st1(4) st' cl have "tracked (st_cleanup st') key" by (auto simp: keeps_tracked_def)
      with not_tracked show False by contradiction
    qed
  qed
  ultimately show ?thesis using cl st'(1) by (simp add: hands_over_def)
qed

text \<open>The rows a retention takes away and the stages of its transaction.\<close>

definition retained_versions :: "store \<Rightarrow> clocks \<Rightarrow> uuid \<Rightarrow> nat option \<Rightarrow> build_row list \<Rightarrow> source_version list" where
  "retained_versions st clk p days bs = (case days of None \<Rightarrow> []
     | Some d \<Rightarrow> version_candidates st p (b_id ` set bs) (clk_wall clk - of_nat d * seconds_per_day))"

lemma retention_stages:
  assumes ret: "prepare_retention_job src clk i locked p keep days st = Inr (Some j, st')"
  obtains project bs vs sids job st1 st4 st5 where "find_by pr_id p (st_projects st) = Some project"
    "bs = build_candidates st project keep" "vs = retained_versions st clk p days bs"
    "open_job clk i Retention (retention_key (ts_sha src) p bs vs) (Some p) None None st = (job, st1)"
    "delete_builds (add_targets src clk job (map (\<lambda>v. ObjectSpec (sv_storage_key v)) vs) (capture_build_targets src clk job bs st1)) (b_id ` set bs) = Inr st4"
    "delete_versions st4 (sv_id ` set vs) = Inr st5"
    "close_job clk job (delete_snapshots st5 sids) = Inr (j, st')"
proof -
  from ret obtain project where project: "find_by pr_id p (st_projects st) = Some project" and unlocked: "\<not> locked p"
    by (auto simp: prepare_retention_job_def split: option.splits if_splits)
  define bs where "bs = build_candidates st project keep"
  define vs where "vs = retained_versions st clk p days bs"
  define sids where "sids = \<Union> (set_option ` canonical_snapshot_id ` set bs)"
  obtain job st1 where opened: "open_job clk i Retention (retention_key (ts_sha src) p bs vs) (Some p) None None st = (job, st1)" by fastforce
  note body = ret [unfolded prepare_retention_job_def project option.case if_not_P [OF unlocked] Let_def, folded bs_def,
      folded retained_versions_def, folded vs_def, unfolded opened prod.case, folded sids_def]
  have "\<not> (bs = [] \<and> vs = [])" using body by auto
  with body have "rbind (delete_builds (add_targets src clk job (map (\<lambda>v. ObjectSpec (sv_storage_key v)) vs) (capture_build_targets src clk job bs st1)) (b_id ` set bs))
      (\<lambda>st4. rbind (delete_versions st4 (sv_id ` set vs)) (\<lambda>st5. rbind (close_job clk job (delete_snapshots st5 sids)) (\<lambda>(j, st6). Inr (Some j, st6)))) = Inr (Some j, st')"
    by simp
  then show ?thesis using that [OF project bs_def vs_def opened] by (auto simp: rbind_Inr_iff)
qed

lemma retention_hands_over:
  assumes ret: "prepare_retention_job src clk i locked p keep days st = Inr (Some j, st')"
    and src: "fresh_source src" and wf: "wf_store st"
    and new: "i \<notin> cj_id ` set (jobs (st_cleanup st))" "cj_id j = i"
  shows "hands_over st st'"
  using ret
proof (cases rule: retention_stages)
  case (1 project bs vs sids job st1 st4 st5)
  note bs_def = 1(2) and vs_def = 1(3) and opened = 1(4) and del = 1(5,6) and closed = 1(7)
  define specs where "specs = map (\<lambda>v. ObjectSpec (sv_storage_key v)) vs"
  let ?st3 = "add_targets src clk job specs (capture_build_targets src clk job bs st1)"
  have bt: "capture_build_targets src clk job bs st1 = add_targets src clk job (build_targets st bs) st1"
    using opened by (auto simp: capture_build_targets_def open_job_def build_targets_def split: prod.splits)
  have wfc: "wf_cleanup (st_cleanup st)" using wf by (simp add: wf_store_def)
  note cap = opened_capture [OF src wfc new_job_fresh [OF opened closed new] opened, of "build_targets st bs"]
  have eff: "capture_effect (build_targets st bs @ specs) st ?st3"
    unfolding bt using cap by (intro capture_more src) auto
  have rem: "removes ?st3 (b_id ` set bs) (sv_id ` set vs) (delete_snapshots st5 sids)" using delete_removes [OF del] by (simp add: specs_def)
  let ?db = "finalize_empty_job clk job (st_cleanup (delete_snapshots st5 sids))"
  have st': "st' = (delete_snapshots st5 sids)\<lparr>st_cleanup := ?db\<rparr>"
    using closed by (auto simp: close_job_def Let_def split: option.splits)
  have "wf_cleanup (st_cleanup ?st3)" using eff by (auto simp: capture_effect_def)
  then have "wf_cleanup (st_cleanup (delete_snapshots st5 sids))" using rem by (simp add: removes_def)
  then have "wf_cleanup ?db" by (rule wf_finalize)
  show ?thesis
  proof (rule removal_hands_over [OF wf eff rem st' \<open>wf_cleanup ?db\<close> keeps_tracked_finalize])
    fix v assume "v \<in> set (st_versions st)" "sv_id v \<in> sv_id ` set vs"
    moreover have "set vs \<subseteq> set (st_versions st)" using version_candidates_rows by (auto simp: vs_def retained_versions_def split: option.splits)
    ultimately have "v \<in> set vs" using wf distinct_map_the [of sv_id "st_versions st"] by (auto simp: wf_store_def)
    then show "ObjectSpec (sv_storage_key v) \<in> set (build_targets st bs @ specs)" by (simp add: specs_def)
  next
    fix b key assume b: "b \<in> set (st_builds st)" "b_id b \<in> b_id ` set bs" "manifest_storage_key b = Some key \<or> artifact_storage_key b = Some key"
    have "set bs \<subseteq> set (st_builds st)" using build_candidates_rows by (auto simp: bs_def)
    with b wf distinct_map_the [of b_id "st_builds st"] have "b \<in> set bs" by (auto simp: wf_store_def)
    with b(3) build_specs show "ObjectSpec key \<in> set (build_targets st bs @ specs)" by auto
  next
    fix g key assume g: "g \<in> set (st_generations st)" "ig_build g \<in> b_id ` set bs" "ig_chunk_key g = Some key"
    with wf generation_specs [of st g key] show "ObjectSpec key \<in> set (build_targets st bs @ specs)" by (auto simp: wf_store_def)
  qed
qed

section \<open>Source transactions\<close>

definition same_rows :: "store \<Rightarrow> store \<Rightarrow> bool" where
  \<comment> \<open>equal in everything that refers to objects\<close>
  "same_rows st st' \<longleftrightarrow> st_objects st' = st_objects st \<and> st_cleanup st' = st_cleanup st \<and> st_versions st' = st_versions st
     \<and> st_builds st' = st_builds st \<and> st_generations st' = st_generations st"

lemma same_rows_refl [simp]: "same_rows st st"
  by (simp add: same_rows_def)

lemma same_rows_trans: "same_rows a b \<Longrightarrow> same_rows b c \<Longrightarrow> same_rows a c"
  by (simp add: same_rows_def)

lemma same_rows_audit [simp]:
  "same_rows st (append_audit a k t e p r st') \<longleftrightarrow> same_rows st st'"
  "same_rows (append_audit a k t e p r st) st' \<longleftrightarrow> same_rows st st'"
  by (simp_all add: same_rows_def append_audit_def)

lemma audited_rows: "append_audit a k t e p r st = st' \<Longrightarrow> same_rows st st'"
  by (auto simp: same_rows_def append_audit_def)

lemma update_sources_rows: "update_sources P f st = Inr st' \<Longrightarrow> same_rows st st'"
  by (auto simp: update_sources_def write_sources_def same_rows_def split: if_splits)

lemma promote_rows: "promote_executable st p i = Inr (r, st') \<Longrightarrow> same_rows st st'"
  unfolding promote_executable_def
  by (auto split: option.splits if_splits simp: rbind_Inr_iff intro: same_rows_trans dest!: update_sources_rows)

lemma select_current_rows: "select_current_version st now i v e l = Inr (s, st') \<Longrightarrow> same_rows st st'"
  unfolding select_current_version_def
  by (auto split: option.splits if_splits simp: rbind_Inr_iff dest!: update_sources_rows)

lemma commit_same: "commit st = Inr st' \<longleftrightarrow> st' = st \<and> current_versions_exist st"
  by (auto simp: commit_def)

lemma same_rows_facts:
  assumes "same_rows st st'"
  shows "st_objects st' = st_objects st" "st_cleanup st' = st_cleanup st" "st_versions st' = st_versions st"
    "st_builds st' = st_builds st" "st_generations st' = st_generations st" "object_is_referenced st' key = object_is_referenced st key"
    "wf_store st' = wf_store st"
  using assms by (auto simp: same_rows_def object_is_referenced_def wf_store_def)

lemma hands_over_same: "hands_over st st1 \<Longrightarrow> same_rows st1 st' \<Longrightarrow> hands_over st st'"
  by (simp add: hands_over_def same_rows_facts)

lemma hands_over_refl: "wf_store st \<Longrightarrow> hands_over st st"
  by (simp add: hands_over_def)

text \<open>Adding a version adds a reference.\<close>

lemma create_version_hands_over:
  assumes "create_version st t fresh v0 = Inr (v, st')" "wf_store st"
  shows "hands_over st st'"
proof -
  from assms(1) have st': "st' = st\<lparr>st_versions := st_versions st @ [v]\<rparr>" "versions_ok (st_versions st @ [v])"
    by (auto simp: create_version_def Let_def split: if_splits)
  then have "distinct (map sv_id (st_versions st'))" by (simp add: versions_ok_def)
  with assms(2) st' show ?thesis by (auto simp: hands_over_def wf_store_def object_is_referenced_def)
qed

lemma hands_over_then:
  assumes "hands_over st st1" "hands_over st1 st2"
  shows "hands_over st st2"
  using assms unfolding hands_over_def keeps_tracked_def by blast

lemma select_content_hands_over:
  assumes "select_content st now t fresh source c actor request = Inr (res, s, st')" "wf_store st"
  shows "hands_over st st'"
proof (cases "get_version_by_hash st (ps_id source) (sc_sha256 c)")
  case (Some v)
  with assms(1) have "same_rows st st'"
    by (auto simp: select_content_def rbind_Inr_iff dest!: select_current_rows split: if_splits)
  with hands_over_refl [OF assms(2)] show ?thesis by (rule hands_over_same)
next
  case None
  let ?new = "\<lambda>v st. append_audit (Some actor) ''source.version_created'' ''source_version'' (sv_id v) (Some (ps_project source)) request st"
  from assms(1) obtain v st1 st2 where v: "create_version st t fresh (version_row (ps_id source) actor c) = Inr (v, st1)"
    and sel: "select_current_version (?new v st1) now (ps_id source) (sv_id v) (sc_etag c) (sc_last_modified c) = Inr (s, st2)"
    and st': "same_rows st2 st'"
    unfolding select_content_def None option.case rbind_Inr_iff split_paired_Ex prod.case by (auto split: if_splits)
  have "same_rows st1 st'" using same_rows_trans [OF select_current_rows [OF sel] st'] by simp
  with create_version_hands_over [OF v assms(2)] show ?thesis by (rule hands_over_same)
qed

lemma persist_version_hands_over:
  assumes "persist_version st now t fresh source c actor request = Inr (res, st')" "wf_store st"
  shows "hands_over st st'"
proof -
  from assms(1) obtain locked s st1 st2 where sel: "select_content st now t fresh locked c actor request = Inr (res, s, st1)"
    and prom: "(if executable_kind (ps_kind source) \<and> get_versioned_primary_executable st1 (ps_project source) = None
         then rbind (promote_executable st1 (ps_project source) (ps_id source)) (\<lambda>(r, st').
           if r = None then Inl not_promoted else Inr st') else Inr st1) = Inr st2" and "commit st2 = Inr st'"
    unfolding persist_version_def rbind_Inr_iff split_paired_Ex prod.case by auto
  then have "same_rows st1 st'" by (auto simp: rbind_Inr_iff commit_same dest!: promote_rows split: if_splits)
  with select_content_hands_over [OF sel assms(2)] show ?thesis by (rule hands_over_same)
qed

lemma create_source_rows: "create_source st t n = Inr (s, st') \<Longrightarrow> same_rows st st'"
  by (auto simp: create_source_def write_sources_def same_rows_def Let_def rbind_Inr_iff split: if_splits)

lemma persist_created_hands_over:
  assumes "persist_created_source st now t fresh n c actor request = Inr (res, st')" "wf_store st"
  shows "hands_over st st'"
proof -
  from assms(1) obtain source inherits st1 v dedup s st2 final st3 where
    start: "(case get_source st (ns_id n) of
         None \<Rightarrow>
           let inherits = (case latest_in_group st (ns_project n) (ns_name n) (ns_kind n) None of None \<Rightarrow> False | Some x \<Rightarrow> ps_primary x)
           in rbind (create_source st t (n\<lparr>ns_primary := False\<rparr>)) (\<lambda>(s, st').
             Inr (s, inherits, append_audit (Some actor) ''source.created'' ''project_source'' (ps_id s) (Some (ns_project n)) request st'))
       | Some s \<Rightarrow> if creation_identity n s then Inr (s, False, st) else Inl creation_key_conflict) = Inr (source, inherits, st1)"
    and sel: "select_content st1 now t fresh source c actor request = Inr ((v, dedup), s, st2)"
    and prom: "(if executable_kind (ns_kind n)
         then let primary = get_versioned_primary_executable st2 (ns_project n)
           in if ns_primary n \<or> primary = None \<or> inherits
              then rbind (promote_executable st2 (ns_project n) (ps_id s)) (\<lambda>(r, st').
                case r of None \<Rightarrow> Inl not_promoted
                | Some s' \<Rightarrow> Inr (s', if map_option ps_id primary = Some (ps_id s') then st'
                    else append_audit (Some actor) ''source.primary_promoted'' ''project_source'' (ps_id s') (Some (ns_project n)) request st'))
              else Inr (s, st2)
         else Inr (s, st2)) = Inr (final, st3)" and st': "commit st3 = Inr st'"
    unfolding persist_created_source_def rbind_Inr_iff split_paired_Ex prod.case by auto
  have "same_rows st st1" using start
    by (auto simp: Let_def rbind_Inr_iff dest!: create_source_rows split: option.splits if_splits)
  then have "hands_over st st1" using hands_over_same [OF hands_over_refl [OF assms(2)]] by blast
  moreover have "wf_store st1" using \<open>same_rows st st1\<close> assms(2) by (simp add: same_rows_facts)
  ultimately have "hands_over st st2" using select_content_hands_over [OF sel] hands_over_then by blast
  moreover have "same_rows st2 st3" using prom
    by (auto simp: Let_def rbind_Inr_iff dest!: promote_rows split: option.splits if_splits)
  ultimately show ?thesis using st' hands_over_same by (simp add: commit_same)
qed

lemma remove_source_hands_over:
  assumes del: "remove_source src clk i st p sid actor request = Inr (j, st')" and src: "fresh_source src" and wf: "wf_store st"
    and new: "i \<notin> cj_id ` set (jobs (st_cleanup st))" "cj_id j = i"
  shows "hands_over st st'"
proof -
  from del obtain source st1 st2 st3 where cap: "capture_source_delete src clk i p sid actor request st = Inr (j, st1)"
    and d: "delete_source st1 sid = Inr (True, st2)"
    and repl: "(case replacement_primary st1 p source of
         None \<Rightarrow> Inr st2
       | Some x \<Rightarrow> rbind (promote_executable st2 p (ps_id x)) (\<lambda>(r, st').
           if r = None then Inl (Raised InvalidStateError ''Replacement primary source became unavailable'') else Inr st')) = Inr st3"
    and st': "same_rows st3 st'"
    unfolding remove_source_def rbind_Inr_iff split_paired_Ex prod.case
    by (auto simp: rbind_Inr_iff commit_same split: if_splits)
  have same: "same_rows st2 st'" using repl st'
    by (auto simp: rbind_Inr_iff dest!: promote_rows intro: same_rows_trans split: option.splits if_splits)
  have wfc: "wf_cleanup (st_cleanup st)" using wf by (simp add: wf_store_def)
  note eff = capture_source_delete_effect [OF cap src wfc new]
  obtain db where st1: "st1 = st\<lparr>st_cleanup := db\<rparr>" "wf_cleanup db" using eff by (auto simp: capture_effect_def)
  let ?vids = "sv_id ` set (filter (\<lambda>v. sv_source v = sid) (st_versions st))"
  have "st_versions st2 = filter (\<lambda>v. sv_source v \<noteq> sid) (st_versions st)" "st_objects st2 = st_objects st" "st_cleanup st2 = db"
    "st_builds st2 = st_builds st" "st_generations st2 = st_generations st"
    using d st1 unfolding delete_source_def
    by (auto simp: rbind_Inr_iff dest!: update_sources_rows simp: same_rows_def split: if_splits)
  moreover have "filter (\<lambda>v. sv_source v \<noteq> sid) (st_versions st) = filter (\<lambda>v. sv_id v \<notin> ?vids) (st_versions st)"
    using wf distinct_map_the [of sv_id "st_versions st"] by (intro filter_cong) (auto simp: wf_store_def)
  ultimately have rem: "removes st1 {} ?vids st2" unfolding removes_def by (auto simp: st1 intro!: exI [of _ "\<lambda>_. True"])
  have "hands_over st st2"
  proof (rule removal_hands_over [OF wf eff rem, where db = db])
    show "st2 = st2\<lparr>st_cleanup := db\<rparr>" using \<open>st_cleanup st2 = db\<close> by simp
    fix v assume "v \<in> set (st_versions st)" "sv_id v \<in> ?vids"
    with wf distinct_map_the [of sv_id "st_versions st"] show "ObjectSpec (sv_storage_key v) \<in> set (source_targets st sid)"
      by (auto simp: wf_store_def source_targets_def)
  qed (use st1 \<open>st_cleanup st2 = db\<close> in auto)
  from this same show ?thesis by (rule hands_over_same)
qed

section \<open>Cancelled builds\<close>

lemma cancelled_rows:
  assumes "acknowledge_cancellation db now wall i tok = Inr (r, db')"
  shows "\<exists>P. (\<forall>b. P b \<longrightarrow> b_id b = i) \<and> builds db' = update_where P (cancel_row wall) (builds db)
    \<and> (index_generations db' = index_generations db \<or> index_generations db' = filter (\<lambda>g. g \<noteq> i) (index_generations db))"
proof -
  let ?P = "\<lambda>r. b_id r = i \<and> admission_token r = Some tok \<and> \<not> is_terminal r \<and> cancellation_requested_at r \<noteq> None"
  from assms obtain d where d: "update_builds ?P (cancel_row wall) db = Inr d"
    and db': "db' = d \<or> db' = d\<lparr>index_generations := filter (\<lambda>g. g \<noteq> i) (index_generations d)\<rparr>"
    unfolding acknowledge_cancellation_def Let_def rbind_Inr_iff split_paired_Ex by (auto split: if_splits option.splits)
  have "d = db\<lparr>builds := update_where ?P (cancel_row wall) (builds db)\<rparr>"
    using d by (auto simp: update_builds_def write_rows_def split: if_splits)
  with db' show ?thesis by (intro exI [of _ ?P]) auto
qed

lemma cancellation_hands_over:
  assumes ack: "acknowledge_build_cancellation src clk i st now b tok actor request = Inr ((r, Some j, changed), st')"
    and src: "fresh_source src" and wf: "wf_store st" and new: "i \<notin> cj_id ` set (jobs (st_cleanup st))" "cj_id j = i"
  shows "hands_over st st'"
proof -
  from ack obtain row where row: "find_by b_id b (st_builds st) = Some row" and open_row: "b_status row \<noteq> CANCELLED"
    by (auto simp: acknowledge_build_cancellation_def split: option.splits if_splits)
  define who where "who = (\<lambda>r::build_row. case actor of None \<Rightarrow> cancellation_requested_by r | Some a \<Rightarrow> Some a)"
  have "\<exists>(owned :: build_row) st1 db. capture_build_cancellation src clk i (b_project owned) b (cancellation_requested_by owned) request st = Inr (j, st1)
      \<and> acknowledge_cancellation (build_view st1) now (clk_wall clk) b tok = Inr (r, db)
      \<and> commit (append_audit (who r) ''build.cancelled'' ''build'' b (Some (b_project r)) request (with_builds db st1)) = Inr st'"
    using ack [unfolded acknowledge_build_cancellation_def row option.case if_not_P [OF open_row] rbind_Inr_iff split_paired_Ex prod.case]
    by (elim exE conjE) (simp add: who_def, blast)
  then obtain owned :: build_row and st1 db where cap: "capture_build_cancellation src clk i (b_project owned) b (cancellation_requested_by owned) request st = Inr (j, st1)"
    and can: "acknowledge_cancellation (build_view st1) now (clk_wall clk) b tok = Inr (r, db)"
    and com: "commit (append_audit (who r) ''build.cancelled'' ''build'' b (Some (b_project r)) request (with_builds db st1)) = Inr st'" by blast
  have st': "same_rows (with_builds db st1) st'" using com by (auto simp: commit_same)
  have wfc: "wf_cleanup (st_cleanup st)" using wf by (simp add: wf_store_def)
  note eff = capture_cancellation_effect [OF cap src wfc new row]
  obtain cdb where st1: "st1 = st\<lparr>st_cleanup := cdb\<rparr>" "wf_cleanup cdb" using eff by (auto simp: capture_effect_def)
  from cancelled_rows [OF can] obtain P where P: "\<forall>x. P x \<longrightarrow> b_id x = b"
    and rows: "builds db = update_where P (cancel_row (clk_wall clk)) (st_builds st)"
    and igs: "index_generations db = map ig_build (st_generations st) \<or> index_generations db = filter (\<lambda>g. g \<noteq> b) (map ig_build (st_generations st))"
    unfolding build_view_def st1 by auto
  have gens: "ig_build g \<in> set (index_generations db)" if "g \<in> set (st_generations st)" "ig_build g \<noteq> b" for g
    using igs that by auto
  let ?st2 = "with_builds db st1"
  have "map b_id (st_builds ?st2) = map b_id (st_builds st)"
    unfolding with_builds_def by (simp add: rows st1, rule update_where_map) (simp add: cancel_row_def release_admission_values_def)
  moreover have "\<exists>x'\<in>set (st_builds ?st2). b_id x' = b_id x \<and> manifest_storage_key x' = manifest_storage_key x
      \<and> artifact_storage_key x' = artifact_storage_key x" if "x \<in> set (st_builds st)" "b_id x \<notin> {b}" for x
    using that P by (intro bexI [of _ x]) (auto simp: with_builds_def rows update_where_in)
  moreover have "\<exists>Q. st_generations ?st2 = filter Q (st_generations st) \<and> (\<forall>g\<in>set (st_generations st). ig_build g \<notin> {b} \<longrightarrow> Q g)"
    using gens by (intro exI [of _ "\<lambda>g. ig_build g \<in> set (index_generations db)"]) (auto simp: with_builds_def st1)
  ultimately have rem: "removes st1 {b} {} ?st2"
    unfolding removes_def by (auto simp: st1 with_builds_def)
  have the_row: "x = row" if "x \<in> set (st_builds st)" "b_id x = b" for x
    using that row wf find_by_Some [OF row] distinct_map_the [of b_id "st_builds st"] by (auto simp: wf_store_def)
  have "hands_over st ?st2"
  proof (rule removal_hands_over [OF wf eff rem, where db = cdb])
    show "?st2 = ?st2\<lparr>st_cleanup := cdb\<rparr>" by (simp add: with_builds_def st1)
    show "ObjectSpec key \<in> set (build_targets st [row])" if "x \<in> set (st_builds st)" "b_id x \<in> {b}"
      "manifest_storage_key x = Some key \<or> artifact_storage_key x = Some key" for x key
      using that the_row [of x] by (auto intro!: build_specs)
    show "ObjectSpec key \<in> set (build_targets st [row])" if "g \<in> set (st_generations st)" "ig_build g \<in> {b}" "ig_chunk_key g = Some key" for g key
      using that wf find_by_Some [OF row] by (intro generation_specs [of st g key row]) (auto simp: wf_store_def)
  qed (use st1 in \<open>auto simp: with_builds_def\<close>)
  from this st' show ?thesis by (rule hands_over_same)
qed

section \<open>Guards and the worker\<close>

lemma guard_hands_over:
  assumes arm: "arm_orphan_guard src clk i nonce delay p key actor request st = (job, st')" and src: "fresh_source src"
    and wf: "wf_store st" and new: "fresh_job (st_cleanup st) i (''orphan-guard:'' @ uuid_str nonce)"
  shows "hands_over st st' \<and> tracked (st_cleanup st') key"
proof -
  obtain j db where created: "create_job clk i OrphanGuard (''orphan-guard:'' @ uuid_str nonce) (Some p) actor request (st_cleanup st) = (j, db)" by fastforce
  have wfc: "wf_cleanup (st_cleanup st)" using wf by (simp add: wf_store_def)
  note facts = fresh_job_created [OF new wfc created, of "ts_sha src"]
  let ?db = "add_object_target src clk i key (Some (clk_wall clk + delay)) db"
  have st': "st' = st\<lparr>st_cleanup := ?db\<rparr>" using arm created facts by (auto simp: arm_orphan_guard_def open_job_def)
  have none: "\<not> (\<exists>x\<in>set (targets db). ct_job x = i)"
    using facts wfc new unfolding wf_cleanup_def wf_rows_def fresh_job_def by metis
  then have "tracked ?db key"
    by (auto simp: add_object_target_def insert_target_def new_target_def tracked_def tracks_def)
  moreover have "wf_cleanup ?db" using facts src by (intro wf_add_object) (auto simp: fresh_source_def)
  moreover have "keeps_tracked (st_cleanup st) ?db"
    using facts keeps_tracked_trans [OF keeps_tracked_same keeps_tracked_insert] by (simp add: add_object_target_def)
  ultimately show ?thesis using wf by (simp add: st' hands_over_def wf_store_def object_is_referenced_def)
qed

lemma cleanup_only_hands_over:
  "wf_store st \<Longrightarrow> wf_cleanup db \<Longrightarrow> keeps_tracked (st_cleanup st) db \<Longrightarrow> hands_over st (st\<lparr>st_cleanup := db\<rparr>)"
  by (simp add: hands_over_def wf_store_def object_is_referenced_def)

lemma completed_identity:
  assumes "mark_target_completed clk i skipped tok attempt db = (ok, db')"
  shows "\<exists>f. (\<forall>t. same_target t (f t)) \<and> get_target db' k = map_option f (get_target db k)"
proof (cases "db' = db")
  case True
  then show ?thesis by (intro exI [of _ id]) (simp add: option.map_id)
next
  case False
  with assms obtain j where "db' = refresh_job clk j (update_targets clk (\<lambda>x. ct_id x = i) (completed_target skipped) db)"
    by (auto simp: mark_target_completed_def split: option.splits if_splits)
  then have "get_target db' k = map_option (\<lambda>t. if ct_id t = i then (completed_target skipped t)\<lparr>ct_updated := clk_txn clk\<rparr> else t) (get_target db k)"
    by (simp add: get_target_update)
  then show ?thesis
    by (intro exI [of _ "\<lambda>t. if ct_id t = i then (completed_target skipped t)\<lparr>ct_updated := clk_txn clk\<rparr> else t"]) simp
qed

text \<open>Completing a target is safe when its object is referenced or gone.\<close>

lemma completed_no_orphans:
  assumes "mark_target_completed clk i skipped tok attempt (st_cleanup st) = (ok, db')" "wf_store st" "no_orphans st"
    and "\<And>t key. get_target (st_cleanup st) i = Some t \<Longrightarrow> ct_storage_key t = Some key \<Longrightarrow> key \<in> st_objects st \<Longrightarrow> object_is_referenced st key"
  shows "wf_store (st\<lparr>st_cleanup := db'\<rparr>) \<and> no_orphans (st\<lparr>st_cleanup := db'\<rparr>)"
proof
  have wfc: "wf_cleanup (st_cleanup st)" using assms(2) by (simp add: wf_store_def)
  then show "wf_store (st\<lparr>st_cleanup := db'\<rparr>)" using assms(1,2) wf_completed by (auto simp: wf_store_def)
  show "no_orphans (st\<lparr>st_cleanup := db'\<rparr>)" unfolding no_orphans_def
  proof
    fix key assume "key \<in> st_objects (st\<lparr>st_cleanup := db'\<rparr>)"
    then have key: "key \<in> st_objects st" by simp
    have ref: "object_is_referenced (st\<lparr>st_cleanup := db'\<rparr>) key = object_is_referenced st key" by (simp add: object_is_referenced_def)
    show "object_is_referenced (st\<lparr>st_cleanup := db'\<rparr>) key \<or> tracked (st_cleanup (st\<lparr>st_cleanup := db'\<rparr>)) key"
    proof (cases "object_is_referenced st key")
      case False
      with assms(3) key have tr: "tracked (st_cleanup st) key" by (auto simp: no_orphans_def)
      show ?thesis
      proof (cases "get_target (st_cleanup st) i")
        case None
        with assms(1) have "db' = st_cleanup st" by (auto simp: mark_target_completed_def)
        with tr show ?thesis by simp
      next
        case (Some t)
        with False key assms(4) have "ct_storage_key t \<noteq> Some key" by blast
        with completed_tracks_others [OF assms(1) wfc Some tr] show ?thesis by simp
      qed
    qed (simp add: ref)
  qed
qed

lemma resolve_no_orphans:
  assumes "wf_store st" "no_orphans st"
  shows "wf_store (resolve_orphan_guard clk job st) \<and> no_orphans (resolve_orphan_guard clk job st)"
proof -
  have "wf_store (fold (resolve_target clk) ts st) \<and> no_orphans (fold (resolve_target clk) ts st)"
    if "\<forall>t\<in>set ts. \<exists>t'. get_target (st_cleanup st) (ct_id t) = Some t' \<and> ct_storage_key t' = ct_storage_key t"
      "wf_store st" "no_orphans st" for ts st
    using that
  proof (induction ts arbitrary: st)
    case (Cons t ts)
    show ?case
    proof (cases "\<exists>key. ct_storage_key t = Some key \<and> object_is_referenced st key")
      case True
      then obtain key where key: "ct_storage_key t = Some key" "object_is_referenced st key" by blast
      obtain ok db where m: "mark_target_completed clk (ct_id t) True None None (st_cleanup st) = (ok, db)" by fastforce
      have "wf_store (st\<lparr>st_cleanup := db\<rparr>) \<and> no_orphans (st\<lparr>st_cleanup := db\<rparr>)"
        by (rule completed_no_orphans [OF m]) (use Cons.prems key in auto)
      moreover have "\<exists>y'. get_target db (ct_id y) = Some y' \<and> ct_storage_key y' = ct_storage_key y" if "y \<in> set ts" for y
        using completed_identity [OF m, of "ct_id y"] Cons.prems(1) that by (auto simp: same_target_def)
      ultimately show ?thesis using Cons.IH [of "st\<lparr>st_cleanup := db\<rparr>"] key m by (simp add: resolve_target_def)
    next
      case False
      then have "resolve_target clk t st = st" by (auto simp: resolve_target_def split: option.split)
      with Cons show ?thesis by simp
    qed
  qed simp
  moreover have "\<exists>t'. get_target (st_cleanup st) (ct_id t) = Some t' \<and> ct_storage_key t' = ct_storage_key t"
    if "t \<in> set (job_targets (st_cleanup st) job)" for t
    using that assms(1) find_by_distinct [of ct_id "targets (st_cleanup st)" t]
    by (auto simp: job_targets_def get_target_def wf_store_def wf_cleanup_def wf_rows_def)
  ultimately show ?thesis using assms unfolding resolve_orphan_guard_def by blast
qed

lemma terminal_audit_rows: "same_rows st (append_terminal_audit job st)"
  by (simp add: append_terminal_audit_def split: option.split)

lemma no_orphans_same: "same_rows st st' \<Longrightarrow> wf_store st \<and> no_orphans st \<Longrightarrow> wf_store st' \<and> no_orphans st'"
  by (simp add: no_orphans_def same_rows_facts)

lemma fewer_objects: "no_orphans st \<Longrightarrow> no_orphans (st\<lparr>st_objects := st_objects st - K\<rparr>)"
  "wf_store (st\<lparr>st_objects := X\<rparr>) = wf_store st"
  by (auto simp: no_orphans_def object_is_referenced_def wf_store_def)

lemma delete_external_effect:
  assumes "delete_external out t st = (st1, r)" "target_checks t"
  shows "st_cleanup st1 = st_cleanup st \<and> (wf_store st \<and> no_orphans st \<longrightarrow> wf_store st1 \<and> no_orphans st1)
    \<and> (\<forall>ok key. r = Inr ok \<longrightarrow> ct_storage_key t = Some key \<longrightarrow> key \<in> st_objects st1 \<longrightarrow> object_is_referenced st1 key)"
proof (cases "ct_type t")
  case ObjectTarget
  then obtain key where key: "ct_storage_key t = Some key" using assms(2) by (auto simp: target_checks_def target_shape_def)
  with ObjectTarget assms(1) have "st1 = st \<and> object_is_referenced st key \<or>
      (st1 = st\<lparr>st_objects := st_objects st - {key}\<rparr> \<or> st1 = st \<and> (\<exists>e. r = Inl e))"
    by (cases out) (auto simp: delete_external_def split: if_splits)
  then show ?thesis using key fewer_objects by (auto simp: object_is_referenced_def)
next
  case VectorTarget
  then have "ct_storage_key t = None" using assms(2) by (auto simp: target_checks_def target_shape_def)
  moreover have "st1 = st \<or> (\<exists>V. st1 = st\<lparr>st_vectors := V\<rparr>)"
    using assms(1) VectorTarget by (auto simp: delete_external_def split: option.splits if_splits)
  then have "same_rows st st1" by (auto simp: same_rows_def)
  ultimately show ?thesis using no_orphans_same [OF \<open>same_rows st st1\<close>] by (simp add: same_rows_facts)
qed

lemma process_no_orphans:
  assumes "wf_store st" "no_orphans st"
  shows "wf_store (process_target cfg clk clk2 out target st) \<and> no_orphans (process_target cfg clk clk2 out target st)"
proof (cases "Option.bind (ct_token target) (\<lambda>tok. lock_claimed_target clk (ct_id target) tok (ct_attempts target) (st_cleanup st))")
  case None
  then have "process_target cfg clk clk2 out target st = st" by (auto simp: process_target_def split: option.splits)
  with assms show ?thesis by simp
next
  case (Some t)
  then obtain tok where tok: "ct_token target = Some tok"
    and lock: "lock_claimed_target clk (ct_id target) tok (ct_attempts target) (st_cleanup st) = Some t"
    by (auto simp: bind_eq_Some_conv)
  have got: "get_target (st_cleanup st) (ct_id target) = Some t" using lock
    by (auto simp: lock_claimed_target_def split: option.splits if_splits)
  then have t: "t \<in> set (targets (st_cleanup st))" "ct_id t = ct_id target" by (auto simp: get_target_def dest: find_by_Some)
  then have checks: "target_checks t" using assms(1) by (auto simp: wf_store_def wf_cleanup_def wf_rows_def)
  obtain st1 r where ext: "delete_external out t st = (st1, r)" by fastforce
  note eff = delete_external_effect [OF ext checks]
  show ?thesis
  proof (cases r)
    case (Inl e)
    obtain ok db where f: "mark_target_failed clk2 (ct_id t) (failure_code e) (failure_summary e) (wc_max_attempts cfg)
        (cleanup_retry_delay (wc_interval cfg) (ct_attempts t)) tok (ct_attempts t) (st_cleanup st1) = (ok, db)" by fastforce
    have "hands_over st1 (st1\<lparr>st_cleanup := db\<rparr>)"
      using eff assms f by (intro cleanup_only_hands_over) (auto simp: wf_store_def intro: wf_failed keeps_tracked_failed)
    then have "wf_store (st1\<lparr>st_cleanup := db\<rparr>) \<and> no_orphans (st1\<lparr>st_cleanup := db\<rparr>)"
      using hands_over_no_orphans eff assms by blast
    then show ?thesis using no_orphans_same [OF terminal_audit_rows]
      by (simp add: process_target_def tok lock ext Inl fail_target_def f Let_def)
  next
    case (Inr referenced)
    obtain ok db where m: "mark_target_completed clk (ct_id t) referenced (Some tok) (Some (ct_attempts t)) (st_cleanup st1) = (ok, db)" by fastforce
    have "wf_store (st1\<lparr>st_cleanup := db\<rparr>) \<and> no_orphans (st1\<lparr>st_cleanup := db\<rparr>)"
      by (rule completed_no_orphans [OF m]) (use eff assms got t Inr in auto)
    then show ?thesis using no_orphans_same [OF terminal_audit_rows]
      by (simp add: process_target_def tok lock ext Inr m Let_def)
  qed
qed

section \<open>The store as a system\<close>

text \<open>
  Transactions of the API, the build pipeline and the clean-up worker interleave. An object enters
  the storage while a guard stands for it (or while it is referenced already); the pipeline
  publishes references but takes none away (\<open>ss_publish\<close>); a job opened for a deletion is a new one.
\<close>

inductive store_step :: "store \<Rightarrow> store \<Rightarrow> bool" where
  ss_guard: "fresh_source src \<Longrightarrow> fresh_job (st_cleanup st) i (''orphan-guard:'' @ uuid_str nonce)
    \<Longrightarrow> arm_orphan_guard src clk i nonce delay p key actor request st = (job, st') \<Longrightarrow> store_step st st'"
| ss_put: "object_is_referenced st key \<or> tracked (st_cleanup st) key \<Longrightarrow> store_step st (st\<lparr>st_objects := insert key (st_objects st)\<rparr>)"
| ss_release: "store_step st (release_orphan_guard clk job st)"
| ss_resolve: "store_step st (resolve_orphan_guard clk job st)"
| ss_plain: "create_plain_source env pol st t fresh p kind name origin url primary actor request = Inr (s, st') \<Longrightarrow> store_step st st'"
| ss_update: "update_source st p i name primary actor request = Inr (s, st') \<Longrightarrow> store_step st st'"
| ss_version: "persist_version st now t fresh source c actor request = Inr (res, st') \<Longrightarrow> store_step st st'"
| ss_create: "persist_created_source st now t fresh n c actor request = Inr (res, st') \<Longrightarrow> store_step st st'"
| ss_delete: "fresh_source src \<Longrightarrow> i \<notin> cj_id ` set (jobs (st_cleanup st)) \<Longrightarrow> cj_id j = i
    \<Longrightarrow> remove_source src clk i st p sid actor request = Inr (j, st') \<Longrightarrow> store_step st st'"
| ss_cancel: "fresh_source src \<Longrightarrow> i \<notin> cj_id ` set (jobs (st_cleanup st)) \<Longrightarrow> cj_id j = i
    \<Longrightarrow> acknowledge_build_cancellation src clk i st now b tok actor request = Inr ((r, Some j, changed), st') \<Longrightarrow> store_step st st'"
| ss_retention: "fresh_source src \<Longrightarrow> i \<notin> cj_id ` set (jobs (st_cleanup st)) \<Longrightarrow> cj_id j = i
    \<Longrightarrow> prepare_retention_job src clk i locked p keep days st = Inr (Some j, st1) \<Longrightarrow> commit st1 = Inr st' \<Longrightarrow> store_step st st'"
| ss_claim: "claim_due_targets clk limit lease elig locked tk (st_cleanup st) = (ts, db) \<Longrightarrow> store_step st (st\<lparr>st_cleanup := db\<rparr>)"
| ss_process: "store_step st (process_target cfg clk clk2 out target st)"
| ss_publish: "wf_store (st\<lparr>st_builds := bs, st_generations := gs\<rparr>)
    \<Longrightarrow> (\<And>key. object_is_referenced st key \<Longrightarrow> object_is_referenced (st\<lparr>st_builds := bs, st_generations := gs\<rparr>) key)
    \<Longrightarrow> store_step st (st\<lparr>st_builds := bs, st_generations := gs\<rparr>)"

lemma same_rows_no_orphans: "wf_store st \<Longrightarrow> no_orphans st \<Longrightarrow> same_rows st st' \<Longrightarrow> wf_store st' \<and> no_orphans st'"
  using no_orphans_same by blast

lemma plain_rows: "create_plain_source env pol st t fresh p kind name origin url primary actor request = Inr (s, st') \<Longrightarrow> same_rows st st'"
  unfolding create_plain_source_def
  by (auto simp: rbind_Inr_iff commit_same dest!: create_source_rows split: if_splits)

lemma update_source_stages:
  assumes upd: "update_source st p i name primary actor request = Inr (s, st')"
  shows "\<exists>st1 st2. (st1 = st \<or> (\<exists>n r. update_name st i n = Inr (Some r, st1)))
    \<and> (st2 = st1 \<or> (\<exists>r. promote_executable st1 p i = Inr (Some r, st2)))
    \<and> st' = append_audit (Some actor) ''source.updated'' ''project_source'' i (Some p) request st2"
proof -
  define A where "A = (\<lambda>source. case name of None \<Rightarrow> Inr (source, st)
       | Some n \<Rightarrow> if strip n = [] then Inl (Raised SourceParseError ''Source name cannot be empty'')
           else rbind (update_name st i (strip n)) (\<lambda>(r, st').
             case r of None \<Rightarrow> Inl (Unexpected ''AssertionError'') | Some s \<Rightarrow> Inr (s, st')))"
  define B where "B = (\<lambda>updated st1. if primary = Some True
         then rbind (promote_executable st1 p i) (\<lambda>(r, st').
           case r of None \<Rightarrow> Inl (Raised InvalidStateError ''Only a versioned executable source can be promoted to primary'')
           | Some s \<Rightarrow> Inr (s, st'))
         else Inr (updated, st1))"
  have "update_source st p i name primary actor request = rbind (lock_project st p) (\<lambda>_. rbind (require_source st p i) (\<lambda>source.
      rbind (A source) (\<lambda>(updated, st1). if primary = Some False \<and> ps_primary updated
        then Inl (Raised InvalidStateError ''Promote another executable source instead of clearing the primary'')
        else rbind (B updated st1) (\<lambda>(final, st2).
          rbind (commit (append_audit (Some actor) ''source.updated'' ''project_source'' i (Some p) request st2)) (\<lambda>st3. Inr (final, st3))))))"
    unfolding update_source_def A_def B_def ..
  with upd obtain source updated st1 st2 where a: "A source = Inr (updated, st1)" and b: "B updated st1 = Inr (s, st2)"
    and c: "st' = append_audit (Some actor) ''source.updated'' ''project_source'' i (Some p) request st2"
    by (auto simp: rbind_Inr_iff commit_same split: if_splits)
  have "st1 = st \<or> (\<exists>n r. update_name st i n = Inr (Some r, st1))" using a
    by (auto simp: A_def rbind_Inr_iff split: option.splits if_splits)
  moreover have "st2 = st1 \<or> (\<exists>r. promote_executable st1 p i = Inr (Some r, st2))" using b
    by (auto simp: B_def rbind_Inr_iff split: option.splits if_splits)
  ultimately show ?thesis using c by blast
qed

lemma update_name_rows: "update_name st i n = Inr (r, st') \<Longrightarrow> same_rows st st'"
  by (auto simp: update_name_def rbind_Inr_iff dest!: update_sources_rows split: if_splits)

lemma update_source_rows:
  assumes "update_source st p i name primary actor request = Inr (s, st')"
  shows "same_rows st st'"
proof -
  obtain st1 st2 where stages: "st1 = st \<or> (\<exists>n r. update_name st i n = Inr (Some r, st1))"
    "st2 = st1 \<or> (\<exists>r. promote_executable st1 p i = Inr (Some r, st2))"
    "st' = append_audit (Some actor) ''source.updated'' ''project_source'' i (Some p) request st2"
    using update_source_stages [OF assms] by blast
  have "same_rows st st1" using stages(1) by (auto dest: update_name_rows)
  moreover have "same_rows st1 st2" using stages(2) by (auto dest: promote_rows)
  ultimately have "same_rows st st2" by (rule same_rows_trans)
  then show ?thesis unfolding stages(3) by simp
qed

lemma store_step_keeps: "store_step st st' \<Longrightarrow> wf_store st \<Longrightarrow> no_orphans st \<Longrightarrow> wf_store st' \<and> no_orphans st'"
proof (induction rule: store_step.induct)
  case (ss_guard src st i nonce clk delay p key actor request job st')
  then show ?case using guard_hands_over hands_over_no_orphans by blast
next
  case (ss_put st key)
  then show ?case by (auto simp: no_orphans_def object_is_referenced_def wf_store_def)
next
  case (ss_release st clk job)
  have "hands_over st (release_orphan_guard clk job st)" unfolding release_orphan_guard_def
    using ss_release by (intro cleanup_only_hands_over keeps_tracked_due wf_due) (auto simp: wf_store_def)
  with ss_release show ?case using hands_over_no_orphans by blast
next
  case (ss_retention src i st j clk locked p keep days st1 st')
  then show ?case using retention_hands_over hands_over_no_orphans unfolding commit_same by blast
next
  case (ss_claim clk limit lease elig locked tk st ts db)
  have "hands_over st (st\<lparr>st_cleanup := db\<rparr>)"
    by (rule cleanup_only_hands_over)
      (use ss_claim(2) wf_claim [OF ss_claim(1)] keeps_tracked_claim [OF ss_claim(1)] in \<open>auto simp: wf_store_def\<close>)
  with ss_claim show ?case using hands_over_no_orphans by blast
next
  case (ss_publish gs bs st)
  then show ?case by (auto simp: no_orphans_def)
next
  case (ss_plain env pol st t fresh p kind name origin url primary actor request s st')
  then show ?case using same_rows_no_orphans plain_rows by blast
next
  case (ss_update st p i name primary actor request s st')
  then show ?case using same_rows_no_orphans update_source_rows by blast
next
  case (ss_version st now t fresh source c actor request res st')
  then show ?case using persist_version_hands_over hands_over_no_orphans by blast
next
  case (ss_create st now t fresh n c actor request res st')
  then show ?case using persist_created_hands_over hands_over_no_orphans by blast
next
  case (ss_delete src i st j clk p sid actor request st')
  then show ?case using remove_source_hands_over hands_over_no_orphans by blast
next
  case (ss_cancel src i st j clk now b tok actor request r changed st')
  then show ?case using cancellation_hands_over hands_over_no_orphans by blast
qed (simp_all add: resolve_no_orphans process_no_orphans)

lemma store_reachable_keeps: "store_step\<^sup>*\<^sup>* st st' \<Longrightarrow> wf_store st \<Longrightarrow> no_orphans st \<Longrightarrow> wf_store st' \<and> no_orphans st'"
  by (induction rule: rtranclp_induct) (auto dest: store_step_keeps)

end
