(* ===== verification/CleanupProperties.thy ===== *)
theory CleanupProperties
  imports ObjectTracking
begin

text \<open>
  The properties of the clean-up: its tables stay consistent, a worker that lost its claim changes
  nothing, retention keeps what is protected, and no stored object is forgotten; with two
  executions that show where the code does not reach its aim.
\<close>

section \<open>The tables\<close>

lemma get_job_iff: "get_job db i = None \<longleftrightarrow> i \<notin> cj_id ` set (jobs db)"
  unfolding get_job_def find_by_None by blast


definition sample_source :: target_source where
  "sample_source = \<lparr>ts_sha = (\<lambda>s. s), ts_fresh = (\<lambda>ts. Suc (fold max (map ct_id ts) 0))\<rparr>"

definition sample_clocks :: "time \<Rightarrow> clocks" where
  "sample_clocks t = \<lparr>clk_wall = t, clk_txn = t\<rparr>"

definition sample_opened :: cleanup_db where
  "sample_opened = snd (create_job (sample_clocks 0) 1 SourceDelete ''source-delete:1'' (Some 1) None None \<lparr>jobs = [], targets = []\<rparr>)"

definition sample_captured :: cleanup_db where
  "sample_captured = add_object_target sample_source (sample_clocks 0) 1 ''k'' None sample_opened"

definition sample_claimed :: "cleanup_target list \<times> cleanup_db" where
  "sample_claimed = claim_due_targets (sample_clocks 5) 1 60 None (\<lambda>_. False) (\<lambda>_. 7) sample_captured"

definition sample_retried :: cleanup_db where
  "sample_retried = snd (mark_target_failed (sample_clocks 9) 1 ''timeout'' ''late'' 5 30 7 1 (snd sample_claimed))"

lemma fold_max_start: "a \<le> fold max xs (a::nat)"
proof (induction xs arbitrary: a)
  case (Cons y ys)
  from Cons [of "max y a"] show ?case by simp
qed simp

lemma fold_max: "x \<in> set xs \<Longrightarrow> x \<le> fold max xs (a::nat)"
proof (induction xs arbitrary: a)
  case (Cons y ys)
  then show ?case using fold_max_start [of "max y a" ys] by auto
qed simp

lemma sample_source_fresh: "fresh_source sample_source"
proof -
  have "ts_fresh sample_source ts \<notin> ct_id ` set ts" for ts
    using fold_max [of _ "map ct_id ts" 0] by (force simp: sample_source_def)
  then show ?thesis by (simp add: fresh_source_def sample_source_def)
qed

lemma step_create: "fresh \<notin> cj_id ` set (jobs db) \<Longrightarrow>
    cleanup_step \<lparr>cs_db = db, cs_issued = X\<rparr> \<lparr>cs_db = snd (create_job clk fresh kind idem p r q db), cs_issued = X\<rparr>"
  using cs_create [of fresh "\<lparr>cs_db = db, cs_issued = X\<rparr>" clk kind idem p r q] by (cases "create_job clk fresh kind idem p r q db") simp

lemma step_fail:
  "cleanup_step \<lparr>cs_db = db, cs_issued = X\<rparr> \<lparr>cs_db = snd (mark_target_failed clk i code summary m d tk a db), cs_issued = X\<rparr>"
  using cs_fail [of clk i code summary m d tk a "\<lparr>cs_db = db, cs_issued = X\<rparr>"]
  by (cases "mark_target_failed clk i code summary m d tk a db") simp

lemma step_claim:
  assumes "tk ` ct_id ` set (fst (claim_due_targets clk n l e lk tk db)) = Y" "Y \<inter> X = {}"
  shows "cleanup_step \<lparr>cs_db = db, cs_issued = X\<rparr> \<lparr>cs_db = snd (claim_due_targets clk n l e lk tk db), cs_issued = X \<union> Y\<rparr>"
  using cs_claim [of clk n l e lk tk "\<lparr>cs_db = db, cs_issued = X\<rparr>"] assms
  by (cases "claim_due_targets clk n l e lk tk db") auto

lemma sample_cleanup_run:
  "cleanup_step\<^sup>*\<^sup>* empty_cleanup \<lparr>cs_db = sample_captured, cs_issued = {}\<rparr>"
  "cleanup_step \<lparr>cs_db = sample_captured, cs_issued = {}\<rparr> \<lparr>cs_db = snd sample_claimed, cs_issued = {7}\<rparr>"
  "cleanup_step \<lparr>cs_db = snd sample_claimed, cs_issued = {7}\<rparr> \<lparr>cs_db = sample_retried, cs_issued = {7}\<rparr>"
proof -
  have fresh: "ts_fresh sample_source (targets db) \<notin> ct_id ` set (targets db)" for db
    using sample_source_fresh by (simp add: fresh_source_def)
  have "cleanup_step empty_cleanup \<lparr>cs_db = sample_opened, cs_issued = {}\<rparr>"
    unfolding empty_cleanup_def sample_opened_def by (rule step_create) simp
  moreover have "get_job sample_opened 1 \<noteq> None" by code_simp
  then have "cleanup_step \<lparr>cs_db = sample_opened, cs_issued = {}\<rparr> \<lparr>cs_db = sample_captured, cs_issued = {}\<rparr>"
    using cs_add_object [of sample_source "\<lparr>cs_db = sample_opened, cs_issued = {}\<rparr>" 1 "sample_clocks 0" "''k''" None]
      fresh [of sample_opened] by (simp add: sample_captured_def)
  ultimately show "cleanup_step\<^sup>*\<^sup>* empty_cleanup \<lparr>cs_db = sample_captured, cs_issued = {}\<rparr>" by (meson converse_rtranclp_into_rtranclp r_into_rtranclp)
  have "map ct_id (fst sample_claimed) = [1]" by code_simp
  then have "(\<lambda>_. 7::uuid) ` ct_id ` set (fst sample_claimed) = {7}" by (metis image_insert image_empty list.set(1) list.set(2) set_map)
  then show "cleanup_step \<lparr>cs_db = sample_captured, cs_issued = {}\<rparr> \<lparr>cs_db = snd sample_claimed, cs_issued = {7}\<rparr>"
    using step_claim [of "\<lambda>_. 7" "sample_clocks 5" 1 60 None "\<lambda>_. False" sample_captured "{7}" "{}"] by (simp add: sample_claimed_def)
  show "cleanup_step \<lparr>cs_db = snd sample_claimed, cs_issued = {7}\<rparr> \<lparr>cs_db = sample_retried, cs_issued = {7}\<rparr>"
    unfolding sample_retried_def by (rule step_fail)
qed


section \<open>Lost claims\<close>

text \<open>C35: A worker whose claim was taken away does no harm: once a token that was issued no longer owns a target,
  then however the queue moves on, a worker that still processes the target with that token finds no claim, records no
  failure, and leaves the database and the external stores exactly as they are.\<close>

theorem stale_cleanup_worker_is_harmless:
  assumes "cleanup_step\<^sup>*\<^sup>* s s'" "x \<in> cs_issued s" "target_token s i \<noteq> Some x"
    and "ct_id t = i" "ct_token t = Some x" "st_cleanup st = cs_db s'"
  shows "lock_claimed_target clk i x attempt (st_cleanup st) = None
    \<and> mark_target_failed clk i code summary m d x attempt (st_cleanup st) = (False, st_cleanup st)
    \<and> process_target cfg clk clk2 out t st = st"
proof -
  have "target_token s' i \<noteq> Some x" using cq.fenced [OF assms(1-3)] .
  then have lost: "\<And>y. get_target (st_cleanup st) i = Some y \<Longrightarrow> ct_token y \<noteq> Some x"
    by (simp add: target_token_def assms(6))
  have lock: "lock_claimed_target clk i x a (st_cleanup st) = None" for a clk
    using lost by (auto simp: lock_claimed_target_def split: option.split)
  moreover have "mark_target_failed clk i code summary m d x attempt (st_cleanup st) = (False, st_cleanup st)"
    using lost by (auto simp: mark_target_failed_def split: option.split)
  ultimately show ?thesis by (simp add: process_target_def assms(4,5))
qed

definition empty_store :: store where
  "empty_store = \<lparr>st_projects = [\<lparr>pr_id = 1, pr_hostname = ''h'', is_enabled = True, active_build = None, active_deployment = None\<rparr>],
     st_sources = [], st_versions = [], st_findings = [], st_builds = [], st_bindings = [], st_deployments = [], st_generations = [],
     st_snapshots = [], st_cleanup = \<lparr>jobs = [], targets = []\<rparr>, st_audit = [], st_objects = {}, st_vectors = {}\<rparr>"

definition sample_config :: worker_config where
  "sample_config = \<lparr>wc_interval = 5, wc_lease = 60, wc_max_attempts = 5, wc_retention_interval = 3600, wc_batch_size = 100\<rparr>"

theorem stale_cleanup_worker_is_harmless_witness:
  "process_target sample_config (sample_clocks 20) (sample_clocks 21) DeleteDone (hd (fst sample_claimed))
     (empty_store\<lparr>st_cleanup := sample_retried\<rparr>) = empty_store\<lparr>st_cleanup := sample_retried\<rparr>"
proof -
  let ?s = "\<lparr>cs_db = sample_retried, cs_issued = {7}\<rparr>"
  have "map_option ct_token (get_target sample_retried 1) = Some None" by code_simp
  then have "target_token ?s 1 \<noteq> Some 7" by (auto simp: target_token_def)
  moreover have "ct_id (hd (fst sample_claimed)) = 1" "ct_token (hd (fst sample_claimed)) = Some 7" by code_simp+
  ultimately show ?thesis
    using stale_cleanup_worker_is_harmless [of ?s ?s 7 1 "hd (fst sample_claimed)" "empty_store\<lparr>st_cleanup := sample_retried\<rparr>"] by simp
qed

section \<open>Retention\<close>

text \<open>A build outside the first \<open>n\<close> of the project has at least \<open>n\<close> builds with a later number.\<close>

lemma sorted_rank:
  assumes "sorted (map f xs)" "x \<in> set xs" "x \<notin> set (take n xs)" "distinct (map f xs)"
  shows "n \<le> card {y\<in>set xs. f y < (f x :: int)}"
proof -
  from assms(2,3) obtain k where k: "k < length xs" "xs ! k = x" "n \<le> k"
    by (metis in_set_conv_nth length_take min_less_iff_conj not_le nth_take)
  have "f (xs ! m) < f x" if "m < k" for m
  proof -
    have "f (xs ! m) \<le> f (xs ! k)" using sorted_nth_mono [OF assms(1), of m k] that k by simp
    moreover have "f (xs ! m) \<noteq> f (xs ! k)"
      using assms(4) that k nth_eq_iff_index_eq [of "map f xs" m k] by simp
    ultimately show ?thesis using k(2) by simp
  qed
  then have "set (take k xs) \<subseteq> {y\<in>set xs. f y < f x}" using k(1) by (auto simp: in_set_conv_nth) (metis less_trans)
  then have "card (set (take k xs)) \<le> card {y\<in>set xs. f y < f x}" by (intro card_mono) auto
  moreover have "card (set (take k xs)) = k"
    using assms(4) k(1) by (simp add: distinct_card distinct_map distinct_take)
  ultimately show ?thesis using k(3) by simp
qed

lemma candidate_build:
  assumes "b \<in> set (build_candidates st project keep)" "distinct (map b_sequence (filter (\<lambda>x. b_project x = pr_id project) (st_builds st)))"
  shows "b_project b = pr_id project \<and> is_terminal b \<and> active_build project \<noteq> Some (b_id b)
    \<and> (\<forall>d\<in>set (st_deployments st). d_project d = pr_id project \<longrightarrow> d_build d \<noteq> b_id b)
    \<and> (\<exists>k. keep = Some k \<and> k \<le> card {x\<in>set (st_builds st). b_project x = pr_id project \<and> b_sequence b < b_sequence x})"
proof -
  let ?rows = "all_builds st (pr_id project)"
  from assms(1) obtain k where k: "keep = Some k" "is_terminal b" and b: "b \<in> set ?rows" "b_id b \<notin> protected_builds st project keep"
    by (auto simp: build_candidates_def)
  have rows: "set ?rows = {x\<in>set (st_builds st). b_project x = pr_id project}" by (auto simp: all_builds_def)
  have "k \<noteq> 0" using b by (auto simp: protected_builds_def k(1) Let_def)
  have "b \<notin> set (take k ?rows)" using b(2) \<open>k \<noteq> 0\<close> by (auto simp: protected_builds_def k(1) Let_def)
  moreover have "distinct (map b_sequence ?rows)" using assms(2) by (simp add: all_builds_def distinct_map)
  then have "distinct (map (\<lambda>x. - b_sequence x) ?rows)" by (auto simp: distinct_map inj_on_def)
  ultimately have "k \<le> card {x\<in>set ?rows. - b_sequence x < - b_sequence b}"
    using sorted_rank [of "\<lambda>x. - b_sequence x" ?rows b k] b(1) by (simp add: all_builds_def)
  moreover have "{x\<in>set ?rows. - b_sequence x < - b_sequence b} = {x\<in>set (st_builds st). b_project x = pr_id project \<and> b_sequence b < b_sequence x}"
    unfolding rows by auto
  moreover have "d_build d \<noteq> b_id b" if "d \<in> set (st_deployments st)" "d_project d = pr_id project" for d
    using b(2) that unfolding protected_builds_def Let_def by force
  ultimately show ?thesis using k b by (auto simp: rows protected_builds_def Let_def)
qed

lemma candidate_version:
  assumes "v \<in> set (version_candidates st p removed cutoff)" "distinct (map sv_id (st_versions st))"
  shows "sv_created v < cutoff \<and> (\<forall>(b, x)\<in>set (st_bindings st). sb_version x = sv_id v \<longrightarrow> b \<in> removed)
    \<and> (\<exists>w\<in>set (st_versions st). sv_source w = sv_source v \<and> sv_created v \<le> sv_created w \<and> w \<notin> set (version_candidates st p removed cutoff))"
proof -
  from assms(1) obtain s :: project_source where v: "v \<in> set (drop 1 (source_versions_of st (ps_id s)))" "sv_created v < cutoff"
    "\<forall>(b, x)\<in>set (st_bindings st). sb_version x = sv_id v \<longrightarrow> b \<in> removed"
    by (auto simp: version_candidates_def list_all_iff)
  let ?rows = "source_versions_of st (ps_id s)"
  have set_rows: "set (source_versions_of st i) = {x\<in>set (st_versions st). sv_source x = i}" for i
    by (auto simp: source_versions_of_def newest_first_def)
  have dist: "distinct (source_versions_of st i)" for i
    using assms(2) by (simp add: source_versions_of_def newest_first_def distinct_map)
  obtain w rest where rows: "?rows = w # rest" using v(1) by (cases ?rows) auto
  then have "v \<in> set rest" using v(1) by simp
  have "sorted (map (\<lambda>r. (- sv_created r, - int (sv_id r))) ?rows)"
    by (simp add: source_versions_of_def newest_first_def)
  then have "(- sv_created w, - int (sv_id w)) \<le> (- sv_created v, - int (sv_id v))" using rows \<open>v \<in> set rest\<close> by auto
  then have "sv_created v \<le> sv_created w" by (auto simp: less_eq_prod_def)
  moreover have w: "w \<in> set (st_versions st)" "sv_source w = ps_id s" "sv_source v = ps_id s"
    using set_rows [of "ps_id s"] rows \<open>v \<in> set rest\<close> by auto
  moreover have "w \<notin> set (version_candidates st p removed cutoff)"
  proof
    assume "w \<in> set (version_candidates st p removed cutoff)"
    then obtain s' :: project_source where "w \<in> set (drop 1 (source_versions_of st (ps_id s')))" by (auto simp: version_candidates_def)
    moreover from this have "sv_source w = ps_id s'" using set_rows [of "ps_id s'"] in_set_dropD by fastforce
    ultimately have "w \<in> set (drop 1 ?rows)" using w(2) by simp
    with dist [of "ps_id s"] rows show False by simp
  qed
  ultimately show ?thesis using v(2,3) by auto
qed


definition sample_version :: "uuid \<Rightarrow> time \<Rightarrow> source_version" where
  "sample_version i created = \<lparr>sv_id = i, sv_source = 1, sv_sha256 = replicate 64 (CHR ''0'' ), sv_media_type = ''text'',
     sv_storage_key = digits_nat i, sv_size = 1, sv_format = ''markdown'', sv_etag = None, sv_last_modified = None, sv_created_by = 1,
     sv_created = created\<rparr>"

definition versioned_store :: "uuid \<Rightarrow> store" where
  \<comment> \<open>a source with two old versions, of which \<open>i\<close> is selected\<close>
  "versioned_store i = empty_store\<lparr>st_sources := [\<lparr>ps_id = 1, ps_project = 1, ps_kind = DocumentationSource, ps_name = ''d'',
       ps_origin = UploadOrigin, ps_url = None, ps_primary = False, ps_created = 0, ps_current = Some i, ps_selected_at = Some 2,
       ps_observed_at = Some 2, ps_etag = None, ps_last_modified = None\<rparr>],
     st_versions := [sample_version 1 0, sample_version 2 1]\<rparr>"

definition sample_retention :: "backend_error + cleanup_job option \<times> store" where
  "sample_retention = prepare_retention_job sample_source (sample_clocks 90000) 4 (\<lambda>_. False) 1 None (Some 1) (versioned_store 2)"


text \<open>When an earlier version of a source was selected again, the selected version is not the newest: retention
  picks it for deletion, the deferred foreign key of the source refuses the commit, and the retention of the project
  fails in this and every later cycle.\<close>

definition sample_retention_env :: retention_env where
  "sample_retention_env = \<lparr>re_source = sample_source, re_clocks = (\<lambda>_. sample_clocks 90000), re_fresh = (\<lambda>_. 4), re_locked = (\<lambda>_. False)\<rparr>"

lemma restored_version_blocks_retention:
  "retain_project sample_retention_env None (Some 1) 1 (0, False, versioned_store 1) = (0, True, versioned_store 1)"
proof -
  have "isl (rbind (prepare_retention_job sample_source (sample_clocks 90000) 4 (\<lambda>_. False) 1 None (Some 1) (versioned_store 1))
      (\<lambda>(j, st1). rbind (commit (case j of None \<Rightarrow> st1
         | Some job \<Rightarrow> append_audit None ''cleanup.retention_scheduled'' ''cleanup_job'' (cj_id job) (Some 1) None st1)) (\<lambda>st2. Inr (j \<noteq> None, st2))))"
    by code_simp
  then obtain e where e: "rbind (prepare_retention_job sample_source (sample_clocks 90000) 4 (\<lambda>_. False) 1 None (Some 1) (versioned_store 1))
      (\<lambda>(j, st1). rbind (commit (case j of None \<Rightarrow> st1
         | Some job \<Rightarrow> append_audit None ''cleanup.retention_scheduled'' ''cleanup_job'' (cj_id job) (Some 1) None st1)) (\<lambda>st2. Inr (j \<noteq> None, st2)))
      = Inl e" unfolding isl_def by blast
  show ?thesis unfolding retain_project_def sample_retention_env_def retention_env.select_convs prod.case e by simp
qed

section \<open>Stored objects\<close>


definition guarded_store :: store where
  "guarded_store = snd (arm_orphan_guard sample_source (sample_clocks 0) 1 2 900 1 ''k'' None None empty_store)"

lemma guarded_steps: "store_step empty_store guarded_store"
  "store_step guarded_store (guarded_store\<lparr>st_objects := insert ''k'' (st_objects guarded_store)\<rparr>)"
proof -
  have wf: "wf_store empty_store" by (simp add: empty_store_def wf_store_def wf_cleanup_def wf_rows_def)
  have new: "fresh_job (st_cleanup empty_store) 1 (''orphan-guard:'' @ uuid_str 2)" by (simp add: fresh_job_def empty_store_def)
  obtain job where arm: "arm_orphan_guard sample_source (sample_clocks 0) 1 2 900 1 ''k'' None None empty_store = (job, guarded_store)"
    unfolding guarded_store_def by (metis prod.collapse)
  show "store_step empty_store guarded_store" by (rule ss_guard [OF sample_source_fresh new arm])
  show "store_step guarded_store (guarded_store\<lparr>st_objects := insert ''k'' (st_objects guarded_store)\<rparr>)"
    by (rule ss_put) (use guard_hands_over [OF arm sample_source_fresh wf new] in blast)
qed


text \<open>
  The identifier of a source is chosen by the client, and the key of the clean-up job of a deletion is made from
  it. When a deleted source is created again under its identifier with the same content, its second deletion finds the
  finished job of the first: the target exists already and is completed, nothing stands for the object any more.
\<close>

definition new_doc :: new_source where
  "new_doc = \<lparr>ns_id = 5, ns_project = 1, ns_kind = DocumentationSource, ns_name = ''d'', ns_origin = UploadOrigin, ns_url = None, ns_primary = False\<rparr>"

definition doc_content :: stored_content where
  "doc_content = \<lparr>sc_sha256 = replicate 64 (CHR ''0''), sc_media_type = ''text'', sc_storage_key = ''k'', sc_size = 1, sc_format = ''markdown'',
     sc_etag = None, sc_last_modified = None\<rparr>"

definition result_store :: "'e + 'a \<times> store \<Rightarrow> store" where
  "result_store r = (case r of Inl _ \<Rightarrow> empty_store | Inr (_, st) \<Rightarrow> st)"

definition doc_uploaded :: "time \<Rightarrow> store \<Rightarrow> store" where
  "doc_uploaded t st = (let st' = result_store (persist_created_source st t t 9 new_doc doc_content 1 None)
     in st'\<lparr>st_objects := insert ''k'' (st_objects st')\<rparr>)"

definition doc_deleted :: "time \<Rightarrow> uuid \<Rightarrow> store \<Rightarrow> store" where
  "doc_deleted t i st = result_store (remove_source sample_source (sample_clocks t) i st 1 5 1 None)"

definition worker_ran :: "time \<Rightarrow> store \<Rightarrow> store" where
  "worker_ran t st = snd (process_due_targets_once sample_config
     \<lparr>we_claim_clocks = (\<lambda>_. sample_clocks t), we_process_clocks = (\<lambda>_. sample_clocks t), we_failure_clocks = (\<lambda>_. sample_clocks t),
      we_locked = (\<lambda>_ _. False), we_tokens = (\<lambda>_ _. 7), we_outcome = (\<lambda>_. DeleteDone)\<rparr> t st)"

definition deleted_once :: store where
  "deleted_once = worker_ran 20 (doc_deleted 10 3 (doc_uploaded 1 empty_store))"

definition deleted_twice :: store where
  "deleted_twice = worker_ran 50 (doc_deleted 40 4 (doc_uploaded 30 deleted_once))"

lemma reused_source_id_leaks_object:
  "''k'' \<notin> st_objects deleted_once" "st_sources deleted_twice = []" "st_versions deleted_twice = []"
  "''k'' \<in> st_objects deleted_twice" "\<not> object_is_referenced deleted_twice ''k''" "\<not> tracked (st_cleanup deleted_twice) ''k''"
  by code_simp+

end
