(* ===== verification/SourceProperties.thy ===== *)
theory SourceProperties
  imports CleanupProperties
begin

text \<open>
  The primary source of a project: at most one, always executable and with a selected version, and
  present as soon as some executable source of the project has a version.
\<close>

definition versioned_executable :: "project_source \<Rightarrow> bool" where
  "versioned_executable s \<longleftrightarrow> executable_kind (ps_kind s) \<and> ps_current s \<noteq> None"

definition has_primary :: "project_source list \<Rightarrow> uuid \<Rightarrow> bool" where
  "has_primary rows p \<longleftrightarrow> (\<exists>x\<in>set rows. ps_project x = p \<and> ps_primary x)"

definition primaries_ready :: "project_source list \<Rightarrow> bool" where
  "primaries_ready rows \<longleftrightarrow> (\<forall>s\<in>set rows. ps_primary s \<longrightarrow> versioned_executable s)"

definition primary_ok :: "project_source list \<Rightarrow> bool" where
  "primary_ok rows \<longleftrightarrow> sources_ok rows \<and> primaries_ready rows
     \<and> (\<forall>s\<in>set rows. versioned_executable s \<longrightarrow> has_primary rows (ps_project s))"

text \<open>The same while project \<open>p\<close> may still wait for its primary.\<close>

definition primary_but :: "uuid \<Rightarrow> project_source list \<Rightarrow> bool" where
  "primary_but p rows \<longleftrightarrow> sources_ok rows \<and> primaries_ready rows
     \<and> (\<forall>s\<in>set rows. versioned_executable s \<longrightarrow> ps_project s = p \<or> has_primary rows (ps_project s))"

lemma primary_but_done: "primary_but p rows \<Longrightarrow> has_primary rows p \<or> (\<forall>s\<in>set rows. ps_project s = p \<longrightarrow> \<not> versioned_executable s)
    \<Longrightarrow> primary_ok rows"
  by (auto simp: primary_but_def primary_ok_def)

lemma primary_ok_but: "primary_ok rows \<Longrightarrow> primary_but p rows"
  by (auto simp: primary_but_def primary_ok_def)

lemma update_sources_Inr: "update_sources P f st = Inr st' \<Longrightarrow>
    st' = st\<lparr>st_sources := update_where P f (st_sources st)\<rparr> \<and> sources_ok (st_sources st')"
  by (auto simp: update_sources_def write_sources_def split: if_splits)

lemma get_source_rows: "get_source st i = Some s \<Longrightarrow> s \<in> set (st_sources st) \<and> ps_id s = i"
  by (auto simp: get_source_def dest: find_by_Some)

lemma has_primary_update:
  assumes "\<And>s. ps_project (f s) = ps_project s \<and> ps_primary (f s) = ps_primary s"
  shows "has_primary (update_where P f rows) p = has_primary rows p"
  using assms by (auto simp: has_primary_def update_where_def)

text \<open>An update that keeps project, kind, primary and whether a version is selected keeps everything.\<close>

lemma update_keeps_primary:
  assumes upd: "update_sources P f st = Inr st'"
    and same: "\<And>s. ps_project (f s) = ps_project s \<and> ps_kind (f s) = ps_kind s \<and> ps_primary (f s) = ps_primary s
      \<and> (ps_current (f s) = None \<longleftrightarrow> ps_current s = None)"
    and ok: "primary_ok (st_sources st)"
  shows "primary_ok (st_sources st')"
proof -
  have rows: "st_sources st' = update_where P f (st_sources st)" "sources_ok (st_sources st')" using update_sources_Inr [OF upd] by auto
  have ve: "versioned_executable (f s) = versioned_executable s" for s using same [of s] by (simp add: versioned_executable_def)
  have hp: "has_primary (st_sources st') p = has_primary (st_sources st) p" for p
    unfolding rows(1) by (rule has_primary_update) (simp add: same)
  show ?thesis unfolding primary_ok_def primaries_ready_def
  proof (intro conjI ballI impI)
    fix s assume "s \<in> set (st_sources st')"
    then obtain s0 where s0: "s0 \<in> set (st_sources st)" "s = (if P s0 then f s0 else s0)"
      by (auto simp: rows(1) update_where_def)
    have eq: "ps_primary s = ps_primary s0" "versioned_executable s = versioned_executable s0" "ps_project s = ps_project s0"
      using s0(2) same ve by (simp_all)
    show "ps_primary s \<Longrightarrow> versioned_executable s" using ok s0(1) by (simp add: eq primary_ok_def primaries_ready_def)
    show "versioned_executable s \<Longrightarrow> has_primary (st_sources st') (ps_project s)" using ok s0(1) by (simp add: eq hp primary_ok_def)
  qed (rule rows(2))
qed

lemma promote_makes_primary:
  assumes prom: "promote_executable st p i = Inr (Some s, st')" and but: "primary_but p (st_sources st)"
  shows "primary_ok (st_sources st')"
proof -
  from prom obtain target st1 where target: "get_source st i = Some target" "ps_project target = p" "versioned_executable target"
    and u1: "update_sources (\<lambda>s. ps_project s = p \<and> executable_kind (ps_kind s) \<and> ps_id s \<noteq> i \<and> ps_primary s) (\<lambda>s. s\<lparr>ps_primary := False\<rparr>) st = Inr st1"
    and u2: "update_sources (\<lambda>s. ps_id s = i) (\<lambda>s. s\<lparr>ps_primary := True\<rparr>) st1 = Inr st'"
    by (auto simp: promote_executable_def versioned_executable_def rbind_Inr_iff split: option.splits if_splits)
  define g where "g = (\<lambda>s. s\<lparr>ps_primary := if ps_id s = i then True
    else if ps_project s = p \<and> executable_kind (ps_kind s) \<and> ps_primary s then False else ps_primary (s :: project_source)\<rparr>)"
  have rows: "st_sources st' = map g (st_sources st)" and ok: "sources_ok (st_sources st')"
    using update_sources_Inr [OF u1] update_sources_Inr [OF u2] by (auto simp: update_where_def g_def)
  have g: "ps_project (g s) = ps_project s" "versioned_executable (g s) = versioned_executable s" "ps_id (g s) = ps_id s" for s
    by (simp_all add: g_def versioned_executable_def)
  have only: "x = target" if "x \<in> set (st_sources st)" "ps_id x = i" for x
    using that get_source_rows [OF target(1)] but distinct_map_the [of ps_id "st_sources st"]
    by (auto simp: primary_but_def sources_ok_def)
  have prim: "ps_primary (g s) \<Longrightarrow> ps_id s = i \<or> ps_primary s" for s by (auto simp: g_def split: if_splits)
  have "has_primary (st_sources st') p"
    using get_source_rows [OF target(1)] target(2) by (auto simp: has_primary_def rows g g_def)
  moreover have "has_primary (st_sources st') q" if "has_primary (st_sources st) q" "q \<noteq> p" for q
    using that by (auto simp: has_primary_def rows g_def)
  ultimately show ?thesis using but ok target(3) only prim
    unfolding primary_ok_def primary_but_def primaries_ready_def by (auto simp: rows g dest!: prim) blast+
qed

lemma create_source_primary:
  assumes "create_source st t n = Inr (s, st')" "primary_ok (st_sources st)" "\<not> ns_primary n"
  shows "primary_ok (st_sources st') \<and> get_source st' (ps_id s) = Some s \<and> ps_id s = ns_id n \<and> ps_project s = ns_project n \<and> ps_kind s = ns_kind n"
proof -
  from assms(1,3) have rows: "st_sources st' = st_sources st @ [s]" "sources_ok (st_sources st')" "\<not> ps_primary s" "ps_current s = None"
    "ps_id s = ns_id n" "ps_project s = ns_project n" "ps_kind s = ns_kind n"
    by (auto simp: create_source_def write_sources_def Let_def rbind_Inr_iff split: if_splits)
  have "get_source st' (ps_id s) = Some s"
  proof (cases "get_source st' (ps_id s)")
    case (Some y)
    with get_source_rows [OF Some] rows(1,2) distinct_map_the [of ps_id "st_sources st'" y s] show ?thesis by (auto simp: sources_ok_def)
  qed (use rows(1) in \<open>simp add: get_source_def find_by_None\<close>)
  with rows assms(2) show ?thesis
    by (auto simp: primary_ok_def primaries_ready_def has_primary_def versioned_executable_def)
qed

text \<open>Selecting a version may leave its project waiting for a primary.\<close>

lemma select_current_but:
  assumes sel: "select_current_version st now i v e l = Inr (s, st')" and ok: "primary_ok (st_sources st)"
    and proj: "\<And>x. x \<in> set (st_sources st) \<Longrightarrow> ps_id x = i \<Longrightarrow> ps_project x = p"
  shows "primary_but p (st_sources st') \<and> (\<not> executable_kind (ps_kind s) \<longrightarrow> primary_ok (st_sources st'))
    \<and> get_source st' i = Some s \<and> ps_current s \<noteq> None
    \<and> (\<exists>x\<in>set (st_sources st). ps_id x = i \<and> ps_kind s = ps_kind x \<and> ps_project s = ps_project x \<and> ps_id s = i)"
proof -
  let ?f = "\<lambda>s. s\<lparr>ps_current := Some v, ps_selected_at := Some now, ps_observed_at := Some now, ps_etag := e, ps_last_modified := l\<rparr>"
  from sel have upd: "update_sources (\<lambda>s. ps_id s = i) ?f st = Inr st'" and got: "get_source st' i = Some s"
    by (auto simp: select_current_version_def rbind_Inr_iff split: if_splits option.splits)
  have rows: "st_sources st' = update_where (\<lambda>s. ps_id s = i) ?f (st_sources st)" "sources_ok (st_sources st')"
    using update_sources_Inr [OF upd] by auto
  have hp: "has_primary (st_sources st) q \<Longrightarrow> has_primary (st_sources st') q" for q
    unfolding rows(1) by (subst has_primary_update) simp_all
  have "primary_but p (st_sources st')"
    unfolding primary_but_def primaries_ready_def
  proof (intro conjI ballI impI)
    fix x assume "x \<in> set (st_sources st')"
    then obtain x0 where x0: "x0 \<in> set (st_sources st)" and x: "x = (if ps_id x0 = i then ?f x0 else x0)"
      by (auto simp: rows(1) update_where_def)
    show "ps_primary x \<Longrightarrow> versioned_executable x"
      using ok x0 x by (auto simp: primary_ok_def primaries_ready_def versioned_executable_def split: if_splits)
    show "versioned_executable x \<Longrightarrow> ps_project x = p \<or> has_primary (st_sources st') (ps_project x)"
      using ok x0 x proj hp by (auto simp: primary_ok_def split: if_splits)
  qed (rule rows(2))
  moreover have "primary_ok (st_sources st')" if no: "\<not> executable_kind (ps_kind s)"
  proof -
    have "x = s" if "x \<in> set (st_sources st')" "ps_id x = i" for x
      using that get_source_rows [OF got] rows(2) distinct_map_the [of ps_id "st_sources st'"] by (auto simp: sources_ok_def)
    then have other: "ps_id x \<noteq> i" if "x \<in> set (st_sources st')" "versioned_executable x" for x
      using that no by (auto simp: versioned_executable_def)
    have old: "x \<in> set (st_sources st)" if "x \<in> set (st_sources st')" "versioned_executable x" for x
      using other [OF that] that(1) by (auto simp: rows(1) update_where_def split: if_splits)
    with \<open>primary_but p (st_sources st')\<close> ok hp show ?thesis by (auto simp: primary_ok_def primary_but_def)
  qed
  moreover have "\<exists>x\<in>set (st_sources st). ps_id x = i \<and> s = ?f x"
    using get_source_rows [OF got] by (auto simp: rows(1) update_where_def split: if_splits)
  ultimately show ?thesis using got by auto
qed

lemma select_content_but:
  assumes sel: "select_content st now t fresh source c actor request = Inr (res, s, st')" and ok: "primary_ok (st_sources st)"
    and src: "get_source st (ps_id source) = Some source"
  shows "primary_but (ps_project source) (st_sources st') \<and> (\<not> executable_kind (ps_kind source) \<longrightarrow> primary_ok (st_sources st'))
    \<and> get_source st' (ps_id source) = Some s
    \<and> ps_current s \<noteq> None \<and> ps_kind s = ps_kind source \<and> ps_project s = ps_project source \<and> ps_id s = ps_id source"
proof -
  have "\<exists>v st1 st2. st_sources st1 = st_sources st \<and> st_sources st' = st_sources st2
    \<and> select_current_version st1 now (ps_id source) v (sc_etag c) (sc_last_modified c) = Inr (s, st2)"
  proof (cases "get_version_by_hash st (ps_id source) (sc_sha256 c)")
    case (Some v)
    from sel obtain st2 where "select_current_version st now (ps_id source) (sv_id v) (sc_etag c) (sc_last_modified c) = Inr (s, st2)"
      "st_sources st' = st_sources st2"
      unfolding select_content_def Some option.case rbind.simps prod.case rbind_Inr_iff split_paired_Ex
      by (auto simp: append_audit_def split: if_splits)
    then show ?thesis by blast
  next
    case None
    let ?new = "\<lambda>v st. append_audit (Some actor) ''source.version_created'' ''source_version'' (sv_id v) (Some (ps_project source)) request st"
    from sel obtain v st1 st2 where v: "create_version st t fresh (version_row (ps_id source) actor c) = Inr (v, st1)"
      and cur: "select_current_version (?new v st1) now (ps_id source) (sv_id v) (sc_etag c) (sc_last_modified c) = Inr (s, st2)"
      and st': "st_sources st' = st_sources st2"
      unfolding select_content_def None option.case rbind_Inr_iff split_paired_Ex prod.case by (auto simp: append_audit_def split: if_splits)
    have "st_sources (?new v st1) = st_sources st" using v by (auto simp: create_version_def append_audit_def Let_def split: if_splits)
    with cur st' show ?thesis by blast
  qed
  then obtain v st1 st2 where same: "st_sources st1 = st_sources st"
    and cur: "select_current_version st1 now (ps_id source) v (sc_etag c) (sc_last_modified c) = Inr (s, st2)"
    and st': "st_sources st' = st_sources st2" by blast
  have the: "x = source" if "x \<in> set (st_sources st)" "ps_id x = ps_id source" for x
    using that get_source_rows [OF src] ok distinct_map_the [of ps_id "st_sources st"] by (auto simp: primary_ok_def sources_ok_def)
  have "primary_but (ps_project source) (st_sources st2) \<and> (\<not> executable_kind (ps_kind s) \<longrightarrow> primary_ok (st_sources st2))
    \<and> get_source st2 (ps_id source) = Some s \<and> ps_current s \<noteq> None
    \<and> (\<exists>x\<in>set (st_sources st1). ps_id x = ps_id source \<and> ps_kind s = ps_kind x \<and> ps_project s = ps_project x \<and> ps_id s = ps_id source)"
    by (rule select_current_but [OF cur]) (use the ok in \<open>auto simp: same\<close>)
  then obtain x where x: "x \<in> set (st_sources st)" "ps_id x = ps_id source" "ps_kind s = ps_kind x" "ps_project s = ps_project x"
    "ps_id s = ps_id source" and rest: "primary_but (ps_project source) (st_sources st2)" "get_source st2 (ps_id source) = Some s"
    "ps_current s \<noteq> None" "\<not> executable_kind (ps_kind s) \<longrightarrow> primary_ok (st_sources st2)"
    by (auto simp: same)
  from the [OF x(1,2)] x rest show ?thesis by (simp add: st' get_source_def)
qed

lemma primary_query:
  assumes "get_versioned_primary_executable st p \<noteq> None"
  shows "has_primary (st_sources st) p"
proof -
  have "filter (\<lambda>s. ps_current s \<noteq> None) (primary_executables st p) \<noteq> []"
    using assms unfolding get_versioned_primary_executable_def first_row_def by (auto split: list.splits)
  then obtain x where "x \<in> set (primary_executables st p)" by (auto simp: filter_empty_conv)
  then show ?thesis by (auto simp: has_primary_def primary_executables_def)
qed

text \<open>Both ways to store a version end here: without a primary the source is promoted.\<close>

lemma promoted_or_had_primary:
  assumes but: "primary_but p (st_sources st)" and other: "\<not> executable_kind k \<longrightarrow> primary_ok (st_sources st)"
    and kept: "st_sources st' = st_sources st \<and> (executable_kind k \<longrightarrow> get_versioned_primary_executable st p \<noteq> None)
      \<or> (\<exists>r st1. promote_executable st p i = Inr (Some r, st1) \<and> st_sources st' = st_sources st1)"
  shows "primary_ok (st_sources st')"
  using kept
proof (elim disjE exE conjE)
  fix r st1 assume "promote_executable st p i = Inr (Some r, st1)" "st_sources st' = st_sources st1"
  with promote_makes_primary [OF _ but] show ?thesis by simp
next
  assume "st_sources st' = st_sources st" "executable_kind k \<longrightarrow> get_versioned_primary_executable st p \<noteq> None"
  then show ?thesis using other primary_but_done [OF but] primary_query by metis
qed

lemma require_source_Inr: "require_source st p i = Inr s \<longleftrightarrow> get_source st i = Some s \<and> ps_project s = p"
  by (auto simp: require_source_def split: option.splits if_splits)

lemma persist_version_primary:
  assumes run: "persist_version st now t fresh source c actor request = Inr (res, st')" and ok: "primary_ok (st_sources st)"
    and kind: "\<forall>s. get_source st (ps_id source) = Some s \<longrightarrow> ps_kind s = ps_kind source"
  shows "primary_ok (st_sources st')"
proof -
  from run obtain locked s st1 st2 where loc: "require_source st (ps_project source) (ps_id source) = Inr locked"
    and sel: "select_content st now t fresh locked c actor request = Inr (res, s, st1)"
    and prom: "(if executable_kind (ps_kind source) \<and> get_versioned_primary_executable st1 (ps_project source) = None
         then rbind (promote_executable st1 (ps_project source) (ps_id source)) (\<lambda>(r, st').
           if r = None then Inl not_promoted else Inr st') else Inr st1) = Inr st2" and com: "commit st2 = Inr st'"
    unfolding persist_version_def rbind_Inr_iff split_paired_Ex prod.case by auto
  have l: "get_source st (ps_id locked) = Some locked" "ps_project locked = ps_project source" "ps_kind locked = ps_kind source"
    "ps_id locked = ps_id source"
    using loc kind get_source_rows by (auto simp: require_source_Inr)
  note eff = select_content_but [OF sel ok l(1), unfolded l(2,3)]
  show ?thesis
  proof (rule promoted_or_had_primary)
    show "primary_but (ps_project source) (st_sources st1)" "\<not> executable_kind (ps_kind source) \<longrightarrow> primary_ok (st_sources st1)"
      using eff by auto
    show "st_sources st' = st_sources st1 \<and> (executable_kind (ps_kind source) \<longrightarrow> get_versioned_primary_executable st1 (ps_project source) \<noteq> None)
      \<or> (\<exists>r st2. promote_executable st1 (ps_project source) (ps_id source) = Inr (Some r, st2) \<and> st_sources st' = st_sources st2)"
      using prom com by (auto simp: rbind_Inr_iff commit_same split: if_splits)
  qed
qed

lemma persist_created_primary:
  assumes run: "persist_created_source st now t fresh n c actor request = Inr (res, st')" and ok: "primary_ok (st_sources st)"
  shows "primary_ok (st_sources st')"
proof -
  define A where "A = (case get_source st (ns_id n) of
         None \<Rightarrow>
           let inherits = (case latest_in_group st (ns_project n) (ns_name n) (ns_kind n) None of None \<Rightarrow> False | Some x \<Rightarrow> ps_primary x)
           in rbind (create_source st t (n\<lparr>ns_primary := False\<rparr>)) (\<lambda>(s, st').
             Inr (s, inherits, append_audit (Some actor) ''source.created'' ''project_source'' (ps_id s) (Some (ns_project n)) request st'))
       | Some s \<Rightarrow> if creation_identity n s then Inr (s, False, st) else Inl creation_key_conflict)"
  from run obtain source inherits st1 v dedup s st2 final st3 where
    start: "A = Inr (source, inherits, st1)"
    and sel: "select_content st1 now t fresh source c actor request = Inr ((v, dedup), s, st2)"
    and prom: "(if executable_kind (ns_kind n)
         then let primary = get_versioned_primary_executable st2 (ns_project n)
           in if ns_primary n \<or> primary = None \<or> inherits
              then rbind (promote_executable st2 (ns_project n) (ps_id s)) (\<lambda>(r, st').
                case r of None \<Rightarrow> Inl not_promoted
                | Some s' \<Rightarrow> Inr (s', if map_option ps_id primary = Some (ps_id s') then st'
                    else append_audit (Some actor) ''source.primary_promoted'' ''project_source'' (ps_id s') (Some (ns_project n)) request st'))
              else Inr (s, st2)
         else Inr (s, st2)) = Inr (final, st3)" and com: "commit st3 = Inr st'"
    unfolding persist_created_source_def A_def [symmetric] rbind_Inr_iff split_paired_Ex prod.case by auto
  have src: "primary_ok (st_sources st1) \<and> get_source st1 (ps_id source) = Some source \<and> ps_project source = ns_project n \<and> ps_kind source = ns_kind n"
  proof (cases "get_source st (ns_id n)")
    case None
    with start obtain st0 where new: "create_source st t (n\<lparr>ns_primary := False\<rparr>) = Inr (source, st0)" and st1: "st_sources st1 = st_sources st0"
      by (auto simp: A_def Let_def rbind_Inr_iff append_audit_def)
    from create_source_primary [OF new ok] show ?thesis by (auto simp: st1 get_source_def)
  next
    case (Some x)
    with start have "x = source" "st1 = st" "creation_identity n source" by (auto simp: A_def split: if_splits)
    with Some ok get_source_rows [OF Some] show ?thesis by (auto simp: creation_identity_def)
  qed
  have but: "primary_but (ns_project n) (st_sources st2)" "\<not> executable_kind (ns_kind n) \<longrightarrow> primary_ok (st_sources st2)"
    using select_content_but [OF sel] src by auto
  show ?thesis
  proof (rule promoted_or_had_primary [OF but])
    show "st_sources st' = st_sources st2 \<and> (executable_kind (ns_kind n) \<longrightarrow> get_versioned_primary_executable st2 (ns_project n) \<noteq> None)
      \<or> (\<exists>r st1. promote_executable st2 (ns_project n) (ps_id s) = Inr (Some r, st1) \<and> st_sources st' = st_sources st1)"
      using prom com by (auto simp: Let_def rbind_Inr_iff commit_same append_audit_def split: if_splits option.splits)
  qed
qed

lemma update_source_primary:
  assumes run: "update_source st p i name primary actor request = Inr (s, st')" and ok: "primary_ok (st_sources st)"
  shows "primary_ok (st_sources st')"
proof -
  obtain st1 st2 where stages: "st1 = st \<or> (\<exists>n r. update_name st i n = Inr (Some r, st1))"
    "st2 = st1 \<or> (\<exists>r. promote_executable st1 p i = Inr (Some r, st2))"
    "st' = append_audit (Some actor) ''source.updated'' ''project_source'' i (Some p) request st2"
    using update_source_stages [OF run] by blast
  have "primary_ok (st_sources st1)" if "update_name st i n = Inr (Some r, st1)" for n r
  proof -
    from that have "update_sources (\<lambda>s. ps_id s = i) (\<lambda>s. s\<lparr>ps_name := n\<rparr>) st = Inr st1"
      by (auto simp: update_name_def rbind_Inr_iff split: if_splits)
    then show ?thesis by (rule update_keeps_primary) (simp_all add: ok)
  qed
  then have "primary_ok (st_sources st1)" using stages(1) ok by auto
  then have "primary_ok (st_sources st2)" using stages(2) promote_makes_primary primary_ok_but by blast
  then show ?thesis by (simp add: stages(3) append_audit_def)
qed

lemma plain_source_primary:
  assumes "create_plain_source env pol st t fresh p kind name origin url primary actor request = Inr (s, st')" "primary_ok (st_sources st)"
  shows "primary_ok (st_sources st')"
proof -
  from assms(1) obtain n st1 where "create_source st t n = Inr (s, st1)" "\<not> ns_primary n" "st_sources st' = st_sources st1"
    unfolding create_plain_source_def by (auto simp: rbind_Inr_iff commit_same append_audit_def split: if_splits)
  with create_source_primary assms(2) show ?thesis by simp
qed

text \<open>Deleting: a deleted primary is replaced whenever a versioned executable source is left.\<close>

lemma first_row_Some: "first_row xs = Some x \<Longrightarrow> x \<in> set xs"
  by (auto simp: first_row_def split: list.splits)

lemma first_row_None: "first_row xs = None \<longleftrightarrow> xs = []"
  by (auto simp: first_row_def split: list.splits)

lemma first_versioned_None:
  "first_versioned_executable st p (Some i) = None \<longleftrightarrow>
    (\<forall>x\<in>set (st_sources st). ps_project x = p \<and> versioned_executable x \<longrightarrow> ps_id x = i)"
proof -
  have "sort_key f xs = [] \<longleftrightarrow> xs = []" for f :: "project_source \<Rightarrow> time \<times> uuid" and xs
    by (metis length_0_conv length_sort)
  then show ?thesis by (auto simp: first_versioned_executable_def oldest_first_def first_row_None filter_empty_conv versioned_executable_def)
qed

lemma replacement_None:
  assumes "replacement_primary st p s = None" "ps_primary s" "x \<in> set (st_sources st)" "ps_project x = p" "versioned_executable x"
  shows "ps_id x = ps_id s"
proof -
  have "first_versioned_executable st p (Some (ps_id s)) = None"
    using assms(1,2) by (auto simp: replacement_primary_def split: option.splits if_splits)
  with assms(3-5) show ?thesis by (auto simp: first_versioned_None)
qed

lemma delete_source_rows:
  "delete_source st i = Inr (True, st') \<Longrightarrow> st_sources st' = filter (\<lambda>s. ps_id s \<noteq> i) (st_sources st)"
  by (auto simp: delete_source_def rbind_Inr_iff update_where_def filter_map o_def intro!: map_idI dest!: update_sources_Inr split: if_splits)

lemma sources_ok_filter:
  assumes "sources_ok rows"
  shows "sources_ok (filter P rows)"
proof -
  have "filter Q (filter P rows) = filter P (filter Q rows)" for Q by (simp add: conj_commute)
  then have "one_primary (filter P rows)" using assms
    unfolding one_primary_def sources_ok_def by (metis distinct_map_filter)
  then show ?thesis using assms by (auto simp: sources_ok_def distinct_map_filter list_all_iff)
qed

lemma delete_but:
  assumes del: "delete_source st i = Inr (True, st')" and ok: "primary_ok (st_sources st)"
    and src: "get_source st i = Some source" "ps_project source = p"
  shows "primary_but p (st_sources st') \<and> (\<not> ps_primary source \<longrightarrow> primary_ok (st_sources st'))"
proof -
  have rows: "st_sources st' = filter (\<lambda>s. ps_id s \<noteq> i) (st_sources st)" by (rule delete_source_rows [OF del])
  have sok: "sources_ok (st_sources st')" "primaries_ready (st_sources st')"
    using ok sources_ok_filter by (auto simp: rows primary_ok_def primaries_ready_def)
  have the: "x = source" if "x \<in> set (st_sources st)" "ps_id x = i" for x
    using that get_source_rows [OF src(1)] ok distinct_map_the [of ps_id "st_sources st"] by (auto simp: primary_ok_def sources_ok_def)
  then have hp: "has_primary (st_sources st') q" if "has_primary (st_sources st) q" "q \<noteq> p \<or> \<not> ps_primary source" for q
    using that src(2) by (auto simp: has_primary_def rows)
  have old: "has_primary (st_sources st) (ps_project x)" if "x \<in> set (st_sources st')" "versioned_executable x" for x
    using that ok by (auto simp: rows primary_ok_def)
  show ?thesis unfolding primary_but_def primary_ok_def using sok hp old by blast
qed

lemma capture_source_rows: "capture_source_delete src clk fresh p i actor request st = Inr (j, st') \<Longrightarrow> st_sources st' = st_sources st"
  by (auto simp: capture_source_delete_def open_job_def close_job_def capture_source_targets_def add_targets_def Let_def split: prod.splits option.splits)

lemma remove_source_primary:
  assumes del: "remove_source src clk fresh st p i actor request = Inr (j, st')" and ok: "primary_ok (st_sources st)"
  shows "primary_ok (st_sources st')"
proof -
  from del obtain source st1 st2 st3 where cap: "capture_source_delete src clk fresh p i actor request st = Inr (j, st1)"
    and req: "require_source st p i = Inr source"
    and d: "delete_source st1 i = Inr (True, st2)"
    and repl: "(case replacement_primary st1 p source of
         None \<Rightarrow> Inr st2
       | Some x \<Rightarrow> rbind (promote_executable st2 p (ps_id x)) (\<lambda>(r, st').
           if r = None then Inl (Raised InvalidStateError ''Replacement primary source became unavailable'') else Inr st')) = Inr st3"
    and st': "st_sources st' = st_sources st3"
    unfolding remove_source_def rbind_Inr_iff split_paired_Ex prod.case
    by (auto simp: rbind_Inr_iff commit_same append_audit_def split: if_splits)
  have st1: "st_sources st1 = st_sources st" by (rule capture_source_rows [OF cap])
  have src: "get_source st1 i = Some source" "ps_project source = p" "ps_id source = i" "primary_ok (st_sources st1)"
    using req ok get_source_rows by (auto simp: require_source_Inr get_source_def st1)
  have but: "primary_but p (st_sources st2)" "\<not> ps_primary source \<longrightarrow> primary_ok (st_sources st2)"
    using delete_but [OF d src(4,1,2)] by auto
  show ?thesis
  proof (cases "replacement_primary st1 p source")
    case (Some x)
    with repl obtain r where "promote_executable st2 p (ps_id x) = Inr (Some r, st3)" by (auto simp: rbind_Inr_iff split: if_splits)
    from promote_makes_primary [OF this but(1)] show ?thesis by (simp add: st')
  next
    case None
    then have st3: "st3 = st2" using repl by simp
    have "\<not> versioned_executable x" if "x \<in> set (st_sources st2)" "ps_project x = p" "ps_primary source" for x
      using replacement_None [OF None that(3), of x] that(1,2) src(3) delete_source_rows [OF d] by auto
    with but primary_but_done [OF but(1)] show ?thesis unfolding st' st3 by blast
  qed
qed

section \<open>Every order of transactions\<close>

text \<open>
  The transactions that write the table of sources. The source handed to \<^const>\<open>persist_version\<close> was read before its
  content was fetched; only its kind is taken from that earlier row. All other transactions leave the table alone.
\<close>

inductive source_step :: "store \<Rightarrow> store \<Rightarrow> bool" where
  so_plain: "create_plain_source env pol st t fresh p kind name origin url primary actor request = Inr (s, st') \<Longrightarrow> source_step st st'"
| so_update: "update_source st p i name primary actor request = Inr (s, st') \<Longrightarrow> source_step st st'"
| so_version: "persist_version st now t fresh source c actor request = Inr (res, st')
    \<Longrightarrow> \<forall>s. get_source st (ps_id source) = Some s \<longrightarrow> ps_kind s = ps_kind source \<Longrightarrow> source_step st st'"
| so_create: "persist_created_source st now t fresh n c actor request = Inr (res, st') \<Longrightarrow> source_step st st'"
| so_observe: "observe_not_modified st now i expected etag modified = Inr (v, st') \<Longrightarrow> source_step st st'"
| so_delete: "remove_source src clk fresh st p i actor request = Inr (j, st') \<Longrightarrow> source_step st st'"
| so_other: "st_sources st' = st_sources st \<Longrightarrow> source_step st st'"

lemma observe_primary:
  assumes "observe_not_modified st now i expected etag modified = Inr (v, st')" "primary_ok (st_sources st)"
  shows "primary_ok (st_sources st')"
proof -
  let ?f = "\<lambda>x. x\<lparr>ps_observed_at := Some now, ps_etag := etag, ps_last_modified := modified\<rparr>"
  from assms(1) have "st' = st \<or> update_sources (\<lambda>x. ps_id x = i \<and> ps_current x = Some expected) ?f st = Inr st'"
    by (auto simp: observe_not_modified_def rbind_Inr_iff split: option.splits if_splits)
  then show ?thesis
  proof
    assume "update_sources (\<lambda>x. ps_id x = i \<and> ps_current x = Some expected) ?f st = Inr st'"
    then show ?thesis by (rule update_keeps_primary) (simp_all add: assms(2))
  qed (simp add: assms(2))
qed

lemma source_step_primary: "source_step st st' \<Longrightarrow> primary_ok (st_sources st) \<Longrightarrow> primary_ok (st_sources st')"
  by (induction rule: source_step.induct)
    (simp_all add: plain_source_primary update_source_primary persist_version_primary persist_created_primary
      observe_primary remove_source_primary)

lemma source_steps_primary: "source_step\<^sup>*\<^sup>* st st' \<Longrightarrow> primary_ok (st_sources st) \<Longrightarrow> primary_ok (st_sources st')"
  by (induction rule: rtranclp_induct) (auto dest: source_step_primary)

text \<open>C38: Whatever source transactions run, and in whatever order, a project has at most one primary source; the primary
  is an executable source with a selected version, and it exists as soon as an executable source of the project has one,
  also after the primary was deleted.\<close>

theorem one_ready_primary_source:
  assumes "source_step\<^sup>*\<^sup>* st st'" "st_sources st = []"
  shows "distinct (map ps_project (filter ps_primary (st_sources st')))
    \<and> (\<forall>s\<in>set (st_sources st'). ps_primary s \<longrightarrow> executable_kind (ps_kind s) \<and> ps_current s \<noteq> None)
    \<and> (\<forall>s\<in>set (st_sources st'). executable_kind (ps_kind s) \<and> ps_current s \<noteq> None \<longrightarrow>
        (\<exists>x\<in>set (st_sources st'). ps_project x = ps_project s \<and> ps_primary x))"
proof -
  have "primary_ok (st_sources st)" using assms(2) by (simp add: primary_ok_def sources_ok_def one_primary_def primaries_ready_def)
  with source_steps_primary assms(1) have ok: "primary_ok (st_sources st')" by blast
  then have "filter (\<lambda>s. ps_primary s \<and> executable_kind (ps_kind s)) (st_sources st') = filter ps_primary (st_sources st')"
    by (intro filter_cong) (auto simp: primary_ok_def primaries_ready_def versioned_executable_def)
  with ok show ?thesis
    by (simp add: primary_ok_def sources_ok_def one_primary_def primaries_ready_def versioned_executable_def has_primary_def)
qed

definition new_api :: "uuid \<Rightarrow> new_source" where
  "new_api i = \<lparr>ns_id = i, ns_project = 1, ns_kind = OpenapiSource, ns_name = ''api'', ns_origin = UploadOrigin, ns_url = None, ns_primary = False\<rparr>"

definition two_apis :: store where
  "two_apis = result_store (persist_created_source
     (result_store (persist_created_source empty_store 1 1 9 (new_api 5) doc_content 1 None)) 2 2 10 (new_api 6) doc_content 1 None)"

definition one_api_left :: store where
  "one_api_left = result_store (remove_source sample_source (sample_clocks 3) 3 two_apis 1 6 1 None)"

lemma result_store_Inr: "\<not> isl r \<Longrightarrow> \<exists>x. r = Inr (x, result_store r)"
  by (cases r) (auto simp: result_store_def)

theorem one_ready_primary_source_witness:
  "map (\<lambda>s. (ps_id s, ps_primary s)) (st_sources two_apis) = [(5, False), (6, True)]
   \<and> map (\<lambda>s. (ps_id s, ps_primary s)) (st_sources one_api_left) = [(5, True)]
   \<and> distinct (map ps_project (filter ps_primary (st_sources one_api_left)))"
proof -
  let ?a = "persist_created_source empty_store 1 1 9 (new_api 5) doc_content 1 None"
  let ?b = "persist_created_source (result_store ?a) 2 2 10 (new_api 6) doc_content 1 None"
  let ?c = "remove_source sample_source (sample_clocks 3) 3 two_apis 1 6 1 None"
  have "\<not> isl ?a" "\<not> isl ?b" "\<not> isl ?c" by code_simp+
  then obtain a b c where steps: "?a = Inr (a, result_store ?a)" "?b = Inr (b, two_apis)" "?c = Inr (c, one_api_left)"
    unfolding two_apis_def one_api_left_def using result_store_Inr by metis
  have "source_step empty_store (result_store ?a)" "source_step (result_store ?a) two_apis" "source_step two_apis one_api_left"
    by (rule so_create [OF steps(1)], rule so_create [OF steps(2)], rule so_delete [OF steps(3)])
  then have "source_step\<^sup>*\<^sup>* empty_store one_api_left" by (meson converse_rtranclp_into_rtranclp r_into_rtranclp)
  moreover have "st_sources empty_store = []" by (simp add: empty_store_def)
  moreover have "map (\<lambda>s. (ps_id s, ps_primary s)) (st_sources two_apis) = [(5, False), (6, True)]"
    "map (\<lambda>s. (ps_id s, ps_primary s)) (st_sources one_api_left) = [(5, True)]" by code_simp+
  ultimately show ?thesis using one_ready_primary_source by blast
qed

end
