(* ===== verification/UrlJoin.thy ===== *)
theory UrlJoin
  imports Url
begin

text \<open>
  The rest of what the parsers use of \<^verbatim>\<open>urllib.parse\<close>: six-part splitting, putting a URL together
  again, taking the fragment off and resolving a relative reference against a base.
\<close>

record parse_result =
  pu_scheme :: pystr
  pu_netloc :: pystr
  pu_path :: pystr
  pu_params :: pystr
  pu_query :: pystr
  pu_fragment :: pystr

definition uses_relative :: "pystr list" where
  "uses_relative = ['''', ''ftp'', ''http'', ''gopher'', ''nntp'', ''imap'', ''wais'', ''file'', ''https'', ''shttp'',
     ''mms'', ''prospero'', ''rtsp'', ''rtsps'', ''rtspu'', ''sftp'', ''svn'', ''svn+ssh'', ''ws'', ''wss'']"

definition uses_netloc :: "pystr list" where
  "uses_netloc = ['''', ''ftp'', ''http'', ''gopher'', ''nntp'', ''telnet'', ''imap'', ''wais'', ''file'', ''mms'', ''https'',
     ''shttp'', ''snews'', ''prospero'', ''rtsp'', ''rtsps'', ''rtspu'', ''rsync'', ''svn'', ''svn+ssh'', ''sftp'', ''nfs'',
     ''git'', ''git+ssh'', ''ws'', ''wss'', ''itms-services'']"

definition uses_params :: "pystr list" where
  "uses_params = ['''', ''ftp'', ''hdl'', ''prospero'', ''http'', ''imap'', ''https'', ''shttp'', ''rtsp'', ''rtsps'', ''rtspu'',
     ''sip'', ''sips'', ''mms'', ''sftp'', ''tel'']"

definition splitparams :: "pystr \<Rightarrow> pystr \<times> pystr" where
  \<comment> \<open>at the first semicolon of the last segment\<close>
  "splitparams url =
     (let tail = rev (takeWhile (\<lambda>c. c \<noteq> CHR ''/'') (rev url)); dir = take (length url - length tail) url
      in if CHR '';'' \<in> set tail then (dir @ before (CHR '';'') tail, snd (partition_on (CHR '';'') tail)) else (url, []))"

definition urlparse :: "(pystr \<Rightarrow> bool) \<Rightarrow> pystr \<Rightarrow> pystr \<Rightarrow> value_error + parse_result" where
  "urlparse bracketed_ok url default_scheme =
     rbind (urlsplit bracketed_ok url) (\<lambda>r.
       let sch = (if scheme r = [] then default_scheme else scheme r);
           (path, params) = (if sch \<in> set uses_params \<and> CHR '';'' \<in> set (url_path r) then splitparams (url_path r) else (url_path r, []))
       in Inr \<lparr>pu_scheme = sch, pu_netloc = netloc r, pu_path = path, pu_params = params, pu_query = query r, pu_fragment = fragment r\<rparr>)"

definition urlunparse :: "parse_result \<Rightarrow> pystr" where
  "urlunparse p =
     (let url = pu_path p @ (if pu_params p = [] then [] else '';'' @ pu_params p);
          u1 = (if pu_netloc p \<noteq> [] then ''//'' @ pu_netloc p @ (if url \<noteq> [] \<and> hd url \<noteq> CHR ''/'' then ''/'' else []) @ url
                else if startswith url ''//'' then ''//'' @ url
                else if pu_scheme p \<noteq> [] \<and> pu_scheme p \<in> set uses_netloc \<and> (url = [] \<or> hd url = CHR ''/'') then ''//'' @ url
                else url)
      in (if pu_scheme p = [] then [] else pu_scheme p @ '':'') @ u1
         @ (if pu_query p = [] then [] else ''?'' @ pu_query p)
         @ (if pu_fragment p = [] then [] else ''#'' @ pu_fragment p))"

definition urldefrag :: "(pystr \<Rightarrow> bool) \<Rightarrow> pystr \<Rightarrow> value_error + pystr \<times> pystr" where
  "urldefrag bracketed_ok url =
     (if CHR ''#'' \<in> set url
      then rbind (urlparse bracketed_ok url []) (\<lambda>p. Inr (urlunparse (p\<lparr>pu_fragment := []\<rparr>), pu_fragment p))
      else Inr (url, []))"

text \<open>The loop over the segments of the joined path, on the stack of the segments kept so far.\<close>

fun resolve_segments :: "pystr list \<Rightarrow> pystr list \<Rightarrow> pystr list" where
  "resolve_segments kept [] = rev kept"
| "resolve_segments kept (s # segs) =
     (if s = ''..'' then resolve_segments (drop 1 kept) segs
      else if s = ''.'' then resolve_segments kept segs
      else resolve_segments (s # kept) segs)"

definition join_segments :: "pystr \<Rightarrow> pystr \<Rightarrow> pystr list" where
  "join_segments base_path path =
     (let parts = split_on (CHR ''/'') base_path; base_parts = (if last parts \<noteq> [] then butlast parts else parts)
      in if startswith path ''/'' then split_on (CHR ''/'') path
         else let segs = base_parts @ split_on (CHR ''/'') path
              in if length segs < 2 then segs
                 else hd segs # filter (\<lambda>s. s \<noteq> []) (butlast (tl segs)) @ [last segs])"

definition urljoin :: "(pystr \<Rightarrow> bool) \<Rightarrow> pystr \<Rightarrow> pystr \<Rightarrow> value_error + pystr" where
  "urljoin bracketed_ok base url =
     (if base = [] then Inr url else if url = [] then Inr base
      else rbind (urlparse bracketed_ok base []) (\<lambda>b.
           rbind (urlparse bracketed_ok url (pu_scheme b)) (\<lambda>p.
             if pu_scheme p \<noteq> pu_scheme b \<or> pu_scheme p \<notin> set uses_relative then Inr url
             else if pu_scheme p \<in> set uses_netloc \<and> pu_netloc p \<noteq> [] then Inr (urlunparse p)
             else let q = (if pu_scheme p \<in> set uses_netloc then p\<lparr>pu_netloc := pu_netloc b\<rparr> else p)
               in if pu_path p = [] \<and> pu_params p = []
                  then Inr (urlunparse (q\<lparr>pu_path := pu_path b, pu_params := pu_params b,
                    pu_query := if pu_query p = [] then pu_query b else pu_query p\<rparr>))
                  else let segs = join_segments (pu_path b) (pu_path p);
                           kept = resolve_segments [] segs @ (if last segs \<in> {''.'', ''..''} then [[]] else []);
                           joined = join ''/'' kept
                    in Inr (urlunparse (q\<lparr>pu_path := if joined = [] then ''/'' else joined\<rparr>)))))"

end
