(* ===== verification/Identifiers.thy ===== *)
theory Identifiers
  imports Json
begin

text \<open>
  Identifiers the parsers derive from a source (\<^verbatim>\<open>backend/app/parsers/identifiers.py\<close>): digests,
  normalised names, keys of operations, servers and schemas, and the tokens of JSON pointers.
  \<open>sha\<close> is the hexadecimal SHA-256 digest.
\<close>

definition stable_digest :: "(pystr \<Rightarrow> pystr) \<Rightarrow> pystr list \<Rightarrow> nat \<Rightarrow> pystr" where
  "stable_digest sha parts n = take n (sha (join [CHR 0x1F] parts))"

definition is_upper_char :: "char \<Rightarrow> bool" where
  "is_upper_char c = (CHR ''A'' \<le> c \<and> c \<le> CHR ''Z'')"

definition is_lower_char :: "char \<Rightarrow> bool" where
  "is_lower_char c = (CHR ''a'' \<le> c \<and> c \<le> CHR ''z'')"

text \<open>
  The substitutions of \<^verbatim>\<open>normalize_identifier\<close>. A match of \<^verbatim>\<open>([A-Z]+)([A-Z][a-z])\<close> is a run of
  capitals before its last one and a small letter, so the underscore goes between two capitals that a small
  letter follows; a match of \<^verbatim>\<open>([a-z0-9])([A-Z])\<close> never begins with the end of another.
\<close>

fun sub_acronym_boundary :: "pystr \<Rightarrow> pystr" where
  "sub_acronym_boundary (a # b # c # s) =
     (if is_upper_char a \<and> is_upper_char b \<and> is_lower_char c then a # CHR ''_'' # b # sub_acronym_boundary (c # s)
      else a # sub_acronym_boundary (b # c # s))"
| "sub_acronym_boundary s = s"

fun sub_camel_boundary :: "pystr \<Rightarrow> pystr" where
  "sub_camel_boundary (a # b # s) =
     (if (is_lower_char a \<or> is_digit_char a) \<and> is_upper_char b then a # CHR ''_'' # sub_camel_boundary (b # s)
      else a # sub_camel_boundary (b # s))"
| "sub_camel_boundary s = s"

definition identifier_char :: "char \<Rightarrow> bool" where
  "identifier_char c \<longleftrightarrow> is_upper_char c \<or> is_lower_char c \<or> is_digit_char c \<or> c = CHR ''_''"

text \<open>One underscore for every run of characters that satisfy \<open>P\<close>; the flag says that the run has begun.\<close>

fun sub_runs :: "(char \<Rightarrow> bool) \<Rightarrow> bool \<Rightarrow> pystr \<Rightarrow> pystr" where
  "sub_runs P run [] = []"
| "sub_runs P run (c # s) =
     (if P c then (if run then sub_runs P True s else CHR ''_'' # sub_runs P True s) else c # sub_runs P False s)"

definition sub_non_identifier :: "pystr \<Rightarrow> pystr" where
  "sub_non_identifier = sub_runs (\<lambda>c. \<not> identifier_char c) False"

definition sub_multiple_underscores :: "pystr \<Rightarrow> pystr" where
  "sub_multiple_underscores = sub_runs (\<lambda>c. c = CHR ''_'') False"

definition normalize_identifier :: "nat \<Rightarrow> pystr \<Rightarrow> pystr" where
  "normalize_identifier max_length value =
     (let s1 = sub_camel_boundary (sub_acronym_boundary value);
          s2 = py_lower (lstrip_char (CHR ''_'') (rstrip_char (CHR ''_'') (sub_non_identifier s1)));
          s3 = sub_multiple_underscores s2;
          s4 = (if s3 = [] then ''operation'' else s3);
          s5 = (if is_digit_char (hd s4) then ''op_'' @ s4 else s4)
      in take max_length s5)"

definition operation_key :: "(pystr \<Rightarrow> pystr) \<Rightarrow> pystr \<Rightarrow> pystr \<Rightarrow> pystr option \<Rightarrow> pystr" where
  "operation_key sha method path operation_id =
     (let identity = (case operation_id of
        Some i \<Rightarrow> if i = [] then py_upper method @ '' '' @ path else strip i
      | None \<Rightarrow> py_upper method @ '' '' @ path)
      in ''op_'' @ stable_digest sha [identity] 24)"

definition make_tool_name_seed :: "pystr \<Rightarrow> pystr \<Rightarrow> pystr option \<Rightarrow> pystr" where
  "make_tool_name_seed method path operation_id =
     (if truthy operation_id then normalize_identifier 96 (the operation_id)
      else normalize_identifier 96 (method @ ''_'' @ map (\<lambda>c. if c = CHR ''/'' then CHR ''_'' else c)
        (lstrip_char (CHR ''/'') (rstrip_char (CHR ''/'') (filter (\<lambda>c. c \<notin> set ''{}'') path)))))"

definition server_key :: "(pystr \<Rightarrow> pystr) \<Rightarrow> pystr \<Rightarrow> pystr option \<Rightarrow> pystr" where
  "server_key sha url declared_id =
     (if truthy declared_id then ''server_'' @ normalize_identifier 80 (the declared_id)
      else ''server_'' @ stable_digest sha [url] 16)"

definition schema_key :: "(pystr \<Rightarrow> pystr) \<Rightarrow> pystr \<Rightarrow> pystr" where
  "schema_key sha name = ''schema_'' @ normalize_identifier 80 name @ ''_'' @ stable_digest sha [name] 8"

definition pointer_token :: "pystr \<Rightarrow> pystr" where
  "pointer_token value = replace ''/'' ''~1'' (replace ''~'' ''~0'' value)"

section \<open>Names\<close>

definition seed_char :: "char \<Rightarrow> bool" where
  "seed_char c \<longleftrightarrow> is_lower_char c \<or> is_digit_char c \<or> c = CHR ''_''"

lemma sub_runs_chars: "c \<in> set (sub_runs P run s) \<Longrightarrow> c = CHR ''_'' \<or> \<not> P c \<and> c \<in> set s"
  by (induction P run s rule: sub_runs.induct) (auto split: if_splits)

lemma sub_runs_hd: "s \<noteq> [] \<Longrightarrow> \<not> P (hd s) \<Longrightarrow> sub_runs P run s \<noteq> [] \<and> hd (sub_runs P run s) = hd s"
  by (cases s) auto

lemma lower_identifier_char: "identifier_char c \<Longrightarrow> seed_char (lower_char c)"
  by (auto simp: identifier_char_def seed_char_def lower_char_def is_upper_char_def is_lower_char_def less_eq_char_def of_char_of)

lemma lower_char_underscore: "lower_char c = CHR ''_'' \<longleftrightarrow> c = CHR ''_''"
proof (cases "is_upper_char c")
  case True
  then have "of_char (lower_char c) \<noteq> (of_char (CHR ''_'') :: nat)"
    by (simp add: lower_char_def is_upper_char_def less_eq_char_def of_char_of)
  with True show ?thesis by (auto simp: is_upper_char_def)
qed (auto simp: lower_char_def is_upper_char_def)

lemma stripped_set: "set (lstrip_char d (rstrip_char d s)) \<subseteq> set s"
  by (auto simp: lstrip_char_def rstrip_char_def dest!: set_dropWhileD)

lemma stripped_hd: "lstrip_char d s \<noteq> [] \<Longrightarrow> hd (lstrip_char d s) \<noteq> d"
  using hd_dropWhile [of "\<lambda>x. x = d" s] by (simp add: lstrip_char_def)

text \<open>A normalised name is a lower-case identifier of bounded length.\<close>

lemma normalize_identifier_valid:
  assumes "0 < n"
  shows "normalize_identifier n s \<noteq> [] \<and> length (normalize_identifier n s) \<le> n
    \<and> is_lower_char (hd (normalize_identifier n s)) \<and> list_all seed_char (normalize_identifier n s)"
proof -
  define s1 where "s1 = lstrip_char (CHR ''_'') (rstrip_char (CHR ''_'') (sub_non_identifier (sub_camel_boundary (sub_acronym_boundary s))))"
  define s3 where "s3 = sub_multiple_underscores (py_lower s1)"
  define s4 where "s4 = (if s3 = [] then ''operation'' else s3)"
  have "list_all identifier_char s1"
    using stripped_set [of "CHR ''_''" "sub_non_identifier (sub_camel_boundary (sub_acronym_boundary s))"]
    by (auto simp: s1_def sub_non_identifier_def list_all_iff identifier_char_def dest!: subsetD sub_runs_chars)
  then have "list_all seed_char (py_lower s1)" by (auto simp: py_lower_def list_all_iff lower_identifier_char)
  then have s3: "list_all seed_char s3"
    by (auto simp: s3_def sub_multiple_underscores_def list_all_iff dest!: sub_runs_chars) (simp add: seed_char_def)
  have s4: "s4 \<noteq> []" "list_all seed_char s4" using s3 by (auto simp: s4_def seed_char_def is_lower_char_def)
  have hd4: "hd s4 \<noteq> CHR ''_''"
  proof (cases "s1 = []")
    case False
    then have "hd (py_lower s1) \<noteq> CHR ''_''"
      using stripped_hd [of "CHR ''_''"] by (simp add: py_lower_def hd_map lower_char_underscore s1_def)
    with False show ?thesis
      using sub_runs_hd [of "py_lower s1" "\<lambda>c. c = CHR ''_''" False] by (auto simp: s4_def s3_def sub_multiple_underscores_def py_lower_def)
  qed (simp add: s4_def s3_def sub_multiple_underscores_def py_lower_def)
  define s5 where "s5 = (if is_digit_char (hd s4) then ''op_'' @ s4 else s4)"
  have s5: "s5 \<noteq> []" "list_all seed_char s5" using s4 by (auto simp: s5_def seed_char_def is_lower_char_def)
  have hd5: "is_lower_char (hd s5)"
    using s4 hd4 by (cases s4) (auto simp: s5_def seed_char_def is_lower_char_def)
  have eq: "normalize_identifier n s = take n s5"
    by (simp add: normalize_identifier_def Let_def s1_def s3_def s4_def s5_def)
  have "hd (take n s5) = hd s5" using assms by (cases n; cases s5) auto
  moreover have "list_all seed_char (take n s5)" using s5(2) by (auto simp: list_all_iff dest: in_set_takeD)
  ultimately show ?thesis using s5(1) hd5 assms by (simp add: eq)
qed

section \<open>Pointer tokens\<close>

lemma replace_char: "replace [c] new s = concat (map (\<lambda>x. if x = c then new else [x]) s)"
  by (induction s) auto

definition token_escape :: "char \<Rightarrow> pystr" where
  "token_escape x = (if x = CHR ''~'' then ''~0'' else if x = CHR ''/'' then ''~1'' else [x])"

lemma pointer_token_escapes: "pointer_token s = concat (map token_escape s)"
  by (induction s) (auto simp: pointer_token_def replace_char token_escape_def)

lemma pointer_token_no_slash: "CHR ''/'' \<notin> set (pointer_token s)"
  by (induction s) (auto simp: pointer_token_escapes token_escape_def)

definition unescape_pointer :: "pystr \<Rightarrow> pystr" where
  "unescape_pointer token = replace ''~0'' ''~'' (replace ''~1'' ''/'' token)"

lemma unescape_pointer_token: "unescape_pointer (pointer_token s) = s"
proof -
  have "replace ''~1'' ''/'' (concat (map token_escape s)) = concat (map (\<lambda>x. if x = CHR ''~'' then ''~0'' else [x]) s)"
    by (induction s) (auto simp: token_escape_def)
  moreover have "replace ''~0'' ''~'' (concat (map (\<lambda>x. if x = CHR ''~'' then ''~0'' else [x]) s)) = s"
    by (induction s) auto
  ultimately show ?thesis by (simp add: unescape_pointer_def pointer_token_escapes)
qed

end
