(* ===== verification/OpenApiRefs.thy ===== *)
theory OpenApiRefs
  imports Canonical BackendErrors UrlJoin Identifiers Deployments
begin

text \<open>
  The reference resolver of the OpenAPI parser (\<^verbatim>\<open>backend/app/parsers/openapi/parser.py\<close>): JSON
  pointers, the documents a reference may lead to, following references to an object, and making a schema
  self-contained. An error carries the source version and the location that the parser attributes to it.
  Following references is a total function; building a schema counts the references it is inside of with
  fuel, and \<open>schema_fuel\<close> is enough.
\<close>

section \<open>Data\<close>

datatype openapi_error =
    SourceFailure error_class pystr "uuid option" "pystr option"
  | OtherFailure value_error
  | RanOutOfFuel

abbreviation parse_error :: "pystr \<Rightarrow> openapi_error" where
  "parse_error m \<equiv> SourceFailure SourceParseError m None None"

abbreviation reference_error :: "pystr \<Rightarrow> openapi_error" where
  "reference_error m \<equiv> SourceFailure ReferenceResolutionError m None None"

record external_document =
  ed_document :: json_object
  ed_version :: uuid

record reference_resolver =
  rr_root :: json_object
  rr_version :: uuid
  rr_external :: "(pystr \<times> external_document) list"

record resolved =
  res_value :: json_object
  res_document :: json_object
  res_version :: uuid
  res_pointer :: pystr

text \<open>What the parser calls and the repository does not define.\<close>

datatype spec_verdict = SpecValid | SpecUnresolvable | SpecInvalid "pystr option"

record openapi_env =
  oe_sha :: "pystr \<Rightarrow> pystr"
  oe_bracketed :: "pystr \<Rightarrow> bool"
  oe_http_url :: "pystr \<Rightarrow> pystr option"
  oe_check_spec :: "json_object \<Rightarrow> bool \<Rightarrow> (pystr \<times> external_document) list \<Rightarrow> spec_verdict"
  oe_check_schema :: "json_object \<Rightarrow> bool"

fun attribute_source_error :: "uuid \<Rightarrow> pystr option \<Rightarrow> openapi_error \<Rightarrow> openapi_error" where
  "attribute_source_error v p (SourceFailure c m v0 p0) =
     SourceFailure c m (Some (case v0 of None \<Rightarrow> v | Some x \<Rightarrow> x)) (case p0 of None \<Rightarrow> p | Some q \<Rightarrow> Some q)"
| "attribute_source_error v p e = e"

definition attributed :: "uuid \<Rightarrow> pystr option \<Rightarrow> openapi_error + 'a \<Rightarrow> openapi_error + 'a" where
  "attributed v p r = (case r of Inl e \<Rightarrow> Inl (attribute_source_error v p e) | Inr x \<Rightarrow> Inr x)"

section \<open>Pointers and targets\<close>

fun walk_pointer :: "pystr list \<Rightarrow> json \<Rightarrow> openapi_error + json" where
  "walk_pointer [] node = Inr node"
| "walk_pointer (t # ts) node =
     (case node of
        JObj kvs \<Rightarrow> (case dget kvs (unescape_pointer t) of
            None \<Rightarrow> Inl (reference_error ''Unresolved $ref pointer'')
          | Some v \<Rightarrow> walk_pointer ts v)
      | _ \<Rightarrow> Inl (reference_error ''Unresolved $ref pointer''))"

definition json_pointer :: "json_object \<Rightarrow> pystr \<Rightarrow> openapi_error + json" where
  "json_pointer document pointer =
     (if pointer \<in> {[], ''#''} then Inr (JObj document)
      else let normalized = (if startswith pointer ''#'' then tl pointer else pointer)
        in if \<not> startswith normalized ''/'' then Inl (reference_error ''Unsupported JSON pointer'')
           else walk_pointer (split_on (CHR ''/'') (tl normalized)) (JObj document))"

definition document_candidates :: "pystr \<Rightarrow> split_result \<Rightarrow> pystr list" where
  "document_candidates document_ref parsed =
     [document_ref, lstrip_char (CHR ''/'') (url_path parsed), last (split_on (CHR ''/'') (url_path parsed))]"

definition captured_document :: "(pystr \<times> external_document) list \<Rightarrow> pystr list \<Rightarrow> external_document option" where
  "captured_document external candidates =
     (case List.find (\<lambda>c. dget external c \<noteq> None) candidates of None \<Rightarrow> None | Some c \<Rightarrow> dget external c)"

definition reference_target ::
  "openapi_env \<Rightarrow> reference_resolver \<Rightarrow> pystr \<Rightarrow> json_object \<Rightarrow> uuid \<Rightarrow> openapi_error + json_object \<times> uuid \<times> pystr" where
  "reference_target env rr raw_ref document version =
     (case urldefrag (oe_bracketed env) raw_ref of
        Inl e \<Rightarrow> Inl (OtherFailure e)
      | Inr (document_ref, frag) \<Rightarrow>
        if document_ref = [] then Inr (document, version, ''#'' @ frag)
        else case urlsplit (oe_bracketed env) document_ref of
            Inl e \<Rightarrow> Inl (OtherFailure e)
          | Inr parsed \<Rightarrow> (case captured_document (rr_external rr) (document_candidates document_ref parsed) of
              None \<Rightarrow> Inl (reference_error ''External $ref was not captured as an immutable source dependency'')
            | Some x \<Rightarrow> Inr (ed_document x, ed_version x, ''#'' @ frag)))"

section \<open>References inside a document\<close>

text \<open>The values under a key \<^verbatim>\<open>$ref\<close> anywhere in a value, and the identities the references of a set of documents can have.\<close>

function ref_values :: "json \<Rightarrow> json list" where
  "ref_values j = (case j of
      JArr vs \<Rightarrow> concat (map ref_values vs)
    | JObj kvs \<Rightarrow> [v. (k, v) \<leftarrow> kvs, k = ''$ref''] @ concat (map (\<lambda>(k, v). ref_values v) kvs)
    | _ \<Rightarrow> [])"
  by pat_completeness auto
termination
  by (relation "measure size") (auto intro: size_json_elem size_json_member)

declare ref_values.simps [simp del]

definition ref_fragment :: "openapi_env \<Rightarrow> json \<Rightarrow> pystr" where
  "ref_fragment env r = (case r of
     JStr s \<Rightarrow> (case urldefrag (oe_bracketed env) s of Inr (_, f) \<Rightarrow> f | Inl _ \<Rightarrow> []) | _ \<Rightarrow> [])"

definition known_documents :: "reference_resolver \<Rightarrow> json_object list" where
  "known_documents rr = rr_root rr # map (ed_document \<circ> snd) (rr_external rr)"

definition reference_universe ::
  "openapi_env \<Rightarrow> reference_resolver \<Rightarrow> json \<Rightarrow> json_object \<Rightarrow> uuid \<Rightarrow> (uuid \<times> pystr) list" where
  "reference_universe env rr value document version =
     List.product (version # map (ed_version \<circ> snd) (rr_external rr))
       (map (\<lambda>r. ''#'' @ ref_fragment env r) (ref_values value @ concat (map (ref_values \<circ> JObj) (document # known_documents rr))))"

lemma ref_values_simps [simp]:
  "ref_values JNull = []" "ref_values (JBool b) = []" "ref_values (JInt i) = []" "ref_values (JFloat q t) = []" "ref_values (JStr s) = []"
  "ref_values (JArr vs) = concat (map ref_values vs)"
  "ref_values (JObj kvs) = [v. (k, v) \<leftarrow> kvs, k = ''$ref''] @ concat (map (\<lambda>(k, v). ref_values v) kvs)"
  by (simp_all add: ref_values.simps [of JNull] ref_values.simps [of "JBool b"] ref_values.simps [of "JInt i"]
      ref_values.simps [of "JFloat q t"] ref_values.simps [of "JStr s"] ref_values.simps [of "JArr vs"] ref_values.simps [of "JObj kvs"])

lemma set_ref_values_obj: "set (ref_values (JObj kvs)) = {v. (''$ref'', v) \<in> set kvs} \<union> (\<Union>(k, v)\<in>set kvs. set (ref_values v))"
  by auto

lemma ref_values_member: "(k, v) \<in> set kvs \<Longrightarrow> set (ref_values v) \<subseteq> set (ref_values (JObj kvs))"
  by auto

lemma walk_pointer_refs: "walk_pointer ts node = Inr v \<Longrightarrow> set (ref_values v) \<subseteq> set (ref_values node)"
proof (induction ts node rule: walk_pointer.induct)
  case (2 t ts node)
  then obtain kvs w where node: "node = JObj kvs" "dget kvs (unescape_pointer t) = Some w" "walk_pointer ts w = Inr v"
    by (auto split: json.splits option.splits)
  with 2 have "set (ref_values v) \<subseteq> set (ref_values w)" by simp
  with ref_values_member [OF map_of_SomeD [OF node(2)]] node(1) show ?case by simp
qed simp

lemma json_pointer_refs: "json_pointer d p = Inr v \<Longrightarrow> set (ref_values v) \<subseteq> set (ref_values (JObj d))"
  by (auto simp del: ref_values_simps simp: json_pointer_def Let_def split: if_splits dest!: walk_pointer_refs)

lemma reference_target_known:
  assumes "reference_target env rr r d v = Inr (d', v', p)"
  shows "d' \<in> insert d (set (known_documents rr))" "v' \<in> insert v (set (map (ed_version \<circ> snd) (rr_external rr)))"
    "p = ''#'' @ ref_fragment env (JStr r)"
proof -
  have "captured_document ext cs = Some x \<Longrightarrow> x \<in> snd ` set ext" for ext cs x
    unfolding captured_document_def by (auto split: option.splits dest!: map_of_SomeD simp: rev_image_eqI)
  with assms show "d' \<in> insert d (set (known_documents rr))" "v' \<in> insert v (set (map (ed_version \<circ> snd) (rr_external rr)))"
    "p = ''#'' @ ref_fragment env (JStr r)"
    unfolding reference_target_def known_documents_def ref_fragment_def
    by (fastforce split: sum.splits if_splits option.splits prod.splits)+
qed

lemma set_universe:
  "set (reference_universe env rr value d v) =
     insert v (set (map (ed_version \<circ> snd) (rr_external rr))) \<times>
     (\<lambda>r. ''#'' @ ref_fragment env r) ` (set (ref_values value) \<union> (\<Union>x\<in>insert d (set (known_documents rr)). set (ref_values (JObj x))))"
  unfolding reference_universe_def set_product
  by (intro arg_cong2 [where f = "\<lambda>A B. A \<times> B"]) (auto simp del: ref_values_simps)

lemma universe_mono:
  assumes "set (ref_values value') \<subseteq> set (ref_values (JObj d'))" "d' \<in> insert d (set (known_documents rr))"
    "v' \<in> insert v (set (map (ed_version \<circ> snd) (rr_external rr)))"
  shows "set (reference_universe env rr value' d' v') \<subseteq> set (reference_universe env rr value d v)"
  unfolding set_universe using assms by (intro Sigma_mono image_mono) (auto simp del: ref_values_simps)

lemma target_in_universe:
  assumes "reference_target env rr r d v = Inr (d', v', p)" "JStr r \<in> set (ref_values value)"
  shows "(v', p) \<in> set (reference_universe env rr value d v)"
  using reference_target_known [OF assms(1)] assms(2) by (auto simp del: ref_values_simps simp: set_universe)

section \<open>Following references to an object\<close>

text \<open>\<^verbatim>\<open>document or self._root_document\<close>: an empty document is replaced by the root.\<close>

definition or_root :: "reference_resolver \<Rightarrow> json_object \<Rightarrow> json_object" where
  "or_root rr d = (if d = [] then rr_root rr else d)"

lemma reference_decreases:
  assumes t: "reference_target env rr r (or_root rr d) v = Inr (d', v', p')" and new: "(v', p') \<notin> set seen"
    and r: "(''$ref'', JStr r) \<in> set kvs" and to: "json_pointer d' p' = Inr node"
  shows "card (set (reference_universe env rr node (or_root rr d') v') - insert (v', p') (set seen))
    < card (set (reference_universe env rr (JObj kvs) (or_root rr d) v) - set seen)"
proof -
  let ?U = "set (reference_universe env rr (JObj kvs) (or_root rr d) v)" and ?U' = "set (reference_universe env rr node (or_root rr d') v')"
  have "JStr r \<in> set (ref_values (JObj kvs))" using r by (auto intro: bexI [of _ "(''$ref'', JStr r)"])
  from target_in_universe [OF t this] have in_U: "(v', p') \<in> ?U" .
  have "or_root rr d' \<in> insert (or_root rr d) (set (known_documents rr))"
    using reference_target_known(1) [OF t] by (auto simp: or_root_def known_documents_def)
  moreover have "set (ref_values (JObj d')) \<subseteq> set (ref_values (JObj (or_root rr d')))" by (simp add: or_root_def)
  ultimately have "?U' \<subseteq> ?U" using json_pointer_refs [OF to] reference_target_known(2) [OF t]
    by (intro universe_mono) (auto simp del: ref_values_simps)
  then have "?U' - insert (v', p') (set seen) \<subset> ?U - set seen" using in_U new by auto
  then show ?thesis by (simp add: psubset_card_mono)
qed

function resolve ::
  "openapi_env \<Rightarrow> reference_resolver \<Rightarrow> json \<Rightarrow> json_object \<Rightarrow> uuid \<Rightarrow> pystr \<Rightarrow> (uuid \<times> pystr) list \<Rightarrow> openapi_error + resolved" where
  "resolve env rr value document version pointer seen =
     attributed version (Some pointer)
      (case value of
         JObj kvs \<Rightarrow>
           (case dget kvs ''$ref'' of
              None \<Rightarrow> Inr \<lparr>res_value = kvs, res_document = or_root rr document, res_version = version, res_pointer = pointer\<rparr>
            | Some raw_ref \<Rightarrow> (case raw_ref of
                JStr r \<Rightarrow>
                  if r = [] then Inl (reference_error ''Invalid $ref'')
                  else (case reference_target env rr r (or_root rr document) version of
                      Inl e \<Rightarrow> Inl e
                    | Inr (d', v', p') \<Rightarrow>
                        if (v', p') \<in> set seen then Inl (reference_error ''Circular non-schema $ref'')
                        else (case attributed v' (Some p') (json_pointer d' p') of
                            Inl e \<Rightarrow> Inl e
                          | Inr node \<Rightarrow> resolve env rr node d' v' p' ((v', p') # seen)))
              | _ \<Rightarrow> Inl (reference_error ''Invalid $ref'')))
       | _ \<Rightarrow> Inl (reference_error ''Expected an object''))"
  by pat_completeness auto
termination
  by (relation "measure (\<lambda>(env, rr, value, d, v, p, seen). card (set (reference_universe env rr value (or_root rr d) v) - set seen))")
    (auto simp: attributed_def intro!: reference_decreases dest: map_of_SomeD split: sum.splits)

declare resolve.simps [simp del]

lemma resolve_error_attributed: "resolve env rr j d v ptr seen = Inl (SourceFailure c m w q) \<Longrightarrow> w \<noteq> None \<and> q \<noteq> None"
  unfolding resolve.simps [of env rr j d v ptr seen] attributed_def
  by (auto split: sum.splits option.splits elim!: attribute_source_error.elims)

lemma resolve_no_ref: "resolve env rr j d v ptr seen = Inr r \<Longrightarrow> dget (res_value r) ''$ref'' = None"
proof (induction env rr j d v ptr seen rule: resolve.induct)
  case (1 env rr j d v ptr seen)
  from "1.prems" show ?case
    unfolding resolve.simps [of env rr j d v ptr seen] attributed_def
    by (auto split: sum.splits json.splits option.splits if_splits prod.splits intro: "1.IH" [unfolded attributed_def])
qed

section \<open>Self-contained schemas\<close>

text \<open>
  \<open>visit\<close> rewrites a schema and threads the definitions built so far and the identities being built. The fuel is used up
  by following a reference only.
\<close>

record schema_state =
  ss_definitions :: json_object
  ss_building :: "(uuid \<times> pystr) list"

definition definition_key :: "openapi_env \<Rightarrow> uuid \<Rightarrow> pystr \<Rightarrow> pystr" where
  "definition_key env v p = ''mcplica_ref_'' @ take 20 (oe_sha env (uuid_str v @ '':'' @ p))"

definition as_json_object :: "json \<Rightarrow> openapi_error + json_object" where
  "as_json_object j = (case j of JObj kvs \<Rightarrow> Inr kvs | _ \<Rightarrow> Inl (parse_error ''Expected a JSON object''))"

function visit :: "openapi_env \<Rightarrow> reference_resolver \<Rightarrow> pystr \<Rightarrow> nat \<Rightarrow> json_object \<Rightarrow> uuid \<Rightarrow> json \<Rightarrow> schema_state
    \<Rightarrow> openapi_error + json \<times> schema_state"
  and visit_items :: "openapi_env \<Rightarrow> reference_resolver \<Rightarrow> pystr \<Rightarrow> nat \<Rightarrow> json_object \<Rightarrow> uuid \<Rightarrow> json list \<Rightarrow> schema_state
    \<Rightarrow> openapi_error + json list \<times> schema_state"
  and visit_fields :: "openapi_env \<Rightarrow> reference_resolver \<Rightarrow> pystr \<Rightarrow> nat \<Rightarrow> json_object \<Rightarrow> uuid \<Rightarrow> json_object \<Rightarrow> schema_state
    \<Rightarrow> openapi_error + json_object \<times> schema_state"
  and visit_ref :: "openapi_env \<Rightarrow> reference_resolver \<Rightarrow> pystr \<Rightarrow> nat \<Rightarrow> json_object \<Rightarrow> uuid \<Rightarrow> json \<Rightarrow> schema_state
    \<Rightarrow> openapi_error + json_object \<times> schema_state" where
  "visit env rr loc fuel d v node st =
     attributed v (Some loc)
       (case node of
          JArr vs \<Rightarrow> rbind (visit_items env rr loc fuel d v vs st) (\<lambda>(ws, st'). Inr (JArr ws, st'))
        | JObj kvs \<Rightarrow>
            rbind (case dget kvs ''$ref'' of
                None \<Rightarrow> Inr ([], st)
              | Some raw \<Rightarrow> if raw = JNull then Inr ([], st) else visit_ref env rr loc fuel d v raw st) (\<lambda>(ref, st1).
            rbind (visit_fields env rr loc fuel d v kvs st1) (\<lambda>(out, st2). Inr (JObj (ref @ out), st2)))
        | _ \<Rightarrow> Inr (node, st))"
| "visit_items env rr loc fuel d v [] st = Inr ([], st)"
| "visit_items env rr loc fuel d v (x # xs) st =
     rbind (visit env rr loc fuel d v x st) (\<lambda>(y, st1).
     rbind (visit_items env rr loc fuel d v xs st1) (\<lambda>(ys, st2). Inr (y # ys, st2)))"
| "visit_fields env rr loc fuel d v [] st = Inr ([], st)"
| "visit_fields env rr loc fuel d v ((k, x) # kvs) st =
     (if k = ''$ref'' then visit_fields env rr loc fuel d v kvs st
      else rbind (visit env rr loc fuel d v x st) (\<lambda>(y, st1).
           rbind (visit_fields env rr loc fuel d v kvs st1) (\<lambda>(out, st2). Inr ((k, y) # out, st2))))"
| "visit_ref env rr loc fuel d v raw st =
     (case raw of
        JStr r \<Rightarrow>
          if r = [] then Inl (reference_error ''Invalid schema $ref'')
          else rbind (reference_target env rr r d v) (\<lambda>(d', v', p').
            let key = definition_key env v' p'; out = [(''$ref'', JStr (''#/$defs/'' @ key))]
            in if dget (ss_definitions st) key \<noteq> None then Inr (out, st)
               else let st1 = st\<lparr>ss_definitions := dset key (JObj []) (ss_definitions st)\<rparr>
                 in if (v', p') \<in> set (ss_building st) then Inr (out, st1)
                    else rbind (attributed v' (Some p') (rbind (json_pointer d' p') as_json_object)) (\<lambda>schema.
                      case fuel of
                        0 \<Rightarrow> Inl RanOutOfFuel
                      | Suc f \<Rightarrow> rbind (visit env rr loc f d' v' (JObj schema) (st1\<lparr>ss_building := (v', p') # ss_building st1\<rparr>)) (\<lambda>(w, st2).
                          Inr (out, st2\<lparr>ss_definitions := dset key w (ss_definitions st2),
                            ss_building := remove1 (v', p') (ss_building st2)\<rparr>))))
      | _ \<Rightarrow> Inl (reference_error ''Invalid schema $ref''))"
  by pat_completeness auto
termination
  by (relation "inv_image (less_than <*lex*> less_than <*lex*> less_than) (\<lambda>x. case x of
       Inl (Inl (env, rr, loc, fuel, d, v, node, st)) \<Rightarrow> (fuel, size node, 1)
     | Inl (Inr (env, rr, loc, fuel, d, v, vs, st)) \<Rightarrow> (fuel, size_list size vs, 0)
     | Inr (Inl (env, rr, loc, fuel, d, v, kvs, st)) \<Rightarrow> (fuel, size_list (size_prod (\<lambda>_. 0) size) kvs, 0)
     | Inr (Inr (env, rr, loc, fuel, d, v, raw, st)) \<Rightarrow> (fuel, size raw, 0 :: nat))")
    (auto dest: size_json_member map_of_SomeD)

declare visit.simps [simp del] visit_ref.simps [simp del]

lemmas visit_induct = visit_visit_items_visit_fields_visit_ref.induct

definition merge_definitions :: "json_object \<Rightarrow> json_object \<Rightarrow> json_object" where
  "merge_definitions existing definitions = fold (\<lambda>(k, w). dset k w) definitions existing"

definition schema_fuel :: "openapi_env \<Rightarrow> reference_resolver \<Rightarrow> json \<Rightarrow> json_object \<Rightarrow> uuid \<Rightarrow> nat" where
  "schema_fuel env rr schema d v = length (reference_universe env rr schema d v)"

definition add_definitions :: "json_object \<Rightarrow> json_object \<Rightarrow> openapi_error + json_object" where
  "add_definitions definitions out =
     (if definitions = [] then Inr out
      else case dget out ''$defs'' of
          None \<Rightarrow> Inr (dset ''$defs'' (JObj definitions) out)
        | Some JNull \<Rightarrow> Inr (dset ''$defs'' (JObj definitions) out)
        | Some (JObj existing) \<Rightarrow> Inr (dset ''$defs'' (JObj (merge_definitions existing definitions)) out)
        | Some _ \<Rightarrow> Inl (parse_error ''JSON Schema $defs must be an object''))"

definition materialize_schema ::
  "openapi_env \<Rightarrow> reference_resolver \<Rightarrow> json \<Rightarrow> json_object \<Rightarrow> uuid \<Rightarrow> pystr \<Rightarrow> openapi_error + json_object" where
  "materialize_schema env rr schema d v loc =
     attributed v (Some loc)
      (rbind (as_json_object schema) (\<lambda>kvs.
       rbind (visit env rr loc (schema_fuel env rr schema d v) d v (JObj kvs) \<lparr>ss_definitions = [], ss_building = []\<rparr>) (\<lambda>(m, st).
       rbind (as_json_object m) (add_definitions (ss_definitions st)))))"

subsection \<open>The fuel is enough\<close>

lemma attributed_Inr [simp]: "attributed v p r = Inr x \<longleftrightarrow> r = Inr x"
  by (simp add: attributed_def split: sum.split)

lemma attributed_ok [simp]: "attributed v p (Inr x) = Inr x"
  by simp

lemma attributed_fuel [simp]: "attributed v p r = Inl RanOutOfFuel \<longleftrightarrow> r = Inl RanOutOfFuel"
  by (auto simp: attributed_def split: sum.splits elim: attribute_source_error.elims)

lemma as_json_object_Inr [simp]: "as_json_object j = Inr kvs \<longleftrightarrow> j = JObj kvs"
  by (cases j) (auto simp: as_json_object_def)

abbreviation defined_keys :: "schema_state \<Rightarrow> pystr set" where
  "defined_keys st \<equiv> fst ` set (ss_definitions st)"

lemma visit_ref_cases:
  assumes "visit_ref env rr loc fuel d v raw st = Inr (out, st')"
  obtains (known) r d' v' p' where "raw = JStr r" "reference_target env rr r d v = Inr (d', v', p')"
      "out = [(''$ref'', JStr (''#/$defs/'' @ definition_key env v' p'))]" "definition_key env v' p' \<in> defined_keys st" "st' = st"
  | (placeholder) r d' v' p' where "raw = JStr r" "reference_target env rr r d v = Inr (d', v', p')"
      "out = [(''$ref'', JStr (''#/$defs/'' @ definition_key env v' p'))]" "definition_key env v' p' \<notin> defined_keys st"
      "st' = st\<lparr>ss_definitions := dset (definition_key env v' p') (JObj []) (ss_definitions st)\<rparr>"
  | (built) r d' v' p' schema f w st2 where "raw = JStr r" "reference_target env rr r d v = Inr (d', v', p')"
      "out = [(''$ref'', JStr (''#/$defs/'' @ definition_key env v' p'))]" "definition_key env v' p' \<notin> defined_keys st"
      "r \<noteq> []" "(v', p') \<notin> set (ss_building st)" "json_pointer d' p' = Inr (JObj schema)" "fuel = Suc f"
      "visit env rr loc f d' v' (JObj schema) (st\<lparr>ss_definitions := dset (definition_key env v' p') (JObj []) (ss_definitions st),
         ss_building := (v', p') # ss_building st\<rparr>) = Inr (w, st2)"
      "st' = st2\<lparr>ss_definitions := dset (definition_key env v' p') w (ss_definitions st2), ss_building := remove1 (v', p') (ss_building st2)\<rparr>"
proof -
  from assms obtain r where raw: "raw = JStr r" "r \<noteq> []" unfolding visit_ref.simps by (auto split: json.splits if_splits)
  with assms obtain d' v' p' where t: "reference_target env rr r d v = Inr (d', v', p')"
    unfolding visit_ref.simps by (auto simp: rbind_Inr_iff)
  define key where "key = definition_key env v' p'"
  define ref where "ref = [(''$ref'', JStr (''#/$defs/'' @ key))]"
  define st1 where "st1 = st\<lparr>ss_definitions := dset key (JObj []) (ss_definitions st)\<rparr>"
  have eq: "visit_ref env rr loc fuel d v raw st =
     (if key \<in> defined_keys st then Inr (ref, st)
      else if (v', p') \<in> set (ss_building st) then Inr (ref, st1)
      else rbind (attributed v' (Some p') (rbind (json_pointer d' p') as_json_object)) (\<lambda>schema.
        case fuel of 0 \<Rightarrow> Inl RanOutOfFuel
        | Suc f \<Rightarrow> rbind (visit env rr loc f d' v' (JObj schema) (st1\<lparr>ss_building := (v', p') # ss_building st1\<rparr>)) (\<lambda>(w, st2).
            Inr (ref, st2\<lparr>ss_definitions := dset key w (ss_definitions st2), ss_building := remove1 (v', p') (ss_building st2)\<rparr>))))"
    unfolding visit_ref.simps raw(1) json.case t rbind.simps prod.case Let_def key_def [symmetric] ref_def [symmetric] st1_def [symmetric]
    by (simp add: raw(2) map_of_eq_None_iff)
  note defs = key_def ref_def st1_def
  consider "key \<in> defined_keys st" | "key \<notin> defined_keys st" "(v', p') \<in> set (ss_building st)"
    | "key \<notin> defined_keys st" "(v', p') \<notin> set (ss_building st)" by blast
  then show thesis
  proof cases
    case 1
    then have "out = ref" "st' = st" using assms by (simp_all add: eq)
    with 1 show thesis unfolding defs by (intro known [OF raw(1) t]) auto
  next
    case 2
    then have "out = ref" "st' = st1" using assms by (simp_all add: eq)
    with 2 show thesis unfolding defs by (intro placeholder [OF raw(1) t]) auto
  next
    case 3
    with assms obtain schema f w st2 where "json_pointer d' p' = Inr (JObj schema)" "fuel = Suc f"
      "visit env rr loc f d' v' (JObj schema) (st1\<lparr>ss_building := (v', p') # ss_building st1\<rparr>) = Inr (w, st2)" "out = ref"
      "st' = st2\<lparr>ss_definitions := dset key w (ss_definitions st2), ss_building := remove1 (v', p') (ss_building st2)\<rparr>"
      unfolding eq by (cases fuel) (auto simp: rbind_Inr_iff)
    with 3 raw(2) show thesis unfolding defs by (intro built [OF raw(1) t]) auto
  qed
qed

lemma visit_node [simp]:
  "visit env rr loc fuel d v JNull st = Inr (JNull, st)" "visit env rr loc fuel d v (JBool b) st = Inr (JBool b, st)"
  "visit env rr loc fuel d v (JInt i) st = Inr (JInt i, st)" "visit env rr loc fuel d v (JFloat q t) st = Inr (JFloat q t, st)"
  "visit env rr loc fuel d v (JStr s) st = Inr (JStr s, st)"
  "visit env rr loc fuel d v (JArr vs) st = attributed v (Some loc) (rbind (visit_items env rr loc fuel d v vs st) (\<lambda>(ws, st'). Inr (JArr ws, st')))"
  by (simp_all add: visit.simps)

lemma visit_Inr_cases:
  assumes "visit env rr loc fuel d v node st = Inr (out, st')"
  obtains (arr) vs ws where "node = JArr vs" "out = JArr ws" "visit_items env rr loc fuel d v vs st = Inr (ws, st')"
  | (obj) kvs fields where "node = JObj kvs" "out = JObj fields" "visit_fields env rr loc fuel d v kvs st = Inr (fields, st')"
      "dget kvs ''$ref'' \<in> {None, Some JNull}"
  | (ref) kvs raw ref st1 fields where "node = JObj kvs" "out = JObj (ref @ fields)" "dget kvs ''$ref'' = Some raw" "raw \<noteq> JNull"
      "visit_ref env rr loc fuel d v raw st = Inr (ref, st1)" "visit_fields env rr loc fuel d v kvs st1 = Inr (fields, st')"
  | (leaf) "out = node" "st' = st" "ref_values node = []"
proof (cases node)
  case (JObj kvs)
  show thesis
  proof (cases "dget kvs ''$ref'' \<in> {None, Some JNull}")
    case True
    then show thesis using assms obj [OF JObj] unfolding visit.simps [of env rr loc fuel d v node st]
      by (auto simp: JObj rbind_Inr_iff split: option.splits if_splits)
  next
    case False
    then obtain raw where "dget kvs ''$ref'' = Some raw" "raw \<noteq> JNull" by (cases "dget kvs ''$ref''") auto
    then show thesis using assms ref [OF JObj] unfolding visit.simps [of env rr loc fuel d v node st]
      by (auto simp: JObj rbind_Inr_iff)
  qed
qed (use assms arr leaf in \<open>auto simp: rbind_Inr_iff\<close>)

lemma visit_items_Inr:
  "visit_items env rr loc fuel d v (x # xs) st = Inr (ws, st') \<longleftrightarrow> (\<exists>y ys st1. ws = y # ys \<and>
     visit env rr loc fuel d v x st = Inr (y, st1) \<and> visit_items env rr loc fuel d v xs st1 = Inr (ys, st'))"
  by (auto simp: rbind_Inr_iff)

lemma visit_fields_Inr:
  "k \<noteq> ''$ref'' \<Longrightarrow> visit_fields env rr loc fuel d v ((k, x) # kvs) st = Inr (out, st') \<longleftrightarrow> (\<exists>y ys st1. out = (k, y) # ys \<and>
     visit env rr loc fuel d v x st = Inr (y, st1) \<and> visit_fields env rr loc fuel d v kvs st1 = Inr (ys, st'))"
  by (auto simp: rbind_Inr_iff)

text \<open>Definitions are only added.\<close>

definition generated_keys :: "openapi_env \<Rightarrow> pystr set" where
  "generated_keys env = range (\<lambda>(v, p). definition_key env v p)"

lemma definition_key_generated [simp]: "definition_key env v p \<in> generated_keys env"
  by (auto simp: generated_keys_def)

lemma visit_generated_keys:
  "\<And>j st'. visit env rr loc fuel d v node st = Inr (j, st') \<Longrightarrow> defined_keys st' \<subseteq> defined_keys st \<union> generated_keys env"
  "\<And>ws st'. visit_items env rr loc fuel d v vs st = Inr (ws, st') \<Longrightarrow> defined_keys st' \<subseteq> defined_keys st \<union> generated_keys env"
  "\<And>out st'. visit_fields env rr loc fuel d v kvs st = Inr (out, st') \<Longrightarrow> defined_keys st' \<subseteq> defined_keys st \<union> generated_keys env"
  "\<And>out st'. visit_ref env rr loc fuel d v raw st = Inr (out, st') \<Longrightarrow> defined_keys st' \<subseteq> defined_keys st \<union> generated_keys env"
proof (induction env rr loc fuel d v node st and env rr loc fuel d v vs st and env rr loc fuel d v kvs st and env rr loc fuel d v raw st
    rule: visit_induct)
  case (1 env rr loc fuel d v node st)
  from "1.prems" show ?case
  proof (cases rule: visit_Inr_cases)
    case (ref kvs raw out st1 fields)
    from "1.IH"(2) [OF ref(1,3,4,5)] "1.IH"(3) [OF ref(1,6)] show ?thesis by blast
  qed (use "1.IH" in auto)
next
  case (6 env rr loc fuel d v raw st)
  from "6.prems" show ?case
  proof (cases rule: visit_ref_cases)
    case (built r d' v' p' schema f w st2)
    have "defined_keys st2 \<subseteq> defined_keys (st\<lparr>ss_definitions := dset (definition_key env v' p') (JObj []) (ss_definitions st),
         ss_building := (v', p') # ss_building st\<rparr>) \<union> generated_keys env"
      using "6.IH" built by (auto simp: map_of_eq_None_iff)
    with built show ?thesis by (auto simp: dom_update)
  qed (auto simp: dom_update)
next
  case (3 env rr loc fuel d v x xs st)
  from "3.prems" obtain y ys st1 where x: "visit env rr loc fuel d v x st = Inr (y, st1)" "visit_items env rr loc fuel d v xs st1 = Inr (ys, st')"
    unfolding visit_items_Inr by blast
  from "3.IH"(1) [OF x(1)] "3.IH"(2) [OF x(2)] show ?case by blast
next
  case (5 env rr loc fuel d v k x kvs st)
  show ?case
  proof (cases "k = ''$ref''")
    case False
    with "5.prems" obtain y ys st1 where x: "visit env rr loc fuel d v x st = Inr (y, st1)" "visit_fields env rr loc fuel d v kvs st1 = Inr (ys, st')"
      unfolding visit_fields_Inr [OF False] by blast
    from "5.IH"(2) [OF False x(1)] "5.IH"(3) [OF False x(2)] show ?thesis by blast
  qed (use 5 in auto)
qed auto

lemma visit_keeps_keys:
  "\<And>j st'. visit env rr loc fuel d v node st = Inr (j, st') \<Longrightarrow> defined_keys st \<subseteq> defined_keys st'"
  "\<And>ws st'. visit_items env rr loc fuel d v vs st = Inr (ws, st') \<Longrightarrow> defined_keys st \<subseteq> defined_keys st'"
  "\<And>out st'. visit_fields env rr loc fuel d v kvs st = Inr (out, st') \<Longrightarrow> defined_keys st \<subseteq> defined_keys st'"
  "\<And>out st'. visit_ref env rr loc fuel d v raw st = Inr (out, st') \<Longrightarrow> defined_keys st \<subseteq> defined_keys st'"
proof (induction env rr loc fuel d v node st and env rr loc fuel d v vs st and env rr loc fuel d v kvs st and env rr loc fuel d v raw st
    rule: visit_induct)
  case (1 env rr loc fuel d v node st)
  from "1.prems" show ?case
  proof (cases rule: visit_Inr_cases)
    case (ref kvs raw out st1 fields)
    from "1.IH"(2) [OF ref(1,3,4,5)] "1.IH"(3) [OF ref(1,6)] ref show ?thesis by auto
  qed (use "1.IH" in auto)
next
  case (6 env rr loc fuel d v raw st)
  from "6.prems" show ?case
  proof (cases rule: visit_ref_cases)
    case (built r d' v' p' schema f w st2)
    have "defined_keys (st\<lparr>ss_definitions := dset (definition_key env v' p') (JObj []) (ss_definitions st),
         ss_building := (v', p') # ss_building st\<rparr>) \<subseteq> defined_keys st2"
      using "6.IH" built by (auto simp: map_of_eq_None_iff)
    with built show ?thesis by (auto simp: dom_update)
  qed (auto simp: dom_update)
next
  case (3 env rr loc fuel d v x xs st)
  then show ?case unfolding visit_items_Inr by (meson order_trans)
next
  case (5 env rr loc fuel d v k x kvs st)
  show ?case
  proof (cases "k = ''$ref''")
    case False
    with 5 show ?thesis unfolding visit_fields_Inr [OF False] by (meson order_trans)
  qed (use 5 in auto)
qed auto

text \<open>\<open>K\<close> bounds the definitions that the references reachable from a value can need.\<close>

definition reachable_keys :: "openapi_env \<Rightarrow> reference_resolver \<Rightarrow> json \<Rightarrow> json_object \<Rightarrow> uuid \<Rightarrow> pystr set" where
  "reachable_keys env rr j d v = (\<lambda>(v, p). definition_key env v p) ` set (reference_universe env rr j d v)"

definition enough_fuel :: "openapi_env \<Rightarrow> reference_resolver \<Rightarrow> pystr set \<Rightarrow> nat \<Rightarrow> json_object \<Rightarrow> uuid \<Rightarrow> json \<Rightarrow> schema_state \<Rightarrow> bool" where
  "enough_fuel env rr K fuel d v j st \<longleftrightarrow> finite K \<and> reachable_keys env rr j d v \<subseteq> K \<and> card (K - defined_keys st) \<le> fuel"

lemma reachable_keys_mono: "set (ref_values j') \<subseteq> set (ref_values j) \<Longrightarrow> reachable_keys env rr j' d v \<subseteq> reachable_keys env rr j d v"
  unfolding reachable_keys_def by (intro image_mono) (auto simp del: ref_values_simps simp: set_universe)

lemma enough_fuel_sub:
  assumes "enough_fuel env rr K fuel d v j st" "set (ref_values j') \<subseteq> set (ref_values j)" "defined_keys st \<subseteq> defined_keys st'"
  shows "enough_fuel env rr K fuel d v j' st'"
proof -
  have "card (K - defined_keys st') \<le> card (K - defined_keys st)" using assms by (intro card_mono) (auto simp: enough_fuel_def)
  with assms(1) reachable_keys_mono [OF assms(2), of env rr d v] show ?thesis by (auto simp: enough_fuel_def)
qed

lemma enough_fuel_jump:
  assumes ef: "enough_fuel env rr K fuel d v (JObj [(''$ref'', JStr r)]) st" and t: "reference_target env rr r d v = Inr (d', v', p')"
    and new: "definition_key env v' p' \<notin> defined_keys st" and to: "json_pointer d' p' = Inr (JObj schema)"
    and st': "defined_keys st' = insert (definition_key env v' p') (defined_keys st)"
  shows "\<exists>f. fuel = Suc f \<and> enough_fuel env rr K f d' v' (JObj schema) st'"
proof -
  let ?k = "definition_key env v' p'"
  have "(v', p') \<in> set (reference_universe env rr (JObj [(''$ref'', JStr r)]) d v)" by (rule target_in_universe [OF t]) simp
  then have k: "?k \<in> K" using ef by (force simp: enough_fuel_def reachable_keys_def)
  have "set (reference_universe env rr (JObj schema) d' v') \<subseteq> set (reference_universe env rr (JObj [(''$ref'', JStr r)]) d v)"
    by (rule universe_mono [OF json_pointer_refs [OF to] reference_target_known(1,2) [OF t]])
  then have "reachable_keys env rr (JObj schema) d' v' \<subseteq> K" using ef by (auto simp: enough_fuel_def reachable_keys_def)
  moreover have "card (K - defined_keys st') < card (K - defined_keys st)"
    using ef k new by (intro psubset_card_mono) (auto simp: enough_fuel_def st')
  ultimately show ?thesis using ef by (cases fuel) (auto simp: enough_fuel_def)
qed

lemma no_fuel_used [simp]:
  "reference_target env rr r d v \<noteq> Inl RanOutOfFuel" "json_pointer d p \<noteq> Inl RanOutOfFuel" "as_json_object j \<noteq> Inl RanOutOfFuel"
proof -
  have "walk_pointer ts node \<noteq> Inl RanOutOfFuel" for ts node
    by (induction ts node rule: walk_pointer.induct) (auto split: json.splits option.splits)
  then show "json_pointer d p \<noteq> Inl RanOutOfFuel" by (simp add: json_pointer_def Let_def)
qed (auto simp: reference_target_def as_json_object_def split: sum.splits option.splits json.splits if_splits)

lemma visit_ref_fuel:
  assumes ef: "enough_fuel env rr K fuel d v (JObj [(''$ref'', raw)]) st"
    and step: "\<And>r d' v' p' schema f. raw = JStr r \<Longrightarrow> r \<noteq> [] \<Longrightarrow> reference_target env rr r d v = Inr (d', v', p')
      \<Longrightarrow> definition_key env v' p' \<notin> defined_keys st \<Longrightarrow> (v', p') \<notin> set (ss_building st) \<Longrightarrow> fuel = Suc f
      \<Longrightarrow> visit env rr loc f d' v' (JObj schema) (st\<lparr>ss_definitions := dset (definition_key env v' p') (JObj []) (ss_definitions st),
           ss_building := (v', p') # ss_building st\<rparr>) \<noteq> Inl RanOutOfFuel \<or> \<not> enough_fuel env rr K f d' v' (JObj schema)
           (st\<lparr>ss_definitions := dset (definition_key env v' p') (JObj []) (ss_definitions st), ss_building := (v', p') # ss_building st\<rparr>)"
  shows "visit_ref env rr loc fuel d v raw st \<noteq> Inl RanOutOfFuel"
proof
  assume out: "visit_ref env rr loc fuel d v raw st = Inl RanOutOfFuel"
  then obtain r where raw: "raw = JStr r" "r \<noteq> []" unfolding visit_ref.simps by (auto split: json.splits if_splits)
  with out obtain d' v' p' where t: "reference_target env rr r d v = Inr (d', v', p')"
    unfolding visit_ref.simps by (auto simp: rbind_Inl_iff)
  let ?st = "st\<lparr>ss_definitions := dset (definition_key env v' p') (JObj []) (ss_definitions st), ss_building := (v', p') # ss_building st\<rparr>"
  from out obtain schema where new: "definition_key env v' p' \<notin> defined_keys st" "(v', p') \<notin> set (ss_building st)"
    and to: "json_pointer d' p' = Inr (JObj schema)"
    and failed: "fuel = 0 \<or> (\<exists>f. fuel = Suc f \<and> visit env rr loc f d' v' (JObj schema) ?st = Inl RanOutOfFuel)"
    unfolding visit_ref.simps
    by (cases fuel) (auto simp: raw t Let_def rbind_Inl_iff rbind_Inr_iff map_of_eq_None_iff split: if_splits)
  have "defined_keys ?st = insert (definition_key env v' p') (defined_keys st)" by (simp add: dom_update)
  from enough_fuel_jump [OF ef [unfolded raw(1)] t new(1) to this] obtain f where "fuel = Suc f" "enough_fuel env rr K f d' v' (JObj schema) ?st" by blast
  with failed step [OF raw t new] show False by blast
qed

lemma visit_enough_fuel:
  "enough_fuel env rr K fuel d v node st \<Longrightarrow> visit env rr loc fuel d v node st \<noteq> Inl RanOutOfFuel"
  "enough_fuel env rr K fuel d v (JArr vs) st \<Longrightarrow> visit_items env rr loc fuel d v vs st \<noteq> Inl RanOutOfFuel"
  "enough_fuel env rr K fuel d v (JObj kvs) st \<Longrightarrow> visit_fields env rr loc fuel d v kvs st \<noteq> Inl RanOutOfFuel"
  "enough_fuel env rr K fuel d v (JObj [(''$ref'', raw)]) st \<Longrightarrow> visit_ref env rr loc fuel d v raw st \<noteq> Inl RanOutOfFuel"
proof (induction env rr loc fuel d v node st and env rr loc fuel d v vs st and env rr loc fuel d v kvs st and env rr loc fuel d v raw st
    rule: visit_induct)
  case (1 env rr loc fuel d v node st)
  show ?case
  proof (cases node)
    case (JObj kvs)
    have raw: "visit_ref env rr loc fuel d v raw st \<noteq> Inl RanOutOfFuel" if "dget kvs ''$ref'' = Some raw" "raw \<noteq> JNull" for raw
      by (rule "1.IH"(2) [OF JObj that enough_fuel_sub [OF "1.prems"]]) (use that JObj in \<open>auto dest!: map_of_SomeD\<close>)
    have "visit_fields env rr loc fuel d v kvs st1 \<noteq> Inl RanOutOfFuel"
      if "visit_ref env rr loc fuel d v raw st = Inr (out, st1) \<or> st1 = st" for raw out st1
    proof (rule "1.IH"(3) [OF JObj enough_fuel_sub [OF "1.prems"]])
      show "defined_keys st \<subseteq> defined_keys st1" using that visit_keeps_keys(4) by blast
    qed (simp add: JObj)
    with raw show ?thesis unfolding visit.simps [of env rr loc fuel d v node st]
      by (auto simp: JObj rbind_Inl_iff split: option.splits if_splits)
  qed (use 1 in \<open>auto simp: rbind_Inl_iff\<close>)
next
  case (3 env rr loc fuel d v x xs st)
  have "visit env rr loc fuel d v x st \<noteq> Inl RanOutOfFuel" by (rule "3.IH"(1) [OF enough_fuel_sub [OF 3(3)]]) auto
  moreover have "visit_items env rr loc fuel d v xs st1 \<noteq> Inl RanOutOfFuel" if "visit env rr loc fuel d v x st = Inr (y, st1)" for y st1
    by (rule "3.IH"(2) [OF enough_fuel_sub [OF 3(3)]]) (use visit_keeps_keys(1) [OF that] in auto)
  ultimately show ?case by (auto simp: rbind_Inl_iff)
next
  case (5 env rr loc fuel d v k x kvs st)
  show ?case
  proof (cases "k = ''$ref''")
    case False
    have "visit env rr loc fuel d v x st \<noteq> Inl RanOutOfFuel" by (rule "5.IH"(2) [OF False enough_fuel_sub [OF 5(4)]]) auto
    moreover have "visit_fields env rr loc fuel d v kvs st1 \<noteq> Inl RanOutOfFuel" if "visit env rr loc fuel d v x st = Inr (y, st1)" for y st1
      by (rule "5.IH"(3) [OF False enough_fuel_sub [OF 5(4)]]) (use visit_keeps_keys(1) [OF that] in auto)
    ultimately show ?thesis using False by (auto simp: rbind_Inl_iff)
  next
    case True
    have "visit_fields env rr loc fuel d v kvs st \<noteq> Inl RanOutOfFuel" by (rule "5.IH"(1) [OF True enough_fuel_sub [OF 5(4)]]) auto
    with True show ?thesis by simp
  qed
next
  case (6 env rr loc fuel d v raw st)
  show ?case
  proof (rule visit_ref_fuel [OF "6.prems"])
    fix r d' v' p' schema f
    assume "raw = JStr r" "r \<noteq> []" "reference_target env rr r d v = Inr (d', v', p')" "definition_key env v' p' \<notin> defined_keys st"
      "(v', p') \<notin> set (ss_building st)" "fuel = Suc f"
    with "6.IH" show "visit env rr loc f d' v' (JObj schema) (st\<lparr>ss_definitions := dset (definition_key env v' p') (JObj []) (ss_definitions st),
           ss_building := (v', p') # ss_building st\<rparr>) \<noteq> Inl RanOutOfFuel \<or> \<not> enough_fuel env rr K f d' v' (JObj schema)
           (st\<lparr>ss_definitions := dset (definition_key env v' p') (JObj []) (ss_definitions st), ss_building := (v', p') # ss_building st\<rparr>)"
      by (auto simp: map_of_eq_None_iff)
  qed
qed auto

text \<open>Building a schema always ends with a schema or an error of the source.\<close>

lemma materialize_schema_total: "materialize_schema env rr schema d v loc \<noteq> Inl RanOutOfFuel"
proof -
  let ?K = "reachable_keys env rr schema d v"
  have "card ?K \<le> schema_fuel env rr schema d v"
    unfolding reachable_keys_def schema_fuel_def by (metis card_image_le card_length finite_set le_trans)
  then have ef: "enough_fuel env rr ?K (schema_fuel env rr schema d v) d v schema \<lparr>ss_definitions = [], ss_building = []\<rparr>"
    by (auto simp: enough_fuel_def reachable_keys_def)
  then have "visit env rr loc (schema_fuel env rr schema d v) d v schema \<lparr>ss_definitions = [], ss_building = []\<rparr> \<noteq> Inl RanOutOfFuel"
    by (rule visit_enough_fuel(1))
  then show ?thesis unfolding materialize_schema_def
    by (auto simp: rbind_Inl_iff add_definitions_def split: json.splits option.splits if_splits)
qed

subsection \<open>Every reference leads to a definition of the schema itself\<close>

definition local_refs :: "pystr set \<Rightarrow> json \<Rightarrow> bool" where
  "local_refs ks j \<longleftrightarrow> set (ref_values j) \<subseteq> (\<lambda>k. JStr (''#/$defs/'' @ k)) ` ks"

definition local_definitions :: "schema_state \<Rightarrow> bool" where
  "local_definitions st \<longleftrightarrow> (\<forall>(k, w)\<in>set (ss_definitions st). k \<noteq> ''$ref'' \<and> local_refs (defined_keys st) w)"

definition self_contained :: "json_object \<Rightarrow> bool" where
  "self_contained schema \<longleftrightarrow>
     local_refs (case dget schema ''$defs'' of Some (JObj defs) \<Rightarrow> fst ` set defs | _ \<Rightarrow> {}) (JObj schema)"

lemma local_refs_mono: "local_refs ks j \<Longrightarrow> ks \<subseteq> ks' \<Longrightarrow> local_refs ks' j"
  by (auto simp: local_refs_def)

lemma local_refs_simps [simp]:
  "local_refs ks JNull" "local_refs ks (JBool b)" "local_refs ks (JInt i)" "local_refs ks (JFloat q t)" "local_refs ks (JStr s)"
  "local_refs ks (JArr vs) \<longleftrightarrow> (\<forall>w\<in>set vs. local_refs ks w)"
  by (auto simp: local_refs_def)

lemma local_refs_obj:
  "local_refs ks (JObj kvs) \<longleftrightarrow> (\<forall>(k, w)\<in>set kvs. local_refs ks w \<and> (k = ''$ref'' \<longrightarrow> w \<in> (\<lambda>k. JStr (''#/$defs/'' @ k)) ` ks))"
  unfolding local_refs_def set_ref_values_obj by fast

lemma set_dset: "set (dset k w kvs) \<subseteq> insert (k, w) (set kvs)"
  by (induction kvs) auto

lemma local_definitions_set:
  assumes "local_definitions st" "local_refs (insert k (defined_keys st)) w" "k \<noteq> ''$ref''"
  shows "local_definitions (st\<lparr>ss_definitions := dset k w (ss_definitions st)\<rparr>)"
  unfolding local_definitions_def
proof (rule ballI)
  fix x assume "x \<in> set (ss_definitions (st\<lparr>ss_definitions := dset k w (ss_definitions st)\<rparr>))"
  then have "x = (k, w) \<or> x \<in> set (ss_definitions st)" using set_dset [of k w "ss_definitions st"] by auto
  with assms show "case x of (k', w') \<Rightarrow> k' \<noteq> ''$ref'' \<and> local_refs (defined_keys (st\<lparr>ss_definitions := dset k w (ss_definitions st)\<rparr>)) w'"
    by (auto simp: local_definitions_def dom_update intro: local_refs_mono)
qed

lemma definition_key_not_ref: "definition_key env v p \<noteq> ''$ref''"
  by (simp add: definition_key_def)

lemma visit_local:
  "\<And>j st'. visit env rr loc fuel d v node st = Inr (j, st') \<Longrightarrow> local_definitions st
     \<Longrightarrow> local_refs (defined_keys st') j \<and> local_definitions st'"
  "\<And>ws st'. visit_items env rr loc fuel d v vs st = Inr (ws, st') \<Longrightarrow> local_definitions st
     \<Longrightarrow> local_refs (defined_keys st') (JArr ws) \<and> local_definitions st'"
  "\<And>out st'. visit_fields env rr loc fuel d v kvs st = Inr (out, st') \<Longrightarrow> local_definitions st
     \<Longrightarrow> local_refs (defined_keys st') (JObj out) \<and> local_definitions st'"
  "\<And>out st'. visit_ref env rr loc fuel d v raw st = Inr (out, st') \<Longrightarrow> local_definitions st
     \<Longrightarrow> local_refs (defined_keys st') (JObj out) \<and> local_definitions st'"
proof (induction env rr loc fuel d v node st and env rr loc fuel d v vs st and env rr loc fuel d v kvs st and env rr loc fuel d v raw st
    rule: visit_induct)
  case (1 env rr loc fuel d v node st)
  from "1.prems"(1) show ?case
  proof (cases rule: visit_Inr_cases)
    case (ref kvs raw out st1 fields)
    have r: "local_refs (defined_keys st1) (JObj out)" "local_definitions st1" using "1.IH"(2) [OF ref(1,3,4,5) "1.prems"(2)] by auto
    have f: "local_refs (defined_keys st') (JObj fields)" "local_definitions st'" using "1.IH"(3) [OF ref(1,6) r(2)] by auto
    have "local_refs (defined_keys st') (JObj out)" by (rule local_refs_mono [OF r(1) visit_keeps_keys(3) [OF ref(6)]])
    with f ref(2) show ?thesis by (auto simp: local_refs_obj)
  qed (use 1 in \<open>auto simp: local_refs_def\<close>)
next
  case (3 env rr loc fuel d v x xs st)
  from "3.prems"(1) obtain y ys st1 where x: "ws = y # ys" "visit env rr loc fuel d v x st = Inr (y, st1)" "visit_items env rr loc fuel d v xs st1 = Inr (ys, st')"
    unfolding visit_items_Inr by blast
  with "3.IH"(1) [OF x(2) "3.prems"(2)] "3.IH"(2) [OF x(3)] local_refs_mono [OF _ visit_keeps_keys(2) [OF x(3)]] show ?case by auto
next
  case (5 env rr loc fuel d v k x kvs st)
  show ?case
  proof (cases "k = ''$ref''")
    case False
    with "5.prems"(1) obtain y ys st1 where x: "out = (k, y) # ys" "visit env rr loc fuel d v x st = Inr (y, st1)"
      "visit_fields env rr loc fuel d v kvs st1 = Inr (ys, st')"
      unfolding visit_fields_Inr [OF False] by auto
    with "5.IH"(2) [OF False x(2) "5.prems"(2)] "5.IH"(3) [OF False x(3)] local_refs_mono [OF _ visit_keeps_keys(3) [OF x(3)]] False
    show ?thesis by (auto simp: local_refs_obj)
  qed (use 5 in auto)
next
  case (6 env rr loc fuel d v raw st)
  from "6.prems"(1) show ?case
  proof (cases rule: visit_ref_cases)
    case (built r d' v' p' schema f w st2)
    let ?k = "definition_key env v' p'"
    let ?st = "st\<lparr>ss_definitions := dset ?k (JObj []) (ss_definitions st), ss_building := (v', p') # ss_building st\<rparr>"
    have "local_definitions (st\<lparr>ss_definitions := dset ?k (JObj []) (ss_definitions st)\<rparr>)"
      by (rule local_definitions_set [OF "6.prems"(2)]) (simp_all add: local_refs_def definition_key_not_ref)
    then have "local_definitions ?st" by (simp add: local_definitions_def)
    then have w: "local_refs (defined_keys st2) w" "local_definitions st2" using "6.IH" built by (auto simp: map_of_eq_None_iff)
    have "local_definitions (st2\<lparr>ss_definitions := dset ?k w (ss_definitions st2)\<rparr>)"
      by (rule local_definitions_set [OF w(2) local_refs_mono [OF w(1)]]) (auto simp: definition_key_not_ref)
    then show ?thesis by (auto simp: built local_definitions_def local_refs_obj dom_update)
  next
    case (placeholder r d' v' p')
    have "local_definitions st'" unfolding placeholder(5)
      by (rule local_definitions_set [OF "6.prems"(2)]) (simp_all add: local_refs_def definition_key_not_ref)
    then show ?thesis by (auto simp: placeholder local_refs_obj dom_update)
  qed (use "6.prems"(2) in \<open>auto simp: local_refs_obj\<close>)
qed (auto simp: local_refs_obj)

lemma set_merge_definitions: "set (merge_definitions existing defs) \<subseteq> set existing \<union> set defs"
proof (induction defs arbitrary: existing)
  case (Cons x defs)
  from Cons.IH [of "dset (fst x) (snd x) existing"] set_dset [of "fst x" "snd x" existing] show ?case
    by (cases x) (auto simp: merge_definitions_def)
qed (simp add: merge_definitions_def)

lemma keys_merge_definitions: "fst ` set (merge_definitions existing defs) = fst ` set existing \<union> fst ` set defs"
proof (induction defs arbitrary: existing)
  case (Cons x defs)
  from Cons.IH [of "dset (fst x) (snd x) existing"] show ?case by (cases x) (auto simp: merge_definitions_def dom_update)
qed (simp add: merge_definitions_def)

lemma add_definitions_cases:
  assumes "add_definitions definitions m = Inr out"
  obtains (none) "definitions = []" "out = m"
  | (some) defs where "out = dset ''$defs'' (JObj defs) m" "fst ` set definitions \<subseteq> fst ` set defs"
    "set defs \<subseteq> set definitions \<or> (\<exists>e. (''$defs'', JObj e) \<in> set m \<and> set defs \<subseteq> set e \<union> set definitions)"
proof (cases "definitions = []")
  case False
  show thesis
  proof (cases "\<exists>e. dget m ''$defs'' = Some (JObj e)")
    case True
    then obtain e where e: "dget m ''$defs'' = Some (JObj e)" by blast
    with assms False have "out = dset ''$defs'' (JObj (merge_definitions e definitions)) m" by (simp add: add_definitions_def)
    then show thesis
      by (rule some) (use set_merge_definitions [of e definitions] map_of_SomeD [OF e] in \<open>blast | simp add: keys_merge_definitions\<close>)+
  next
    case no: False
    with assms False have "out = dset ''$defs'' (JObj definitions) m"
      by (auto simp: add_definitions_def split: option.splits json.splits)
    then show thesis by (rule some) auto
  qed
qed (use assms none in \<open>simp add: add_definitions_def\<close>)

lemma materialized_refs:
  assumes "materialize_schema env rr schema d v loc = Inr out"
  shows "self_contained out" "local_refs (generated_keys env) (JObj out)"
proof -
  from assms obtain kvs m st where v: "visit env rr loc (schema_fuel env rr schema d v) d v (JObj kvs) \<lparr>ss_definitions = [], ss_building = []\<rparr>
      = Inr (JObj m, st)" and out: "add_definitions (ss_definitions st) m = Inr out"
    unfolding materialize_schema_def by (auto simp: rbind_Inr_iff)
  have "local_definitions \<lparr>ss_definitions = [], ss_building = []\<rparr>" by (simp add: local_definitions_def)
  from visit_local(1) [OF v this] have l: "local_refs (defined_keys st) (JObj m)" "local_definitions st" by auto
  have refs: "local_refs K (JObj out)" if K: "defined_keys st \<subseteq> K" for K
    using out
  proof (cases rule: add_definitions_cases)
    case none
    with l(1) K show ?thesis by (auto intro: local_refs_mono)
  next
    case o: (some defs)
    have m: "local_refs K (JObj m)" by (rule local_refs_mono [OF l(1) K])
    have "local_refs K (JObj (ss_definitions st))" using l(2) local_refs_mono [OF _ K] by (auto simp: local_refs_obj local_definitions_def)
    moreover have "local_refs K (JObj e)" if "(''$defs'', JObj e) \<in> set m" for e
      using m that unfolding local_refs_obj [of _ m] by fast
    ultimately have "local_refs K (JObj defs)" using o(3) unfolding local_refs_obj by (meson UnE subsetD)
    then show ?thesis using m set_dset [of "''$defs''" "JObj defs" m] by (auto simp: o(1) local_refs_obj)
  qed
  from visit_generated_keys(1) [OF v] show "local_refs (generated_keys env) (JObj out)" by (intro refs) simp
  from out show "self_contained out"
  proof (cases rule: add_definitions_cases)
    case none
    then show ?thesis using refs by (auto simp: self_contained_def)
  next
    case o: (some defs)
    then have "dget out ''$defs'' = Some (JObj defs)" by (simp add: update_conv)
    then show ?thesis using refs [OF o(2)] by (simp add: self_contained_def)
  qed
qed

end
