(* ===== verification/OpenApiSchema.thy ===== *)
theory OpenApiSchema
  imports OpenApiRefs
begin

text \<open>
  Schemas of an OpenAPI document (\<^verbatim>\<open>backend/app/parsers/openapi/parser.py\<close>): the translation of the
  3.0 dialect into JSON Schema 2020-12 with the list of what it changed, the search for schemas in another
  dialect, and \<^verbatim>\<open>_schema\<close>, which makes a schema of the source ready for the canonical model.
\<close>

section \<open>Translation of the 3.0 dialect\<close>

definition CANONICAL_SCHEMA_DIALECT :: pystr where
  "CANONICAL_SCHEMA_DIALECT = ''https://json-schema.org/draft/2020-12/schema''"

definition OPENAPI_30_SCHEMA_DIALECT :: pystr where
  "OPENAPI_30_SCHEMA_DIALECT = ''openapi-3.0-schema-object''"

definition OPENAPI_31_SCHEMA_DIALECT :: pystr where
  "OPENAPI_31_SCHEMA_DIALECT = ''https://spec.openapis.org/oas/3.1/dialect/base''"

type_synonym transformations = "(pystr \<times> pystr) list"

text \<open>The keywords whose values hold schemas: a mapping of schemas, a list of schemas, or one schema.\<close>

definition map_keywords :: "pystr list" where
  "map_keywords = [''properties'', ''patternProperties'', ''dependentSchemas'', ''$defs'', ''definitions'']"

definition list_keywords :: "pystr list" where
  "list_keywords = [''allOf'', ''anyOf'', ''oneOf'', ''prefixItems'']"

definition schema_keywords :: "pystr list" where
  "schema_keywords = [''items'', ''additionalProperties'', ''contains'', ''propertyNames'', ''not'', ''if'', ''then'', ''else'',
     ''unevaluatedItems'', ''unevaluatedProperties'']"

lemma rmap_cong [fundef_cong]: "xs = ys \<Longrightarrow> (\<And>x. x \<in> set ys \<Longrightarrow> f x = g x) \<Longrightarrow> rmap f xs = rmap g ys"
  by (induction ys arbitrary: xs) auto

lemma size_dget: "dget kvs k = Some w \<Longrightarrow> size w \<le> size_list (size_prod (\<lambda>_. 0) size) kvs"
  using size_json_member [of k w kvs] by (auto dest!: map_of_SomeD)

lemma size_enumerate: "(i, w) \<in> set (List.enumerate n ws) \<Longrightarrow> size w \<le> size_list size ws"
  using size_json_elem [of w ws] by (fastforce dest: in_set_enumerate_eq [THEN iffD1])

lemma size_obj_get: "obj_get j k = Some w \<Longrightarrow> size w < size j"
  by (cases j) (auto dest: size_dget simp: less_Suc_eq_le)

text \<open>The steps on the keywords of one schema, after the schemas inside it.\<close>

definition exclusive_bound :: "pystr \<Rightarrow> pystr \<times> pystr \<Rightarrow> json_object \<times> transformations \<Rightarrow> openapi_error + json_object \<times> transformations" where
  "exclusive_bound ptr = (\<lambda>(keyword, inclusive) (out, ts).
     case dget out keyword of
       Some (JBool exclusive) \<Rightarrow>
         (let out1 = ddel keyword out; ts1 = ts @ [(ptr, keyword)]
          in if exclusive
             then (case dget out1 inclusive of
                 Some (JInt i) \<Rightarrow> Inr (dset keyword (JInt i) (ddel inclusive out1), ts1)
               | Some (JFloat q t) \<Rightarrow> Inr (dset keyword (JFloat q t) (ddel inclusive out1), ts1)
               | _ \<Rightarrow> Inl (SourceFailure SourceParseError ''OpenAPI 3.0 exclusive bound requires a numeric inclusive bound'' None (Some ptr)))
             else Inr (out1, ts1))
     | _ \<Rightarrow> Inr (out, ts))"

definition example_keyword :: "pystr \<Rightarrow> json_object \<times> transformations \<Rightarrow> json_object \<times> transformations" where
  "example_keyword ptr = (\<lambda>(out, ts).
     case dget out ''example'' of
       None \<Rightarrow> (out, ts)
     | Some x \<Rightarrow> (let out1 = ddel ''example'' out
         in (if dget out1 ''examples'' = None then dset ''examples'' (JArr [x]) out1 else out1, ts @ [(ptr, ''example'')])))"

definition root_keywords :: "pystr list" where
  "root_keywords = [''$schema'', ''$id'', ''$anchor'', ''$dynamicAnchor'', ''$defs'']"

definition nullable_keyword :: "pystr \<Rightarrow> json_object \<times> transformations \<Rightarrow> json_object \<times> transformations" where
  "nullable_keyword ptr = (\<lambda>(out, ts).
     let nullable = dget out ''nullable''; out1 = ddel ''nullable'' out;
         ts1 = (if nullable \<in> {None, Some JNull} then ts else ts @ [(ptr, ''nullable'')])
     in if nullable = Some (JBool True)
        then ([(k, w). k \<leftarrow> root_keywords, Some w \<leftarrow> [dget out1 k]]
          @ [(''anyOf'', JArr [JObj (fold ddel root_keywords out1), JObj [(''type'', JStr ''null'')]])], ts1)
        else (out1, ts1))"

definition own_keywords :: "pystr \<Rightarrow> json_object \<Rightarrow> transformations \<Rightarrow> openapi_error + json_object \<times> transformations" where
  "own_keywords ptr out ts =
     rbind (exclusive_bound ptr (''exclusiveMinimum'', ''minimum'') (out, ts)) (\<lambda>r1.
     rbind (exclusive_bound ptr (''exclusiveMaximum'', ''maximum'') r1) (\<lambda>r2.
       Inr (nullable_keyword ptr (example_keyword ptr r2))))"

text \<open>
  \<open>normalize ptr j\<close> is \<^verbatim>\<open>nested_schema\<close>: what is not an object stays as it is. Every keyword is looked up
  in the original schema, since no step before has touched its value.
\<close>

function normalize :: "pystr \<Rightarrow> json \<Rightarrow> openapi_error + json \<times> transformations" where
  "normalize ptr j =
     (case j of
        JObj node \<Rightarrow>
          rbind (rfold (\<lambda>(out, ts) key. case dget node key of
              Some (JObj m) \<Rightarrow> rbind (rmap (\<lambda>(k, x). rbind (normalize (ptr @ ''/'' @ key @ ''/'' @ pointer_token k) x) (\<lambda>(y, t). Inr ((k, y), t))) m)
                (\<lambda>rs. Inr (dset key (JObj (map fst rs)) out, ts @ concat (map snd rs)))
            | _ \<Rightarrow> Inr (out, ts)) (node, []) map_keywords) (\<lambda>r1.
          rbind (rfold (\<lambda>(out, ts) key. case dget node key of
              Some (JArr vs) \<Rightarrow> rbind (rmap (\<lambda>(i, x). normalize (ptr @ ''/'' @ key @ ''/'' @ digits_nat i) x) (List.enumerate 0 vs))
                (\<lambda>rs. Inr (dset key (JArr (map fst rs)) out, ts @ concat (map snd rs)))
            | _ \<Rightarrow> Inr (out, ts)) r1 list_keywords) (\<lambda>r2.
          rbind (rfold (\<lambda>(out, ts) key. case dget node key of
              Some x \<Rightarrow> rbind (normalize (ptr @ ''/'' @ key) x) (\<lambda>(y, t). Inr (dset key y out, ts @ t))
            | None \<Rightarrow> Inr (out, ts)) r2 schema_keywords) (\<lambda>(out, ts).
          rbind (own_keywords ptr out ts) (\<lambda>(out', ts'). Inr (JObj out', ts')))))
      | _ \<Rightarrow> Inr (j, []))"
  by pat_completeness auto
termination
  by (relation "measure (size \<circ> snd)") (auto dest!: size_dget size_json_member size_enumerate)

declare normalize.simps [simp del]

definition normalize_openapi_30_schema :: "pystr \<Rightarrow> json_object \<Rightarrow> openapi_error + json_object \<times> transformations" where
  "normalize_openapi_30_schema loc schema =
     rbind (normalize loc (JObj schema)) (\<lambda>(j, ts). rbind (as_json_object j) (\<lambda>out. Inr (out, ts)))"

subsection \<open>The translation keeps a schema self-contained\<close>

declare ref_values_simps(7) [simp del]

text \<open>The names of the definitions at the root of a schema.\<close>

definition defs_keys :: "json_object \<Rightarrow> pystr set" where
  "defs_keys schema = (case dget schema ''$defs'' of Some (JObj defs) \<Rightarrow> fst ` set defs | _ \<Rightarrow> {})"

text \<open>\<open>out\<close> has no reference that \<open>node\<close> has not, and all the definitions of \<open>node\<close>.\<close>

definition refs_kept :: "json_object \<Rightarrow> json_object \<Rightarrow> bool" where
  "refs_kept node out \<longleftrightarrow> set (ref_values (JObj out)) \<subseteq> set (ref_values (JObj node)) \<and> defs_keys node \<subseteq> defs_keys out"

lemma refs_kept_refl: "refs_kept node node"
  by (simp add: refs_kept_def)

lemma refs_kept_trans: "refs_kept a b \<Longrightarrow> refs_kept b c \<Longrightarrow> refs_kept a c"
  unfolding refs_kept_def by blast

lemma self_contained_kept: "self_contained node \<Longrightarrow> refs_kept node out \<Longrightarrow> self_contained out"
  unfolding self_contained_def refs_kept_def local_refs_def defs_keys_def by (meson image_mono order_trans)

lemma refs_subset:
  assumes "\<And>k w. (k, w) \<in> set out \<Longrightarrow> (k, w) \<in> set node \<or> k \<noteq> ''$ref'' \<and> set (ref_values w) \<subseteq> set (ref_values (JObj node))"
  shows "set (ref_values (JObj out)) \<subseteq> set (ref_values (JObj node))"
  unfolding set_ref_values_obj [of out] using assms by (fastforce simp del: ref_values_simps simp: set_ref_values_obj)

lemma set_ddel: "set (ddel k kvs) \<subseteq> set kvs"
  by (induction kvs) auto

lemma refs_kept_ddel: "k \<noteq> ''$defs'' \<Longrightarrow> refs_kept node (ddel k node)"
  unfolding refs_kept_def by (intro conjI refs_subset) (auto simp: defs_keys_def delete_conv dest: subsetD [OF set_ddel])

lemma refs_kept_dset:
  assumes "k \<noteq> ''$ref''" "set (ref_values w) \<subseteq> set (ref_values (JObj node))" "k = ''$defs'' \<Longrightarrow> defs_keys node \<subseteq> (case w of JObj d \<Rightarrow> fst ` set d | _ \<Rightarrow> {})"
    and kept: "refs_kept node out"
  shows "refs_kept node (dset k w out)"
proof -
  have "set (ref_values (JObj (dset k w out))) \<subseteq> set (ref_values (JObj node))"
  proof -
    have "set (ref_values (JObj (dset k w out))) \<subseteq> set (ref_values (JObj out)) \<union> set (ref_values w)"
      using set_dset [of k w out] assms(1) unfolding set_ref_values_obj by fastforce
    then show ?thesis using assms(2) kept by (auto simp: refs_kept_def simp del: ref_values_simps)
  qed
  moreover have "defs_keys node \<subseteq> defs_keys (dset k w out)"
    using assms(3) kept by (cases "k = ''$defs''") (auto simp: refs_kept_def defs_keys_def update_conv split: json.splits)
  ultimately show ?thesis by (simp add: refs_kept_def)
qed

lemma exclusive_bound_kept:
  assumes "exclusive_bound ptr (kw, inc) (node, ts) = Inr (out, ts')" "kw \<notin> {''$defs'', ''$ref''}" "inc \<noteq> ''$defs''"
  shows "refs_kept node out"
proof -
  have "refs_kept node (dset kw w (ddel inc (ddel kw node)))" if "ref_values w = []" for w
    using assms(2,3) that
    by (intro refs_kept_dset refs_kept_trans [OF refs_kept_ddel refs_kept_ddel]) (auto simp del: ref_values_simps)
  moreover have "refs_kept node (ddel kw node)" using assms(2) by (intro refs_kept_ddel) simp
  ultimately show ?thesis using assms(1) refs_kept_refl
    by (auto simp: exclusive_bound_def Let_def split: option.splits json.splits if_splits)
qed

lemma example_keyword_kept: "refs_kept node (fst (example_keyword ptr (node, ts)))"
proof (cases "dget node ''example''")
  case (Some x)
  have "refs_kept node (ddel ''example'' node)" by (rule refs_kept_ddel) simp
  moreover have "set (ref_values (JArr [x])) \<subseteq> set (ref_values (JObj node))"
    using ref_values_member [OF map_of_SomeD [OF Some]] by simp
  then have "refs_kept node (dset ''examples'' (JArr [x]) (ddel ''example'' node))"
    by (intro refs_kept_dset refs_kept_ddel) (auto simp del: ref_values_simps)
  ultimately show ?thesis by (simp add: example_keyword_def Some Let_def)
qed (simp add: example_keyword_def refs_kept_refl)

lemma nullable_keyword_kept: "refs_kept node (fst (nullable_keyword ptr (node, ts)))"
proof -
  let ?n = "ddel ''nullable'' node"
  let ?roots = "[(k, w). k \<leftarrow> root_keywords, Some w \<leftarrow> [dget ?n k]]"
  let ?rest = "fold ddel root_keywords ?n"
  have del: "refs_kept node ?n" by (rule refs_kept_ddel) simp
  have sub: "set (fold ddel ks kvs) \<subseteq> set kvs" for ks kvs
    by (induction ks arbitrary: kvs) (auto dest: subsetD [OF set_ddel])
  have roots: "(k, w) \<in> set ?roots \<Longrightarrow> (k, w) \<in> set ?n" for k w by (auto dest!: sym [of "Some _"] map_of_SomeD)
  have "set (ref_values (JObj ?rest)) \<subseteq> set (ref_values (JObj ?n))" using sub by (intro refs_subset) blast
  then have "set (ref_values (JObj (?roots @ [(''anyOf'', JArr [JObj ?rest, JObj [(''type'', JStr ''null'')]])]))) \<subseteq> set (ref_values (JObj ?n))"
    using roots by (intro refs_subset) (auto simp del: ref_values_simps(7) simp: set_ref_values_obj [of "[(''type'', JStr ''null'')]"])
  moreover have "dget (?roots @ rest) ''$defs'' = (case dget ?n ''$defs'' of Some w \<Rightarrow> Some w | None \<Rightarrow> dget rest ''$defs'')" for rest
    by (simp add: root_keywords_def split: option.split)
  then have "defs_keys ?n \<subseteq> defs_keys (?roots @ [(''anyOf'', JArr [JObj ?rest, JObj [(''type'', JStr ''null'')]])])"
    unfolding defs_keys_def by (cases "dget ?n ''$defs''") (simp_all only: option.case empty_subsetI order_refl)
  ultimately have "refs_kept ?n (?roots @ [(''anyOf'', JArr [JObj ?rest, JObj [(''type'', JStr ''null'')]])])" by (simp add: refs_kept_def)
  with del refs_kept_trans [OF del] show ?thesis by (simp add: nullable_keyword_def Let_def)
qed

lemma own_keywords_kept: "own_keywords ptr node ts = Inr (out, ts') \<Longrightarrow> refs_kept node out"
proof -
  assume "own_keywords ptr node ts = Inr (out, ts')"
  then obtain r1 r2 where r: "exclusive_bound ptr (''exclusiveMinimum'', ''minimum'') (node, ts) = Inr r1"
    "exclusive_bound ptr (''exclusiveMaximum'', ''maximum'') r1 = Inr r2"
    and "nullable_keyword ptr (example_keyword ptr r2) = (out, ts')"
    unfolding own_keywords_def rbind_Inr_iff by blast
  obtain n1 t1 n2 t2 where "r1 = (n1, t1)" "r2 = (n2, t2)" by (cases r1, cases r2)
  with r have "exclusive_bound ptr (''exclusiveMinimum'', ''minimum'') (node, ts) = Inr (n1, t1)"
    "exclusive_bound ptr (''exclusiveMaximum'', ''maximum'') (n1, t1) = Inr (n2, t2)" by simp_all
  from exclusive_bound_kept [OF this(1)] exclusive_bound_kept [OF this(2)] have "refs_kept node n1" "refs_kept n1 n2" by simp_all
  moreover have "refs_kept n2 out"
    using example_keyword_kept [of n2 ptr t2] nullable_keyword_kept [of "fst (example_keyword ptr (n2, t2))" ptr "snd (example_keyword ptr (n2, t2))"]
      \<open>nullable_keyword ptr (example_keyword ptr r2) = (out, ts')\<close> \<open>r2 = (n2, t2)\<close> refs_kept_trans by simp
  ultimately show ?thesis using refs_kept_trans by blast
qed

text \<open>
  A schema whose references are all texts, as those of a materialized schema are. A property that is named \<^verbatim>\<open>$ref\<close> and has
  an object would count as a reference too.
\<close>

definition text_refs :: "json \<Rightarrow> bool" where
  "text_refs j \<longleftrightarrow> set (ref_values j) \<subseteq> range JStr"

definition refs_within :: "json \<Rightarrow> json \<Rightarrow> bool" where
  "refs_within j j' \<longleftrightarrow> (text_refs j \<longrightarrow> set (ref_values j') \<subseteq> set (ref_values j))"

definition keeps_refs :: "json \<Rightarrow> bool" where
  "keeps_refs x \<longleftrightarrow> (\<forall>ptr y t. normalize ptr x = Inr (y, t) \<longrightarrow> refs_within x y)"

lemma text_refs_member: "text_refs (JObj kvs) \<Longrightarrow> (k, w) \<in> set kvs \<Longrightarrow> text_refs w"
  unfolding text_refs_def using ref_values_member by blast

lemma normalize_text: "normalize ptr (JStr s) = Inr (JStr s, [])"
  by (simp add: normalize.simps)

lemma normalize_map_refs:
  assumes IH: "\<And>x. x \<in> snd ` set m \<Longrightarrow> keeps_refs x"
    and run: "rmap (\<lambda>(k, x). rbind (normalize (q k) x) (\<lambda>(y, t). Inr ((k, y), t))) m = Inr rs"
  shows "refs_within (JObj m) (JObj (map fst rs))" "fst ` set (map fst rs) = fst ` set m"
proof -
  show "refs_within (JObj m) (JObj (map fst rs))"
    unfolding refs_within_def
  proof (intro impI refs_subset)
    fix k y assume strs: "text_refs (JObj m)" and "(k, y) \<in> set (map fst rs)"
    then obtain t where "((k, y), t) \<in> set rs" by auto
    from rmap_set [OF run this] obtain x where x: "(k, x) \<in> set m" "normalize (q k) x = Inr (y, t)"
      by (auto simp: rbind_Inr_iff)
    show "(k, y) \<in> set m \<or> k \<noteq> ''$ref'' \<and> set (ref_values y) \<subseteq> set (ref_values (JObj m))"
    proof (cases "k = ''$ref''")
      case True
      with x(1) have "x \<in> set (ref_values (JObj m))" by (auto simp: set_ref_values_obj)
      with strs obtain s where "x = JStr s" by (auto simp: text_refs_def)
      with x normalize_text show ?thesis by simp
    next
      case False
      with IH [of x] x text_refs_member [OF strs x(1)] ref_values_member [OF x(1)] show ?thesis
        by (force simp: keeps_refs_def refs_within_def)
    qed
  qed
  have "map (fst \<circ> fst) rs = map fst m" by (rule rmap_map_proj [OF run]) (auto simp: rbind_Inr_iff)
  from arg_cong [OF this, of set] show "fst ` set (map fst rs) = fst ` set m" by (simp add: image_image)
qed

lemma normalize_list_refs:
  assumes IH: "\<And>x. x \<in> set vs \<Longrightarrow> keeps_refs x"
    and run: "rmap (\<lambda>(i, x). normalize (q i) x) (List.enumerate 0 vs) = Inr rs"
  shows "refs_within (JArr vs) (JArr (map fst rs))"
proof -
  have "set (ref_values y) \<subseteq> set (ref_values (JArr vs))" if "text_refs (JArr vs)" "(y, t) \<in> set rs" for y t
  proof -
    from rmap_set [OF run that(2)] obtain i x where "(i, x) \<in> set (List.enumerate 0 vs)" "normalize (q i) x = Inr (y, t)" by auto
    then have x: "x \<in> set vs" "normalize (q i) x = Inr (y, t)" by (auto simp: in_set_enumerate_eq)
    moreover have "text_refs x" using that(1) x(1) by (auto simp: text_refs_def)
    ultimately show ?thesis using IH [OF x(1)] by (auto simp: keeps_refs_def refs_within_def)
  qed
  then show ?thesis unfolding refs_within_def by fastforce
qed

text \<open>One keyword of \<open>node\<close>, when the schemas inside \<open>node\<close> keep their references.\<close>

lemma keyword_kept:
  assumes strs: "text_refs (JObj node)" and at: "dget node key = Some x" and within: "refs_within x y" and kept: "refs_kept node out"
    and key: "key \<noteq> ''$ref''" and defs: "key = ''$defs'' \<Longrightarrow> x = JObj m \<and> y = JObj m' \<and> fst ` set m' = fst ` set m"
  shows "refs_kept node (dset key y out)"
proof (rule refs_kept_dset [OF key _ _ kept])
  show "set (ref_values y) \<subseteq> set (ref_values (JObj node))"
    using within text_refs_member [OF strs map_of_SomeD [OF at]] ref_values_member [OF map_of_SomeD [OF at]] by (auto simp: refs_within_def)
  show "defs_keys node \<subseteq> (case y of JObj d \<Rightarrow> fst ` set d | _ \<Rightarrow> {})" if "key = ''$defs''"
    using defs [OF that] at that by (auto simp: defs_keys_def)
qed

lemma keywords_not_ref:
  "key \<in> set map_keywords \<Longrightarrow> key \<noteq> ''$ref''"
  "key \<in> set list_keywords \<Longrightarrow> key \<notin> {''$ref'', ''$defs''}" "key \<in> set schema_keywords \<Longrightarrow> key \<notin> {''$ref'', ''$defs''}"
  by (auto simp: map_keywords_def list_keywords_def schema_keywords_def)

lemma normalize_kept:
  "normalize ptr j = Inr (j', ts) \<Longrightarrow> (case j of JObj node \<Rightarrow> text_refs j \<longrightarrow> (\<exists>out. j' = JObj out \<and> refs_kept node out) | _ \<Rightarrow> j' = j)"
proof (induction j arbitrary: ptr j' ts rule: measure_induct_rule [of size])
  case (less j)
  have IH: "keeps_refs x" if "size x < size j" for x
    using less.IH [OF that] by (cases x) (fastforce simp: keeps_refs_def refs_within_def refs_kept_def simp del: ref_values_simps)+
  show ?case
  proof (cases j)
    case (JObj node)
    have sub: "size x < size j" if "dget node key = Some x" for key x using size_dget [OF that] by (simp add: JObj)
    from less.prems obtain r1 r2 out2 ts2 out where
      r1: "rfold (\<lambda>(out, ts) key. case dget node key of
          Some (JObj m) \<Rightarrow> rbind (rmap (\<lambda>(k, x). rbind (normalize (ptr @ ''/'' @ key @ ''/'' @ pointer_token k) x) (\<lambda>(y, t). Inr ((k, y), t))) m)
            (\<lambda>rs. Inr (dset key (JObj (map fst rs)) out, ts @ concat (map snd rs)))
        | _ \<Rightarrow> Inr (out, ts)) (node, []) map_keywords = Inr r1" and
      r2: "rfold (\<lambda>(out, ts) key. case dget node key of
          Some (JArr vs) \<Rightarrow> rbind (rmap (\<lambda>(i, x). normalize (ptr @ ''/'' @ key @ ''/'' @ digits_nat i) x) (List.enumerate 0 vs))
            (\<lambda>rs. Inr (dset key (JArr (map fst rs)) out, ts @ concat (map snd rs)))
        | _ \<Rightarrow> Inr (out, ts)) r1 list_keywords = Inr r2" and
      r3: "rfold (\<lambda>(out, ts) key. case dget node key of
          Some x \<Rightarrow> rbind (normalize (ptr @ ''/'' @ key) x) (\<lambda>(y, t). Inr (dset key y out, ts @ t))
        | None \<Rightarrow> Inr (out, ts)) r2 schema_keywords = Inr (out2, ts2)" and
      out: "own_keywords ptr out2 ts2 = Inr (out, ts)" "j' = JObj out"
      unfolding JObj normalize.simps [of ptr "JObj node"] json.case rbind_Inr_iff split_paired_Ex prod.case by blast
    have "refs_kept node (fst (out2, ts2))" if strs: "text_refs (JObj node)"
    proof (rule rfold_invariant [OF r3 rfold_invariant [OF r2 rfold_invariant [OF r1]]], goal_cases)
      case (2 s key s')
      then show ?case
      proof (cases "\<exists>m. dget node key = Some (JObj m)")
        case True
        then obtain m where m: "dget node key = Some (JObj m)" by blast
        with 2(3) obtain rs where rs: "rmap (\<lambda>(k, x). rbind (normalize (ptr @ ''/'' @ key @ ''/'' @ pointer_token k) x) (\<lambda>(y, t). Inr ((k, y), t))) m = Inr rs"
          and s': "fst s' = dset key (JObj (map fst rs)) (fst s)" by (cases s) (auto simp: rbind_Inr_iff)
        have "keeps_refs x" if "x \<in> snd ` set m" for x using IH [of x] sub [OF m] that by (auto dest: size_json_member)
        from normalize_map_refs [OF this rs] have "refs_within (JObj m) (JObj (map fst rs))" "fst ` set (map fst rs) = fst ` set m" by blast+
        then show ?thesis unfolding s' using keyword_kept [OF strs m _ 2(1) keywords_not_ref(1) [OF 2(2)]] by blast
      qed (cases s, auto split: option.splits json.splits)
    next
      case (3 s key s')
      then show ?case
      proof (cases "\<exists>vs. dget node key = Some (JArr vs)")
        case True
        then obtain vs where vs: "dget node key = Some (JArr vs)" by blast
        with 3(3) obtain rs where rs: "rmap (\<lambda>(i, x). normalize (ptr @ ''/'' @ key @ ''/'' @ digits_nat i) x) (List.enumerate 0 vs) = Inr rs"
          and s': "fst s' = dset key (JArr (map fst rs)) (fst s)" by (cases s) (auto simp: rbind_Inr_iff)
        have "keeps_refs x" if "x \<in> set vs" for x using IH sub [OF vs] size_json_elem [OF that] by simp
        from normalize_list_refs [OF this rs] have "refs_within (JArr vs) (JArr (map fst rs))" by blast
        then show ?thesis unfolding s' using keyword_kept [OF strs vs _ 3(1)] keywords_not_ref(2) [OF 3(2)] by blast
      qed (cases s, auto split: option.splits json.splits)
    next
      case (4 s key s')
      then show ?case
      proof (cases "dget node key")
        case (Some x)
        with 4(3) obtain y t where y: "normalize (ptr @ ''/'' @ key) x = Inr (y, t)" "fst s' = dset key y (fst s)"
          by (cases s) (auto simp: rbind_Inr_iff)
        show ?thesis unfolding y(2) using keyword_kept [OF strs Some _ 4(1)] IH [OF sub [OF Some]] y(1) keywords_not_ref(3) [OF 4(2)]
          by (auto simp: keeps_refs_def)
      qed (cases s, auto)
    qed (simp add: refs_kept_refl)
    with own_keywords_kept [OF out(1)] refs_kept_trans show ?thesis by (auto simp: JObj out(2))
  qed (use less.prems in \<open>auto simp: normalize.simps\<close>)
qed

section \<open>Schemas in another dialect\<close>

definition supported_dialect :: "pystr \<Rightarrow> bool" where
  "supported_dialect dialect \<longleftrightarrow> rstrip_char (CHR ''#'') dialect \<in> {OPENAPI_31_SCHEMA_DIALECT, CANONICAL_SCHEMA_DIALECT}"

lemma riter_cong [fundef_cong]: "xs = ys \<Longrightarrow> (\<And>x. x \<in> set ys \<Longrightarrow> f x = g x) \<Longrightarrow> riter f xs = riter g ys"
  by (induction ys arbitrary: xs) auto

function reject_unsupported_schema_resources :: "pystr \<Rightarrow> json \<Rightarrow> openapi_error + unit" where
  "reject_unsupported_schema_resources loc j =
     (case j of
        JObj node \<Rightarrow>
          rbind (case dget node ''$schema'' of
              Some (JStr dialect) \<Rightarrow> if supported_dialect dialect then Inr ()
                else Inl (SourceFailure SourceParseError ''Unsupported JSON Schema dialect'' None (Some loc))
            | _ \<Rightarrow> Inr ()) (\<lambda>_.
          rbind (riter (\<lambda>key. case dget node key of
              Some (JObj m) \<Rightarrow> riter (\<lambda>(k, x). reject_unsupported_schema_resources (loc @ ''/'' @ pointer_token key @ ''/'' @ pointer_token k) x) m
            | _ \<Rightarrow> Inr ()) map_keywords) (\<lambda>_.
          rbind (riter (\<lambda>key. case dget node key of
              Some (JArr vs) \<Rightarrow> riter (\<lambda>(i, x). reject_unsupported_schema_resources (loc @ ''/'' @ pointer_token key @ ''/'' @ digits_nat i) x) (List.enumerate 0 vs)
            | _ \<Rightarrow> Inr ()) list_keywords) (\<lambda>_.
          riter (\<lambda>key. case dget node key of
              Some (JObj x) \<Rightarrow> reject_unsupported_schema_resources (loc @ ''/'' @ pointer_token key) (JObj x)
            | _ \<Rightarrow> Inr ()) (schema_keywords @ [''contentSchema'']))))
      | _ \<Rightarrow> Inr ())"
  by pat_completeness auto
termination
  by (relation "measure (size \<circ> snd)") (auto dest!: size_dget size_json_member size_enumerate)

declare reject_unsupported_schema_resources.simps [simp del]

text \<open>The walk over the schema-bearing fields of a document; a callback holds path items, so the walk recurs through operations.\<close>

definition walk_object :: "(pystr \<Rightarrow> json \<Rightarrow> openapi_error + unit) \<Rightarrow> pystr \<Rightarrow> json option \<Rightarrow> openapi_error + unit" where
  "walk_object f loc j = (case j of Some (JObj m) \<Rightarrow> riter (\<lambda>(k, x). f (loc @ ''/'' @ pointer_token k) x) m | _ \<Rightarrow> Inr ())"

definition walk_array :: "(pystr \<Rightarrow> json \<Rightarrow> openapi_error + unit) \<Rightarrow> pystr \<Rightarrow> json option \<Rightarrow> openapi_error + unit" where
  "walk_array f loc j = (case j of Some (JArr vs) \<Rightarrow> riter (\<lambda>(i, x). f (loc @ ''/'' @ digits_nat i) x) (List.enumerate 0 vs) | _ \<Rightarrow> Inr ())"

definition content_dialects :: "pystr \<Rightarrow> json option \<Rightarrow> openapi_error + unit" where
  "content_dialects = walk_object (\<lambda>loc media. case obj_get media ''schema'' of
     Some x \<Rightarrow> reject_unsupported_schema_resources (loc @ ''/schema'') x | None \<Rightarrow> Inr ())"

definition parameter_dialects :: "pystr \<Rightarrow> json \<Rightarrow> openapi_error + unit" where
  "parameter_dialects loc j =
     rbind (case obj_get j ''schema'' of Some x \<Rightarrow> reject_unsupported_schema_resources (loc @ ''/schema'') x | None \<Rightarrow> Inr ()) (\<lambda>_.
       content_dialects (loc @ ''/content'') (obj_get j ''content''))"

definition request_body_dialects :: "pystr \<Rightarrow> json \<Rightarrow> openapi_error + unit" where
  "request_body_dialects loc j = content_dialects (loc @ ''/content'') (obj_get j ''content'')"

definition response_dialects :: "pystr \<Rightarrow> json \<Rightarrow> openapi_error + unit" where
  "response_dialects loc j =
     rbind (content_dialects (loc @ ''/content'') (obj_get j ''content'')) (\<lambda>_.
       walk_object parameter_dialects (loc @ ''/headers'') (obj_get j ''headers''))"

definition path_item_methods :: "pystr list" where
  "path_item_methods = [''get'', ''put'', ''post'', ''delete'', ''options'', ''head'', ''patch'', ''trace'']"

function path_item_dialects :: "pystr \<Rightarrow> json \<Rightarrow> openapi_error + unit" where
  "path_item_dialects loc j =
     rbind (walk_array parameter_dialects (loc @ ''/parameters'') (obj_get j ''parameters'')) (\<lambda>_.
     riter (\<lambda>method. case obj_get j method of
         None \<Rightarrow> Inr ()
       | Some operation \<Rightarrow>
           rbind (walk_array parameter_dialects (loc @ ''/'' @ method @ ''/parameters'') (obj_get operation ''parameters'')) (\<lambda>_.
           rbind (case obj_get operation ''requestBody'' of None \<Rightarrow> Inr () | Some b \<Rightarrow> request_body_dialects (loc @ ''/'' @ method @ ''/requestBody'') b) (\<lambda>_.
           rbind (walk_object response_dialects (loc @ ''/'' @ method @ ''/responses'') (obj_get operation ''responses'')) (\<lambda>_.
             case obj_get operation ''callbacks'' of
               Some (JObj m) \<Rightarrow> riter (\<lambda>(name, callback). case callback of
                   JObj c \<Rightarrow> riter (\<lambda>(expression, item).
                     path_item_dialects (loc @ ''/'' @ method @ ''/callbacks/'' @ pointer_token name @ ''/'' @ pointer_token expression) item) c
                 | _ \<Rightarrow> Inr ()) m
             | _ \<Rightarrow> Inr ())))) path_item_methods)"
  by pat_completeness auto
termination
  by (relation "measure (size \<circ> snd)") (auto dest!: size_obj_get size_json_member)

declare path_item_dialects.simps [simp del]

definition callback_dialects :: "pystr \<Rightarrow> json \<Rightarrow> openapi_error + unit" where
  "callback_dialects loc j = walk_object path_item_dialects loc (Some j)"

definition reject_unsupported_document_schema_dialects :: "json_object \<Rightarrow> openapi_error + unit" where
  "reject_unsupported_document_schema_dialects document =
     rbind (case dget document ''components'' of
         Some (JObj components) \<Rightarrow>
           rbind (walk_object reject_unsupported_schema_resources ''#/components/schemas'' (dget components ''schemas'')) (\<lambda>_.
           riter (\<lambda>(name, f). walk_object f (''#/components/'' @ name) (dget components name))
             [(''parameters'', parameter_dialects), (''headers'', parameter_dialects), (''requestBodies'', request_body_dialects),
              (''responses'', response_dialects), (''callbacks'', callback_dialects), (''pathItems'', path_item_dialects)])
       | _ \<Rightarrow> Inr ()) (\<lambda>_.
     riter (\<lambda>name. walk_object path_item_dialects (''#/'' @ name) (dget document name)) [''paths'', ''webhooks''])"

section \<open>A schema of the source\<close>

definition source_schema ::
  "openapi_env \<Rightarrow> reference_resolver \<Rightarrow> bool \<Rightarrow> json \<Rightarrow> json_object \<Rightarrow> uuid \<Rightarrow> pystr \<Rightarrow> openapi_error + json_object \<times> transformations" where
  "source_schema env rr is30 schema d v loc =
     rbind (materialize_schema env rr schema d v loc) (\<lambda>s.
     rbind (if is30
         then rbind (normalize_openapi_30_schema loc s) (\<lambda>(s', ts).
           Inr (if dget s' ''$schema'' = None then dset ''$schema'' (JStr CANONICAL_SCHEMA_DIALECT) s' else s', ts))
         else rbind (reject_unsupported_schema_resources loc (JObj s)) (\<lambda>_. Inr (s, []))) (\<lambda>(s', ts).
       if oe_check_schema env s' then Inr (s', ts)
       else Inl (SourceFailure SourceParseError ''Invalid JSON Schema'' (Some v) (Some loc))))"

lemma normalize_refs_kept:
  assumes "self_contained s" "normalize_openapi_30_schema loc s = Inr (s', ts)"
  shows "refs_kept s s'"
proof -
  have "text_refs (JObj s)" using assms(1) by (auto simp: self_contained_def local_refs_def text_refs_def)
  moreover have "normalize loc (JObj s) = Inr (JObj s', ts)"
    using assms(2) by (auto simp: normalize_openapi_30_schema_def rbind_Inr_iff)
  ultimately show ?thesis using normalize_kept by fastforce
qed

lemma source_schema_refs:
  assumes "source_schema env rr is30 schema d v loc = Inr (s', ts)"
  shows "self_contained s'" "local_refs (generated_keys env) (JObj s')" "oe_check_schema env s'"
proof -
  from assms obtain s where s: "materialize_schema env rr schema d v loc = Inr s" unfolding source_schema_def rbind_Inr_iff by blast
  have "refs_kept t (dset ''$schema'' (JStr x) t)" for t x
    by (rule refs_kept_dset [OF _ _ _ refs_kept_refl]) simp_all
  then have "refs_kept s s'"
    using assms normalize_refs_kept [OF materialized_refs(1) [OF s]] refs_kept_refl refs_kept_trans
    by (fastforce simp: source_schema_def s rbind_Inr_iff split: if_splits)
  with materialized_refs [OF s] show "self_contained s'" "local_refs (generated_keys env) (JObj s')"
    using self_contained_kept by (auto simp: refs_kept_def local_refs_def)
  show "oe_check_schema env s'" using assms by (auto simp: source_schema_def rbind_Inr_iff split: if_splits)
qed

section \<open>Building a schema ends\<close>

text \<open>A computation of the parser that comes to a result or to an error of the source.\<close>

definition ends :: "openapi_error + 'a \<Rightarrow> bool" where
  "ends r \<longleftrightarrow> r \<noteq> Inl RanOutOfFuel"

named_theorems ends_intros

lemma ends_Inr [ends_intros]: "ends (Inr x)" and ends_source [ends_intros]: "ends (Inl (SourceFailure c m w q))"
  and ends_other [ends_intros]: "ends (Inl (OtherFailure e))"
  by (simp_all add: ends_def)

lemma ends_rbind [ends_intros]: "ends r \<Longrightarrow> (\<And>x. ends (f x)) \<Longrightarrow> ends (rbind r f)"
  by (auto simp: ends_def rbind_Inl_iff)

lemma ends_rmap [ends_intros]: "(\<And>x. x \<in> set xs \<Longrightarrow> ends (f x)) \<Longrightarrow> ends (rmap f xs)"
  by (induction xs) (auto intro!: ends_intros)

lemma ends_riter [ends_intros]: "(\<And>x. x \<in> set xs \<Longrightarrow> ends (f x)) \<Longrightarrow> ends (riter f xs)"
  by (induction xs) (auto intro!: ends_intros)

lemma ends_rfold [ends_intros]: "(\<And>s x. x \<in> set xs \<Longrightarrow> ends (f s x)) \<Longrightarrow> ends (rfold f s xs)"
  by (induction xs arbitrary: s) (auto intro!: ends_intros)

lemma ends_attributed [ends_intros]: "ends r \<Longrightarrow> ends (attributed v p r)"
  by (auto simp: attributed_def ends_def split: sum.splits elim: attribute_source_error.elims)

lemma ends_exclusive_bound [ends_intros]: "ends (exclusive_bound ptr kw r)"
  by (cases kw, cases r) (auto simp: exclusive_bound_def Let_def intro: ends_intros split: option.splits json.splits)

lemma ends_normalize [ends_intros]: "ends (normalize ptr j)"
proof (induction j arbitrary: ptr rule: measure_induct_rule [of size])
  case (less j)
  show ?case unfolding normalize.simps [of ptr j] own_keywords_def
    by (auto intro!: ends_intros less.IH dest!: size_dget size_json_member size_enumerate split: json.split option.split)
qed

lemma ends_resources [ends_intros]: "ends (reject_unsupported_schema_resources loc j)"
proof (induction j arbitrary: loc rule: measure_induct_rule [of size])
  case (less j)
  show ?case unfolding reject_unsupported_schema_resources.simps [of loc j]
    by (auto intro!: ends_intros less.IH dest!: size_dget size_json_member size_enumerate split: json.split option.split)
qed

lemma ends_source_schema [ends_intros]: "ends (source_schema env rr is30 schema d v loc)"
proof -
  have "ends (materialize_schema env rr schema d v loc)" by (simp add: ends_def materialize_schema_total)
  then show ?thesis unfolding source_schema_def normalize_openapi_30_schema_def as_json_object_def
    by (auto intro!: ends_intros split: json.split)
qed

end
