(* ===== verification/OpenApiParser.thy ===== *)
theory OpenApiParser
  imports OpenApiSchema
begin

text \<open>
  \<^verbatim>\<open>parse_openapi\<close> (\<^verbatim>\<open>backend/app/parsers/openapi/parser.py\<close>): from a parsed OpenAPI document and the
  documents captured with it to the canonical model of the API. The specification validator, the JSON Schema
  checker and Pydantic's HTTP URL type are fields of \<open>openapi_env\<close>. The result is the canonical model and the
  sorted list of schema transformations; a canonical constructor that rejects its input is \<open>OtherFailure\<close>.
\<close>

definition pydantic :: "value_error + 'a \<Rightarrow> openapi_error + 'a" where
  "pydantic r = (case r of Inl e \<Rightarrow> Inl (OtherFailure e) | Inr x \<Rightarrow> Inr x)"

definition make_ref :: "uuid \<Rightarrow> pystr \<Rightarrow> source_ref" where
  "make_ref v p = \<lparr>ref_version = v, ref_pointer = p\<rparr>"

text \<open>\<^verbatim>\<open>str(d[k]) if d.get(k) is not None else None\<close>, and \<^verbatim>\<open>value in {...}\<close> for a set of texts\<close>

definition text_field :: "json_object \<Rightarrow> pystr \<Rightarrow> pystr option" where
  "text_field d k = (case dget d k of None \<Rightarrow> None | Some JNull \<Rightarrow> None | Some j \<Rightarrow> Some (py_str j))"

definition in_texts :: "json option \<Rightarrow> pystr list \<Rightarrow> openapi_error + bool" where
  "in_texts j ts = (case j of
     Some (JArr _) \<Rightarrow> Inl (OtherFailure (ValueError ''unhashable type''))
   | Some (JObj _) \<Rightarrow> Inl (OtherFailure (ValueError ''unhashable type''))
   | Some (JStr s) \<Rightarrow> Inr (s \<in> set ts)
   | _ \<Rightarrow> Inr False)"

text \<open>\<^verbatim>\<open>d.get(k) or {}\<close> and \<^verbatim>\<open>d.get(k) or []\<close>, which must then be of that type\<close>

definition object_or_empty :: "json_object \<Rightarrow> pystr \<Rightarrow> pystr \<Rightarrow> openapi_error + json_object" where
  "object_or_empty d k message = (case dget d k of
     None \<Rightarrow> Inr []
   | Some j \<Rightarrow> if \<not> json_truthy j then Inr [] else (case j of JObj m \<Rightarrow> Inr m | _ \<Rightarrow> Inl (parse_error message)))"

definition array_or_empty :: "json_object \<Rightarrow> pystr \<Rightarrow> pystr \<Rightarrow> openapi_error + json list" where
  "array_or_empty d k message = (case dget d k of
     None \<Rightarrow> Inr []
   | Some j \<Rightarrow> if \<not> json_truthy j then Inr [] else (case j of JArr vs \<Rightarrow> Inr vs | _ \<Rightarrow> Inl (parse_error message)))"

definition schema_or_empty :: "json option \<Rightarrow> json" where
  "schema_or_empty j = (case j of None \<Rightarrow> JObj [] | Some JNull \<Rightarrow> JObj [] | Some x \<Rightarrow> x)"

section \<open>Servers\<close>

definition http_url :: "openapi_env \<Rightarrow> pystr \<Rightarrow> openapi_error + pystr" where
  "http_url env u = (case oe_http_url env u of None \<Rightarrow> Inl (parse_error ''Expected an absolute HTTP URL'') | Some n \<Rightarrow> Inr n)"

definition resolve_relative_url :: "openapi_env \<Rightarrow> pystr \<Rightarrow> pystr option \<Rightarrow> openapi_error + pystr" where
  "resolve_relative_url env url base =
     rbind (pydantic (urlsplit (oe_bracketed env) url)) (\<lambda>parsed.
       if scheme parsed \<noteq> [] \<and> netloc parsed \<noteq> [] then Inr url
       else case base of
           None \<Rightarrow> Inl (parse_error ''Relative URL requires the Project default base URL'')
         | Some b \<Rightarrow> pydantic (urljoin (oe_bracketed env) (rstrip_char (CHR ''/'') b @ ''/'') url))"

definition substitute_variable :: "pystr \<Rightarrow> pystr \<times> json \<Rightarrow> openapi_error + pystr" where
  "substitute_variable url = (\<lambda>(name, variable). case obj_get variable ''default'' of
     None \<Rightarrow> Inl (parse_error ''OpenAPI server variable requires a default'')
   | Some x \<Rightarrow> Inr (replace (''{'' @ name @ ''}'') (py_str x) url))"

definition server_url :: "openapi_env \<Rightarrow> json_object \<Rightarrow> pystr option \<Rightarrow> openapi_error + pystr" where
  "server_url env raw base =
     (case dget raw ''url'' of
        Some (JStr (c # cs)) \<Rightarrow>
          rbind (case dget raw ''variables'' of
              None \<Rightarrow> Inr [] | Some JNull \<Rightarrow> Inr [] | Some (JObj m) \<Rightarrow> Inr m
            | _ \<Rightarrow> Inl (parse_error ''OpenAPI server variables must be an object'')) (\<lambda>variables.
          rbind (rfold substitute_variable (c # cs) variables) (\<lambda>url.
            if has_any ''{}'' url then Inl (parse_error ''OpenAPI server has unresolved variables'')
            else rbind (resolve_relative_url env url base) (\<lambda>u. Inr (rstrip_char (CHR ''/'') u))))
      | _ \<Rightarrow> Inl (parse_error ''OpenAPI server must define url''))"

definition make_server :: "openapi_env \<Rightarrow> pystr \<Rightarrow> pystr \<Rightarrow> pystr option \<Rightarrow> source_ref \<Rightarrow> openapi_error + canonical_server" where
  \<comment> \<open>the constructor, whose validator takes the final slash off and reads the URL again\<close>
  "make_server env key url description ref =
     rbind (http_url env url) (\<lambda>n. case oe_http_url env (rstrip_char (CHR ''/'') n) of
       None \<Rightarrow> Inl (OtherFailure (ValueError ''url''))
     | Some n' \<Rightarrow> Inr \<lparr>cs_key = key, cs_url = n', cs_description = description, cs_ref = ref\<rparr>)"

type_synonym server_table = "(pystr \<times> canonical_server) list"

definition register_server ::
  "openapi_env \<Rightarrow> pystr option \<Rightarrow> pystr \<Rightarrow> uuid \<Rightarrow> pystr list \<times> server_table \<Rightarrow> nat \<times> json \<Rightarrow> openapi_error + pystr list \<times> server_table" where
  "register_server env base ptr v = (\<lambda>(keys, table) (i, raw). case raw of
     JObj raw_server \<Rightarrow>
       rbind (server_url env raw_server base) (\<lambda>url.
       let key = server_key (oe_sha env) url None
       in rbind (make_server env key url (text_field raw_server ''description'') (make_ref v (ptr @ ''/'' @ digits_nat i))) (\<lambda>server.
         Inr (keys @ [key], if dget table key = None then table @ [(key, server)] else table)))
   | _ \<Rightarrow> Inl (parse_error ''OpenAPI server must be an object''))"

definition register_servers ::
  "openapi_env \<Rightarrow> pystr option \<Rightarrow> pystr \<Rightarrow> uuid \<Rightarrow> json option \<Rightarrow> server_table \<Rightarrow> openapi_error + pystr list \<times> server_table" where
  "register_servers env base ptr v raw table = (case raw of
     None \<Rightarrow> Inr ([], table) | Some JNull \<Rightarrow> Inr ([], table)
   | Some (JArr vs) \<Rightarrow> rfold (register_server env base ptr v) ([], table) (List.enumerate 0 vs)
   | _ \<Rightarrow> Inl (parse_error ''OpenAPI servers must be an array''))"

section \<open>Security schemes and media types\<close>

definition blank_scheme :: "scheme_type \<Rightarrow> source_ref \<Rightarrow> canonical_scheme" where
  "blank_scheme t ref = \<lparr>sc_type = t, sc_scheme = None, sc_location = None, sc_name = None, sc_token_url = None, sc_scopes = [], sc_ref = ref\<rparr>"

definition unsupported_scheme :: "json_object \<Rightarrow> source_ref \<Rightarrow> canonical_scheme" where
  "unsupported_scheme raw ref = (blank_scheme UnsupportedScheme ref)\<lparr>sc_scheme := text_field raw ''type''\<rparr>"

definition http_scheme :: "json_object \<Rightarrow> source_ref \<Rightarrow> canonical_scheme" where
  "http_scheme raw ref =
     (let s = py_lower (case dget raw ''scheme'' of None \<Rightarrow> [] | Some j \<Rightarrow> py_str j)
      in (blank_scheme (if s = ''bearer'' then HttpBearer else if s = ''basic'' then HttpBasic else UnsupportedScheme) ref)
           \<lparr>sc_scheme := if s = [] then None else Some s\<rparr>)"

definition api_key_scheme :: "json_object \<Rightarrow> source_ref \<Rightarrow> openapi_error + canonical_scheme" where
  "api_key_scheme raw ref =
     rbind (in_texts (dget raw ''in'') [''header'', ''query'', ''cookie'']) (\<lambda>ok.
       case (dget raw ''in'', dget raw ''name'') of
         (Some (JStr loc), Some (JStr name)) \<Rightarrow>
           if ok then Inr ((blank_scheme ApiKeyScheme ref)\<lparr>sc_location := Some loc, sc_name := Some name\<rparr>)
           else Inr ((blank_scheme UnsupportedScheme ref)\<lparr>sc_scheme := Some ''apiKey''\<rparr>)
       | _ \<Rightarrow> Inr ((blank_scheme UnsupportedScheme ref)\<lparr>sc_scheme := Some ''apiKey''\<rparr>))"

definition oauth_scheme :: "openapi_env \<Rightarrow> json_object \<Rightarrow> source_ref \<Rightarrow> pystr option \<Rightarrow> openapi_error + canonical_scheme" where
  "oauth_scheme env raw ref base =
     (let cc = (case dget raw ''flows'' of Some flows \<Rightarrow> obj_get flows ''clientCredentials'' | None \<Rightarrow> None);
          token_url = (case cc of Some c \<Rightarrow> obj_get c ''tokenUrl'' | None \<Rightarrow> None);
          scopes = (case cc of Some c \<Rightarrow> (case obj_get c ''scopes'' of Some (JObj m) \<Rightarrow> sort (dkeys m) | _ \<Rightarrow> []) | None \<Rightarrow> [])
      in case token_url of
           Some (JStr u) \<Rightarrow> rbind (resolve_relative_url env u base) (\<lambda>u'. rbind (http_url env u') (\<lambda>n.
             Inr ((blank_scheme OAuth2Client ref)\<lparr>sc_token_url := Some n, sc_scopes := scopes\<rparr>)))
         | _ \<Rightarrow> Inr (unsupported_scheme raw ref))"

definition parse_security_scheme :: "openapi_env \<Rightarrow> json_object \<Rightarrow> source_ref \<Rightarrow> pystr option \<Rightarrow> openapi_error + canonical_scheme" where
  "parse_security_scheme env raw ref base =
     rbind (case dget raw ''type'' of
         Some (JStr t) \<Rightarrow> if t = ''http'' then Inr (http_scheme raw ref)
           else if t = ''apiKey'' then api_key_scheme raw ref
           else if t = ''oauth2'' then oauth_scheme env raw ref base
           else Inr (unsupported_scheme raw ref)
       | _ \<Rightarrow> Inr (unsupported_scheme raw ref)) (\<lambda>s. pydantic (validate_shape s))"

definition media_examples :: "json_object \<Rightarrow> json list" where
  "media_examples raw_media = (case dget raw_media ''examples'' of
     Some (JObj m) \<Rightarrow> [w. (_, x) \<leftarrow> m, Some w \<leftarrow> [obj_get x ''value'']]
   | _ \<Rightarrow> (case dget raw_media ''example'' of None \<Rightarrow> [] | Some x \<Rightarrow> [x]))"

definition media_type_of ::
  "openapi_env \<Rightarrow> reference_resolver \<Rightarrow> bool \<Rightarrow> json_object \<Rightarrow> uuid \<Rightarrow> pystr \<Rightarrow> pystr \<times> json \<Rightarrow> openapi_error + canonical_media \<times> transformations" where
  "media_type_of env rr is30 d v ptr = (\<lambda>(media_type, raw). case raw of
     JObj raw_media \<Rightarrow>
       (let media_ptr = ptr @ ''/'' @ pointer_token media_type
        in rbind (source_schema env rr is30 (schema_or_empty (dget raw_media ''schema'')) d v (media_ptr @ ''/schema'')) (\<lambda>(s, ts).
          Inr (\<lparr>cm_type = media_type, cm_schema = s, cm_examples = media_examples raw_media, cm_ref = make_ref v media_ptr\<rparr>, ts)))
   | _ \<Rightarrow> Inl (parse_error ''Media definition must be an object''))"

definition media_types ::
  "openapi_env \<Rightarrow> reference_resolver \<Rightarrow> bool \<Rightarrow> json option \<Rightarrow> json_object \<Rightarrow> uuid \<Rightarrow> pystr \<Rightarrow> openapi_error + canonical_media list \<times> transformations" where
  "media_types env rr is30 content d v ptr = (case content of
     None \<Rightarrow> Inr ([], []) | Some JNull \<Rightarrow> Inr ([], [])
   | Some (JObj m) \<Rightarrow> rbind (rmap (media_type_of env rr is30 d v ptr) m) (\<lambda>rs. Inr (map fst rs, concat (map snd rs)))
   | _ \<Rightarrow> Inl (parse_error ''Media content must be an object''))"

section \<open>Operations\<close>

record parse_config =
  pc_project :: uuid
  pc_version :: uuid
  pc_sha256 :: pystr
  pc_active :: "pystr option"
  pc_mappings :: "(pystr \<times> pystr) list"
  pc_base :: "pystr option"

record parse_state =
  pst_servers :: server_table
  pst_ids :: "pystr list"
  pst_transformations :: transformations
  pst_operations :: "canonical_operation list"

definition http_methods :: "http_method list" where
  "http_methods = [GET, POST, PUT, PATCH, DELETE, HEAD, OPTIONS, TRACE]"

definition method_of :: "pystr \<Rightarrow> http_method option" where
  "method_of method = List.find (\<lambda>m. py_lower (method_value m) = method) http_methods"

text \<open>The server of an operation: its own mapping, the active server unless it has servers of its own, or the only candidate.\<close>

definition select_server ::
  "parse_config \<Rightarrow> pystr \<Rightarrow> pystr list \<Rightarrow> pystr list \<Rightarrow> pystr list \<Rightarrow> openapi_error + pystr option \<times> pystr list" where
  "select_server cfg key own path_keys global_keys =
     (let candidates = (if own \<noteq> [] then own else if path_keys \<noteq> [] then path_keys else global_keys);
          s1 = dget (pc_mappings cfg) key;
          s2 = (if s1 = None \<and> own = [] \<and> path_keys = [] then pc_active cfg else s1);
          s3 = (if s2 = None \<and> length candidates = 1 then Some (hd candidates) else s2)
      in case s3 of
           None \<Rightarrow> Inr (None, candidates)
         | Some x \<Rightarrow> if x \<in> set candidates then Inr (Some x, candidates)
             else Inl (parse_error ''Configured server selection is not applicable to the OpenAPI operation''))"

record merged_parameter =
  mgp_object :: json_object
  mgp_ref :: source_ref
  mgp_document :: json_object
  mgp_version :: uuid

definition parameter_inputs :: "json list \<Rightarrow> resolved \<Rightarrow> (json \<times> json_object \<times> uuid \<times> pystr) list" where
  "parameter_inputs raws r = map (\<lambda>(i, raw). (raw, res_document r, res_version r, res_pointer r @ ''/parameters/'' @ digits_nat i)) (List.enumerate 0 raws)"

definition merge_parameter ::
  "openapi_env \<Rightarrow> reference_resolver \<Rightarrow> ((pystr \<times> pystr) \<times> merged_parameter) list \<Rightarrow> json \<times> json_object \<times> uuid \<times> pystr
   \<Rightarrow> openapi_error + ((pystr \<times> pystr) \<times> merged_parameter) list" where
  "merge_parameter env rr merged = (\<lambda>(raw, d, v, ptr).
     rbind (resolve env rr raw d v ptr []) (\<lambda>r.
       case dget (res_value r) ''name'' of
         Some (JStr name) \<Rightarrow>
           rbind (in_texts (dget (res_value r) ''in'') [''path'', ''query'', ''header'', ''cookie'']) (\<lambda>ok.
             case dget (res_value r) ''in'' of
               Some (JStr loc) \<Rightarrow> if ok
                 then Inr (AList.update (name, loc) \<lparr>mgp_object = res_value r, mgp_ref = make_ref (res_version r) (res_pointer r),
                   mgp_document = res_document r, mgp_version = res_version r\<rparr> merged)
                 else Inl (parse_error ''Invalid parameter'')
             | _ \<Rightarrow> Inl (parse_error ''Invalid parameter''))
       | _ \<Rightarrow> Inl (parse_error ''Invalid parameter'')))"

definition location_of :: "pystr \<Rightarrow> parameter_location" where
  "location_of loc = (if loc = ''path'' then PathLoc else if loc = ''query'' then QueryLoc else if loc = ''header'' then HeaderLoc else CookieLoc)"

definition bool_field :: "json_object \<Rightarrow> pystr \<Rightarrow> bool" where
  \<comment> \<open>\<^verbatim>\<open>bool(d.get(k, False))\<close>\<close>
  "bool_field d k = (case dget d k of None \<Rightarrow> False | Some j \<Rightarrow> json_truthy j)"

definition parameter_of ::
  "openapi_env \<Rightarrow> reference_resolver \<Rightarrow> bool \<Rightarrow> (pystr \<times> pystr) \<times> merged_parameter \<Rightarrow> openapi_error + canonical_parameter \<times> transformations" where
  "parameter_of env rr is30 = (\<lambda>((name, loc), m).
     let raw = mgp_object m; required = bool_field raw ''required''
     in if loc = ''path'' \<and> \<not> required
        then Inl (SourceFailure SourceParseError ''Path parameter must be required'' None (Some (ref_pointer (mgp_ref m))))
        else rbind (if dget raw ''content'' \<noteq> None \<and> dget raw ''schema'' = None
            then Inr ([(''x-mcplica-unsupported'', JStr ''parameter-content'')], [])
            else source_schema env rr is30 (schema_or_empty (dget raw ''schema'')) (mgp_document m) (mgp_version m) (ref_pointer (mgp_ref m) @ ''/schema'')) (\<lambda>(s, ts).
          rbind (pydantic (make_parameter \<lparr>cp_name = name, cp_location = location_of loc, cp_required = required, cp_schema = s,
            cp_description = text_field raw ''description'',
            cp_style = (if bool_field raw ''style'' then text_field raw ''style'' else None),
            cp_explode = (case dget raw ''explode'' of None \<Rightarrow> None | Some JNull \<Rightarrow> None | Some j \<Rightarrow> Some (json_truthy j)),
            cp_allow_reserved = bool_field raw ''allowReserved'', cp_ref = mgp_ref m\<rparr>)) (\<lambda>p. Inr (p, ts))))"

definition request_body_of ::
  "openapi_env \<Rightarrow> reference_resolver \<Rightarrow> bool \<Rightarrow> resolved \<Rightarrow> openapi_error + canonical_body option \<times> transformations" where
  "request_body_of env rr is30 op = (case dget (res_value op) ''requestBody'' of
     None \<Rightarrow> Inr (None, [])
   | Some raw \<Rightarrow>
       rbind (resolve env rr raw (res_document op) (res_version op) (res_pointer op @ ''/requestBody'') []) (\<lambda>b.
       rbind (media_types env rr is30 (dget (res_value b) ''content'') (res_document b) (res_version b) (res_pointer b @ ''/content'')) (\<lambda>(content, ts).
         if content = [] then Inl (parse_error ''Request body must define content'')
         else Inr (Some \<lparr>cb_required = bool_field (res_value b) ''required'', cb_description = text_field (res_value b) ''description'',
           cb_content = content, cb_ref = make_ref (res_version b) (res_pointer b)\<rparr>, ts))))"

definition response_of ::
  "openapi_env \<Rightarrow> reference_resolver \<Rightarrow> bool \<Rightarrow> resolved \<Rightarrow> pystr \<times> json \<Rightarrow> openapi_error + canonical_response \<times> transformations" where
  "response_of env rr is30 op = (\<lambda>(status, raw).
     rbind (resolve env rr raw (res_document op) (res_version op) (res_pointer op @ ''/responses/'' @ pointer_token status) []) (\<lambda>r.
     rbind (media_types env rr is30 (dget (res_value r) ''content'') (res_document r) (res_version r) (res_pointer r @ ''/content'')) (\<lambda>(content, ts).
       Inr (\<lparr>cr_status = status, cr_description = text_field (res_value r) ''description'', cr_content = content,
         cr_ref = make_ref (res_version r) (res_pointer r)\<rparr>, ts))))"

definition canonical_responses ::
  "openapi_env \<Rightarrow> reference_resolver \<Rightarrow> bool \<Rightarrow> resolved \<Rightarrow> openapi_error + canonical_response list \<times> transformations" where
  "canonical_responses env rr is30 op = (case dget (res_value op) ''responses'' of
     Some (JObj (x # m)) \<Rightarrow> rbind (rmap (response_of env rr is30 op) (x # m)) (\<lambda>rs. Inr (map fst rs, concat (map snd rs)))
   | _ \<Rightarrow> Inl (parse_error ''Operation requires responses''))"

definition requirement_of :: "uuid \<Rightarrow> pystr \<Rightarrow> nat \<times> json \<Rightarrow> openapi_error + security_requirement" where
  "requirement_of v ptr = (\<lambda>(i, raw). case raw of
     JObj m \<Rightarrow> rbind (rmap (\<lambda>(name, scopes). case scopes of
         JArr vs \<Rightarrow> Inr (name, map py_str vs) | _ \<Rightarrow> Inl (parse_error ''Security requirement scopes must be an array'')) m) (\<lambda>ss.
       Inr \<lparr>scheme_scopes = ss, sr_ref = make_ref v (ptr @ ''/'' @ digits_nat i)\<rparr>)
   | _ \<Rightarrow> Inl (parse_error ''Security requirement must be an object''))"

definition security_of :: "reference_resolver \<Rightarrow> resolved \<Rightarrow> openapi_error + security_requirement list" where
  "security_of rr op =
     (let own = dget (res_value op) ''security'' \<noteq> None
      in rbind (array_or_empty (if own then res_value op else rr_root rr) ''security'' ''Security must be an array'') (\<lambda>raws.
        rmap (requirement_of (if own then res_version op else rr_version rr) (if own then res_pointer op @ ''/security'' else ''#/security''))
          (List.enumerate 0 raws)))"

definition tags_of :: "json_object \<Rightarrow> openapi_error + pystr list" where
  "tags_of operation = (case dget operation ''tags'' of
     None \<Rightarrow> Inr []
   | Some (JArr vs) \<Rightarrow> rmap (\<lambda>j. case j of JStr t \<Rightarrow> Inr t | _ \<Rightarrow> Inl (parse_error ''Tags must be text values'')) vs
   | _ \<Rightarrow> Inl (parse_error ''Tags must be text values''))"

definition no_semantics :: semantic_metadata where
  "no_semantics = \<lparr>sem_title = None, sem_description = None, sem_category = None, sem_keywords = [], sem_chunks = [], sem_hints = []\<rparr>"

definition operation_id_of :: "json_object \<Rightarrow> pystr option" where
  "operation_id_of operation = (case dget operation ''operationId'' of
     None \<Rightarrow> None | Some j \<Rightarrow> if json_truthy j then Some (strip (py_str j)) else None)"

definition register_operation_id :: "pystr option \<Rightarrow> pystr list \<Rightarrow> openapi_error + pystr list" where
  "register_operation_id i ids =
     (if \<not> truthy i then Inr ids
      else if the i \<in> set ids then Inl (parse_error ''Duplicate OpenAPI operationId'') else Inr (ids @ [the i]))"

definition parameters_of ::
  "openapi_env \<Rightarrow> reference_resolver \<Rightarrow> bool \<Rightarrow> json list \<Rightarrow> resolved \<Rightarrow> resolved \<Rightarrow> openapi_error + canonical_parameter list \<times> transformations" where
  "parameters_of env rr is30 inherited item op =
     rbind (array_or_empty (res_value op) ''parameters'' ''Operation parameters must be an array'') (\<lambda>own.
     rbind (rfold (merge_parameter env rr) [] (parameter_inputs inherited item @ parameter_inputs own op)) (\<lambda>merged.
     rbind (rmap (parameter_of env rr is30) merged) (\<lambda>rs. Inr (map fst rs, concat (map snd rs)))))"

definition parse_operation ::
  "openapi_env \<Rightarrow> reference_resolver \<Rightarrow> parse_config \<Rightarrow> bool \<Rightarrow> pystr list \<Rightarrow> pystr \<Rightarrow> resolved \<Rightarrow> json list \<Rightarrow> pystr list \<Rightarrow> parse_state
   \<Rightarrow> pystr \<Rightarrow> http_method \<Rightarrow> json \<Rightarrow> openapi_error + parse_state" where
  "parse_operation env rr cfg is30 global_keys path item inherited path_keys st method verb raw =
     rbind (resolve env rr raw (res_document item) (res_version item) (res_pointer item @ ''/'' @ method) []) (\<lambda>op.
     let operation = res_value op; operation_id = operation_id_of operation; key = operation_key (oe_sha env) method path operation_id
     in rbind (register_operation_id operation_id (pst_ids st)) (\<lambda>ids.
     rbind (register_servers env (pc_base cfg) (res_pointer op @ ''/servers'') (res_version op) (dget operation ''servers'') (pst_servers st)) (\<lambda>(own_keys, table).
     rbind (select_server cfg key own_keys path_keys global_keys) (\<lambda>(selected, candidates).
     rbind (parameters_of env rr is30 inherited item op) (\<lambda>(parameters, ts1).
     rbind (request_body_of env rr is30 op) (\<lambda>(body, ts2).
     rbind (canonical_responses env rr is30 op) (\<lambda>(responses', ts3).
     rbind (security_of rr op) (\<lambda>security.
     rbind (tags_of operation) (\<lambda>tags.
     rbind (pydantic (make_operation \<lparr>op_key = key, op_source_id = operation_id, tool_name_seed = make_tool_name_seed method path operation_id,
         op_method = verb, path_template = path, op_server = selected, server_candidates = candidates,
         op_summary = text_field operation ''summary'', op_description = text_field operation ''description'',
         op_parameters = parameters, op_body = body, op_responses = responses', op_security = security, op_tags = tags,
         op_semantic = no_semantics, op_ref = make_ref (res_version op) (res_pointer op)\<rparr>)) (\<lambda>canonical.
       Inr \<lparr>pst_servers = table, pst_ids = ids, pst_transformations = pst_transformations st @ ts1 @ ts2 @ ts3,
         pst_operations = pst_operations st @ [canonical]\<rparr>))))))))))"

definition parse_method ::
  "openapi_env \<Rightarrow> reference_resolver \<Rightarrow> parse_config \<Rightarrow> bool \<Rightarrow> pystr list \<Rightarrow> pystr \<Rightarrow> resolved \<Rightarrow> json list \<Rightarrow> pystr list \<Rightarrow> parse_state
   \<Rightarrow> pystr \<times> json \<Rightarrow> openapi_error + parse_state" where
  "parse_method env rr cfg is30 global_keys path item inherited path_keys st = (\<lambda>(raw_method, raw).
     case method_of (py_lower raw_method) of
       None \<Rightarrow> Inr st
     | Some verb \<Rightarrow> parse_operation env rr cfg is30 global_keys path item inherited path_keys st (py_lower raw_method) verb raw)"

definition parse_path ::
  "openapi_env \<Rightarrow> reference_resolver \<Rightarrow> parse_config \<Rightarrow> bool \<Rightarrow> pystr list \<Rightarrow> parse_state \<Rightarrow> pystr \<times> json \<Rightarrow> openapi_error + parse_state" where
  "parse_path env rr cfg is30 global_keys st = (\<lambda>(path, raw).
     rbind (resolve env rr raw (rr_root rr) (rr_version rr) (''#/paths/'' @ pointer_token path) []) (\<lambda>item.
     rbind (array_or_empty (res_value item) ''parameters'' ''Path parameters must be an array'') (\<lambda>inherited.
     rbind (register_servers env (pc_base cfg) (res_pointer item @ ''/servers'') (res_version item) (dget (res_value item) ''servers'') (pst_servers st)) (\<lambda>(path_keys, table).
       rfold (parse_method env rr cfg is30 global_keys path item inherited path_keys) (st\<lparr>pst_servers := table\<rparr>) (res_value item)))))"

section \<open>The document\<close>

definition global_servers :: "openapi_env \<Rightarrow> parse_config \<Rightarrow> json_object \<Rightarrow> openapi_error + pystr list \<times> server_table" where
  "global_servers env cfg root_document =
     rbind (register_servers env (pc_base cfg) ''#/servers'' (pc_version cfg) (dget root_document ''servers'') []) (\<lambda>(keys, table).
       if keys = [] \<and> truthy (pc_base cfg)
       then let base = the (pc_base cfg); key = server_key (oe_sha env) base None; ptr = ''#/x-mcplica-project-default-base-url''
         in rbind (make_server env key base (Some ''Project default base URL'') (make_ref (pc_version cfg) ptr)) (\<lambda>server.
           Inr ([key], dset key server table))
       else Inr (keys, table))"

definition scheme_table ::
  "openapi_env \<Rightarrow> reference_resolver \<Rightarrow> pystr option \<Rightarrow> json_object \<Rightarrow> openapi_error + (pystr \<times> canonical_scheme) list" where
  "scheme_table env rr base raws = rmap (\<lambda>(name, raw).
     rbind (resolve env rr raw (rr_root rr) (rr_version rr) (''#/components/securitySchemes/'' @ pointer_token name) []) (\<lambda>r.
     rbind (parse_security_scheme env (res_value r) (make_ref (res_version r) (res_pointer r)) base) (\<lambda>s. Inr (name, s)))) raws"

definition component_schemas ::
  "openapi_env \<Rightarrow> reference_resolver \<Rightarrow> bool \<Rightarrow> json_object \<Rightarrow> openapi_error + (pystr \<times> canonical_schema) list \<times> transformations" where
  "component_schemas env rr is30 raws = rfold (\<lambda>(table, ts) (name, raw).
     let ptr = ''#/components/schemas/'' @ pointer_token name; key = schema_key (oe_sha env) name
     in rbind (source_schema env rr is30 (schema_or_empty (Some raw)) (rr_root rr) (rr_version rr) ptr) (\<lambda>(s, ts').
       Inr (dset key \<lparr>csch_key = key, csch_schema = s, csch_ref = make_ref (rr_version rr) ptr\<rparr> table, ts @ ts'))) ([], []) raws"

definition check_document :: "openapi_env \<Rightarrow> parse_config \<Rightarrow> (pystr \<times> external_document) list \<Rightarrow> json_object \<Rightarrow> openapi_error + bool \<times> pystr \<times> json_object" where
  \<comment> \<open>everything before the model is built: is the version 3.0, the title, and the paths\<close>
  "check_document env cfg external document =
     (case dget document ''openapi'' of
        Some (JStr version) \<Rightarrow>
          if \<not> startswith version ''3.0.'' \<and> \<not> startswith version ''3.1.''
          then Inl (parse_error ''Supported OpenAPI sources must declare version 3.0.x or 3.1.x'')
          else (case dget document ''info'' of
             Some (JObj info) \<Rightarrow> (case dget info ''title'' of
               Some (JStr title) \<Rightarrow> (case dget document ''paths'' of
                 Some (JObj (p # paths)) \<Rightarrow>
                   let is30 = startswith version ''3.0.''
                   in rbind (if startswith version ''3.1.''
                       then rbind (case dget document ''jsonSchemaDialect'' of
                           Some (JStr dialect) \<Rightarrow> if supported_dialect dialect then Inr ()
                             else Inl (SourceFailure SourceParseError ''OpenAPI document declares an unsupported JSON Schema dialect'' None (Some ''#/jsonSchemaDialect''))
                         | _ \<Rightarrow> Inr ()) (\<lambda>_. reject_unsupported_document_schema_dialects document)
                       else Inr ()) (\<lambda>_.
                     rbind (case oe_check_spec env document is30 external of
                         SpecValid \<Rightarrow> Inr ()
                       | SpecUnresolvable \<Rightarrow> Inl (reference_error ''OpenAPI contains an external reference that was not captured as an immutable source dependency'')
                       | SpecInvalid loc \<Rightarrow> Inl (SourceFailure SourceParseError ''OpenAPI specification validation failed'' (Some (pc_version cfg))
                           (Some (case loc of Some (c # cs) \<Rightarrow> c # cs | _ \<Rightarrow> ''$'')))) (\<lambda>_.
                     if \<not> is30 \<and> (case dget document ''jsonSchemaDialect'' of
                          None \<Rightarrow> False | Some j \<Rightarrow> json_truthy j \<and> \<not> supported_dialect (py_str j))
                     then Inl (SourceFailure SourceParseError ''OpenAPI document declares an unsupported JSON Schema dialect'' None (Some ''#/jsonSchemaDialect''))
                     else Inr (is30, title, p # paths)))
               | _ \<Rightarrow> Inl (parse_error ''OpenAPI paths must be a non-empty object''))
             | _ \<Rightarrow> Inl (parse_error ''OpenAPI info.title is required''))
           | _ \<Rightarrow> Inl (parse_error ''OpenAPI info.title is required''))
      | _ \<Rightarrow> Inl (parse_error ''Supported OpenAPI sources must declare version 3.0.x or 3.1.x''))"

definition oauth_relative_base :: "parse_config \<Rightarrow> pystr list \<Rightarrow> server_table \<Rightarrow> pystr option" where
  "oauth_relative_base cfg keys table = (case pc_base cfg of
     Some b \<Rightarrow> Some b
   | None \<Rightarrow> if length keys = 1 then map_option cs_url (dget table (hd keys)) else None)"

definition required_schemes :: "canonical_operation list \<Rightarrow> pystr list" where
  "required_schemes ops = [name. op \<leftarrow> ops, r \<leftarrow> op_security op, name \<leftarrow> dkeys (scheme_scopes r)]"

definition parse_openapi ::
  "openapi_env \<Rightarrow> parse_config \<Rightarrow> (pystr \<times> external_document) list \<Rightarrow> json \<Rightarrow> openapi_error + canonical_api \<times> transformations" where
  "parse_openapi env cfg external document =
     rbind (as_json_object document) (\<lambda>root_document.
     rbind (check_document env cfg external root_document) (\<lambda>(is30, title, paths).
     let rr = \<lparr>rr_root = root_document, rr_version = pc_version cfg, rr_external = external\<rparr>
     in rbind (global_servers env cfg root_document) (\<lambda>(global_keys, table0).
     rbind (object_or_empty root_document ''components'' ''OpenAPI components must be an object'') (\<lambda>components.
     rbind (object_or_empty components ''securitySchemes'' ''OpenAPI securitySchemes must be an object'') (\<lambda>raw_schemes.
     rbind (scheme_table env rr (oauth_relative_base cfg global_keys table0) raw_schemes) (\<lambda>schemes.
     rbind (object_or_empty components ''schemas'' ''OpenAPI component schemas must be an object'') (\<lambda>raw_schemas.
     rbind (component_schemas env rr is30 raw_schemas) (\<lambda>(schemas, ts).
     rbind (rfold (parse_path env rr cfg is30 global_keys)
         \<lparr>pst_servers = table0, pst_ids = [], pst_transformations = ts, pst_operations = []\<rparr> paths) (\<lambda>st.
     let ops = pst_operations st; table = pst_servers st
     in if ops = [] then Inl (parse_error ''OpenAPI source contains no executable operations'')
        else if table = [] then Inl (parse_error ''OpenAPI source has no server URL and the Project has no default base URL'')
        else if \<not> set (dkeys (pc_mappings cfg)) \<subseteq> set (map op_key ops)
        then Inl (parse_error ''Configured server mappings reference unknown OpenAPI operations'')
        else if \<not> set (required_schemes ops) \<subseteq> set (dkeys schemes)
        then Inl (parse_error ''Operation security requirements reference undefined security schemes'')
        else rbind (pydantic (make_api \<lparr>api_project = pc_project cfg, api_title = title, api_servers = map snd table,
            active_server = (case pc_active cfg of Some a \<Rightarrow> Some a | None \<Rightarrow> if length table = 1 then Some (fst (hd table)) else None),
            security_schemes = schemes, api_schemas = schemas, operations = ops, documentation_refs = [],
            source_versions = [pc_version cfg], source_fingerprint = pc_sha256 cfg\<rparr>)) (\<lambda>api.
          Inr (api, sort (remdups (pst_transformations st)))))))))))))"

end
