(* ===== verification/OpenApiProperties.thy ===== *)
theory OpenApiProperties
  imports OpenApiParser
begin

text \<open>
  What the OpenAPI parser promises (\<^verbatim>\<open>backend/app/parsers/openapi/parser.py\<close>): it always comes to a result or
  to an error, every schema it stores is self-contained, the operations it finds are those of the document, and the
  pointers it writes down lead back to what they name.
\<close>

section \<open>The parser ends\<close>

lemma ends_pydantic [ends_intros]: "ends (pydantic r)"
  by (auto simp: pydantic_def ends_def split: sum.split)

lemma ends_reference_target [ends_intros]: "ends (reference_target env rr r d v)"
  and ends_json_pointer [ends_intros]: "ends (json_pointer d p)" and ends_as_json_object [ends_intros]: "ends (as_json_object j)"
  by (simp_all add: ends_def)

lemma ends_resolve [ends_intros]: "ends (resolve env rr j d v ptr seen)"
proof (induction env rr j d v ptr seen rule: resolve.induct)
  case (1 env rr j d v ptr seen)
  have "ends (attributed v' p' (json_pointer d' q'))" for d' v' p' q' by (intro ends_intros)
  with "1.IH" ends_reference_target show ?case unfolding resolve.simps [of env rr j d v ptr seen]
    by (intro ends_attributed) (auto intro: ends_intros simp: ends_def split: json.split option.split sum.split)
qed

lemma ends_array [ends_intros]: "ends (array_or_empty d k m)" and ends_object [ends_intros]: "ends (object_or_empty d k m)"
  and ends_in_texts [ends_intros]: "ends (in_texts j ts)"
  unfolding array_or_empty_def object_or_empty_def in_texts_def by (auto intro: ends_intros split: option.split json.split)

lemma ends_http_url [ends_intros]: "ends (http_url env u)"
  unfolding http_url_def by (auto intro: ends_intros split: option.split)

lemma ends_relative [ends_intros]: "ends (resolve_relative_url env u base)"
  unfolding resolve_relative_url_def by (auto intro!: ends_intros split: option.split)

lemma ends_server_url [ends_intros]: "ends (server_url env raw base)"
  unfolding server_url_def substitute_variable_def by (auto intro!: ends_intros split: option.split json.split list.split)

lemma ends_make_server [ends_intros]: "ends (make_server env key url description ref)"
  unfolding make_server_def by (auto intro!: ends_intros split: option.split)

lemma ends_register_servers [ends_intros]: "ends (register_servers env base ptr v raw table)"
  unfolding register_servers_def register_server_def Let_def by (auto intro!: ends_intros split: option.split json.split)

lemma ends_cases:
  "ends a \<Longrightarrow> (\<And>y. ends (f y)) \<Longrightarrow> ends (case x of None \<Rightarrow> a | Some y \<Rightarrow> f y)"
  "ends a1 \<Longrightarrow> (\<And>y. ends (a2 y)) \<Longrightarrow> (\<And>y. ends (a3 y)) \<Longrightarrow> (\<And>y z. ends (a4 y z)) \<Longrightarrow> (\<And>y. ends (a5 y)) \<Longrightarrow> (\<And>y. ends (a6 y))
     \<Longrightarrow> (\<And>y. ends (a7 y)) \<Longrightarrow> ends (case_json a1 a2 a3 a4 a5 a6 a7 j)"
  "ends a \<Longrightarrow> (\<And>y ys. ends (g y ys)) \<Longrightarrow> ends (case xs of [] \<Rightarrow> a | y # ys \<Rightarrow> g y ys)"
  by (simp_all split: option.split json.split list.split)

lemma ends_api_key [ends_intros]: "ends (api_key_scheme raw ref)"
  unfolding api_key_scheme_def by (intro ends_intros) (simp split: option.split json.split add: ends_Inr)

lemma ends_oauth [ends_intros]: "ends (oauth_scheme env raw ref base)"
  unfolding oauth_scheme_def Let_def by (auto intro!: ends_intros ends_cases)

lemma ends_security_scheme [ends_intros]: "ends (parse_security_scheme env raw ref base)"
  unfolding parse_security_scheme_def by (auto intro!: ends_intros split: option.split json.split)

lemma ends_media_types [ends_intros]: "ends (media_types env rr is30 content d v ptr)"
  unfolding media_types_def media_type_of_def Let_def by (auto intro!: ends_intros split: option.split json.split)

lemma ends_parameters [ends_intros]: "ends (parameters_of env rr is30 inherited item op)"
  unfolding parameters_of_def merge_parameter_def parameter_of_def Let_def
  by (auto intro!: ends_intros split: option.split json.split)

lemma ends_body [ends_intros]: "ends (request_body_of env rr is30 op)" and ends_responses [ends_intros]: "ends (canonical_responses env rr is30 op)"
  unfolding request_body_of_def canonical_responses_def response_of_def by (auto intro!: ends_intros split: option.split json.split list.split)

lemma ends_security [ends_intros]: "ends (security_of rr op)" and ends_tags [ends_intros]: "ends (tags_of operation)"
  unfolding security_of_def requirement_of_def tags_of_def Let_def by (auto intro!: ends_intros split: option.split json.split)

lemma ends_select [ends_intros]: "ends (select_server cfg key own path_keys global_keys)"
  and ends_operation_id [ends_intros]: "ends (register_operation_id i ids)"
  unfolding select_server_def register_operation_id_def Let_def by (auto intro!: ends_intros split: option.split)

lemma ends_path [ends_intros]: "ends (parse_path env rr cfg is30 global_keys st x)"
  unfolding parse_path_def parse_method_def parse_operation_def Let_def by (auto intro!: ends_intros split: option.split prod.split)

lemma ends_walk [ends_intros]: "(\<And>l x. ends (f l x)) \<Longrightarrow> ends (walk_object f loc j)" "(\<And>l x. ends (f l x)) \<Longrightarrow> ends (walk_array f loc j)"
  unfolding walk_object_def walk_array_def by (auto intro!: ends_intros split: option.split json.split)

lemma ends_content_dialects [ends_intros]: "ends (content_dialects loc j)"
  unfolding content_dialects_def by (auto intro!: ends_intros split: option.split)

lemma ends_parameter_dialects [ends_intros]: "ends (parameter_dialects loc x)" and ends_body_dialects [ends_intros]: "ends (request_body_dialects loc x)"
  unfolding parameter_dialects_def request_body_dialects_def by (auto intro!: ends_intros split: option.split)

lemma ends_response_dialects [ends_intros]: "ends (response_dialects loc x)"
  unfolding response_dialects_def by (intro ends_intros)

lemma ends_path_item_dialects [ends_intros]: "ends (path_item_dialects loc j)"
proof (induction j arbitrary: loc rule: measure_induct_rule [of size])
  case (less j)
  show ?case unfolding path_item_dialects.simps [of loc j]
    by (auto intro!: ends_intros less.IH dest!: size_obj_get size_json_member split: json.split option.split)
qed

lemma ends_document_dialects [ends_intros]: "ends (reject_unsupported_document_schema_dialects document)"
  unfolding reject_unsupported_document_schema_dialects_def callback_dialects_def
  by (auto intro!: ends_intros split: option.split json.split)

lemma ends_document [ends_intros]: "ends (check_document env cfg external document)"
proof -
  have "ends (case dget document ''jsonSchemaDialect'' of
      Some (JStr dialect) \<Rightarrow> if supported_dialect dialect then Inr () else Inl (SourceFailure SourceParseError m None p) | _ \<Rightarrow> Inr ())" for m p
    by (auto intro!: ends_intros split: option.split json.split)
  moreover have "ends (case x of SpecValid \<Rightarrow> Inr () | SpecUnresolvable \<Rightarrow> Inl (reference_error m)
      | SpecInvalid l \<Rightarrow> Inl (SourceFailure SourceParseError m' w (p l)))" for x m m' w p
    by (auto intro!: ends_intros split: spec_verdict.split)
  ultimately show ?thesis unfolding check_document_def Let_def
    by (auto intro!: ends_intros ends_cases simp: Let_def simp del: split_paired_All)
qed

lemma ends_parts [ends_intros]: "ends (global_servers env cfg root_document)" "ends (scheme_table env rr base raws)" "ends (component_schemas env rr is30 raws)"
  unfolding global_servers_def scheme_table_def component_schemas_def Let_def by (auto intro!: ends_intros)

text \<open>C40: Parsing always ends, with a model or with an error: whatever the document and the captured documents refer to,
  references in a circle included, neither following references nor building schemas runs on for ever.
\<close>

theorem parse_openapi_ends: "parse_openapi env cfg external document \<noteq> Inl RanOutOfFuel"
proof -
  have "ends (parse_openapi env cfg external document)"
    unfolding parse_openapi_def Let_def by (auto intro!: ends_intros)
  then show ?thesis by (simp add: ends_def)
qed

section \<open>Every schema is self-contained\<close>

text \<open>The schemas of an operation and of an API, and what the parser stores for a parameter it cannot send.\<close>

definition operation_schemas :: "canonical_operation \<Rightarrow> json_object set" where
  "operation_schemas op =
     cp_schema ` set (op_parameters op)
     \<union> cm_schema ` (case op_body op of None \<Rightarrow> {} | Some b \<Rightarrow> set (cb_content b))
     \<union> cm_schema ` (\<Union>r\<in>set (op_responses op). set (cr_content r))"

definition schemas_of_api :: "canonical_api \<Rightarrow> json_object set" where
  "schemas_of_api api = csch_schema ` snd ` set (api_schemas api) \<union> (\<Union>op\<in>set (operations api). operation_schemas op)"

definition unsupported_parameter :: json_object where
  "unsupported_parameter = [(''x-mcplica-unsupported'', JStr ''parameter-content'')]"

definition closed_schema :: "openapi_env \<Rightarrow> json_object \<Rightarrow> bool" where
  "closed_schema env s \<longleftrightarrow> self_contained s \<and> local_refs (generated_keys env) (JObj s) \<and> (oe_check_schema env s \<or> s = unsupported_parameter)"

lemma source_schema_closed: "source_schema env rr is30 schema d v loc = Inr (s, ts) \<Longrightarrow> closed_schema env s"
  unfolding closed_schema_def by (intro conjI disjI1 source_schema_refs)

lemma unsupported_closed: "closed_schema env unsupported_parameter"
  by (simp add: closed_schema_def self_contained_def local_refs_obj unsupported_parameter_def)

lemma media_types_closed:
  assumes "media_types env rr is30 content d v ptr = Inr (ms, ts)" "m \<in> set ms"
  shows "closed_schema env (cm_schema m)"
proof -
  from assms obtain c rs where "content = Some (JObj c)" and rs: "rmap (media_type_of env rr is30 d v ptr) c = Inr rs" "ms = map fst rs"
    by (auto simp: media_types_def rbind_Inr_iff split: option.splits json.splits)
  then obtain t where "(m, t) \<in> set rs" using assms(2) by auto
  from rmap_set [OF rs(1) this] have "\<exists>j p. source_schema env rr is30 j d v p = Inr (cm_schema m, t)"
    by (clarsimp simp: media_type_of_def Let_def rbind_Inr_iff split: json.split_asm) (intro exI, assumption)
  then show ?thesis using source_schema_closed by blast
qed

lemma parameters_closed:
  assumes "parameters_of env rr is30 inherited item op = Inr (ps, ts)" "p \<in> set ps"
  shows "closed_schema env (cp_schema p)"
proof -
  from assms(1) obtain merged rs where rs: "rmap (parameter_of env rr is30) merged = Inr rs" "ps = map fst rs"
    by (auto simp: parameters_of_def rbind_Inr_iff)
  then obtain t where "(p, t) \<in> set rs" using assms(2) by auto
  from rmap_set [OF rs(1) this] obtain name loc m where "parameter_of env rr is30 ((name, loc), m) = Inr (p, t)" by auto
  then have "cp_schema p = unsupported_parameter
      \<or> source_schema env rr is30 (schema_or_empty (dget (mgp_object m) ''schema'')) (mgp_document m) (mgp_version m) (ref_pointer (mgp_ref m) @ ''/schema'') = Inr (cp_schema p, t)"
    by (auto simp: parameter_of_def Let_def rbind_Inr_iff pydantic_def make_parameter_def unsupported_parameter_def split: if_split_asm sum.split_asm)
  then show ?thesis using unsupported_closed source_schema_closed by metis
qed

lemma body_closed:
  "request_body_of env rr is30 op = Inr (Some b, ts) \<Longrightarrow> m \<in> set (cb_content b) \<Longrightarrow> closed_schema env (cm_schema m)"
  by (auto simp: request_body_of_def rbind_Inr_iff split: option.splits if_splits dest: media_types_closed)

lemma responses_closed:
  assumes "canonical_responses env rr is30 op = Inr (rs, ts)" "r \<in> set rs" "m \<in> set (cr_content r)"
  shows "closed_schema env (cm_schema m)"
proof -
  from assms(1) obtain c xs where xs: "rmap (response_of env rr is30 op) c = Inr xs" "rs = map fst xs"
    unfolding canonical_responses_def by (fastforce simp: rbind_Inr_iff simp del: rmap.simps split: option.splits json.splits list.splits)
  then obtain t where "(r, t) \<in> set xs" using assms(2) by auto
  from rmap_set [OF xs(1) this] have "\<exists>j d v p. media_types env rr is30 j d v p = Inr (cr_content r, t)"
    by (clarsimp simp: response_of_def rbind_Inr_iff) (intro exI, assumption)
  then show ?thesis using media_types_closed assms(3) by blast
qed

lemma parse_operation_Inr:
  assumes "parse_operation env rr cfg is30 global_keys path item inherited path_keys st method verb raw = Inr st'"
  obtains op c ts1 ts2 ts3 ids own_keys table selected where
    "resolve env rr raw (res_document item) (res_version item) (res_pointer item @ ''/'' @ method) [] = Inr op"
    "register_operation_id (operation_id_of (res_value op)) (pst_ids st) = Inr ids"
    "register_servers env (pc_base cfg) (res_pointer op @ ''/servers'') (res_version op) (dget (res_value op) ''servers'') (pst_servers st) = Inr (own_keys, table)"
    "select_server cfg (op_key c) own_keys path_keys global_keys = Inr (selected, server_candidates c)"
    "parameters_of env rr is30 inherited item op = Inr (op_parameters c, ts1)" "request_body_of env rr is30 op = Inr (op_body c, ts2)"
    "canonical_responses env rr is30 op = Inr (op_responses c, ts3)" "op_method c = verb" "path_template c = path" "op_server c = selected"
    "op_source_id c = operation_id_of (res_value op)" "op_summary c = text_field (res_value op) ''summary''"
    "op_description c = text_field (res_value op) ''description''" "op_ref c = make_ref (res_version op) (res_pointer op)"
    "st' = \<lparr>pst_servers = table, pst_ids = ids, pst_transformations = pst_transformations st @ ts1 @ ts2 @ ts3,
       pst_operations = pst_operations st @ [c]\<rparr>"
proof -
  have make: "pydantic (make_operation x) = Inr y \<Longrightarrow> y = x" for x y
    by (auto simp: pydantic_def make_operation_def validate_path_parameters_def rbind_Inr_iff split: sum.splits if_splits)
  from assms show thesis unfolding parse_operation_def Let_def rbind_Inr_iff split_paired_Ex prod.case
    by (elim exE conjE) (rule that; use make in \<open>force\<close>)
qed

lemma parse_operation_closed:
  assumes "parse_operation env rr cfg is30 global_keys path item inherited path_keys st method verb raw = Inr st'"
    and "\<forall>op\<in>set (pst_operations st). \<forall>s\<in>operation_schemas op. closed_schema env s"
  shows "\<forall>op\<in>set (pst_operations st'). \<forall>s\<in>operation_schemas op. closed_schema env s"
  using assms(1)
proof (cases rule: parse_operation_Inr)
  case (1 op c ts1 ts2 ts3)
  have "closed_schema env s" if "s \<in> operation_schemas c" for s
    using that parameters_closed [OF 1(5)] responses_closed [OF 1(7)] body_closed [of env rr is30 op _ ts2] 1(6)
    by (auto simp: operation_schemas_def split: option.splits)
  with assms(2) show ?thesis by (simp add: 1(15))
qed

lemma parse_path_closed:
  assumes "parse_path env rr cfg is30 global_keys st x = Inr st'"
    and "\<forall>op\<in>set (pst_operations st). \<forall>s\<in>operation_schemas op. closed_schema env s"
  shows "\<forall>op\<in>set (pst_operations st'). \<forall>s\<in>operation_schemas op. closed_schema env s"
proof -
  obtain path raw where x: "x = (path, raw)" by (cases x)
  from assms(1) obtain item inherited path_keys table where
    "rfold (parse_method env rr cfg is30 global_keys path item inherited path_keys) (st\<lparr>pst_servers := table\<rparr>) (res_value item) = Inr st'"
    unfolding x parse_path_def prod.case rbind_Inr_iff split_paired_Ex by blast
  then show ?thesis
  proof (rule rfold_invariant)
    fix s y s'
    assume "\<forall>op\<in>set (pst_operations s). \<forall>s\<in>operation_schemas op. closed_schema env s"
      "parse_method env rr cfg is30 global_keys path item inherited path_keys s y = Inr s'"
    then show "\<forall>op\<in>set (pst_operations s'). \<forall>s\<in>operation_schemas op. closed_schema env s"
      using parse_operation_closed by (cases y) (auto simp: parse_method_def split: option.splits)
  qed (use assms(2) in simp)
qed

lemma component_schemas_closed:
  assumes "component_schemas env rr is30 raws = Inr (schemas, ts)"
  shows "\<forall>s\<in>csch_schema ` snd ` set schemas. closed_schema env s"
proof -
  have "\<forall>s\<in>csch_schema ` snd ` set (fst (schemas, ts)). closed_schema env s"
    using assms unfolding component_schemas_def
  proof (rule rfold_invariant)
    fix t x t' assume "\<forall>s\<in>csch_schema ` snd ` set (fst t). closed_schema env s" and
      "(case t of (table, ts) \<Rightarrow> \<lambda>(name, raw). let ptr = ''#/components/schemas/'' @ pointer_token name; key = schema_key (oe_sha env) name
          in rbind (source_schema env rr is30 (schema_or_empty (Some raw)) (rr_root rr) (rr_version rr) ptr) (\<lambda>(s, ts').
            Inr (dset key \<lparr>csch_key = key, csch_schema = s, csch_ref = make_ref (rr_version rr) ptr\<rparr> table, ts @ ts'))) x = Inr t'"
    then show "\<forall>s\<in>csch_schema ` snd ` set (fst t'). closed_schema env s"
      using source_schema_closed set_dset
      by (cases t, cases x) (fastforce simp: Let_def rbind_Inr_iff)
  qed simp
  then show ?thesis by simp
qed

lemma guard_Inr: "(if b then Inl e else r) = Inr x \<longleftrightarrow> \<not> b \<and> r = Inr x"
  by simp

lemma parse_openapi_Inr:
  assumes "parse_openapi env cfg external document = Inr (api, ts)"
  obtains root_document is30 title paths global_keys table0 components raw_schemes raw_schemas schemas ts0 st where
    "document = JObj root_document" "check_document env cfg external root_document = Inr (is30, title, paths)"
    "global_servers env cfg root_document = Inr (global_keys, table0)"
    "object_or_empty root_document ''components'' ''OpenAPI components must be an object'' = Inr components"
    "object_or_empty components ''securitySchemes'' ''OpenAPI securitySchemes must be an object'' = Inr raw_schemes"
    "object_or_empty components ''schemas'' ''OpenAPI component schemas must be an object'' = Inr raw_schemas"
    "component_schemas env \<lparr>rr_root = root_document, rr_version = pc_version cfg, rr_external = external\<rparr> is30 raw_schemas = Inr (schemas, ts0)"
    "rfold (parse_path env \<lparr>rr_root = root_document, rr_version = pc_version cfg, rr_external = external\<rparr> cfg is30 global_keys)
       \<lparr>pst_servers = table0, pst_ids = [], pst_transformations = ts0, pst_operations = []\<rparr> paths = Inr st"
    "operations api = pst_operations st" "api_servers api = map snd (pst_servers st)" "api_schemas api = schemas" "make_api api = Inr api"
proof -
  have make: "pydantic (make_api x) = Inr y \<Longrightarrow> y = x \<and> make_api x = Inr x" for x y
    using make_api_Inr(1) by (auto simp: pydantic_def split: sum.splits)
  from assms show thesis unfolding parse_openapi_def Let_def guard_Inr rbind_Inr_iff split_paired_Ex prod.case as_json_object_Inr
    by (elim exE conjE) (rule that, assumption+, (use make in \<open>force\<close>)+)
qed

lemma parsed_operations_closed:
  assumes "parse_openapi env cfg external document = Inr (api, ts)"
  shows "\<forall>op\<in>set (operations api). \<forall>s\<in>operation_schemas op. closed_schema env s"
  using assms
proof (cases rule: parse_openapi_Inr)
  case (1 root_document is30 title paths global_keys table0 components raw_schemes raw_schemas schemas ts0 st)
  show ?thesis unfolding 1(9) by (rule rfold_invariant [OF 1(8)]) (use parse_path_closed in \<open>simp, blast\<close>)
qed


section \<open>The operations are those of the document\<close>

text \<open>The methods and paths of a document, read without parsing any operation.\<close>

definition item_operations :: "pystr \<Rightarrow> resolved \<Rightarrow> (http_method \<times> pystr) list" where
  "item_operations path item = [(verb, path). (method, _) \<leftarrow> res_value item, Some verb \<leftarrow> [method_of (py_lower method)]]"

definition documented_operations :: "openapi_env \<Rightarrow> reference_resolver \<Rightarrow> json_object \<Rightarrow> openapi_error + (http_method \<times> pystr) list" where
  "documented_operations env rr paths =
     rbind (rmap (\<lambda>(path, raw). rbind (resolve env rr raw (rr_root rr) (rr_version rr) (''#/paths/'' @ pointer_token path) [])
       (\<lambda>item. Inr (item_operations path item))) paths) (\<lambda>xs. Inr (concat xs))"

definition method_and_path :: "canonical_operation \<Rightarrow> http_method \<times> pystr" where
  "method_and_path op = (op_method op, path_template op)"

lemma parse_methods_operations:
  assumes "rfold (parse_method env rr cfg is30 global_keys path item inherited path_keys) st ms = Inr st'"
  shows "map method_and_path (pst_operations st')
    = map method_and_path (pst_operations st) @ [(verb, path). (method, _) \<leftarrow> ms, Some verb \<leftarrow> [method_of (py_lower method)]]"
  using assms
proof (induction ms arbitrary: st)
  case (Cons m ms)
  obtain name raw where m: "m = (name, raw)" by (cases m)
  from Cons.prems obtain st1 where st1: "parse_method env rr cfg is30 global_keys path item inherited path_keys st m = Inr st1"
    "rfold (parse_method env rr cfg is30 global_keys path item inherited path_keys) st1 ms = Inr st'" by (auto simp: rbind_Inr_iff)
  show ?case
  proof (cases "method_of (py_lower name)")
    case None
    with st1(1) have "st1 = st" by (simp add: m parse_method_def)
    with Cons.IH [OF st1(2)] None show ?thesis by (simp add: m)
  next
    case (Some verb)
    with st1(1) have "parse_operation env rr cfg is30 global_keys path item inherited path_keys st (py_lower name) verb raw = Inr st1"
      by (simp add: m parse_method_def)
    then have "map method_and_path (pst_operations st1) = map method_and_path (pst_operations st) @ [(verb, path)]"
      by (cases rule: parse_operation_Inr) (simp add: method_and_path_def)
    with Cons.IH [OF st1(2)] Some show ?thesis by (simp add: m)
  qed
qed simp

lemma parse_paths_operations:
  assumes "rfold (parse_path env rr cfg is30 global_keys) st paths = Inr st'"
  shows "\<exists>xs. rmap (\<lambda>(path, raw). rbind (resolve env rr raw (rr_root rr) (rr_version rr) (''#/paths/'' @ pointer_token path) [])
       (\<lambda>item. Inr (item_operations path item))) paths = Inr xs
    \<and> map method_and_path (pst_operations st') = map method_and_path (pst_operations st) @ concat xs"
  using assms
proof (induction paths arbitrary: st)
  case (Cons p paths)
  obtain path raw where p: "p = (path, raw)" by (cases p)
  from Cons.prems obtain st1 where "parse_path env rr cfg is30 global_keys st (path, raw) = Inr st1"
    and st1: "rfold (parse_path env rr cfg is30 global_keys) st1 paths = Inr st'" by (auto simp: p rbind_Inr_iff)
  then obtain item inherited path_keys table where item: "resolve env rr raw (rr_root rr) (rr_version rr) (''#/paths/'' @ pointer_token path) [] = Inr item"
    and ms: "rfold (parse_method env rr cfg is30 global_keys path item inherited path_keys) (st\<lparr>pst_servers := table\<rparr>) (res_value item) = Inr st1"
    unfolding parse_path_def prod.case rbind_Inr_iff split_paired_Ex by blast
  from parse_methods_operations [OF ms] have "map method_and_path (pst_operations st1) = map method_and_path (pst_operations st) @ item_operations path item"
    by (simp add: item_operations_def)
  with Cons.IH [OF st1] item show ?case by (auto simp: p)
qed simp

lemma check_operation_refs_Inr:
  assumes "check_operation_refs keys names op = Inr u"
  shows "set (server_candidates op) \<subseteq> set keys" "\<And>r. r \<in> set (op_security op) \<Longrightarrow> set (dkeys (scheme_scopes r)) \<subseteq> set names"
proof -
  from assms show "set (server_candidates op) \<subseteq> set keys" by (simp add: check_operation_refs_def guard_Inr)
  from assms have "riter (\<lambda>r. if \<not> set (dkeys (scheme_scopes r)) \<subseteq> set names
      then Inl (ValueError ''operation references unknown security schemes'') else Inr ()) (op_security op) = Inr ()"
    by (cases "op_server op") (simp_all add: check_operation_refs_def guard_Inr)
  then show "\<And>r. r \<in> set (op_security op) \<Longrightarrow> set (dkeys (scheme_scopes r)) \<subseteq> set names"
    unfolding riter_Inr_iff guard_Inr by simp
qed

lemma check_document_paths: "check_document env cfg external d = Inr (is30, title, paths) \<Longrightarrow> dget d ''paths'' = Some (JObj paths)"
  by (auto simp: check_document_def Let_def guard_Inr rbind_Inr_iff split: option.split_asm json.split_asm list.split_asm if_split_asm)

lemma make_api_references:
  assumes "make_api api = Inr a"
  shows "(\<Union>op\<in>set (operations api). set (server_candidates op)) \<subseteq> cs_key ` set (api_servers api)"
    "set (required_schemes (operations api)) \<subseteq> set (dkeys (security_schemes api))"
proof -
  from assms have ok: "check_operation_refs (map cs_key (api_servers api)) (dkeys (security_schemes api)) op = Inr ()"
    if "op \<in> set (operations api)" for op
    using that by (auto simp: make_api_def validate_references_and_uniqueness_def Let_def guard_Inr rbind_Inr_iff riter_Inr_iff)
  show "(\<Union>op\<in>set (operations api). set (server_candidates op)) \<subseteq> cs_key ` set (api_servers api)"
    using check_operation_refs_Inr(1) [OF ok] by (simp add: UN_subset_iff)
  have "set (required_schemes ops) = (\<Union>op\<in>set ops. \<Union>r\<in>set (op_security op). set (dkeys (scheme_scopes r)))" for ops
    by (auto simp: required_schemes_def)
  then show "set (required_schemes (operations api)) \<subseteq> set (dkeys (security_schemes api))"
    using check_operation_refs_Inr(2) [OF ok] by (simp add: UN_subset_iff)
qed

text \<open>C9: No operation is lost, invented or moved: the operations of a parsed API are, in the order of the document, one for each
  path and each HTTP method of its path item (followed through its references), and keys of a path item that are no methods give none.
  Operations have keys of their own, and servers and security schemes of the API.
\<close>

theorem parsed_operations_are_documented:
  assumes "parse_openapi env cfg external (JObj root_document) = Inr (api, ts)"
  shows "\<exists>paths. dget root_document ''paths'' = Some (JObj paths)
    \<and> documented_operations env \<lparr>rr_root = root_document, rr_version = pc_version cfg, rr_external = external\<rparr> paths
      = Inr (map method_and_path (operations api))
    \<and> distinct (map op_key (operations api))
    \<and> (\<Union>op\<in>set (operations api). set (server_candidates op)) \<subseteq> cs_key ` set (api_servers api)
    \<and> set (required_schemes (operations api)) \<subseteq> set (dkeys (security_schemes api))"
  using assms
proof (cases rule: parse_openapi_Inr)
  case (1 root is30 title paths global_keys table0 components raw_schemes raw_schemas schemas ts0 st)
  have "dget root_document ''paths'' = Some (JObj paths)"
    using check_document_paths [OF 1(2)] 1(1) by simp
  then show ?thesis using parse_paths_operations [OF 1(8)] 1 make_api_Inr(3) [OF 1(12)] make_api_references [OF 1(12)]
    unfolding documented_operations_def by (intro exI [of _ paths] conjI) (auto simp: rbind_Inr_iff)
qed

section \<open>Pointers lead back to the source\<close>

lemma walk_pointer_append: "walk_pointer (ts @ us) j = rbind (walk_pointer ts j) (walk_pointer us)"
proof (induction ts j rule: walk_pointer.induct)
  case (2 t ts j)
  then show ?case by (cases j) (auto split: option.split)
qed simp

text \<open>A step down from what a pointer names is the pointer with one more token.\<close>

lemma json_pointer_child:
  assumes "json_pointer d (''#'' @ p) = Inr (JObj kvs)" "dget kvs k = Some w"
  shows "json_pointer d (''#'' @ p @ ''/'' @ pointer_token k) = Inr w"
proof (cases p)
  case Nil
  with assms show ?thesis
    by (simp add: json_pointer_def Let_def split_on_id [OF pointer_token_no_slash] unescape_pointer_token)
next
  case (Cons c q)
  with assms(1) have "c = CHR ''/''" "walk_pointer (split_on (CHR ''/'') q) (JObj d) = Inr (JObj kvs)"
    by (auto simp: json_pointer_def Let_def split: if_split_asm)
  with assms(2) Cons show ?thesis
    by (simp add: json_pointer_def Let_def split_on_append_sep walk_pointer_append split_on_id [OF pointer_token_no_slash]
        unescape_pointer_token)
qed

definition source_documents :: "reference_resolver \<Rightarrow> (json_object \<times> uuid) set" where
  "source_documents rr = insert (rr_root rr, rr_version rr) ((\<lambda>x. (ed_document x, ed_version x)) ` snd ` set (rr_external rr))"

definition locates :: "reference_resolver \<Rightarrow> json_object \<Rightarrow> uuid \<Rightarrow> pystr \<Rightarrow> json \<Rightarrow> bool" where
  "locates rr d v ptr j \<longleftrightarrow> (d, v) \<in> source_documents rr \<and> startswith ptr ''#'' \<and> json_pointer d ptr = Inr j"

lemma locates_child: "locates rr d v p (JObj kvs) \<Longrightarrow> dget kvs k = Some w \<Longrightarrow> locates rr d v (p @ ''/'' @ pointer_token k) w"
  using json_pointer_child [of d "tl p" kvs k w] by (cases p) (auto simp: locates_def)

lemma target_locates:
  assumes "reference_target env rr r d v = Inr (d', v', p')" "(d, v) \<in> source_documents rr" "json_pointer d' p' = Inr j"
  shows "locates rr d' v' p' j"
proof -
  have "x \<in> snd ` set ext" if "captured_document ext cs = Some x" for ext cs x
    using that unfolding captured_document_def by (auto split: option.splits dest!: map_of_SomeD simp: rev_image_eqI)
  with assms show ?thesis
    by (auto simp: reference_target_def locates_def source_documents_def split: sum.split_asm prod.split_asm if_split_asm option.split_asm)
qed

lemma resolve_cases:
  assumes "resolve env rr j d v ptr seen = Inr r"
  obtains (object) kvs where "j = JObj kvs" "r = \<lparr>res_value = kvs, res_document = or_root rr d, res_version = v, res_pointer = ptr\<rparr>"
  | (ref) kvs s d' v' p' node where "j = JObj kvs" "dget kvs ''$ref'' = Some (JStr s)" "s \<noteq> []"
      "reference_target env rr s (or_root rr d) v = Inr (d', v', p')" "(v', p') \<notin> set seen" "json_pointer d' p' = Inr node"
      "resolve env rr node d' v' p' ((v', p') # seen) = Inr r"
proof -
  from assms obtain kvs where j: "j = JObj kvs" unfolding resolve.simps [of env rr j d v ptr seen] by (cases j) auto
  show thesis
  proof (cases "dget kvs ''$ref''")
    case None
    with assms show thesis unfolding resolve.simps [of env rr j d v ptr seen] by (intro object [OF j]) (simp add: j)
  next
    case (Some raw)
    with assms obtain s where s: "raw = JStr s" unfolding resolve.simps [of env rr j d v ptr seen] by (cases raw) (auto simp: j)
    with assms Some obtain d' v' p' where t: "reference_target env rr s (or_root rr d) v = Inr (d', v', p')" "s \<noteq> []" "(v', p') \<notin> set seen"
      unfolding resolve.simps [of env rr j d v ptr seen] by (auto simp: j split: sum.split_asm if_split_asm)
    with assms Some s obtain node where "attributed v' (Some p') (json_pointer d' p') = Inr node" "resolve env rr node d' v' p' ((v', p') # seen) = Inr r"
      unfolding resolve.simps [of env rr j d v ptr seen] by (auto simp: j split: sum.split_asm)
    then show thesis using ref [OF j] Some s t by simp
  qed
qed

lemma resolve_locates:
  "resolve env rr j d v ptr seen = Inr r \<Longrightarrow> locates rr d v ptr j \<Longrightarrow> [] \<notin> fst ` source_documents rr
     \<Longrightarrow> locates rr (res_document r) (res_version r) (res_pointer r) (JObj (res_value r))"
proof (induction env rr j d v ptr seen rule: resolve.induct)
  case (1 env rr j d v ptr seen)
  have d: "or_root rr d = d" using "1.prems"(2,3) by (force simp: or_root_def locates_def)
  from "1.prems"(1) show ?case
  proof (cases rule: resolve_cases)
    case (object kvs)
    with "1.prems"(2) show ?thesis by (simp add: d)
  next
    case (ref kvs s d' v' p' node)
    have "locates rr d' v' p' node" using target_locates [OF ref(4) [unfolded d] _ ref(6)] "1.prems"(2) by (simp add: locates_def)
    then show ?thesis using "1.IH" [OF ref(1,2) refl ref(3,4) refl refl ref(5) _ ref(7) _ "1.prems"(3)] ref(6) by simp
  qed
qed

lemma wf_json_dget: "wf_json (JObj kvs) \<Longrightarrow> (k, w) \<in> set kvs \<Longrightarrow> dget kvs k = Some w \<and> wf_json w"
  by (subst (asm) wf_json.simps) (auto simp: list_all_iff)

lemma walk_pointer_wf: "walk_pointer ts j = Inr w \<Longrightarrow> wf_json j \<Longrightarrow> wf_json w"
proof (induction ts j rule: walk_pointer.induct)
  case (2 t ts j)
  then show ?case by (auto split: json.split_asm option.split_asm dest: wf_json_dget [OF _ map_of_SomeD])
qed simp

lemma locates_wf: "locates rr d v ptr j \<Longrightarrow> \<forall>x\<in>fst ` source_documents rr. wf_json (JObj x) \<Longrightarrow> wf_json j"
  using walk_pointer_wf [of _ "JObj d" j] by (force simp: locates_def json_pointer_def Let_def split: if_split_asm)

text \<open>The source of an operation: where its reference leads, there is an object with its identifier, summary and description.\<close>

definition operation_located :: "reference_resolver \<Rightarrow> canonical_operation \<Rightarrow> bool" where
  "operation_located rr op \<longleftrightarrow> (\<exists>d operation. locates rr d (ref_version (op_ref op)) (ref_pointer (op_ref op)) (JObj operation)
     \<and> op_source_id op = operation_id_of operation \<and> op_summary op = text_field operation ''summary''
     \<and> op_description op = text_field operation ''description'')"

definition lower_case_methods :: "openapi_env \<Rightarrow> reference_resolver \<Rightarrow> json_object \<Rightarrow> bool" where
  "lower_case_methods env rr paths \<longleftrightarrow> list_all (\<lambda>(path, raw).
     case resolve env rr raw (rr_root rr) (rr_version rr) (''#/paths/'' @ pointer_token path) [] of
       Inl _ \<Rightarrow> True
     | Inr item \<Rightarrow> list_all (\<lambda>(method, _). method_of (py_lower method) = None \<or> py_lower method = method) (res_value item)) paths"

lemma method_token: "method_of m = Some verb \<Longrightarrow> pointer_token m = m"
proof -
  assume "method_of m = Some verb"
  then have "m = py_lower (method_value verb)" by (auto simp: method_of_def find_Some_iff)
  moreover have "list_all (\<lambda>v. pointer_token (py_lower (method_value v)) = py_lower (method_value v)) http_methods" by code_simp
  then have "pointer_token (py_lower (method_value verb)) = py_lower (method_value verb)" by (cases verb) (simp_all add: http_methods_def)
  ultimately show ?thesis by simp
qed

lemma parse_operation_located:
  assumes "parse_operation env rr cfg is30 global_keys path item inherited path_keys st method verb raw = Inr st'"
    and item: "locates rr (res_document item) (res_version item) (res_pointer item) (JObj (res_value item))" "dget (res_value item) method = Some raw"
    and verb: "method_of method = Some verb" and docs: "[] \<notin> fst ` source_documents rr"
    and "list_all (operation_located rr) (pst_operations st)"
  shows "list_all (operation_located rr) (pst_operations st')"
  using assms(1)
proof (cases rule: parse_operation_Inr)
  case (1 op c)
  have "locates rr (res_document item) (res_version item) (res_pointer item @ ''/'' @ method) raw"
    using locates_child [OF item] method_token [OF verb] by simp
  from resolve_locates [OF 1(1) this docs] have "operation_located rr c"
    by (auto simp: operation_located_def 1(11-14) make_ref_def)
  with assms(6) show ?thesis by (simp add: 1(15))
qed

lemma parse_path_located:
  assumes "parse_path env rr cfg is30 global_keys st (path, raw) = Inr st'" "dget paths path = Some raw" "lower_case_methods env rr paths"
    and root: "locates rr (rr_root rr) (rr_version rr) ''#/paths'' (JObj paths)"
    and docs: "[] \<notin> fst ` source_documents rr" "\<forall>x\<in>fst ` source_documents rr. wf_json (JObj x)"
    and st: "list_all (operation_located rr) (pst_operations st)"
  shows "list_all (operation_located rr) (pst_operations st')"
proof -
  from assms(1) obtain item inherited path_keys table where
    item: "resolve env rr raw (rr_root rr) (rr_version rr) (''#/paths/'' @ pointer_token path) [] = Inr item" and
    run: "rfold (parse_method env rr cfg is30 global_keys path item inherited path_keys) (st\<lparr>pst_servers := table\<rparr>) (res_value item) = Inr st'"
    unfolding parse_path_def prod.case rbind_Inr_iff split_paired_Ex by blast
  have "locates rr (rr_root rr) (rr_version rr) (''#/paths/'' @ pointer_token path) raw"
    using locates_child [OF root assms(2)] by simp
  from resolve_locates [OF item this docs(1)]
  have located: "locates rr (res_document item) (res_version item) (res_pointer item) (JObj (res_value item))" .
  have lower: "method_of (py_lower m) = None \<or> py_lower m = m" if "(m, x) \<in> set (res_value item)" for m x
    using assms(3) that item map_of_SomeD [OF assms(2)] by (fastforce simp: lower_case_methods_def list_all_iff)
  from run show ?thesis
  proof (rule rfold_invariant)
    fix s y s'
    assume s: "list_all (operation_located rr) (pst_operations s)" and y: "y \<in> set (res_value item)"
      and step: "parse_method env rr cfg is30 global_keys path item inherited path_keys s y = Inr s'"
    obtain m x where [simp]: "y = (m, x)" by (cases y)
    have "dget (res_value item) m = Some x" using wf_json_dget [OF locates_wf [OF located docs(2)]] y by auto
    then show "list_all (operation_located rr) (pst_operations s')"
      using step s lower [of m x] y parse_operation_located [OF _ located _ _ docs(1) s, of env cfg is30 global_keys path inherited path_keys m]
      by (auto simp: parse_method_def split: option.split_asm)
  qed (use st in simp)
qed


section \<open>A document\<close>

text \<open>A document with a schema that refers to itself and a response that uses it, and the API it gives.\<close>

definition sample_env :: openapi_env where
  "sample_env = \<lparr>oe_sha = (\<lambda>s. ''0''), oe_bracketed = (\<lambda>_. True), oe_http_url = Some, oe_check_spec = (\<lambda>_ _ _. SpecValid), oe_check_schema = (\<lambda>_. True)\<rparr>"

definition sample_config :: parse_config where
  "sample_config = \<lparr>pc_project = 4, pc_version = 5, pc_sha256 = ''f'', pc_active = None, pc_mappings = [], pc_base = None\<rparr>"

definition sample_node :: json where
  "sample_node = JObj [(''items'', JObj [(''$ref'', JStr ''#/components/schemas/N'')])]"

definition sample_get_json :: json_object where
  "sample_get_json = [(''summary'', JStr ''List''), (''responses'', JObj [(''200'', JObj [(''content'', JObj [(''application/json'',
     JObj [(''schema'', JObj [(''$ref'', JStr ''#/components/schemas/N'')])])])])])]"

definition sample_document :: json_object where
  "sample_document = [(''openapi'', JStr ''3.1.0''), (''info'', JObj [(''title'', JStr ''T'')]),
     (''servers'', JArr [JObj [(''url'', JStr ''https://a.b'')]]),
     (''components'', JObj [(''schemas'', JObj [(''N'', sample_node)])]),
     (''paths'', JObj [(''/x'', JObj [(''get'', JObj sample_get_json)])])]"

definition sample_definitions :: "pystr \<times> json" where
  "sample_definitions = (''$defs'', JObj [(''mcplica_ref_0'', JObj [(''items'', JObj [(''$ref'', JStr ''#/$defs/mcplica_ref_0'')])])])"

definition sample_schema :: json_object where
  "sample_schema = [(''items'', JObj [(''$ref'', JStr ''#/$defs/mcplica_ref_0'')]), sample_definitions]"

definition sample_body_schema :: json_object where
  "sample_body_schema = [(''$ref'', JStr ''#/$defs/mcplica_ref_0''), sample_definitions]"

abbreviation sample_resolver :: reference_resolver where
  "sample_resolver \<equiv> \<lparr>rr_root = sample_document, rr_version = 5, rr_external = []\<rparr>"

text \<open>Evaluation does not look at the rest of a computation before its first part has a value.\<close>

lemma rbind_weak: "r = s \<Longrightarrow> rbind r f = rbind s f"
  by simp

lemma sample_target:
  "reference_target sample_env sample_resolver ''#/components/schemas/N'' sample_document 5 = Inr (sample_document, 5, ''#/components/schemas/N'')"
  "definition_key sample_env 5 ''#/components/schemas/N'' = ''mcplica_ref_0''"
  "json_pointer sample_document ''#/components/schemas/N'' = Inr (JObj [(''items'', JObj [(''$ref'', JStr ''#/components/schemas/N'')])])"
  by code_simp+

lemmas sample_evaluation = materialize_schema_def as_json_object_def visit.simps visit_ref.simps attributed_def add_definitions_def Let_def sample_target

lemma sample_materialized: "materialize_schema sample_env sample_resolver sample_node sample_document 5 loc = Inr sample_schema"
proof -
  have "2 \<le> schema_fuel sample_env sample_resolver sample_node sample_document 5" by code_simp
  then obtain n where "schema_fuel sample_env sample_resolver sample_node sample_document 5 = Suc (Suc n)" by (auto simp: numeral_2_eq_2 Suc_le_eq dest!: less_imp_Suc_add)
  then show ?thesis unfolding sample_schema_def sample_node_def sample_definitions_def by (simp add: sample_evaluation cong: rbind_weak)
qed

lemma sample_body_materialized:
  "materialize_schema sample_env sample_resolver (JObj [(''$ref'', JStr ''#/components/schemas/N'')]) sample_document 5 loc = Inr sample_body_schema"
proof -
  have "2 \<le> schema_fuel sample_env sample_resolver (JObj [(''$ref'', JStr ''#/components/schemas/N'')]) sample_document 5" by code_simp
  then obtain n where "schema_fuel sample_env sample_resolver (JObj [(''$ref'', JStr ''#/components/schemas/N'')]) sample_document 5 = Suc (Suc n)" by (auto simp: numeral_2_eq_2 Suc_le_eq dest!: less_imp_Suc_add)
  then show ?thesis unfolding sample_body_schema_def sample_definitions_def by (simp add: sample_evaluation cong: rbind_weak)
qed

lemma sample_components:
  "component_schemas sample_env sample_resolver False [(''N'', sample_node)]
   = Inr ([(''schema_n_0'', \<lparr>csch_key = ''schema_n_0'', csch_schema = sample_schema,
       csch_ref = \<lparr>ref_version = 5, ref_pointer = ''#/components/schemas/N''\<rparr>\<rparr>)], [])"
proof -
  have "schema_key (oe_sha sample_env) ''N'' = ''schema_n_0''" "pointer_token ''N'' = ''N''" by code_simp+
  moreover have "reject_unsupported_schema_resources ''#/components/schemas/N'' (JObj sample_schema) = Inr ()" by code_simp
  moreover have "schema_or_empty (Some sample_node) = sample_node" by code_simp
  ultimately show ?thesis
    by (simp add: component_schemas_def source_schema_def sample_materialized Let_def make_ref_def cong: rbind_weak) (simp add: sample_env_def)
qed

definition sample_resolved :: resolved where
  "sample_resolved = \<lparr>res_value = sample_get_json, res_document = sample_document, res_version = 5, res_pointer = ''#/paths/~1x/get''\<rparr>"

definition sample_response :: canonical_response where
  "sample_response = \<lparr>cr_status = ''200'', cr_description = None,
     cr_content = [\<lparr>cm_type = ''application/json'', cm_schema = sample_body_schema, cm_examples = [],
       cm_ref = \<lparr>ref_version = 5, ref_pointer = ''#/paths/~1x/get/responses/200/content/application~1json''\<rparr>\<rparr>],
     cr_ref = \<lparr>ref_version = 5, ref_pointer = ''#/paths/~1x/get/responses/200''\<rparr>\<rparr>"

lemma sample_responses: "canonical_responses sample_env sample_resolver False sample_resolved = Inr ([sample_response], [])"
proof -
  let ?content = "JObj [(''application/json'', JObj [(''schema'', JObj [(''$ref'', JStr ''#/components/schemas/N'')])])]"
  have "dget (res_value sample_resolved) ''responses'' = Some (JObj [(''200'', JObj [(''content'', ?content)])])"
    "resolve sample_env sample_resolver (JObj [(''content'', ?content)]) (res_document sample_resolved) (res_version sample_resolved)
      (res_pointer sample_resolved @ ''/responses/'' @ pointer_token ''200'') []
      = Inr \<lparr>res_value = [(''content'', ?content)], res_document = sample_document, res_version = 5, res_pointer = ''#/paths/~1x/get/responses/200''\<rparr>"
    "pointer_token ''application/json'' = ''application~1json''" "media_examples [(''schema'', JObj [(''$ref'', JStr ''#/components/schemas/N'')])] = []"
    "schema_or_empty (Some (JObj [(''$ref'', JStr ''#/components/schemas/N'')])) = JObj [(''$ref'', JStr ''#/components/schemas/N'')]"
    "reject_unsupported_schema_resources ''#/paths/~1x/get/responses/200/content/application~1json/schema'' (JObj sample_body_schema) = Inr ()"
    "oe_check_schema sample_env sample_body_schema" "text_field [(''content'', ?content)] ''description'' = None"
    by code_simp+
  then show ?thesis
    by (simp add: canonical_responses_def response_of_def media_types_def media_type_of_def source_schema_def sample_body_materialized
        sample_response_def Let_def make_ref_def cong: rbind_weak)
qed

definition sample_operation :: canonical_operation where
  "sample_operation = \<lparr>op_key = ''op_0'', op_source_id = None, tool_name_seed = ''get_x'', op_method = GET, path_template = ''/x'',
     op_server = Some ''server_0'', server_candidates = [''server_0''], op_summary = Some ''List'', op_description = None, op_parameters = [],
     op_body = None, op_responses = [sample_response], op_security = [], op_tags = [], op_semantic = no_semantics,
     op_ref = \<lparr>ref_version = 5, ref_pointer = ''#/paths/~1x/get''\<rparr>\<rparr>"

definition sample_servers :: server_table where
  "sample_servers = [(''server_0'', \<lparr>cs_key = ''server_0'', cs_url = ''https://a.b'', cs_description = None,
     cs_ref = \<lparr>ref_version = 5, ref_pointer = ''#/servers/0''\<rparr>\<rparr>)]"

definition sample_api :: canonical_api where
  "sample_api = \<lparr>api_project = 4, api_title = ''T'', api_servers = map snd sample_servers, active_server = Some ''server_0'', security_schemes = [],
     api_schemas = [(''schema_n_0'', \<lparr>csch_key = ''schema_n_0'', csch_schema = sample_schema,
       csch_ref = \<lparr>ref_version = 5, ref_pointer = ''#/components/schemas/N''\<rparr>\<rparr>)],
     operations = [sample_operation], documentation_refs = [], source_versions = [5], source_fingerprint = ''f''\<rparr>"

lemma sample_operation_parsed:
  assumes "res_document item = sample_document" "res_version item = 5" "res_pointer item = ''#/paths/~1x''"
  shows "parse_operation sample_env sample_resolver sample_config False [''server_0''] ''/x'' item [] []
      \<lparr>pst_servers = sample_servers, pst_ids = [], pst_transformations = [], pst_operations = []\<rparr> ''get'' GET (JObj sample_get_json)
    = Inr \<lparr>pst_servers = sample_servers, pst_ids = [], pst_transformations = [], pst_operations = [sample_operation]\<rparr>"
proof -
  have "resolve sample_env sample_resolver (JObj sample_get_json) sample_document 5 ''#/paths/~1x/get'' [] = Inr sample_resolved"
    "operation_id_of (res_value sample_resolved) = None" "register_operation_id None [] = Inr []"
    "Identifiers.operation_key (oe_sha sample_env) ''get'' ''/x'' None = ''op_0''" "make_tool_name_seed ''get'' ''/x'' None = ''get_x''"
    "dget (res_value sample_resolved) ''servers'' = None" "array_or_empty (res_value sample_resolved) ''parameters'' ''Operation parameters must be an array'' = Inr []"
    "select_server sample_config ''op_0'' [] [] [''server_0''] = Inr (Some ''server_0'', [''server_0''])"
    "request_body_of sample_env sample_resolver False sample_resolved = Inr (None, [])" "security_of sample_resolver sample_resolved = Inr []"
    "tags_of (res_value sample_resolved) = Inr []" "text_field (res_value sample_resolved) ''summary'' = Some ''List''"
    "text_field (res_value sample_resolved) ''description'' = None" "make_ref (res_version sample_resolved) (res_pointer sample_resolved) = op_ref sample_operation"
    by code_simp+
  moreover have "make_operation sample_operation = Inr sample_operation" by code_simp
  ultimately show ?thesis using sample_responses assms
    by (simp add: parse_operation_def Let_def register_servers_def parameters_of_def parameter_inputs_def pydantic_def sample_operation_def cong: rbind_weak)
qed

lemma sample_paths_parsed:
  "rfold (parse_path sample_env sample_resolver sample_config False [''server_0''])
      \<lparr>pst_servers = sample_servers, pst_ids = [], pst_transformations = [], pst_operations = []\<rparr> [(''/x'', JObj [(''get'', JObj sample_get_json)])]
    = Inr \<lparr>pst_servers = sample_servers, pst_ids = [], pst_transformations = [], pst_operations = [sample_operation]\<rparr>"
proof -
  let ?item = "\<lparr>res_value = [(''get'', JObj sample_get_json)], res_document = sample_document, res_version = 5, res_pointer = ''#/paths/~1x''\<rparr>"
  have "resolve sample_env sample_resolver (JObj [(''get'', JObj sample_get_json)]) sample_document 5 (''#/paths/'' @ pointer_token ''/x'') [] = Inr ?item"
    "array_or_empty [(''get'', JObj sample_get_json)] ''parameters'' ''Path parameters must be an array'' = Inr []"
    "method_of (py_lower ''get'') = Some GET" "py_lower ''get'' = ''get''" by code_simp+
  with sample_operation_parsed [of ?item] show ?thesis
    by (simp add: parse_path_def parse_method_def register_servers_def cong: rbind_weak)
qed

lemma sample_parsed: "parse_openapi sample_env sample_config [] (JObj sample_document) = Inr (sample_api, [])"
proof -
  have "check_document sample_env sample_config [] sample_document = Inr (False, ''T'', [(''/x'', JObj [(''get'', JObj sample_get_json)])])" by code_simp
  moreover have "global_servers sample_env sample_config sample_document = Inr ([''server_0''], sample_servers)" by code_simp
  moreover have "object_or_empty sample_document ''components'' ''OpenAPI components must be an object'' = Inr [(''schemas'', JObj [(''N'', sample_node)])]"
    "object_or_empty [(''schemas'', JObj [(''N'', sample_node)])] ''securitySchemes'' ''OpenAPI securitySchemes must be an object'' = Inr []"
    "object_or_empty [(''schemas'', JObj [(''N'', sample_node)])] ''schemas'' ''OpenAPI component schemas must be an object'' = Inr [(''N'', sample_node)]"
    by code_simp+
  moreover have "make_api \<lparr>api_project = 4, api_title = ''T'', api_servers = map snd sample_servers, active_server = Some ''server_0'', security_schemes = [],
      api_schemas = [(''schema_n_0'', \<lparr>csch_key = ''schema_n_0'', csch_schema = sample_schema,
        csch_ref = \<lparr>ref_version = 5, ref_pointer = ''#/components/schemas/N''\<rparr>\<rparr>)],
      operations = [sample_operation], documentation_refs = [], source_versions = [5], source_fingerprint = ''f''\<rparr> = Inr sample_api" by code_simp
  moreover have "length sample_servers = 1" "fst (hd sample_servers) = ''server_0''" "sample_servers \<noteq> []" "required_schemes [sample_operation] = []" by code_simp+
  moreover have "pc_version sample_config = 5" "pc_project sample_config = 4" "pc_sha256 sample_config = ''f''" "pc_active sample_config = None"
    "pc_mappings sample_config = []" by code_simp+
  ultimately show ?thesis
    by (simp add: parse_openapi_def as_json_object_def Let_def scheme_table_def sample_components sample_paths_parsed pydantic_def
        del: rfold.simps cong: rbind_weak)
qed


theorem parsed_operations_are_documented_witness:
  "documented_operations sample_env sample_resolver [(''/x'', JObj [(''get'', JObj sample_get_json)])] = Inr [(GET, ''/x'')]
     \<and> map method_and_path (operations sample_api) = [(GET, ''/x'')]"
proof -
  have "dget sample_document ''paths'' = Some (JObj [(''/x'', JObj [(''get'', JObj sample_get_json)])])"
    "map method_and_path (operations sample_api) = [(GET, ''/x'')]" "pc_version sample_config = 5" by code_simp+
  with parsed_operations_are_documented [OF sample_parsed] show ?thesis by auto
qed


end
