(* ===== verification/PipelineContract.thy ===== *)
theory PipelineContract
  imports OpenApiProperties CompilerProperties
begin

text \<open>
  From a source to a manifest: what a parser promises about the schemas of the canonical model is what
  the compiler needs, so that the references of every compiled tool resolve. The contract between a parser and the compiler is the
  locale \<open>canonical_source\<close>; the OpenAPI parser provides it.
\<close>

section \<open>References that resolve\<close>

definition plain_key :: "pystr \<Rightarrow> bool" where
  "plain_key k \<longleftrightarrow> set k \<inter> set ''%~/'' = {}"

lemma replace_absent: "CHR ''~'' \<notin> set s \<Longrightarrow> replace (CHR ''~'' # old) new s = s"
  by (induction s) (auto simp: replace.simps)

lemma unquote_absent: "CHR ''%'' \<notin> set s \<Longrightarrow> unquote s = s"
  by (induction s) (auto simp: unquote_plain)

lemma unescape_plain: "plain_key k \<Longrightarrow> unescape_token k = k"
  unfolding unescape_token_def plain_key_def by (auto simp: unquote_absent replace_absent)

lemma children_refs: "w \<in> set (children v) \<Longrightarrow> set (ref_values w) \<subseteq> set (ref_values v)"
proof (cases v)
  case (JObj m)
  moreover assume "w \<in> set (children v)"
  ultimately obtain k where "(k, w) \<in> set m" by auto
  from ref_values_member [OF this] JObj show ?thesis by simp
qed auto

lemma inside_refs: "inside u v \<Longrightarrow> set (ref_values u) \<subseteq> set (ref_values v)"
  by (induction rule: inside.induct) (use children_refs in blast)+

lemma local_references_valid:
  assumes refs: "local_refs ks (JObj s)" and keys: "ks \<subseteq> defs_keys s" and plain: "\<And>k. k \<in> ks \<Longrightarrow> plain_key k"
  shows "validate_local_schema_references s = Inr ()"
  unfolding validate_refs_iff
proof (intro allI impI)
  fix m assume m: "inside (JObj m) (JObj s)"
  show "check_reference s m = Inr ()"
  proof (cases "dget m ''$ref''")
    case (Some r)
    then have "r \<in> set (ref_values (JObj m))" by (auto simp: set_ref_values_obj dest: map_of_SomeD)
    with inside_refs [OF m] refs obtain k where k: "k \<in> ks" "r = JStr (''#/$defs/'' @ k)" by (auto simp: local_refs_def)
    have "split_on (CHR ''/'') (''$defs/'' @ k) = [''$defs'', k]"
      using plain [OF k(1)] split_on_append_sep [of "CHR ''/''" "''$defs''" k] by (simp add: plain_key_def split_on_id)
    moreover obtain defs w where "dget s ''$defs'' = Some (JObj defs)" "dget defs k = Some w"
      using k(1) keys by (force simp: defs_keys_def map_of_eq_None_iff split: option.splits json.splits)
    moreover have "unescape_token ''$defs'' = ''$defs''" by code_simp
    ultimately show ?thesis
      using unescape_plain [OF plain [OF k(1)]] by (simp add: check_reference_def Some k(2) resolve_local_reference_def Let_def)
  qed (simp add: check_reference_def)
qed

text \<open>A schema whose references lead to definitions of its own, under keys of \<open>G\<close>.\<close>

definition closed_under :: "pystr set \<Rightarrow> json_object \<Rightarrow> bool" where
  "closed_under G s \<longleftrightarrow> local_refs (defs_keys s \<inter> G) (JObj s)"

lemma local_refs_Int: "local_refs A j \<Longrightarrow> local_refs B j \<Longrightarrow> local_refs (A \<inter> B) j"
  unfolding local_refs_def by fast

lemma closed_schema_under: "closed_schema env s \<Longrightarrow> closed_under (generated_keys env) s"
  unfolding closed_schema_def closed_under_def self_contained_def defs_keys_def by (blast intro: local_refs_Int)

section \<open>The compiler keeps references\<close>

lemma local_refs_member: "local_refs K (JObj s) \<Longrightarrow> (k, w) \<in> set s \<Longrightarrow> local_refs K w"
  unfolding local_refs_def using ref_values_member by blast

lemma local_refs_parts:
  assumes "local_refs K (JObj a)" "local_refs K (JObj b)" "set c \<subseteq> set a \<union> set b"
  shows "local_refs K (JObj c)"
  using assms unfolding local_refs_obj by (meson UnE subsetD)

lemma hoisted_merge: "rfold (hoist_definition op) definitions raw = Inr d \<Longrightarrow> d = merge_definitions definitions raw"
proof (induction raw arbitrary: definitions)
  case (Cons x raw)
  then show ?case by (cases x) (auto simp: rbind_Inr_iff hoist_definition_def merge_definitions_def split: option.splits if_splits)
qed (simp add: merge_definitions_def)

definition closed_table :: "pystr set \<Rightarrow> json_object \<Rightarrow> bool" where
  "closed_table G definitions \<longleftrightarrow> local_refs (fst ` set definitions \<inter> G) (JObj definitions)"

lemma hoist_closed:
  assumes "hoist_definitions op s definitions = Inr (s', d)" "closed_under G s" "closed_table G definitions"
  shows "local_refs (fst ` set d \<inter> G) (JObj s')" "closed_table G d" "fst ` set definitions \<subseteq> fst ` set d"
proof -
  have "local_refs (fst ` set d \<inter> G) (JObj s') \<and> closed_table G d \<and> fst ` set definitions \<subseteq> fst ` set d"
  proof (cases "\<exists>raw. dget s ''$defs'' = Some (JObj raw)")
    case True
    then obtain raw where raw: "dget s ''$defs'' = Some (JObj raw)" by blast
    with assms(1) have d: "d = merge_definitions definitions raw" and s': "s' = ddel ''$defs'' s"
      by (auto simp: hoist_definitions_def rbind_Inr_iff dest: hoisted_merge)
    have keys: "fst ` set d = fst ` set definitions \<union> fst ` set raw" by (simp add: d keys_merge_definitions)
    have s: "local_refs (fst ` set d \<inter> G) (JObj s)"
      by (rule local_refs_mono [OF assms(2) [unfolded closed_under_def]]) (auto simp: keys defs_keys_def raw)
    then have r: "local_refs (fst ` set d \<inter> G) (JObj raw)" using map_of_SomeD [OF raw] by (rule local_refs_member)
    have t: "local_refs (fst ` set d \<inter> G) (JObj definitions)"
      by (rule local_refs_mono [OF assms(3) [unfolded closed_table_def]]) (auto simp: keys)
    have "set d \<subseteq> set definitions \<union> set raw" by (simp add: d set_merge_definitions)
    with t r have "closed_table G d" unfolding closed_table_def by (rule local_refs_parts)
    moreover have "local_refs (fst ` set d \<inter> G) (JObj s')" using set_ddel [of "''$defs''" s] by (intro local_refs_parts [OF s s]) (auto simp: s')
    ultimately show ?thesis by (simp add: keys)
  next
    case False
    with assms(1) have "d = definitions" "set s' \<subseteq> set s"
      by (auto simp: hoist_definitions_def split: option.splits json.splits dest: subsetD [OF set_ddel])
    moreover have "defs_keys s = {}" using False by (auto simp: defs_keys_def split: option.splits json.splits)
    ultimately have "local_refs {} (JObj s')" using assms(2) local_refs_parts [of "{}" s s s'] by (simp add: closed_under_def)
    with \<open>d = definitions\<close> assms(3) show ?thesis by (auto intro: local_refs_mono)
  qed
  then show "local_refs (fst ` set d \<inter> G) (JObj s')" "closed_table G d" "fst ` set definitions \<subseteq> fst ` set d" by auto
qed

lemma local_refs_dset: "local_refs K (JObj m) \<Longrightarrow> local_refs K w \<Longrightarrow> k \<noteq> ''$ref'' \<Longrightarrow> local_refs K (JObj (dset k w m))"
  by (rule local_refs_parts [of K m "[(k, w)]"]) (use set_dset [of k w m] in \<open>auto simp: local_refs_obj\<close>)

lemma field_not_ref: "name \<noteq> ''$ref'' \<Longrightarrow> unique_field_name name loc used \<noteq> ''$ref''"
proof -
  have suffix: "CHR ''_'' \<in> set (next_free base k used)" for base k
    using next_free_suffix [of k base used] by (auto simp: suffixed_def)
  assume "name \<noteq> ''$ref''"
  moreover have "unique_field_name name loc used = name \<or> CHR ''_'' \<in> set (unique_field_name name loc used)"
    using suffix by (auto simp: unique_field_name_def Let_def)
  ultimately show ?thesis by auto
qed

definition acc_closed :: "pystr set \<Rightarrow> tool_acc \<Rightarrow> bool" where
  "acc_closed G acc \<longleftrightarrow> closed_table G (ta_definitions acc) \<and> local_refs (fst ` set (ta_definitions acc) \<inter> G) (JObj (ta_properties acc))"

lemma add_property_closed:
  assumes "hoist_definitions op s (ta_definitions acc) = Inr (s', d)" "closed_under G s" "acc_closed G acc" "name \<noteq> ''$ref''"
    and w: "\<And>K. local_refs K (JObj s') \<Longrightarrow> local_refs K w"
  shows "acc_closed G (acc\<lparr>ta_used := used, ta_definitions := d, ta_properties := dset name w (ta_properties acc), ta_required := req, ta_mappings := ms\<rparr>)"
proof -
  note h = hoist_closed [OF assms(1,2)]
  have t: "closed_table G (ta_definitions acc)" "local_refs (fst ` set (ta_definitions acc) \<inter> G) (JObj (ta_properties acc))"
    using assms(3) by (auto simp: acc_closed_def)
  have "local_refs (fst ` set d \<inter> G) (JObj (ta_properties acc))"
    using h(3) [OF t(1)] by (intro local_refs_mono [OF t(2)]) auto
  moreover have "local_refs (fst ` set d \<inter> G) w" by (rule w [OF h(1) [OF t(1)]])
  ultimately show ?thesis using h(2) [OF t(1)] assms(4) by (simp add: acc_closed_def local_refs_dset)
qed

definition described :: "canonical_parameter \<Rightarrow> json_object \<Rightarrow> json_object" where
  "described p s = (let s' = (if truthy (cp_description p) \<and> dget s ''description'' = None
      then dset ''description'' (JStr (the (cp_description p))) s else s)
    in if s' = [] then [(''type'', JStr ''string'')] else s')"

lemma described_refs: "local_refs K (JObj s) \<Longrightarrow> local_refs K (JObj (described p s))"
proof -
  assume "local_refs K (JObj s)"
  moreover have "set (ref_values (JObj (dset ''description'' (JStr t) s))) \<subseteq> set (ref_values (JObj s))" for t
    using set_dset [of "''description''" "JStr t" s] by (intro refs_subset) auto
  moreover have "ref_values (JObj [(''type'', JStr ''string'')]) = []" by code_simp
  ultimately show ?thesis unfolding local_refs_def described_def Let_def by (auto simp del: ref_values_simps)
qed

lemma add_parameter_cases:
  assumes "add_parameter op auth acc p = Inr acc'"
  obtains (dropped) "acc' = acc"
  | (added) s d req ms where "hoist_definitions op (cp_schema p) (ta_definitions acc) = Inr (s, d)"
      "acc' = acc\<lparr>ta_used := ta_used acc @ [unique_field_name (cp_name p) (cp_location p) (ta_used acc)], ta_definitions := d,
         ta_properties := dset (unique_field_name (cp_name p) (cp_location p) (ta_used acc)) (JObj (described p s)) (ta_properties acc),
         ta_required := req, ta_mappings := ms\<rparr>"
proof (cases "cp_location p = HeaderLoc \<and> py_lower (cp_name p) \<in> set compiler_forbidden_headers")
  case True
  with assms show thesis using dropped by (auto simp: add_parameter_def guard_Inr split: if_split_asm)
next
  case False
  with assms show thesis
    unfolding add_parameter_def guard_Inr Let_def if_not_P [OF False] rbind_Inr_iff split_paired_Ex prod.case
    by (elim exE conjE) (rule added [unfolded described_def Let_def], assumption, drule sum.inject(2) [THEN iffD1], erule sym)
qed

lemma add_parameter_closed:
  assumes "add_parameter op auth acc p = Inr acc'" "closed_under G (cp_schema p)" "acc_closed G acc" "cp_name p \<noteq> ''$ref''"
  shows "acc_closed G acc'"
  using assms(1)
proof (cases rule: add_parameter_cases)
  case (added s d)
  with add_property_closed [OF added(1) assms(2,3) field_not_ref [OF assms(4)] described_refs] show ?thesis by simp
qed (use assms(3) in simp)

lemma mark_binary_refs:
  assumes "local_refs K (JObj s)"
  shows "local_refs K (JObj (mark_binary_parts s))"
proof (cases "\<exists>ps. dget s ''properties'' = Some (JObj ps)")
  case True
  then obtain ps where ps: "dget s ''properties'' = Some (JObj ps)" by blast
  let ?mark = "\<lambda>(n, raw). (n, case raw of JObj r \<Rightarrow> if is_binary_part raw then JObj (dset ''contentEncoding'' (JStr ''base64'') r) else raw | _ \<Rightarrow> raw)"
  have p: "local_refs K (JObj ps)" by (rule local_refs_member [OF assms map_of_SomeD [OF ps]])
  have "local_refs K (JObj (map ?mark ps))" unfolding local_refs_obj
  proof (clarify)
    fix n w assume "(n, w) \<in> set (map ?mark ps)"
    then obtain raw where raw: "(n, raw) \<in> set ps" "(n, w) = ?mark (n, raw)" by auto
    with p have "local_refs K raw" "n = ''$ref'' \<Longrightarrow> raw \<in> (\<lambda>k. JStr (''#/$defs/'' @ k)) ` K" by (auto simp: local_refs_obj)
    with raw(2) show "local_refs K w \<and> (n = ''$ref'' \<longrightarrow> w \<in> (\<lambda>k. JStr (''#/$defs/'' @ k)) ` K)"
      by (cases raw) (auto simp: local_refs_dset)
  qed
  then show ?thesis using assms ps by (simp add: mark_binary_parts_def local_refs_dset)
qed (use assms in \<open>auto simp: mark_binary_parts_def split: option.split json.split\<close>)

lemma add_body_closed:
  assumes "add_body op acc = Inr (acc', bm)" "acc_closed G acc"
    and body: "\<And>b media. op_body op = Some b \<Longrightarrow> media \<in> set (cb_content b) \<Longrightarrow> closed_under G (cm_schema media)"
  shows "acc_closed G acc'"
proof -
  from assms(1) obtain mo where mo: "select_request_media op = Inr mo" by (auto simp: add_body_def rbind_Inr_iff)
  show ?thesis
  proof (cases mo)
    case None
    with assms(1,2) mo show ?thesis by (simp add: add_body_def)
  next
    case (Some media)
    define name where "name = unique_field_name ''body'' QueryLoc (ta_used acc)"
    from assms(1) obtain s d req where h: "hoist_definitions op (cm_schema media) (ta_definitions acc) = Inr (s, d)"
      and acc': "acc' = acc\<lparr>ta_used := ta_used acc @ [name], ta_definitions := d,
        ta_properties := dset name (JObj (if cm_type media = ''multipart/form-data'' then mark_binary_parts s else s)) (ta_properties acc), ta_required := req\<rparr>"
      unfolding add_body_def mo Some rbind.simps option.case Let_def name_def [symmetric] rbind_Inr_iff split_paired_Ex prod.case by blast
    have closed: "closed_under G (cm_schema media)" using request_media_of [OF mo [unfolded Some]] body by blast
    show ?thesis unfolding acc' name_def
      using add_property_closed [OF h closed assms(2) field_not_ref [of "''body''"], where ms = "ta_mappings acc"] mark_binary_refs by simp
  qed
qed

lemma closed_under_valid: "closed_under G s \<Longrightarrow> (\<And>k. k \<in> G \<Longrightarrow> plain_key k) \<Longrightarrow> validate_local_schema_references s = Inr ()"
  unfolding closed_under_def by (rule local_references_valid) auto

lemma input_schema_closed:
  assumes "acc_closed G acc"
  shows "closed_under G (input_schema_of acc)"
proof -
  let ?K = "fst ` set (ta_definitions acc) \<inter> G"
  have "local_refs ?K (JObj (input_schema_of acc))"
    using assms unfolding input_schema_of_def local_refs_obj acc_closed_def closed_table_def by (simp add: local_refs_obj)
  moreover have "defs_keys (input_schema_of acc) = fst ` set (ta_definitions acc)"
    by (simp add: input_schema_of_def defs_keys_def)
  ultimately show ?thesis by (simp add: closed_under_def)
qed

section \<open>Responses\<close>

definition response_acc_closed :: "pystr set \<Rightarrow> response_acc \<Rightarrow> bool" where
  "response_acc_closed G acc \<longleftrightarrow> closed_table G (ra_envelope acc)
     \<and> (\<forall>s\<in>set (ra_bodies acc). local_refs (fst ` set (ra_envelope acc) \<inter> G) (JObj s))
     \<and> (\<forall>d\<in>set (ra_definitions acc). \<forall>s. rd_schema d = Some s \<longrightarrow> closed_under G s)"

lemma made_definition: "Compiler.pydantic (make_response_definition d) = Inr d' \<Longrightarrow> rd_schema d' = rd_schema d"
  by (auto simp: make_response_definition_def pydantic_Inr rbind_Inr_iff)

lemma add_media_closed:
  assumes "add_media op response acc media = Inr acc'" "response_acc_closed G acc" "closed_under G (cm_schema media)"
  shows "response_acc_closed G acc'"
proof -
  from assms(1) obtain d where d: "rd_schema d = Some (cm_schema media)"
    and "if response_can_be_success (cr_status response)
      then \<exists>s s' defs. hoist_definitions op s (ra_envelope acc) = Inr (s', defs) \<and> (s = cm_schema media \<or> s = [(''type'', JStr ''string'')] \<or> s = [])
        \<and> acc' = acc\<lparr>ra_definitions := ra_definitions acc @ [d], ra_envelope := defs, ra_bodies := ra_bodies acc @ [s']\<rparr>
      else acc' = acc\<lparr>ra_definitions := ra_definitions acc @ [d]\<rparr>"
    unfolding add_media_def Let_def guard_Inr rbind_Inr_iff
    by (elim exE conjE) (drule made_definition, auto simp: rbind_Inr_iff split: if_splits)
  moreover have "closed_under G [(''type'', JStr ''string'')]" "closed_under G []" by (simp_all add: closed_under_def local_refs_obj)
  ultimately obtain s s' defs where "acc' = acc\<lparr>ra_definitions := ra_definitions acc @ [d]\<rparr>
      \<or> hoist_definitions op s (ra_envelope acc) = Inr (s', defs) \<and> closed_under G s
        \<and> acc' = acc\<lparr>ra_definitions := ra_definitions acc @ [d], ra_envelope := defs, ra_bodies := ra_bodies acc @ [s']\<rparr>"
    using assms(3) by (auto split: if_splits)
  then show ?thesis
  proof
    assume "acc' = acc\<lparr>ra_definitions := ra_definitions acc @ [d]\<rparr>"
    then show ?thesis using assms(2,3) d by (auto simp: response_acc_closed_def)
  next
    assume h: "hoist_definitions op s (ra_envelope acc) = Inr (s', defs) \<and> closed_under G s
        \<and> acc' = acc\<lparr>ra_definitions := ra_definitions acc @ [d], ra_envelope := defs, ra_bodies := ra_bodies acc @ [s']\<rparr>"
    have "closed_table G (ra_envelope acc)" using assms(2) by (simp add: response_acc_closed_def)
    note c = hoist_closed [OF conjunct1 [OF h] _ this]
    have "local_refs (fst ` set defs \<inter> G) (JObj b)" if "b \<in> set (ra_bodies acc)" for b
      using assms(2) that c(3) h by (auto simp: response_acc_closed_def intro: local_refs_mono)
    then show ?thesis using assms(2,3) d h c by (auto simp: response_acc_closed_def)
  qed
qed

lemma add_response_closed:
  assumes "add_response op acc response = Inr acc'" "response_acc_closed G acc" "\<forall>media\<in>set (cr_content response). closed_under G (cm_schema media)"
  shows "response_acc_closed G acc'"
proof (cases "cr_content response = []")
  case True
  from assms(1) obtain d where "rd_schema d = None" "acc' = acc\<lparr>ra_definitions := ra_definitions acc @ [d],
      ra_bodies := ra_bodies acc @ (if response_can_be_success (cr_status response) then [[(''type'', JStr ''null'')]] else [])\<rparr>"
    unfolding add_response_def if_P [OF True] rbind_Inr_iff by (elim exE conjE) (drule made_definition, simp)
  then show ?thesis using assms(2) by (auto simp: response_acc_closed_def local_refs_obj)
next
  case False
  with assms(1) have "rfold (add_media op response) acc (sort_key cm_type (cr_content response)) = Inr acc'" by (simp add: add_response_def)
  then show ?thesis by (rule rfold_invariant) (use assms(2,3) add_media_closed in auto)
qed

lemma unique_schemas_subset: "set (unique_schemas schemas) \<subseteq> set schemas"
proof -
  have "set (fold (\<lambda>s acc. if canonical_text (JObj s) \<in> set (map (\<lambda>u. canonical_text (JObj u)) acc) then acc else acc @ [s]) ss acc) \<subseteq> set acc \<union> set ss"
    for ss acc
  proof (induction ss arbitrary: acc)
    case (Cons s ss)
    from Cons.IH [of acc] Cons.IH [of "acc @ [s]"] show ?case by auto
  qed simp
  from this [of schemas "[]"] show ?thesis by (simp add: unique_schemas_def)
qed

lemma envelope_closed:
  assumes "response_acc_closed G acc" "response_envelope_schema (ra_bodies acc) (ra_envelope acc) = Some s"
  shows "closed_under G s"
proof -
  let ?K = "fst ` set (ra_envelope acc) \<inter> G"
  have bodies: "\<forall>u\<in>set (unique_schemas (ra_bodies acc)). local_refs ?K (JObj u)"
    using assms(1) unique_schemas_subset by (auto simp: response_acc_closed_def)
  have "local_refs ?K (case unique_schemas (ra_bodies acc) of [u] \<Rightarrow> JObj u | us \<Rightarrow> JObj [(''anyOf'', JArr (map JObj us))])"
    using bodies by (auto simp: local_refs_obj [of _ "[(''anyOf'', _)]"] split: list.split)
  moreover have "local_refs ?K (JObj (ra_envelope acc))" using assms(1) by (simp add: response_acc_closed_def closed_table_def)
  moreover have "defs_keys s = fst ` set (ra_envelope acc)"
    using assms(2) by (force simp: response_envelope_schema_def Let_def defs_keys_def split: if_splits)
  ultimately show ?thesis using assms(2)
    by (auto simp: response_envelope_schema_def Let_def closed_under_def local_refs_obj [of _ "(_ # _)"] split: if_splits)
qed

lemma compiled_responses:
  assumes "compile_tool refs limits name op = Inr t"
  shows "responses_of op = Inr (responses t, output_schema t)"
proof -
  from assms obtain server where s: "op_server op = Some server" by (auto simp: compile_tool_def split: option.splits)
  from assms obtain acc bm rs out where rs: "responses_of op = Inr (rs, out)"
    and m: "make_tool (tool_of limits name op server (dget refs (op_key op)) acc bm rs out) = Inr t"
    unfolding compile_tool_def s option.case Let_def rbind_Inr_iff split_paired_Ex prod.case pydantic_Inr by blast
  from m have "t = tool_of limits name op server (dget refs (op_key op)) acc bm rs out" by (auto simp: make_tool_def split: if_splits)
  with rs show ?thesis by (simp add: tool_of_def)
qed

lemma compiled_tool_schemas:
  assumes c: "compile_tool refs limits name op = Inr t" and closed: "\<And>s. s \<in> operation_schemas op \<Longrightarrow> closed_under G s"
    and names: "\<And>p. p \<in> set (op_parameters op) \<Longrightarrow> cp_name p \<noteq> ''$ref''" and plain: "\<And>k. k \<in> G \<Longrightarrow> plain_key k"
  shows "validate_tool_schemas t = Inr ()"
proof -
  let ?init = "\<lparr>ta_properties = [], ta_definitions = [], ta_required = [], ta_mappings = [], ta_used = []\<rparr>"
  obtain acc0 acc where ps: "rfold (add_parameter op (dget refs (op_key op))) ?init (sort_key parameter_order (op_parameters op)) = Inr acc0"
    and body: "add_body op acc0 = Inr (acc, body (request_mapping t))" and input: "input_schema t = input_schema_of acc"
    by (rule compile_tool_Inr [OF c])
  have "acc_closed G acc0" using ps
  proof (rule rfold_invariant)
    show "acc_closed G ?init" by (simp add: acc_closed_def closed_table_def local_refs_obj)
    show "acc_closed G a'" if "acc_closed G a" "p \<in> set (sort_key parameter_order (op_parameters op))"
      "add_parameter op (dget refs (op_key op)) a p = Inr a'" for a p a'
      using add_parameter_closed [OF that(3) closed that(1) names] that(2) by (auto simp: operation_schemas_def)
  qed
  then have "acc_closed G acc" by (rule add_body_closed [OF body]) (auto intro!: closed simp: operation_schemas_def)
  then have "validate_local_schema_references (input_schema t) = Inr ()"
    unfolding input using plain by (intro closed_under_valid [OF input_schema_closed])
  moreover from compiled_responses [OF c] obtain ra where
    ra: "rfold (add_response op) \<lparr>ra_definitions = [], ra_bodies = [], ra_envelope = []\<rparr> (sort_key cr_status (op_responses op)) = Inr ra"
    "responses t = ra_definitions ra" "output_schema t = response_envelope_schema (ra_bodies ra) (ra_envelope ra)"
    by (auto simp: responses_of_def rbind_Inr_iff)
  have "response_acc_closed G ra" using ra(1)
  proof (rule rfold_invariant)
    show "response_acc_closed G \<lparr>ra_definitions = [], ra_bodies = [], ra_envelope = []\<rparr>" by (simp add: response_acc_closed_def closed_table_def local_refs_obj)
    show "response_acc_closed G a'" if "response_acc_closed G a" "r \<in> set (sort_key cr_status (op_responses op))" "add_response op a r = Inr a'" for a r a'
      by (rule add_response_closed [OF that(3,1)]) (use that(2) in \<open>fastforce intro!: closed simp: operation_schemas_def\<close>)
  qed
  then have "validate_local_schema_references s = Inr ()" if "output_schema t = Some s \<or> (\<exists>r\<in>set (responses t). rd_schema r = Some s)" for s
    using that plain closed_under_valid envelope_closed [of G ra s] unfolding ra(2,3) response_acc_closed_def by blast
  ultimately show ?thesis by (auto simp: validate_tool_schemas_def riter_Inr_iff split: option.split)
qed

section \<open>The contract between a parser and the compiler\<close>

text \<open>
  A parser of sources: the models it gives are valid, and the schemas of their operations refer to definitions of their own
  under keys the parser generates.
\<close>

locale canonical_source =
  fixes parse :: "'d \<Rightarrow> 'e + canonical_api" and keys_of :: "'d \<Rightarrow> pystr set"
  assumes parsed_valid: "parse d = Inr api \<Longrightarrow> make_api api = Inr api"
    and parsed_closed: "parse d = Inr api \<Longrightarrow> op \<in> set (operations api) \<Longrightarrow> s \<in> operation_schemas op \<Longrightarrow> closed_under (keys_of d) s"
begin

lemma compiled_references:
  assumes "parse d = Inr api" "compile_manifest env api i = Inr m" "t \<in> set (tools m)"
    and "\<And>k. k \<in> keys_of d \<Longrightarrow> plain_key k" "\<And>op p. op \<in> set (operations api) \<Longrightarrow> p \<in> set (op_parameters op) \<Longrightarrow> cp_name p \<noteq> ''$ref''"
  shows "validate_tool_schemas t = Inr ()"
proof -
  obtain refs name op where op: "op \<in> set (operations api)" "compile_tool refs (ci_limits i) name op = Inr t"
    by (rule compiled_tool_of [OF assms(2,3)])
  show ?thesis by (rule compiled_tool_schemas [OF op(2) parsed_closed [OF assms(1) op(1)] assms(5) [OF op(1)] assms(4)])
qed

end

text \<open>The OpenAPI parser, on an environment, a configuration, the captured documents and the document.\<close>

definition openapi_source :: "openapi_env \<times> parse_config \<times> (pystr \<times> external_document) list \<times> json \<Rightarrow> openapi_error + canonical_api" where
  "openapi_source = (\<lambda>(env, cfg, external, document). rbind (parse_openapi env cfg external document) (\<lambda>(api, ts). Inr api))"

interpretation openapi: canonical_source openapi_source "\<lambda>(env, cfg, external, document). generated_keys env"
proof unfold_locales
  fix d api
  assume parsed: "openapi_source d = Inr api"
  obtain env cfg external document where d: "d = (env, cfg, external, document)" by (cases d)
  with parsed obtain ts where ts: "parse_openapi env cfg external document = Inr (api, ts)" by (auto simp: openapi_source_def rbind_Inr_iff)
  show "make_api api = Inr api" by (rule parse_openapi_Inr [OF ts])
  show "closed_under (case d of (env, cfg, external, document) \<Rightarrow> generated_keys env) s" if "op \<in> set (operations api)" "s \<in> operation_schemas op" for op s
    using parsed_operations_closed [OF ts] that by (auto simp: d intro: closed_schema_under)
qed

text \<open>C5: From the document to the runtime: when an OpenAPI document parses and its model compiles, every runtime accepts
  the manifest, and no assumption on the schemas is left, however they refer to each other. The digests are texts of hexadecimal digits, no
  parameter is named \<^verbatim>\<open>$ref\<close>, the paths and parameters are ones the runtime can serialise, the server URLs are plain, the encoder of
  host names is idempotent on them, and the version range accepts the runtime.\<close>

theorem parsed_document_meets_contract:
  assumes parsed: "parse_openapi penv cfg external document = Inr (api, ts)" and c: "compile_manifest env api i = Inr m"
    and sha: "\<forall>x. set (oe_sha penv x) \<subseteq> set ''0123456789abcdef''"
    and names: "\<forall>op\<in>set (operations api). \<forall>p\<in>set (op_parameters op). cp_name p \<noteq> ''$ref''"
    and range: "in_range (ci_runtime_compatibility i) v = Some True" and uris: "distinct (map res_uri (ci_resources i))"
    and ops: "\<forall>op\<in>set (operations api). op_key op \<notin> set (ci_excluded i) \<longrightarrow> portable_operation op"
    and urls: "\<forall>s\<in>set (servers m). clean_url (ce_brk env) (sd_url s)"
    and idem: "\<forall>s\<in>set (servers m). \<forall>h. server_host (ce_enc env) (ce_brk env) s = Inr h \<longrightarrow>
      normalize_allowed_host (ce_enc env) (ce_brk env) h = Inr h"
  shows "validate_manifest_contract in_range (ce_enc env) (ce_brk env) m v = Inr ()"
proof -
  have source: "openapi_source (penv, cfg, external, document) = Inr api" by (simp add: openapi_source_def parsed)
  have "plain_key k" if "k \<in> generated_keys penv" for k
  proof -
    from that obtain w p where "k = ''mcplica_ref_'' @ take 20 (oe_sha penv (uuid_str w @ '':'' @ p))"
      by (auto simp: generated_keys_def definition_key_def)
    moreover have "set (take n (oe_sha penv x)) \<subseteq> set ''0123456789abcdef''" for n x using sha set_take_subset [of n "oe_sha penv x"] by blast
    ultimately show ?thesis by (fastforce simp: plain_key_def)
  qed
  then have "\<forall>t\<in>set (tools m). validate_tool_schemas t = Inr ()"
    using openapi.compiled_references [OF source c] names by auto
  with openapi.parsed_valid [OF source] c range uris ops urls idem show ?thesis by (rule compiled_contract)
qed

definition pipeline_input :: compile_input where
  "pipeline_input = sample_compile_input\<lparr>ci_project_id := uuid_str 4, ci_selections := [], ci_source_digest := Some (replicate 64 (CHR ''0''))\<rparr>"

definition pipeline_manifest :: mcp_manifest where
  "pipeline_manifest = projr (compile_manifest sample_compile_env OpenApiProperties.sample_api pipeline_input)"

lemma pipeline_compiles: "compile_manifest sample_compile_env OpenApiProperties.sample_api pipeline_input = Inr pipeline_manifest"
proof -
  have "\<not> isl (compile_manifest sample_compile_env OpenApiProperties.sample_api pipeline_input)" by code_simp
  then show ?thesis unfolding pipeline_manifest_def by (simp add: sum.collapse)
qed

lemma pipeline_hosts:
  "list_all (\<lambda>s. case server_host (ce_enc sample_compile_env) (ce_brk sample_compile_env) s of Inl _ \<Rightarrow> True
      | Inr h \<Rightarrow> normalize_allowed_host (ce_enc sample_compile_env) (ce_brk sample_compile_env) h = Inr h) (servers pipeline_manifest)"
  by code_simp

theorem parsed_document_meets_contract_witness:
  "validate_manifest_contract (\<lambda>_ _. Some True) (ce_enc sample_compile_env) (ce_brk sample_compile_env) pipeline_manifest ''1'' = Inr ()
     \<and> list_ex (\<lambda>t. output_schema t \<noteq> None) (tools pipeline_manifest)"
proof
  show "validate_manifest_contract (\<lambda>_ _. Some True) (ce_enc sample_compile_env) (ce_brk sample_compile_env) pipeline_manifest ''1'' = Inr ()"
  proof (rule parsed_document_meets_contract [OF sample_parsed pipeline_compiles])
    show "\<forall>x. set (oe_sha OpenApiProperties.sample_env x) \<subseteq> set ''0123456789abcdef''" by (simp add: OpenApiProperties.sample_env_def)
    show "\<forall>op\<in>set (operations OpenApiProperties.sample_api). \<forall>p\<in>set (op_parameters op). cp_name p \<noteq> ''$ref''" by code_simp
    show "\<forall>op\<in>set (operations OpenApiProperties.sample_api). op_key op \<notin> set (ci_excluded pipeline_input) \<longrightarrow> portable_operation op" by code_simp
    show "\<forall>s\<in>set (servers pipeline_manifest). clean_url (ce_brk sample_compile_env) (sd_url s)" by code_simp
    show "\<forall>s\<in>set (servers pipeline_manifest). \<forall>h. server_host (ce_enc sample_compile_env) (ce_brk sample_compile_env) s = Inr h \<longrightarrow>
        normalize_allowed_host (ce_enc sample_compile_env) (ce_brk sample_compile_env) h = Inr h"
      using pipeline_hosts by (auto simp: list_all_iff split: sum.splits)
  qed (simp_all add: pipeline_input_def sample_compile_input_def)
  show "list_ex (\<lambda>t. output_schema t \<noteq> None) (tools pipeline_manifest)" by code_simp
qed

end
