(* ===== verification/Spec2Isabelle.thy ===== *)
theory Spec2Isabelle
  imports ToolExecutor CommandExecution BuildProperties CompilerProperties AuthProperties SourceProperties PipelineContract
begin

text \<open>
  \<^bold>\<open>The program.\<close> MCPlica turns the description of an HTTP API into an MCP server. A \<^emph>\<open>source\<close> of a project (an OpenAPI
  document) is parsed into a \<^emph>\<open>canonical model\<close>; a \<^emph>\<open>build\<close> compiles the model into a \<^emph>\<open>manifest\<close> and validates it; a
  \<^emph>\<open>deployment\<close> runs the manifest in a container through \<^emph>\<open>runtime commands\<close>; the \<^emph>\<open>runtime\<close> in the container executes
  the tools of the manifest against the upstream API. The backend (\<^verbatim>\<open>src/backend/app\<close>) and the runtime
  (\<^verbatim>\<open>src/mcp_runtime/app\<close>) share the contracts of \<^verbatim>\<open>src/packages/contracts\<close>. Several processes of the
  backend work on one database, so what the backend promises has to hold for every interleaving of their transactions.

  \<^bold>\<open>Conventions.\<close> A Python \<^verbatim>\<open>str\<close> is the list of the bytes of its UTF-8 form (\<open>pystr\<close>); case mapping and character
  classes are those of ASCII. A JSON value is \<open>json\<close>, with objects as association lists in insertion order. Code that may raise returns a
  sum, with the exception on the left; messages drop interpolated values. A table is a list of rows (records), an operation of a
  repository a function from the tables to a result and the new tables, and a system of processes an \<open>inductive\<close> step relation in which one
  step is one committed transaction. Time is a reading of the database clock. What the source takes from elsewhere is an argument:
  SHA-256, UUIDs and tokens that a process draws, clocks, row locks held by others (\<^verbatim>\<open>SKIP LOCKED\<close>), IDNA encoding, the parser of
  IP addresses and the resolver, httpx, jsonschema, the version ranges of \<^verbatim>\<open>packaging\<close>, the dumps and the URL type of Pydantic, the
  OpenAPI specification validator, the object and vector storage. A theorem that needs something of them says so in its hypotheses.

  \<^bold>\<open>Vocabulary.\<close> \<open>Prelude\<close> has results, loops that may raise with their invariant rule and the string operations;
  \<open>Json\<close>, \<open>Base64\<close>, \<open>Percent\<close>, \<open>Url\<close>, \<open>UrlJoin\<close> and \<open>IpAddress\<close> are what the sources use of
  the standard library; \<open>Table\<close> has the updates of tables and the locale \<open>token_fence\<close>: an owner token that was taken away never comes
  back.

  \<^bold>\<open>From a source to a manifest.\<close>
  \<^item> \<open>Identifiers\<close> (\<^verbatim>\<open>parsers/identifiers.py\<close>), \<open>OpenApiRefs\<close>, \<open>OpenApiSchema\<close> and \<open>OpenApiParser\<close>
    (\<^verbatim>\<open>parsers/openapi/parser.py\<close>): pointers and references across captured documents (\<open>resolve\<close>), schemas made
    self-contained (\<open>visit\<close>, \<open>materialize_schema\<close>), the 3.0 dialect (\<open>normalize\<close>), the dialect checks, and
    \<open>parse_openapi\<close>. \<open>resolve\<close> and \<open>normalize\<close> are total functions with termination proofs. \<open>visit\<close> counts with fuel how many
    references it is inside of; every one of them adds a definition, and \<open>schema_fuel\<close> is the number of the identities that the references of all
    known documents can have, so the fuel is never used up. \<open>OpenApiProperties\<close> shows that parsing always ends, that operations are exactly
    those of the document, that every schema stands alone and that recorded pointers lead back to the source.
  \<^item> \<open>Canonical\<close> (\<^verbatim>\<open>canonical.py\<close>, \<^verbatim>\<open>core/canonical_json.py\<close>) is the model with its validators; \<open>Compiler\<close> and
    \<open>CompilerFacts\<close> (\<^verbatim>\<open>compilers/mcp/compiler.py\<close>) compile it; \<open>BuildValidator\<close> (\<^verbatim>\<open>validators/build.py\<close>) finds what is
    wrong with a manifest. \<open>CompilerProperties\<close>: what compiles passes the validator's structural checks, what the validator lets through is faithful
    to the model, compilation does not depend on the order of operations, tool names are unique. \<open>PipelineContract\<close> composes parser, compiler
    and contract: its locale \<open>canonical_source\<close> is what a parser owes the compiler, the OpenAPI parser is an interpretation, and the manifest of a parsed
    document meets the contract of the runtime.
  \<^item> \<open>Credentials\<close> and \<open>AuthSelection\<close> (\<^verbatim>\<open>domain/credentials.py\<close>, \<^verbatim>\<open>services/builds/auth_selection.py\<close>,
    \<^verbatim>\<open>credential_mapping.py\<close>, \<^verbatim>\<open>readiness.py\<close>) choose a credential for every operation; \<open>AuthProperties\<close>: the readiness shown
    to the user predicts the build, and what is selected compiles.

  \<^bold>\<open>The contract and the runtime.\<close>
  \<^item> \<open>PathTemplate\<close>, \<open>Manifest\<close> and \<open>ManifestContract\<close> (\<^verbatim>\<open>path_template.py\<close>, \<^verbatim>\<open>manifest.py\<close>,
    \<^verbatim>\<open>validation.py\<close>) are the manifest with its validators and the contract both sides check; \<open>RuntimeSecrets\<close>
    (\<^verbatim>\<open>runtime_secrets.py\<close>) the secret bundle; \<open>RuntimeErrors\<close> the errors of the runtime.
  \<^item> \<open>UrlPolicy\<close> (\<^verbatim>\<open>security/url_policy.py\<close>), \<open>UpstreamAuth\<close> (\<^verbatim>\<open>auth/upstream.py\<close>), \<open>RequestBuilder\<close>
    (\<^verbatim>\<open>executor/request_builder.py\<close>), \<open>ApiClient\<close> (\<^verbatim>\<open>clients/api_client.py\<close>, \<^verbatim>\<open>response_reader.py\<close>) and
    \<open>ToolExecutor\<close> (\<^verbatim>\<open>executor.py\<close>, \<^verbatim>\<open>response_contract.py\<close>, \<^verbatim>\<open>response_mapper.py\<close>) execute a tool call. A request
    goes to an allowed origin, keeps the path segments and the headers of the contract, its query reads back, a body is read within its limit, and a result was
    checked against the most specific definition of the contract. The locales \<open>url_resolver\<close> and \<open>upstream_executor\<close> are the interfaces of the
    policy and of the client; both are interpreted on the model.

  \<^bold>\<open>Builds, deployments and commands.\<close>
  \<^item> \<open>Builds\<close>, \<open>BuildAdmission\<close> (\<^verbatim>\<open>repositories/builds.py\<close>, \<^verbatim>\<open>build_execution.py\<close>, \<^verbatim>\<open>build_admission.py\<close>) and
    \<open>BuildLifecycle\<close>, the abstract life cycle with the locale \<open>build_lifecycle\<close>, which the repository refines. \<open>BuildProperties\<close>: refinement,
    bounded concurrency, cancellation, fencing of workers, frozen inputs, progress, a bound on the life of a build, and the agreement of the reported queue with
    the order of admission.
  \<^item> \<open>RuntimeCommands\<close> (\<^verbatim>\<open>repositories/runtime_commands.py\<close>) is the transactional outbox, \<open>Deployments\<close>
    (\<^verbatim>\<open>repositories/deployments.py\<close>, \<^verbatim>\<open>domain/deployments.py\<close>) the deployments with their activation proofs, \<open>CommandExecution\<close>
    (\<^verbatim>\<open>command_executor.py\<close>, \<^verbatim>\<open>command_dispatcher.py\<close>) the execution of a command under its lease. Commands of a transition take effect in
    order, a stale execution changes nothing, and a running deployment has a proof of its own activation.
  \<^item> \<open>BackendErrors\<close> (\<^verbatim>\<open>core/exceptions.py\<close>) are the exception classes with their codes.

  \<^bold>\<open>Sources and clean-up.\<close>
  \<^item> \<open>SourceStore\<close> and \<open>SourceService\<close> (\<^verbatim>\<open>repositories/sources.py\<close>, \<^verbatim>\<open>services/sources.py\<close>,
    \<^verbatim>\<open>services/builds/cancellation.py\<close>) create, version and delete sources; \<open>NetworkPolicy\<close> (\<^verbatim>\<open>core/network_policy.py\<close>) accepts the URLs they
    are fetched from; \<open>SourceProperties\<close>: a project has at most one primary source, and it is executable.
  \<^item> \<open>Cleanup\<close>, \<open>CleanupWorker\<close>, \<open>CleanupFacts\<close> and \<open>ObjectTracking\<close> (\<^verbatim>\<open>repositories/cleanup.py\<close>,
    \<^verbatim>\<open>services/cleanup.py\<close>) are the queue of deferred deletions. \<open>CleanupProperties\<close>: the tables stay well formed, a worker that lost its claim is harmless,
    retention keeps what is protected, and no stored object is forgotten.

  \<^bold>\<open>Not modelled.\<close> The analysis by a language model, indexing in a vector store, and the Docker, Traefik and MCP clients are I/O against services whose code
  is not here; the pipeline and the deployment service are glue between them and the operations above, of which the transitions are modelled. The HTTP API,
  the MCP server factory and the socket transport wrap frameworks. Users, sessions, settings and the deletion of projects are queries and encryption around the
  tables. The API inventory parser is a second source format, which would be another interpretation of \<open>canonical_source\<close>. The endless asyncio loops are left
  out; their single passes are modelled. Migrations install the constraints that are modelled from the table definitions. In the models that are there, audit
  metadata, paging queries and descriptive fields that no decision reads are left out.
\<close>

end
